(* ===== verification/Prelude.thy ===== *)
theory Prelude
  imports Complex_Main "HOL-Library.Word" "HOL-Library.State_Monad"
begin

text \<open>
  Shared ground of the development.

  \<^item> Machine integers. \<^verbatim>\<open>int\<close>, \<^verbatim>\<open>int32_t\<close> and \<^verbatim>\<open>int64_t\<close> values are HOL integers; every narrowing
    cast of the source is written out with \<open>to_int32\<close> or \<open>to_int64\<close> (two's complement).
    \<^verbatim>\<open>uint64_t\<close> values are \<open>64 word\<close>.  Durations (\<^verbatim>\<open>std::chrono::milliseconds\<close>) are integers
    counting milliseconds.
  \<^item> Effects. Everything outside the program (the gRPC runtime, the broker, the clock, the
    random engine, user callbacks) acts on a world of type \<open>'w\<close>; an operation that may touch it
    has type \<open>('w, 'a) state\<close>, the state monad of HOL-Library.
  \<^item> Text. \<^verbatim>\<open>std::string\<close> is \<open>string\<close>; \<open>to_string\<close> is \<^verbatim>\<open>std::to_string\<close>, \<open>stoi\<close> is \<^verbatim>\<open>std::stoi\<close> in
    base 10 with its two exceptions, \<open>rfind\<close> is \<^verbatim>\<open>std::string::rfind\<close>.
  \<^item> Tag maps. \<^verbatim>\<open>std::unordered_map<std::string, std::string>\<close> and protobuf maps are \<open>string \<rightharpoonup> string\<close>.
\<close>

named_theorems status_simps \<open>unfolding of statuses and validation results\<close>
named_theorems proto_simps \<open>field-by-field unfolding of conversions\<close>
named_theorems client_simps \<open>unfolding of client operations\<close>

type_synonym tags = "string \<rightharpoonup> string"
type_synonym millis = int

section \<open>Integer conversions\<close>

definition to_int32 :: "int \<Rightarrow> int" where
  "to_int32 x = signed_take_bit 31 x"

definition to_int64 :: "int \<Rightarrow> int" where
  "to_int64 x = signed_take_bit 63 x"

lemma to_int32_id: "- 2147483648 \<le> x \<Longrightarrow> x < 2147483648 \<Longrightarrow> to_int32 x = x"
  unfolding to_int32_def by (rule signed_take_bit_int_eq_self) simp_all

lemma to_int32_bounds: "- 2147483648 \<le> to_int32 x \<and> to_int32 x < 2147483648"
  using signed_take_bit_int_greater_eq_minus_exp [of 31 x] signed_take_bit_int_less_exp [of 31 x]
  by (simp add: to_int32_def)

lemma to_int32_add_wrap: "to_int32 (x + 4294967296 * k) = to_int32 x"
proof -
  have "take_bit (Suc 31) (x + 4294967296 * k) = take_bit (Suc 31) x"
    by (simp add: take_bit_eq_mod)
  then show ?thesis
    unfolding to_int32_def by (simp add: signed_take_bit_eq_iff_take_bit_eq)
qed

text \<open>\<^verbatim>\<open>static_cast<int64_t>\<close> of a non-negative \<^verbatim>\<open>double\<close> truncates towards zero.\<close>

definition trunc_to_int :: "real \<Rightarrow> int" where
  "trunc_to_int x = (if 0 \<le> x then \<lfloor>x\<rfloor> else \<lceil>x\<rceil>)"

lemma trunc_to_int_nonneg: "0 \<le> x \<Longrightarrow> 0 \<le> trunc_to_int x"
  by (simp add: trunc_to_int_def)

lemma trunc_to_int_mono: "x \<le> y \<Longrightarrow> trunc_to_int x \<le> trunc_to_int y"
  unfolding trunc_to_int_def by (auto simp: floor_mono ceiling_mono)
    (metis ceiling_le_zero dual_order.trans le_cases not_le zero_le_floor)+

lemma trunc_to_int_of_int [simp]: "trunc_to_int (of_int k) = k"
  by (simp add: trunc_to_int_def)

text \<open>Integer division of C++ and \<^verbatim>\<open>std::chrono::duration_cast\<close> truncate towards zero.\<close>

definition trunc_div :: "int \<Rightarrow> int \<Rightarrow> int" where
  "trunc_div a b = (if a < 0 then - ((- a) div b) else a div b)"

lemma trunc_div_pos: "0 \<le> a \<Longrightarrow> trunc_div a b = a div b"
  by (simp add: trunc_div_def)

section \<open>Decimal text\<close>

definition digit_char :: "nat \<Rightarrow> char" where
  "digit_char d = char_of (48 + d)"

definition is_digit :: "char \<Rightarrow> bool" where
  "is_digit c = (48 \<le> (of_char c :: nat) \<and> (of_char c :: nat) \<le> 57)"

definition digit_val :: "char \<Rightarrow> nat" where
  "digit_val c = of_char c - 48"

fun nat_to_string :: "nat \<Rightarrow> string" where
  "nat_to_string n =
     (if n < 10 then [digit_char n] else nat_to_string (n div 10) @ [digit_char (n mod 10)])"

declare nat_to_string.simps [simp del]

definition to_string :: "int \<Rightarrow> string" where
  "to_string i = (if i < 0 then ''-'' @ nat_to_string (nat (- i)) else nat_to_string (nat i))"

definition digits_val :: "string \<Rightarrow> nat" where
  "digits_val ds = foldl (\<lambda>acc c. 10 * acc + digit_val c) 0 ds"

lemma digit_char_props:
  assumes "d < 10"
  shows "is_digit (digit_char d)" "digit_val (digit_char d) = d" "digit_char d \<noteq> CHR '':''"
proof -
  have e: "(of_char (digit_char d) :: nat) = 48 + d"
    using assms by (simp add: digit_char_def of_char_of)
  show "is_digit (digit_char d)" "digit_val (digit_char d) = d"
    using e assms by (auto simp: is_digit_def digit_val_def)
  show "digit_char d \<noteq> CHR '':''"
  proof
    assume "digit_char d = CHR '':''"
    with e have "48 + d = (58::nat)" by simp
    with assms show False by simp
  qed
qed

lemma nat_to_string_digits: "\<forall>c \<in> set (nat_to_string n). is_digit c"
proof (induction n rule: nat_to_string.induct)
  case (1 n)
  then show ?case
    by (subst nat_to_string.simps) (auto simp: digit_char_props)
qed

lemma nat_to_string_nonempty [simp]: "nat_to_string n \<noteq> []"
  by (subst nat_to_string.simps) simp

lemma digits_val_snoc: "digits_val (ds @ [c]) = 10 * digits_val ds + digit_val c"
  by (simp add: digits_val_def)

lemma digits_val_nat_to_string [simp]: "digits_val (nat_to_string n) = n"
proof (induction n rule: nat_to_string.induct)
  case (1 n)
  show ?case
  proof (cases "n < 10")
    case True
    then show ?thesis
      by (subst nat_to_string.simps) (simp add: digits_val_def digit_char_props)
  next
    case False
    with 1 show ?thesis
      by (subst nat_to_string.simps) (simp add: digits_val_snoc digit_char_props)
  qed
qed

lemma is_digit_not_colon: "is_digit c \<Longrightarrow> c \<noteq> CHR '':''"
  by (auto simp: is_digit_def)

lemma nat_to_string_no_colon: "CHR '':'' \<notin> set (nat_to_string n)"
  using nat_to_string_digits is_digit_not_colon by blast

text \<open>
  \<^verbatim>\<open>std::stoi\<close> (base 10): leading whitespace, an optional sign, then digits; no digit raises
  \<^verbatim>\<open>std::invalid_argument\<close>, a value outside \<^verbatim>\<open>int\<close> raises \<^verbatim>\<open>std::out_of_range\<close>, trailing text is ignored.
\<close>

datatype stoi_error = invalid_argument | out_of_range

definition is_space :: "char \<Rightarrow> bool" where
  "is_space c = (c = CHR '' '' \<or> (9 \<le> (of_char c :: nat) \<and> (of_char c :: nat) \<le> 13))"

definition stoi :: "string \<Rightarrow> stoi_error + int" where
  "stoi s =
     (let t = dropWhile is_space s;
          (neg, u) = (case t of
              [] \<Rightarrow> (False, [])
            | c # cs \<Rightarrow> if c = CHR ''-'' then (True, cs)
                        else if c = CHR ''+'' then (False, cs) else (False, c # cs));
          ds = takeWhile is_digit u;
          v = (if neg then - int (digits_val ds) else int (digits_val ds))
      in if ds = [] then Inl invalid_argument
         else if v < - 2147483648 \<or> 2147483647 < v then Inl out_of_range
         else Inr v)"

lemma stoi_digits:
  assumes "ds \<noteq> []" "\<forall>c \<in> set ds. is_digit c" "digits_val ds \<le> 2147483647"
  shows "stoi ds = Inr (int (digits_val ds))"
proof -
  obtain c cs where ds: "ds = c # cs" using assms(1) by (cases ds) auto
  have c: "is_digit c" using assms(2) ds by simp
  then have sp: "\<not> is_space c" and sg: "c \<noteq> CHR ''-''" "c \<noteq> CHR ''+''"
    by (auto simp: is_digit_def is_space_def)
  have tw: "takeWhile is_digit ds = ds" using assms(2) by (simp add: takeWhile_eq_all_conv)
  show ?thesis
    using assms(1,3) sp sg tw by (simp add: stoi_def ds Let_def)
qed

lemma stoi_nat_to_string: "n \<le> 2147483647 \<Longrightarrow> stoi (nat_to_string n) = Inr (int n)"
  using stoi_digits [of "nat_to_string n"] nat_to_string_digits [of n] by simp

text \<open>\<^verbatim>\<open>std::string::rfind(c)\<close>: the last index of a character, \<^verbatim>\<open>npos\<close> as \<open>None\<close>.\<close>

fun rfind :: "char \<Rightarrow> string \<Rightarrow> nat option" where
  "rfind c [] = None"
| "rfind c (x # xs) =
     (case rfind c xs of Some i \<Rightarrow> Some (Suc i) | None \<Rightarrow> if x = c then Some 0 else None)"

lemma rfind_None: "rfind c s = None \<longleftrightarrow> c \<notin> set s"
  by (induction s) (auto split: option.splits)

lemma rfind_append_last: "c \<notin> set t \<Longrightarrow> rfind c (s @ c # t) = Some (length s)"
proof (induction s)
  case Nil
  then show ?case by (simp add: rfind_None [THEN iffD2])
qed simp

section \<open>Tag maps\<close>

text \<open>
  Copying a map entry by entry, in whatever order its iterator visits the keys, is
  \<open>map_add\<close>: the loops of the source over \<^verbatim>\<open>unordered_map\<close> are modelled by \<open>++\<close>.
\<close>

lemma fold_insert_entries:
  assumes "distinct (map fst es)"
  shows "fold (\<lambda>(k, v) m. m(k \<mapsto> v)) es m0 = m0 ++ map_of es"
  using assms
proof (induction es arbitrary: m0)
  case (Cons e es)
  obtain k v where e: "e = (k, v)" by (cases e)
  have k: "map_of es k = None" using Cons.prems e by (simp add: map_of_eq_None_iff)
  have "fold (\<lambda>(k, v) m. m(k \<mapsto> v)) (e # es) m0 = (m0(k \<mapsto> v)) ++ map_of es"
    using Cons.IH [of "m0(k \<mapsto> v)"] Cons.prems e by (simp del: fun_upd_apply)
  also have "\<dots> = m0 ++ map_of (e # es)"
    using k e by (auto simp: map_add_def fun_eq_iff split: option.splits)
  finally show ?case .
qed simp

section \<open>State monad facts\<close>

abbreviation ret :: "'a \<Rightarrow> ('w, 'a) state" where
  "ret \<equiv> State_Monad.return"

abbreviation result_of :: "('w, 'a) state \<Rightarrow> 'w \<Rightarrow> 'a" where
  "result_of m w \<equiv> fst (run_state m w)"

abbreviation world_of :: "('w, 'a) state \<Rightarrow> 'w \<Rightarrow> 'w" where
  "world_of m w \<equiv> snd (run_state m w)"

lemma run_state_eqI: "result_of m w = a \<Longrightarrow> world_of m w = w' \<Longrightarrow> run_state m w = (a, w')"
  by (metis prod.collapse)

lemma run_state_if [simp]:
  "run_state (if b then x else y) w = (if b then run_state x w else run_state y w)"
  by simp

lemma fst_run_bind: "fst (run_state (State_Monad.bind m f) w)
    = fst (run_state (f (fst (run_state m w))) (snd (run_state m w)))"
  by (simp add: case_prod_unfold)

lemma snd_run_bind: "snd (run_state (State_Monad.bind m f) w)
    = snd (run_state (f (fst (run_state m w))) (snd (run_state m w)))"
  by (simp add: case_prod_unfold)

primrec map_state :: "('a \<Rightarrow> ('w, 'b) state) \<Rightarrow> 'a list \<Rightarrow> ('w, 'b list) state" where
  "map_state f [] = ret []"
| "map_state f (x # xs) = do { y \<leftarrow> f x; ys \<leftarrow> map_state f xs; ret (y # ys) }"

lemma length_map_state: "length (result_of (map_state f xs) w) = length xs"
  by (induction xs arbitrary: w) (simp_all add: case_prod_unfold)

section \<open>Lists\<close>

lemma takeWhile_stop: "x \<notin> set xs \<Longrightarrow> takeWhile (\<lambda>c. c \<noteq> x) (xs @ x # ys) = xs"
  by (induction xs) auto

lemma sum_list_le_bound: "(\<And>x. x \<in> set xs \<Longrightarrow> f x \<le> (c::int)) \<Longrightarrow> sum_list (map f xs) \<le> int (length xs) * c"
proof (induction xs)
  case (Cons a xs)
  then have "f a \<le> c" "sum_list (map f xs) \<le> int (length xs) * c" by auto
  then show ?case by (simp add: algebra_simps)
qed simp

end
