(* ===== verification/Error_Status.thy ===== *)
theory Error_Status
  imports Prelude
begin

text \<open>
  Error codes, \<^verbatim>\<open>Status\<close> and \<^verbatim>\<open>StatusOr\<close> (include/kubemq/error_code.h, status.h, src/error_code.cc,
  status.cc, src/internal/types/error.cc). A \<^verbatim>\<open>StatusOr<T>\<close> is the sum \<open>Status + 'a\<close>: \<open>Inl\<close> holds the
  \<^verbatim>\<open>Status\<close> alternative of the variant, \<open>Inr\<close> the value. C++ exceptions that cross the modelled code
  are values of \<open>exn\<close>.
\<close>

section \<open>Error codes\<close>

datatype ErrorCode =
    kOk | kTransient | kTimeout | kThrottling | kAuthentication | kAuthorization
  | kValidation | kNotFound | kFatal | kCancellation | kBackpressure

lemma UNIV_ErrorCode:
  "UNIV = set [kOk, kTransient, kTimeout, kThrottling, kAuthentication, kAuthorization,
     kValidation, kNotFound, kFatal, kCancellation, kBackpressure]"
proof (rule UNIV_eq_I)
  fix x :: ErrorCode
  show "x \<in> set [kOk, kTransient, kTimeout, kThrottling, kAuthentication, kAuthorization,
     kValidation, kNotFound, kFatal, kCancellation, kBackpressure]"
    by (cases x) simp_all
qed

instantiation ErrorCode :: enum
begin

definition enum_ErrorCode :: "ErrorCode list" where
  "enum_ErrorCode = [kOk, kTransient, kTimeout, kThrottling, kAuthentication, kAuthorization,
     kValidation, kNotFound, kFatal, kCancellation, kBackpressure]"

definition enum_all_ErrorCode :: "(ErrorCode \<Rightarrow> bool) \<Rightarrow> bool" where
  "enum_all_ErrorCode P = list_all P enum_class.enum"

definition enum_ex_ErrorCode :: "(ErrorCode \<Rightarrow> bool) \<Rightarrow> bool" where
  "enum_ex_ErrorCode P = list_ex P enum_class.enum"

instance
  by standard
    (simp_all only: enum_all_ErrorCode_def enum_ex_ErrorCode_def enum_ErrorCode_def
      list_all_iff list_ex_iff UNIV_ErrorCode [symmetric], auto)

end

fun ErrorCodeToString :: "ErrorCode \<Rightarrow> string" where
  "ErrorCodeToString kOk = ''OK''"
| "ErrorCodeToString kTransient = ''TRANSIENT''"
| "ErrorCodeToString kTimeout = ''TIMEOUT''"
| "ErrorCodeToString kThrottling = ''THROTTLING''"
| "ErrorCodeToString kAuthentication = ''AUTHENTICATION''"
| "ErrorCodeToString kAuthorization = ''AUTHORIZATION''"
| "ErrorCodeToString kValidation = ''VALIDATION''"
| "ErrorCodeToString kNotFound = ''NOT_FOUND''"
| "ErrorCodeToString kFatal = ''FATAL''"
| "ErrorCodeToString kCancellation = ''CANCELLATION''"
| "ErrorCodeToString kBackpressure = ''BACKPRESSURE''"

fun IsRetryable :: "ErrorCode \<Rightarrow> bool" where
  "IsRetryable kTransient = True"
| "IsRetryable kTimeout = True"
| "IsRetryable kThrottling = True"
| "IsRetryable _ = False"

section \<open>Status\<close>

record Status =
  code :: ErrorCode
  st_message :: string
  st_operation :: string
  st_channel :: string
  st_request_id :: string

definition Status_ok :: Status where
  "Status_ok = \<lparr>code = kOk, st_message = [], st_operation = [], st_channel = [], st_request_id = []\<rparr>"

definition Status2 :: "ErrorCode \<Rightarrow> string \<Rightarrow> Status" where
  "Status2 c m = \<lparr>code = c, st_message = m, st_operation = [], st_channel = [], st_request_id = []\<rparr>"

definition Status5 :: "ErrorCode \<Rightarrow> string \<Rightarrow> string \<Rightarrow> string \<Rightarrow> string \<Rightarrow> Status" where
  "Status5 c m op ch rid =
     \<lparr>code = c, st_message = m, st_operation = op, st_channel = ch, st_request_id = rid\<rparr>"

definition ok :: "Status \<Rightarrow> bool" where
  "ok s = (code s = kOk)"

definition is_retryable :: "Status \<Rightarrow> bool" where
  "is_retryable s = IsRetryable (code s)"

definition ToString :: "Status \<Rightarrow> string" where
  "ToString s =
     (if ok s then ''OK''
      else ErrorCodeToString (code s) @ '': '' @ st_message s
        @ (if st_operation s \<noteq> [] then '' [op='' @ st_operation s @ '']'' else [])
        @ (if st_channel s \<noteq> [] then '' [ch='' @ st_channel s @ '']'' else [])
        @ (if st_request_id s \<noteq> [] then '' [req='' @ st_request_id s @ '']'' else []))"

definition kErrClientClosed :: Status where
  "kErrClientClosed = Status2 kFatal ''kubemq: client closed''"

definition kErrNotImplemented :: Status where
  "kErrNotImplemented = Status2 kFatal ''kubemq: not implemented''"

definition kErrValidation :: Status where
  "kErrValidation = Status2 kValidation ''kubemq: validation failed''"

section \<open>Exceptions and StatusOr\<close>

datatype exn = BadStatusAccess Status | BadVariantAccess | StdException string | UnknownException

definition BadStatusAccess_what :: "Status \<Rightarrow> string" where
  "BadStatusAccess_what s = ''BadStatusAccess: '' @ ToString s"

type_synonym 'a StatusOr = "Status + 'a"

definition sor_ok :: "'a StatusOr \<Rightarrow> bool" where
  "sor_ok r = (case r of Inl _ \<Rightarrow> False | Inr _ \<Rightarrow> True)"

definition sor_value :: "'a StatusOr \<Rightarrow> exn + 'a" where
  "sor_value r = (case r of Inl s \<Rightarrow> Inl (BadStatusAccess s) | Inr v \<Rightarrow> Inr v)"

definition sor_deref :: "'a StatusOr \<Rightarrow> exn + 'a" where
  "sor_deref r = (case r of Inl _ \<Rightarrow> Inl BadVariantAccess | Inr v \<Rightarrow> Inr v)"

definition sor_status :: "'a StatusOr \<Rightarrow> Status" where
  "sor_status r = (if sor_ok r then Status_ok else (case r of Inl s \<Rightarrow> s | Inr _ \<Rightarrow> Status_ok))"

section \<open>Domain-specific error types\<close>

record BufferFullError =
  buffer_size :: int
  queued_count :: int

definition BufferFullError_ToString :: "BufferFullError \<Rightarrow> string" where
  "BufferFullError_ToString e =
     ''buffer full: capacity='' @ to_string (buffer_size e) @ '' queued='' @ to_string (queued_count e)"

record StreamBrokenError =
  unacknowledged_ids :: "string list"

definition StreamBrokenError_ToString :: "StreamBrokenError \<Rightarrow> string" where
  "StreamBrokenError_ToString e =
     ''stream broken: '' @ to_string (int (length (unacknowledged_ids e))) @ '' unacknowledged messages''"

record TransportError =
  te_operation :: string
  te_cause :: Status

definition TransportError_ToString :: "TransportError \<Rightarrow> string" where
  "TransportError_ToString e = ''transport error in '' @ te_operation e @ '': '' @ ToString (te_cause e)"

record HandlerError =
  he_handler :: string
  he_cause :: Status

definition HandlerError_ToString :: "HandlerError \<Rightarrow> string" where
  "HandlerError_ToString e = ''handler error in '' @ he_handler e @ '': '' @ ToString (he_cause e)"

section \<open>Internal error helpers\<close>

definition MakeError :: "ErrorCode \<Rightarrow> string \<Rightarrow> string \<Rightarrow> string \<Rightarrow> string \<Rightarrow> Status" where
  "MakeError c m op ch rid = Status5 c m op ch rid"

definition FromServerError :: "string \<Rightarrow> string \<Rightarrow> string \<Rightarrow> Status" where
  "FromServerError err op ch = (if err = [] then Status_ok else Status5 kFatal err op ch [])"

definition ValidationError :: "string \<Rightarrow> string \<Rightarrow> string \<Rightarrow> Status" where
  "ValidationError m op ch = Status5 kValidation m op ch []"

definition IsConnectionError :: "Status \<Rightarrow> bool" where
  "IsConnectionError s = (if ok s then False else code s = kTransient)"

section \<open>Basic facts\<close>

lemmas status_defs =
  Status_ok_def Status2_def Status5_def MakeError_def ValidationError_def kErrClientClosed_def
  kErrNotImplemented_def kErrValidation_def

lemma ok_Status_ok [simp]: "ok Status_ok"
  by (simp add: ok_def Status_ok_def)

lemma ok_Status2 [simp]: "ok (Status2 c m) = (c = kOk)"
  by (simp add: ok_def Status2_def)

lemma ok_Status5 [simp]: "ok (Status5 c m op ch rid) = (c = kOk)"
  by (simp add: ok_def Status5_def)

lemma ok_MakeError [simp]: "ok (MakeError c m op ch rid) = (c = kOk)"
  by (simp add: MakeError_def)

lemma code_Status5 [simp]: "code (Status5 c m op ch rid) = c"
  by (simp add: Status5_def)

lemma code_Status2 [simp]: "code (Status2 c m) = c"
  by (simp add: Status2_def)

lemma not_ok_kErrClientClosed [simp]: "\<not> ok kErrClientClosed"
  by (simp add: kErrClientClosed_def)

lemma kErrClientClosed_neq [simp]: "kErrClientClosed \<noteq> Status_ok"
  using not_ok_kErrClientClosed ok_Status_ok by metis

lemma sor_status_Inl [simp]: "sor_status (Inl s) = s"
  by (simp add: sor_status_def sor_ok_def)

lemma sor_status_Inr [simp]: "sor_status (Inr v) = Status_ok"
  by (simp add: sor_status_def sor_ok_def)

lemma sor_ok_simps [simp]: "\<not> sor_ok (Inl s)" "sor_ok (Inr v)"
  by (simp_all add: sor_ok_def)

lemma ErrorCodeToString_no_colon: "CHR '':'' \<notin> set (ErrorCodeToString c)"
  by (cases c) simp_all

lemma ErrorCodeToString_inj: "ErrorCodeToString c = ErrorCodeToString d \<Longrightarrow> c = d"
  by (cases c; cases d) simp_all

lemma ToString_not_ok:
  assumes "\<not> ok s"
  shows "\<exists>rest. ToString s = ErrorCodeToString (code s) @ CHR '':'' # rest"
  using assms by (simp add: ToString_def)

end
