(* ===== verification/Validation_Rules.thy ===== *)
theory Validation_Rules
  imports Error_Status
begin

text \<open>
  The four input checks every client operation runs before it talks to the broker
  (src/validation.cc). Each returns an OK status or a \<open>kValidation\<close> status.
\<close>

definition is_ascii_space :: "char \<Rightarrow> bool" where
  "is_ascii_space c = (c = CHR '' '' \<or> c = CHR 0x09 \<or> c = CHR 0x0A \<or> c = CHR 0x0D)"

definition ValidateChannel :: "string \<Rightarrow> string \<Rightarrow> Status" where
  "ValidateChannel channel op =
     (if channel = [] then Status5 kValidation ''channel is required'' op [] []
      else if list_ex is_ascii_space channel
        then Status5 kValidation ''channel must not contain whitespace'' op channel []
      else if last channel = CHR ''.''
        then Status5 kValidation (''channel must not end with '' @ [CHR 0x27, CHR ''.'', CHR 0x27]) op channel []
      else Status_ok)"

definition ValidateChannelNoWildcard :: "string \<Rightarrow> string \<Rightarrow> Status" where
  "ValidateChannelNoWildcard channel op =
     (let s = ValidateChannel channel op
      in if \<not> ok s then s
         else if CHR ''*'' \<in> set channel \<or> CHR ''>'' \<in> set channel
           then Status5 kValidation ''wildcards not allowed for send operations'' op channel []
         else Status_ok)"

definition ValidateBody :: "string \<Rightarrow> string \<Rightarrow> string \<Rightarrow> Status" where
  "ValidateBody body metadata op =
     (if body = [] \<and> metadata = []
      then Status5 kValidation ''body or metadata is required'' op [] [] else Status_ok)"

definition ValidateTimeout :: "millis \<Rightarrow> string \<Rightarrow> Status" where
  "ValidateTimeout timeout op =
     (if timeout \<le> 0 then Status5 kValidation ''timeout must be > 0'' op [] [] else Status_ok)"

section \<open>What the checks accept\<close>

definition channel_wf :: "string \<Rightarrow> bool" where
  "channel_wf ch = (ch \<noteq> [] \<and> list_all (\<lambda>c. \<not> is_ascii_space c) ch \<and> last ch \<noteq> CHR ''.'')"

definition channel_sendable :: "string \<Rightarrow> bool" where
  "channel_sendable ch = (channel_wf ch \<and> CHR ''*'' \<notin> set ch \<and> CHR ''>'' \<notin> set ch)"

lemma list_ex_not_all: "list_ex P xs = (\<not> list_all (\<lambda>x. \<not> P x) xs)"
  by (induction xs) auto

lemma ValidateChannel_ok [status_simps]: "ok (ValidateChannel ch op) = channel_wf ch"
  by (simp add: ValidateChannel_def channel_wf_def list_ex_not_all)

lemma ValidateChannelNoWildcard_ok [status_simps]:
  "ok (ValidateChannelNoWildcard ch op) = channel_sendable ch"
  by (simp add: ValidateChannelNoWildcard_def channel_sendable_def status_simps Let_def)

lemma ValidateBody_ok [status_simps]: "ok (ValidateBody b m op) = (b \<noteq> [] \<or> m \<noteq> [])"
  by (simp add: ValidateBody_def)

lemma ValidateTimeout_ok [status_simps]: "ok (ValidateTimeout t op) = (0 < t)"
  by (simp add: ValidateTimeout_def not_le)

lemma channel_sendable_wf: "channel_sendable ch \<Longrightarrow> channel_wf ch"
  by (simp add: channel_sendable_def)

lemma channel_wf_nonempty: "channel_wf ch \<Longrightarrow> ch \<noteq> []"
  by (simp add: channel_wf_def)

lemma validation_codes:
  "\<not> ok (ValidateChannel ch op) \<Longrightarrow> code (ValidateChannel ch op) = kValidation"
  "\<not> ok (ValidateChannelNoWildcard ch op) \<Longrightarrow> code (ValidateChannelNoWildcard ch op) = kValidation"
  "\<not> ok (ValidateBody b m op) \<Longrightarrow> code (ValidateBody b m op) = kValidation"
  "\<not> ok (ValidateTimeout t op) \<Longrightarrow> code (ValidateTimeout t op) = kValidation"
  by (auto simp: ValidateChannel_def ValidateChannelNoWildcard_def ValidateBody_def
      ValidateTimeout_def Let_def split: if_splits)

end
