(* ===== verification/Uuid_Gen.thy ===== *)
theory Uuid_Gen
  imports Prelude
begin

text \<open>
  \<^verbatim>\<open>internal::GenerateUUID\<close> (src/uuid.cc). The Mersenne twister behind \<^verbatim>\<open>uniform_int_distribution\<close> is a
  parameter: an action \<open>rand64\<close> that draws one 64-bit word. \<open>hex_pad n v\<close> is the conversion
  \<^verbatim>\<open>%0nx\<close> of \<^verbatim>\<open>snprintf\<close>; the buffer of 37 bytes keeps 36 characters.
\<close>

unbundle bit_operations_syntax

definition hex_digit :: "nat \<Rightarrow> char" where
  "hex_digit d = (if d < 10 then char_of (48 + d) else char_of (87 + d))"

fun hex_string :: "nat \<Rightarrow> string" where
  "hex_string n = (if n < 16 then [hex_digit n] else hex_string (n div 16) @ [hex_digit (n mod 16)])"

declare hex_string.simps [simp del]

definition hex_pad :: "nat \<Rightarrow> nat \<Rightarrow> string" where
  "hex_pad w n = replicate (w - length (hex_string n)) CHR ''0'' @ hex_string n"

definition set_version :: "64 word \<Rightarrow> 64 word" where
  "set_version a = (a AND 0xFFFFFFFFFFFF0FFF) OR 0x0000000000004000"

definition set_variant :: "64 word \<Rightarrow> 64 word" where
  "set_variant b = (b AND 0x3FFFFFFFFFFFFFFF) OR 0x8000000000000000"

definition format_uuid :: "64 word \<Rightarrow> 64 word \<Rightarrow> string" where
  "format_uuid a b =
     take 36
       (hex_pad 8 (unat (ucast (drop_bit 32 a) :: 32 word)) @ ''-''
        @ hex_pad 4 (unat (ucast (drop_bit 16 a AND 0xFFFF) :: 16 word)) @ ''-''
        @ hex_pad 4 (unat (ucast (a AND 0xFFFF) :: 16 word)) @ ''-''
        @ hex_pad 4 (unat (ucast (drop_bit 48 b) :: 16 word)) @ ''-''
        @ hex_pad 12 (unat (b AND 0x0000FFFFFFFFFFFF)))"

definition GenerateUUID :: "('w, 64 word) state \<Rightarrow> ('w, string) state" where
  "GenerateUUID rand64 = do {
     a \<leftarrow> rand64;
     b \<leftarrow> rand64;
     ret (format_uuid (set_version a) (set_variant b))
   }"

section \<open>The textual form is a version-4 UUID\<close>

definition is_hex :: "char \<Rightarrow> bool" where
  "is_hex c = (let v = (of_char c :: nat) in 48 \<le> v \<and> v \<le> 57 \<or> 97 \<le> v \<and> v \<le> 102)"

definition is_uuid_v4 :: "string \<Rightarrow> bool" where
  "is_uuid_v4 s = (length s = 36
     \<and> list_all (\<lambda>i. if i \<in> {8, 13, 18, 23} then s ! i = CHR ''-'' else is_hex (s ! i)) [0..<36]
     \<and> s ! 14 = CHR ''4'' \<and> s ! 19 \<in> set ''89ab'')"

lemma of_char_hex_digit: "d < 16 \<Longrightarrow> (of_char (hex_digit d) :: nat) = (if d < 10 then 48 + d else 87 + d)"
  by (simp add: hex_digit_def of_char_of)

lemma is_hex_hex_digit: "d < 16 \<Longrightarrow> is_hex (hex_digit d)"
  by (auto simp: is_hex_def of_char_hex_digit Let_def)

lemma is_hex_zero: "is_hex CHR ''0''"
  by (simp add: is_hex_def Let_def)

lemma length_hex_string: "n < 16 ^ Suc k \<Longrightarrow> length (hex_string n) \<le> Suc k"
proof (induction k arbitrary: n)
  case 0
  then show ?case by (subst hex_string.simps) simp
next
  case (Suc k)
  show ?case
  proof (cases "n < 16")
    case True
    then show ?thesis by (subst hex_string.simps) simp
  next
    case False
    have "n div 16 < 16 ^ Suc k" using Suc.prems by (simp add: less_mult_imp_div_less)
    with Suc.IH have "length (hex_string (n div 16)) \<le> Suc k" by blast
    with False show ?thesis by (subst hex_string.simps) simp
  qed
qed

lemma hex_string_hex: "\<forall>c \<in> set (hex_string n). is_hex c"
proof (induction n rule: hex_string.induct)
  case (1 n)
  then show ?case by (subst hex_string.simps) (auto simp: is_hex_hex_digit)
qed

lemma length_hex_pad: "n < 16 ^ Suc k \<Longrightarrow> length (hex_pad (Suc k) n) = Suc k"
  using length_hex_string [of n k] by (simp add: hex_pad_def)

lemma hex_pad_hex: "c \<in> set (hex_pad w n) \<Longrightarrow> is_hex c"
  using hex_string_hex [of n] is_hex_zero unfolding hex_pad_def by (auto split: if_splits)

lemma hex_string_top: "16 ^ k \<le> n \<Longrightarrow> n < 16 ^ Suc k \<Longrightarrow> hex_string n ! 0 = hex_digit (n div 16 ^ k)
    \<and> length (hex_string n) = Suc k"
proof (induction k arbitrary: n)
  case 0
  then show ?case by (subst (1 2) hex_string.simps) simp
next
  case (Suc k)
  have ge: "\<not> n < 16"
  proof -
    have "(16::nat) * 1 \<le> 16 * 16 ^ k" by (intro mult_le_mono2) simp
    moreover have "16 * 16 ^ k \<le> n" using Suc.prems(1) by simp
    ultimately show ?thesis by linarith
  qed
  have "16 ^ k \<le> n div 16" "n div 16 < 16 ^ Suc k"
    using Suc.prems by (simp_all add: less_eq_div_iff_mult_less_eq less_mult_imp_div_less mult.commute)
  from Suc.IH [OF this] have ih: "hex_string (n div 16) ! 0 = hex_digit (n div 16 div 16 ^ k)"
      "length (hex_string (n div 16)) = Suc k" by auto
  have "hex_string n = hex_string (n div 16) @ [hex_digit (n mod 16)]"
    using ge by (subst hex_string.simps) simp
  with ih show ?case by (simp add: nth_append div_mult2_eq)
qed

lemma hex_pad_top: "4096 \<le> n \<Longrightarrow> n < 65536 \<Longrightarrow> hex_pad 4 n ! 0 = hex_digit (n div 4096)"
  using hex_string_top [of 3 n] by (simp add: hex_pad_def)

lemma nth_hex_pad: "n < 16 ^ Suc k \<Longrightarrow> i < Suc k \<Longrightarrow> is_hex (hex_pad (Suc k) n ! i)"
  using hex_pad_hex length_hex_pad [of n k] nth_mem by metis

lemma group_lengths:
  "length (hex_pad 8 (unat (x :: 32 word))) = 8"
  "length (hex_pad 4 (unat (y :: 16 word))) = 4"
  "length (hex_pad 12 (unat (b AND (0x0000FFFFFFFFFFFF :: 64 word)))) = 12"
proof -
  have "unat x < 2 ^ 32" "unat y < 2 ^ 16" using unsigned_less [of x, where ?'a = nat] unsigned_less [of y, where ?'a = nat] by simp_all
  then show "length (hex_pad 8 (unat x)) = 8" "length (hex_pad 4 (unat y)) = 4"
    using length_hex_pad [of "unat x" 7] length_hex_pad [of "unat y" 3] by simp_all
  have "b AND 0x0000FFFFFFFFFFFF \<le> 0x0000FFFFFFFFFFFF" by (rule word_and_le1)
  then have "unat (b AND 0x0000FFFFFFFFFFFF) < 16 ^ Suc 11"
    by (simp add: word_le_nat_alt)
  then show "length (hex_pad 12 (unat (b AND 0x0000FFFFFFFFFFFF))) = 12"
    using length_hex_pad by fastforce
qed

lemma less16: "(n::nat) < 16 \<longleftrightarrow> n \<in> {0, 1, 2, 3, 4, 5, 6, 7, 8, 9, 10, 11, 12, 13, 14, 15}"
  unfolding insert_iff empty_iff by presburger

lemma version_bits: "drop_bit 12 (ucast (set_version a AND 0xFFFF) :: 16 word) = 4"
proof (rule bit_word_eqI, goal_cases)
  case (1 n)
  then have "n < 16" by simp
  then show ?case
    unfolding less16 insert_iff empty_iff set_version_def by (elim disjE FalseE; simp add: bit_simps)
qed

lemma variant_bits: "drop_bit 14 (ucast (drop_bit 48 (set_variant b)) :: 16 word) = 2"
proof (rule bit_word_eqI, goal_cases)
  case (1 n)
  then have "n < 16" by simp
  then show ?case
    unfolding less16 insert_iff empty_iff set_variant_def by (elim disjE FalseE; simp add: bit_simps)
qed

lemma unat_drop_div: "unat (drop_bit k (x :: 'a::len word)) = unat x div 2 ^ k"
  using unat_drop_bit_eq [of k x] drop_bit_eq_div [of k "unat x"] by simp

lemma version_group: "unat (ucast (set_version a AND 0xFFFF) :: 16 word) div 4096 = 4"
proof -
  have "unat (drop_bit 12 (ucast (set_version a AND 0xFFFF) :: 16 word)) = 4"
    unfolding version_bits by simp
  then show ?thesis unfolding unat_drop_div by simp
qed

lemma variant_group:
  "unat (ucast (drop_bit 48 (set_variant b)) :: 16 word) div 4096 \<in> {8, 9, 10, 11}"
proof -
  have "unat (drop_bit 14 (ucast (drop_bit 48 (set_variant b)) :: 16 word)) = 2"
    unfolding variant_bits by simp
  then have *: "unat (ucast (drop_bit 48 (set_variant b)) :: 16 word) div 16384 = 2"
    unfolding unat_drop_div by simp
  define n where "n = unat (ucast (drop_bit 48 (set_variant b)) :: 16 word)"
  from * have "n div 16384 = 2" unfolding n_def .
  then have "32768 \<le> n \<and> n < 49152" by linarith
  then have "8 \<le> n div 4096 \<and> n div 4096 < 12" by linarith
  then have "n div 4096 \<in> {8, 9, 10, 11}" by auto
  then show ?thesis unfolding n_def .
qed

lemma uuid_layout:
  assumes "length g1 = 8" "length g2 = 4" "length g3 = 4" "length g4 = 4" "length g5 = 12"
    and hex: "\<And>c. c \<in> set g1 \<union> set g2 \<union> set g3 \<union> set g4 \<union> set g5 \<Longrightarrow> is_hex c"
    and g3: "g3 ! 0 = CHR ''4''" and g4: "g4 ! 0 \<in> set ''89ab''"
  shows "is_uuid_v4 (take 36 (g1 @ ''-'' @ g2 @ ''-'' @ g3 @ ''-'' @ g4 @ ''-'' @ g5))"
proof -
  let ?s = "g1 @ ''-'' @ g2 @ ''-'' @ g3 @ ''-'' @ g4 @ ''-'' @ g5"
  have n: "\<And>i. i < 8 \<Longrightarrow> is_hex (g1 ! i)" "\<And>i. i < 4 \<Longrightarrow> is_hex (g2 ! i)"
    "\<And>i. i < 4 \<Longrightarrow> is_hex (g3 ! i)" "\<And>i. i < 4 \<Longrightarrow> is_hex (g4 ! i)"
    "\<And>i. i < 12 \<Longrightarrow> is_hex (g5 ! i)"
    using assms by auto
  define s where "s = ?s"
  have "if i \<in> {8, 13, 18, 23} then s ! i = CHR ''-'' else is_hex (s ! i)" if "i < 36" for i
    using that n assms(1-5) unfolding s_def by (auto simp: nth_append nth_Cons')
  then have "list_all (\<lambda>i. if i \<in> {8, 13, 18, 23} then s ! i = CHR ''-'' else is_hex (s ! i)) [0..<36]"
    by (simp add: list_all_iff)
  moreover have "take 36 s = s" "length s = 36" unfolding s_def using assms(1-5) by simp_all
  moreover have "s ! 14 = CHR ''4''" "s ! 19 \<in> set ''89ab''"
    unfolding s_def using assms(1-5) g3 g4 by (simp_all add: nth_append)
  ultimately have "is_uuid_v4 (take 36 s)" unfolding is_uuid_v4_def by presburger
  then show ?thesis unfolding s_def .
qed

lemma hex_digit_vals: "hex_digit 4 = CHR ''4''" "hex_digit 8 = CHR ''8''" "hex_digit 9 = CHR ''9''"
  "hex_digit 10 = CHR ''a''" "hex_digit 11 = CHR ''b''"
proof -
  have "(of_char (hex_digit 4) :: nat) = of_char CHR ''4''" "(of_char (hex_digit 8) :: nat) = of_char CHR ''8''"
    "(of_char (hex_digit 9) :: nat) = of_char CHR ''9''" "(of_char (hex_digit 10) :: nat) = of_char CHR ''a''"
    "(of_char (hex_digit 11) :: nat) = of_char CHR ''b''"
    by (simp_all add: of_char_hex_digit)
  then show "hex_digit 4 = CHR ''4''" "hex_digit 8 = CHR ''8''" "hex_digit 9 = CHR ''9''"
    "hex_digit 10 = CHR ''a''" "hex_digit 11 = CHR ''b''"
    by (simp_all only: of_char_eq_iff)
qed

lemma GenerateUUID_v4: "is_uuid_v4 (result_of (GenerateUUID rand64) w)"
proof -
  have "is_uuid_v4 (format_uuid (set_version a) (set_variant b))" for a b
    unfolding format_uuid_def
  proof (rule uuid_layout)
    let ?v = "unat (ucast (set_version a AND 0xFFFF) :: 16 word)"
    let ?r = "unat (ucast (drop_bit 48 (set_variant b)) :: 16 word)"
    have "?v < 65536" "?r < 65536"
      using unsigned_less [of "ucast (set_version a AND 0xFFFF) :: 16 word", where ?'a = nat]
        unsigned_less [of "ucast (drop_bit 48 (set_variant b)) :: 16 word", where ?'a = nat]
      by simp_all
    moreover have "4096 \<le> ?v" using version_group [of a] by linarith
    moreover have "4096 \<le> ?r" using variant_group [of b] by (auto simp del: unsigned_ucast_eq)
    ultimately show "hex_pad 4 ?v ! 0 = CHR ''4''" "hex_pad 4 ?r ! 0 \<in> set ''89ab''"
      using version_group [of a] variant_group [of b] by (auto simp: hex_pad_top hex_digit_vals)
  qed (use group_lengths hex_pad_hex in auto)
  then show ?thesis by (simp add: GenerateUUID_def case_prod_unfold)
qed

lemma is_uuid_v4_nonempty: "is_uuid_v4 s \<Longrightarrow> s \<noteq> []"
  by (auto simp: is_uuid_v4_def)

text \<open>C35. Every string that \<open>GenerateUUID\<close> returns, whatever the random engine draws, is a
  well-formed version-4 UUID: 36 characters, dashes at 8, 13, 18 and 23, lower-case hexadecimal
  digits elsewhere, version digit 4 and variant digit 8, 9, a or b.\<close>

theorem GenerateUUID_is_uuid_v4: "is_uuid_v4 (result_of (GenerateUUID rand64) w)"
  by (rule GenerateUUID_v4)

end
