(* ===== verification/Grpc_Errors.thy ===== *)
theory Grpc_Errors
  imports Error_Status
begin

text \<open>
  gRPC statuses and their translation into SDK statuses (src/internal/middleware/error_mapper.cc).
  \<open>grpc_code\<close> lists the canonical status codes of the gRPC API; \<open>GRPC_OTHER\<close> stands for every
  other integer the enumeration type can hold (the \<^verbatim>\<open>default\<close> branch of the switch).
\<close>

datatype grpc_code =
    GRPC_OK | GRPC_CANCELLED | GRPC_UNKNOWN | GRPC_INVALID_ARGUMENT | GRPC_DEADLINE_EXCEEDED
  | GRPC_NOT_FOUND | GRPC_ALREADY_EXISTS | GRPC_PERMISSION_DENIED | GRPC_RESOURCE_EXHAUSTED
  | GRPC_FAILED_PRECONDITION | GRPC_ABORTED | GRPC_OUT_OF_RANGE | GRPC_UNIMPLEMENTED
  | GRPC_INTERNAL | GRPC_UNAVAILABLE | GRPC_DATA_LOSS | GRPC_UNAUTHENTICATED | GRPC_OTHER int

record grpc_status =
  error_code :: grpc_code
  error_message :: string

definition grpc_ok :: "grpc_status \<Rightarrow> bool" where
  "grpc_ok g = (error_code g = GRPC_OK)"

definition grpc_status_OK :: grpc_status where
  "grpc_status_OK = \<lparr>error_code = GRPC_OK, error_message = []\<rparr>"

fun MapGrpcCode :: "grpc_code \<Rightarrow> ErrorCode" where
  "MapGrpcCode GRPC_OK = kOk"
| "MapGrpcCode GRPC_CANCELLED = kCancellation"
| "MapGrpcCode GRPC_INVALID_ARGUMENT = kValidation"
| "MapGrpcCode GRPC_DEADLINE_EXCEEDED = kTimeout"
| "MapGrpcCode GRPC_NOT_FOUND = kNotFound"
| "MapGrpcCode GRPC_ALREADY_EXISTS = kValidation"
| "MapGrpcCode GRPC_PERMISSION_DENIED = kAuthorization"
| "MapGrpcCode GRPC_RESOURCE_EXHAUSTED = kThrottling"
| "MapGrpcCode GRPC_FAILED_PRECONDITION = kValidation"
| "MapGrpcCode GRPC_ABORTED = kTransient"
| "MapGrpcCode GRPC_OUT_OF_RANGE = kValidation"
| "MapGrpcCode GRPC_UNIMPLEMENTED = kFatal"
| "MapGrpcCode GRPC_INTERNAL = kFatal"
| "MapGrpcCode GRPC_UNAVAILABLE = kTransient"
| "MapGrpcCode GRPC_DATA_LOSS = kFatal"
| "MapGrpcCode GRPC_UNAUTHENTICATED = kAuthentication"
| "MapGrpcCode _ = kFatal"

definition FromGrpcStatus :: "grpc_status \<Rightarrow> string \<Rightarrow> string \<Rightarrow> string \<Rightarrow> Status" where
  "FromGrpcStatus g op ch rid =
     (if grpc_ok g then Status_ok
      else let ec = MapGrpcCode (error_code g);
               msg = error_message g;
               msg' = (if msg = [] then ''gRPC error'' else msg)
           in Status5 ec msg' op ch rid)"

definition IsConnectionErrorGrpc :: "grpc_status \<Rightarrow> bool" where
  "IsConnectionErrorGrpc g =
     (if grpc_ok g then False
      else (case error_code g of GRPC_UNAVAILABLE \<Rightarrow> True | GRPC_ABORTED \<Rightarrow> True | _ \<Rightarrow> False))"

section \<open>Facts\<close>

lemma MapGrpcCode_kOk: "MapGrpcCode c = kOk \<longleftrightarrow> c = GRPC_OK"
  by (cases c) simp_all

lemma ok_FromGrpcStatus [simp]: "ok (FromGrpcStatus g op ch rid) = grpc_ok g"
  by (simp add: FromGrpcStatus_def grpc_ok_def Let_def MapGrpcCode_kOk)

lemma grpc_ok_OK [simp]: "grpc_ok grpc_status_OK"
  by (simp add: grpc_ok_def grpc_status_OK_def)

lemma code_FromGrpcStatus: "code (FromGrpcStatus g op ch rid) = MapGrpcCode (error_code g)"
  by (simp add: FromGrpcStatus_def grpc_ok_def Let_def Status_ok_def)

text \<open>The translation of a gRPC status loses no success and invents none, keeps the two
  notions of a connection error in step (the SDK test on the translated status agrees with the
  gRPC test on the original), never yields an empty error message, and makes exactly
  \<^verbatim>\<open>DEADLINE_EXCEEDED\<close>, \<^verbatim>\<open>RESOURCE_EXHAUSTED\<close>, \<^verbatim>\<open>ABORTED\<close> and \<^verbatim>\<open>UNAVAILABLE\<close> retryable.\<close>

theorem FromGrpcStatus_faithful:
  "(ok (FromGrpcStatus g op ch rid) \<longleftrightarrow> grpc_ok g)
   \<and> (IsConnectionError (FromGrpcStatus g op ch rid) \<longleftrightarrow> IsConnectionErrorGrpc g)
   \<and> (st_message (FromGrpcStatus g op ch rid) = [] \<longleftrightarrow> grpc_ok g)
   \<and> (is_retryable (FromGrpcStatus g op ch rid) \<longleftrightarrow>
        error_code g \<in> {GRPC_DEADLINE_EXCEEDED, GRPC_RESOURCE_EXHAUSTED, GRPC_ABORTED, GRPC_UNAVAILABLE})"
proof -
  have "is_retryable (FromGrpcStatus g op ch rid) \<longleftrightarrow>
      error_code g \<in> {GRPC_DEADLINE_EXCEEDED, GRPC_RESOURCE_EXHAUSTED, GRPC_ABORTED, GRPC_UNAVAILABLE}"
    unfolding is_retryable_def code_FromGrpcStatus by (cases "error_code g") simp_all
  moreover have "IsConnectionError (FromGrpcStatus g op ch rid) \<longleftrightarrow> IsConnectionErrorGrpc g"
    unfolding IsConnectionError_def IsConnectionErrorGrpc_def ok_FromGrpcStatus code_FromGrpcStatus
    by (cases "error_code g") simp_all
  moreover have "st_message (FromGrpcStatus g op ch rid) = [] \<longleftrightarrow> grpc_ok g"
    by (simp add: FromGrpcStatus_def Let_def Status5_def Status_ok_def)
  ultimately show ?thesis by simp
qed

end
