(* ===== verification/Backoff_Policy.thy ===== *)
theory Backoff_Policy
  imports Prelude
begin

text \<open>
  Exponential backoff with jitter: \<^verbatim>\<open>JitterMode\<close>, \<^verbatim>\<open>ReconnectPolicy\<close> and \<^verbatim>\<open>RetryPolicy\<close>
  (include/kubemq/reconnect_policy.h, retry_policy.h), \<^verbatim>\<open>ApplyJitter\<close>
  (src/internal/types/jitter.cc) and the three copies of \<^verbatim>\<open>CalculateBackoff\<close>
  (src/internal/transport/reconnect.cc, twice, and src/internal/middleware/retry.cc).

  The random engine is a parameter \<open>uni lo hi\<close>, the draw of \<^verbatim>\<open>uniform_int_distribution(lo, hi)\<close>;
  what the code relies on is \<open>uniform_ok\<close>, the documented range of that distribution. \<^verbatim>\<open>double\<close>
  arithmetic is real arithmetic: rounding, infinities and NaN are outside the model.
\<close>

section \<open>Policies\<close>

datatype JitterMode = kNone | kFull | kEqual

record ReconnectPolicy =
  rp_max_attempts :: int
  rp_initial_delay :: millis
  rp_max_delay :: millis
  rp_backoff_multiplier :: real
  rp_jitter :: JitterMode
  rp_buffer_size :: int

definition ReconnectPolicy_default :: ReconnectPolicy where
  "ReconnectPolicy_default =
     \<lparr>rp_max_attempts = 0, rp_initial_delay = 1000, rp_max_delay = 30000,
      rp_backoff_multiplier = 2, rp_jitter = kFull, rp_buffer_size = 1024\<rparr>"

record RetryPolicy =
  ry_max_retries :: int
  ry_initial_backoff :: millis
  ry_max_backoff :: millis
  ry_multiplier :: real
  ry_jitter :: JitterMode

definition RetryPolicy_default :: RetryPolicy where
  "RetryPolicy_default =
     \<lparr>ry_max_retries = 3, ry_initial_backoff = 100, ry_max_backoff = 10000,
      ry_multiplier = 2, ry_jitter = kFull\<rparr>"

section \<open>Jitter and backoff\<close>

type_synonym 'w uniform = "int \<Rightarrow> int \<Rightarrow> ('w, int) state"

definition ApplyJitter :: "'w uniform \<Rightarrow> millis \<Rightarrow> JitterMode \<Rightarrow> ('w, millis) state" where
  "ApplyJitter uni delay mode =
     (if mode = kNone \<or> delay \<le> 0 then ret delay
      else if mode = kFull then uni 0 (delay - 1)
      else if mode = kEqual then
        (let half = delay div 2
         in if half \<le> 0 then ret delay
            else do { r \<leftarrow> uni 0 (half - 1); ret (half + r) })
      else ret delay)"

definition capped_delay :: "millis \<Rightarrow> real \<Rightarrow> nat \<Rightarrow> millis \<Rightarrow> millis" where
  "capped_delay base mult attempt cap =
     (let computed = real_of_int base * mult ^ attempt;
          capped = min computed (real_of_int cap)
      in trunc_to_int capped)"

definition ReconnectLoop_CalculateBackoff ::
    "'w uniform \<Rightarrow> ReconnectPolicy \<Rightarrow> nat \<Rightarrow> ('w, millis) state" where
  "ReconnectLoop_CalculateBackoff uni p attempt =
     ApplyJitter uni
       (capped_delay (rp_initial_delay p) (rp_backoff_multiplier p) attempt (rp_max_delay p))
       (rp_jitter p)"

definition CalculateBackoff :: "'w uniform \<Rightarrow> ReconnectPolicy \<Rightarrow> nat \<Rightarrow> ('w, millis) state" where
  "CalculateBackoff uni p attempt =
     ApplyJitter uni
       (capped_delay (rp_initial_delay p) (rp_backoff_multiplier p) attempt (rp_max_delay p))
       (rp_jitter p)"

definition Retry_CalculateBackoff :: "'w uniform \<Rightarrow> RetryPolicy \<Rightarrow> nat \<Rightarrow> ('w, millis) state" where
  "Retry_CalculateBackoff uni p attempt =
     ApplyJitter uni
       (capped_delay (ry_initial_backoff p) (ry_multiplier p) attempt (ry_max_backoff p))
       (ry_jitter p)"

section \<open>The contract of a backoff schedule\<close>

text \<open>
  What a waiting loop relies on: for a well-formed policy the undisturbed delays are never
  negative, never above the cap and never shrink from one attempt to the next.
\<close>

locale backoff_schedule =
  fixes wf :: "'p \<Rightarrow> bool"
    and delay :: "'p \<Rightarrow> nat \<Rightarrow> int"
    and cap :: "'p \<Rightarrow> int"
  assumes delay_nonneg: "wf p \<Longrightarrow> 0 \<le> delay p n"
    and delay_le_cap: "wf p \<Longrightarrow> delay p n \<le> cap p"
    and delay_step: "wf p \<Longrightarrow> delay p n \<le> delay p (Suc n)"
begin

lemma delay_mono: "wf p \<Longrightarrow> n \<le> m \<Longrightarrow> delay p n \<le> delay p m"
  by (rule lift_Suc_mono_le [of "delay p"]) (auto simp: delay_step)

lemma saturated_stays: "wf p \<Longrightarrow> delay p n = cap p \<Longrightarrow> n \<le> m \<Longrightarrow> delay p m = cap p"
  using delay_mono [of p n m] delay_le_cap [of p m] by simp

lemma total_wait_bound: "wf p \<Longrightarrow> sum_list (map (delay p) [0..<n]) \<le> int n * cap p"
  using sum_list_le_bound [of "[0..<n]" "delay p" "cap p"] delay_le_cap by simp

end

section \<open>The code meets the contract\<close>

lemma capped_delay_le_cap: "capped_delay b m n c \<le> c"
  using trunc_to_int_mono [of "min (real_of_int b * m ^ n) (real_of_int c)" "real_of_int c"]
  by (simp add: capped_delay_def Let_def)

lemma capped_delay_nonneg: "0 \<le> b \<Longrightarrow> 0 \<le> c \<Longrightarrow> 0 \<le> m \<Longrightarrow> 0 \<le> capped_delay b m n c"
  by (simp add: capped_delay_def Let_def trunc_to_int_nonneg)

lemma capped_delay_step:
  assumes "0 \<le> b" "1 \<le> m"
  shows "capped_delay b m n c \<le> capped_delay b m (Suc n) c"
proof -
  have "real_of_int b * m ^ n \<le> real_of_int b * m ^ Suc n"
    using assms by (intro mult_left_mono power_increasing) auto
  then show ?thesis
    unfolding capped_delay_def Let_def by (intro trunc_to_int_mono) (simp add: min.coboundedI1 min_le_iff_disj)
qed

lemma capped_delay_integral:
  "capped_delay b (real_of_int k) n c = min (b * k ^ n) c"
proof -
  have "min (real_of_int b * real_of_int k ^ n) (real_of_int c) = real_of_int (min (b * k ^ n) c)"
    by (simp only: of_int_mult of_int_power of_int_min)
  then show ?thesis unfolding capped_delay_def Let_def by (simp only: trunc_to_int_of_int)
qed

definition wf_reconnect :: "ReconnectPolicy \<Rightarrow> bool" where
  "wf_reconnect p = (0 \<le> rp_initial_delay p \<and> 0 \<le> rp_max_delay p \<and> 1 \<le> rp_backoff_multiplier p)"

definition wf_retry :: "RetryPolicy \<Rightarrow> bool" where
  "wf_retry p = (0 \<le> ry_initial_backoff p \<and> 0 \<le> ry_max_backoff p \<and> 1 \<le> ry_multiplier p)"

abbreviation reconnect_delay :: "ReconnectPolicy \<Rightarrow> nat \<Rightarrow> millis" where
  "reconnect_delay p n \<equiv>
     capped_delay (rp_initial_delay p) (rp_backoff_multiplier p) n (rp_max_delay p)"

abbreviation retry_delay :: "RetryPolicy \<Rightarrow> nat \<Rightarrow> millis" where
  "retry_delay p n \<equiv> capped_delay (ry_initial_backoff p) (ry_multiplier p) n (ry_max_backoff p)"

interpretation reconnect_backoff: backoff_schedule wf_reconnect reconnect_delay rp_max_delay
  by unfold_locales (auto simp: wf_reconnect_def capped_delay_le_cap capped_delay_nonneg capped_delay_step)

interpretation retry_backoff: backoff_schedule wf_retry retry_delay ry_max_backoff
  by unfold_locales (auto simp: wf_retry_def capped_delay_le_cap capped_delay_nonneg capped_delay_step)

section \<open>Jitter\<close>

definition uniform_ok :: "'w uniform \<Rightarrow> bool" where
  "uniform_ok uni =
     (\<forall>lo hi w. lo \<le> hi \<longrightarrow> lo \<le> result_of (uni lo hi) w \<and> result_of (uni lo hi) w \<le> hi)"

definition counter_uniform :: "int uniform" where
  "counter_uniform lo hi = State (\<lambda>w. (lo + w mod (hi - lo + 1), w + 1))"

lemma uniform_okD: "uniform_ok uni \<Longrightarrow> lo \<le> hi \<Longrightarrow> lo \<le> result_of (uni lo hi) w \<and> result_of (uni lo hi) w \<le> hi"
  by (simp add: uniform_ok_def)

lemma counter_uniform_ok: "uniform_ok counter_uniform"
proof -
  have "lo \<le> lo + w mod (hi - lo + 1) \<and> lo + w mod (hi - lo + 1) \<le> hi" if "lo \<le> hi" for lo hi w :: int
    using that pos_mod_sign [of "hi - lo + 1" w] pos_mod_bound [of "hi - lo + 1" w] by simp
  then show ?thesis by (simp add: uniform_ok_def counter_uniform_def)
qed

lemma ApplyJitter_none [simp]: "ApplyJitter uni d kNone = ret d"
  by (simp add: ApplyJitter_def)

lemma ApplyJitter_full:
  assumes "uniform_ok uni" "0 < d"
  shows "0 \<le> result_of (ApplyJitter uni d kFull) w \<and> result_of (ApplyJitter uni d kFull) w < d"
  using uniform_okD [OF assms(1), of 0 "d - 1" w] assms(2) by (auto simp: ApplyJitter_def)

lemma ApplyJitter_equal:
  assumes "uniform_ok uni" "2 \<le> d"
  shows "d div 2 \<le> result_of (ApplyJitter uni d kEqual) w
    \<and> result_of (ApplyJitter uni d kEqual) w < 2 * (d div 2)"
proof -
  have h: "0 < d div 2" using assms(2) by simp
  then show ?thesis
    using uniform_okD [OF assms(1), of 0 "d div 2 - 1" w] assms(2)
    by (simp add: ApplyJitter_def Let_def case_prod_unfold)
qed

lemma ApplyJitter_bounds:
  assumes "uniform_ok uni" "0 \<le> d"
  shows "0 \<le> result_of (ApplyJitter uni d m) w \<and> result_of (ApplyJitter uni d m) w \<le> d"
proof (cases m)
  case kNone
  then show ?thesis using assms by simp
next
  case kFull
  then show ?thesis using assms ApplyJitter_full [OF assms(1), of d w]
    by (cases "d = 0") (auto simp: ApplyJitter_def)
next
  case kEqual
  show ?thesis
  proof (cases "2 \<le> d")
    case True
    with kEqual ApplyJitter_equal [OF assms(1) True, of w] show ?thesis
      using assms(2) by auto
  next
    case False
    then have "d = 0 \<or> d = 1" using assms(2) by linarith
    then show ?thesis using kEqual by (auto simp: ApplyJitter_def)
  qed
qed

text \<open>For a well-formed reconnect policy the wait before attempt \<open>n\<close> is never negative and
  never exceeds the undisturbed exponential delay of that attempt, nor the configured maximum,
  whatever jitter mode is configured and whatever the random engine draws; the member and the
  free version of \<^verbatim>\<open>CalculateBackoff\<close> are the same function.\<close>

theorem reconnect_backoff_bounds:
  assumes "wf_reconnect p" "uniform_ok uni"
  shows "0 \<le> result_of (CalculateBackoff uni p n) w
    \<and> result_of (CalculateBackoff uni p n) w \<le> reconnect_delay p n
    \<and> result_of (CalculateBackoff uni p n) w \<le> rp_max_delay p
    \<and> ReconnectLoop_CalculateBackoff uni p n = CalculateBackoff uni p n"
  using ApplyJitter_bounds [OF assms(2) reconnect_backoff.delay_nonneg [OF assms(1)]]
    reconnect_backoff.delay_le_cap [OF assms(1), of n]
  unfolding CalculateBackoff_def ReconnectLoop_CalculateBackoff_def
  by (meson order_trans)

theorem reconnect_backoff_bounds_witness:
  "wf_reconnect ReconnectPolicy_default \<and> uniform_ok counter_uniform
   \<and> 0 \<le> result_of (CalculateBackoff counter_uniform ReconnectPolicy_default 7) 12345
   \<and> result_of (CalculateBackoff counter_uniform ReconnectPolicy_default 7) 12345 \<le> 30000"
proof -
  have wf: "wf_reconnect ReconnectPolicy_default"
    by (simp add: wf_reconnect_def ReconnectPolicy_default_def)
  show ?thesis
    using wf counter_uniform_ok reconnect_backoff_bounds [OF wf counter_uniform_ok, of 7 12345]
    by (simp add: ReconnectPolicy_default_def)
qed

text \<open>With an integral multiplier the delay before jitter is exactly
  \<open>min (initial * multiplier ^ attempt) max\<close>, so it grows geometrically until it saturates at the
  configured maximum, and once it has reached the maximum it stays there.\<close>

theorem reconnect_backoff_exact:
  assumes "wf_reconnect p" "rp_jitter p = kNone" "rp_backoff_multiplier p = real_of_int k"
  shows "result_of (CalculateBackoff uni p n) w = min (rp_initial_delay p * k ^ n) (rp_max_delay p)
    \<and> (result_of (CalculateBackoff uni p n) w = rp_max_delay p \<longrightarrow>
        (\<forall>m \<ge> n. result_of (CalculateBackoff uni p m) w' = rp_max_delay p))"
  using assms reconnect_backoff.saturated_stays [OF assms(1), of n]
  by (simp add: CalculateBackoff_def capped_delay_integral)

theorem reconnect_backoff_exact_witness:
  "wf_reconnect (ReconnectPolicy_default\<lparr>rp_jitter := kNone\<rparr>)
   \<and> result_of (CalculateBackoff counter_uniform (ReconnectPolicy_default\<lparr>rp_jitter := kNone\<rparr>) 3) 0 = 8000
   \<and> result_of (CalculateBackoff counter_uniform (ReconnectPolicy_default\<lparr>rp_jitter := kNone\<rparr>) 5) 0 = 30000"
proof -
  let ?p = "ReconnectPolicy_default\<lparr>rp_jitter := kNone\<rparr>"
  have wf: "wf_reconnect ?p" by (simp add: wf_reconnect_def ReconnectPolicy_default_def)
  have m: "rp_jitter ?p = kNone" "rp_backoff_multiplier ?p = real_of_int 2"
    by (simp_all add: ReconnectPolicy_default_def)
  show ?thesis
    using wf reconnect_backoff_exact [OF wf m, of counter_uniform 3 0]
      reconnect_backoff_exact [OF wf m, of counter_uniform 5 0]
    by (simp add: ReconnectPolicy_default_def)
qed

end
