(* ===== verification/Retry_Chain.thy ===== *)
theory Retry_Chain
  imports Grpc_Errors Backoff_Policy
begin

text \<open>
  The middleware: unary retry (src/internal/middleware/retry.cc), the interceptor chain
  (chain.cc, chain.h) and the OpenTelemetry stubs (otel.cc). An operation is an action on the
  world that returns a \<open>Status\<close> (or a \<open>StatusOr\<close>); \<open>slp\<close> is \<^verbatim>\<open>std::this_thread::sleep_for\<close>.
\<close>

section \<open>Retry\<close>

definition ShouldRetry :: "ErrorCode \<Rightarrow> bool \<Rightarrow> bool" where
  "ShouldRetry c is_idempotent =
     (if \<not> IsRetryable c then False
      else if \<not> is_idempotent \<and> c = kTimeout then False
      else True)"

function RetryUnary_loop :: "'w uniform \<Rightarrow> (millis \<Rightarrow> ('w, unit) state) \<Rightarrow> RetryPolicy \<Rightarrow> bool
    \<Rightarrow> ('w, Status) state \<Rightarrow> nat \<Rightarrow> ('w, Status) state" where
  "RetryUnary_loop uni slp pol idem op attempt = do {
     last_status \<leftarrow> op;
     if ok last_status then ret last_status
     else if int attempt < ry_max_retries pol \<and> ShouldRetry (code last_status) idem then do {
       backoff \<leftarrow> Retry_CalculateBackoff uni pol attempt;
       _ \<leftarrow> slp backoff;
       RetryUnary_loop uni slp pol idem op (Suc attempt)
     }
     else ret last_status
   }"
  by pat_completeness auto
termination
  by (relation "measure (\<lambda>(uni, slp, pol, idem, op, attempt). nat (ry_max_retries pol) - attempt)") auto

declare RetryUnary_loop.simps [simp del]

definition RetryUnary :: "'w uniform \<Rightarrow> (millis \<Rightarrow> ('w, unit) state) \<Rightarrow> RetryPolicy \<Rightarrow> bool
    \<Rightarrow> ('w, Status) state \<Rightarrow> ('w, Status) state" where
  "RetryUnary uni slp pol idem op =
     (if ry_max_retries pol \<le> 0 then op else RetryUnary_loop uni slp pol idem op 0)"

function RetryUnaryOr_loop :: "'w uniform \<Rightarrow> (millis \<Rightarrow> ('w, unit) state) \<Rightarrow> RetryPolicy \<Rightarrow> bool
    \<Rightarrow> ('w, 'a StatusOr) state \<Rightarrow> nat \<Rightarrow> ('w, 'a StatusOr) state" where
  "RetryUnaryOr_loop uni slp pol idem op attempt = do {
     last_result \<leftarrow> op;
     if sor_ok last_result then ret last_result
     else if int attempt < ry_max_retries pol \<and> ShouldRetry (code (sor_status last_result)) idem then do {
       backoff \<leftarrow> Retry_CalculateBackoff uni pol attempt;
       _ \<leftarrow> slp backoff;
       RetryUnaryOr_loop uni slp pol idem op (Suc attempt)
     }
     else ret last_result
   }"
  by pat_completeness auto
termination
  by (relation "measure (\<lambda>(uni, slp, pol, idem, op, attempt). nat (ry_max_retries pol) - attempt)") auto

declare RetryUnaryOr_loop.simps [simp del]

definition RetryUnaryOr :: "'w uniform \<Rightarrow> (millis \<Rightarrow> ('w, unit) state) \<Rightarrow> RetryPolicy \<Rightarrow> bool
    \<Rightarrow> ('w, 'a StatusOr) state \<Rightarrow> ('w, 'a StatusOr) state" where
  "RetryUnaryOr uni slp pol idem op =
     (if ry_max_retries pol \<le> 0 then op else RetryUnaryOr_loop uni slp pol idem op 0)"

section \<open>Interceptor chain and telemetry stubs\<close>

type_synonym ('w, 'r) interceptor = "('w, 'r) state \<Rightarrow> ('w, 'r) state"

text \<open>The loop runs from the last interceptor to the first, each wrapping what came before.\<close>

fun chain_loop :: "('w, 'r) interceptor list \<Rightarrow> ('w, 'r) state \<Rightarrow> ('w, 'r) state" where
  "chain_loop [] current = current"
| "chain_loop (it # its) current = chain_loop its (it current)"

definition BuildChain :: "('w, Status) interceptor list \<Rightarrow> ('w, Status) state \<Rightarrow> ('w, Status) state" where
  "BuildChain interceptors =
     (if interceptors = [] then (\<lambda>op. op)
      else (\<lambda>operation. chain_loop (rev interceptors) operation))"

definition RunChain :: "('w, Status) interceptor list \<Rightarrow> ('w, Status) state \<Rightarrow> ('w, Status) state" where
  "RunChain interceptors operation = (let chain = BuildChain interceptors in chain operation)"

definition RunChainOr ::
    "('w, 'a StatusOr) interceptor list \<Rightarrow> ('w, 'a StatusOr) state \<Rightarrow> ('w, 'a StatusOr) state" where
  "RunChainOr interceptors operation =
     (if interceptors = [] then operation else chain_loop (rev interceptors) operation)"

definition MakeOtelInterceptor :: "string \<Rightarrow> ('w, Status) interceptor" where
  "MakeOtelInterceptor op = (\<lambda>next_op. next_op)"

section \<open>What the retry loop does\<close>

text \<open>
  To count calls, the operation is played from a script: its \<open>n\<close>-th call returns \<open>script n\<close> and
  advances a call counter that nothing else touches.
\<close>

definition scripted :: "(nat \<Rightarrow> 'r) \<Rightarrow> (nat \<times> 'v, 'r) state" where
  "scripted script = State (\<lambda>(n, v). (script n, (Suc n, v)))"

definition on_snd :: "('v, 'a) state \<Rightarrow> (nat \<times> 'v, 'a) state" where
  "on_snd m = State (\<lambda>(n, v). let (a, v') = run_state m v in (a, (n, v')))"

definition gives_up :: "RetryPolicy \<Rightarrow> bool \<Rightarrow> nat \<Rightarrow> Status \<Rightarrow> bool" where
  "gives_up pol idem n s =
     (ok s \<or> ry_max_retries pol \<le> int n \<or> \<not> ShouldRetry (code s) idem)"

lemma run_scripted [simp]: "run_state (scripted f) (n, v) = (f n, (Suc n, v))"
  by (simp add: scripted_def)

lemma run_on_snd: "\<exists>a v'. run_state (on_snd m) (n, v) = (a, (n, v'))"
  by (simp add: on_snd_def case_prod_unfold Let_def)

lemma ApplyJitter_on_snd: "\<exists>a v'. run_state (ApplyJitter (\<lambda>l h. on_snd (uni l h)) d m) (n, v) = (a, (n, v'))"
  using run_on_snd [of "uni 0 (d - 1)" n v] run_on_snd [of "uni 0 (d div 2 - 1)" n v]
  by (auto simp: ApplyJitter_def Let_def)

lemma RetryUnary_loop_script:
  "\<exists>k v'. attempt \<le> k
     \<and> (\<forall>i. attempt \<le> i \<and> i < k \<longrightarrow> \<not> gives_up pol idem i (script i))
     \<and> gives_up pol idem k (script k)
     \<and> run_state (RetryUnary_loop (\<lambda>l h. on_snd (uni l h)) (\<lambda>d. on_snd (slp d)) pol idem
          (scripted script) attempt) (attempt, v) = (script k, (Suc k, v'))"
proof (induction "nat (ry_max_retries pol) - attempt" arbitrary: attempt v rule: less_induct)
  case less
  let ?loop = "RetryUnary_loop (\<lambda>l h. on_snd (uni l h)) (\<lambda>d. on_snd (slp d)) pol idem (scripted script)"
  show ?case
  proof (cases "gives_up pol idem attempt (script attempt)")
    case True
    then have "run_state (?loop attempt) (attempt, v) = (script attempt, (Suc attempt, v))"
      by (auto simp: RetryUnary_loop.simps [of _ _ _ _ _ attempt] gives_up_def)
    with True show ?thesis by (intro exI [of _ attempt] exI [of _ v]) auto
  next
    case False
    obtain b v1 where b: "run_state (Retry_CalculateBackoff (\<lambda>l h. on_snd (uni l h)) pol attempt) (Suc attempt, v)
        = (b, (Suc attempt, v1))"
      using ApplyJitter_on_snd [of uni "retry_delay pol attempt" "ry_jitter pol" "Suc attempt" v]
      unfolding Retry_CalculateBackoff_def by blast
    obtain u v2 where u: "run_state (on_snd (slp b)) (Suc attempt, v1) = (u, (Suc attempt, v2))"
      using run_on_snd [of "slp b" "Suc attempt" v1] by auto
    have lt: "nat (ry_max_retries pol) - Suc attempt < nat (ry_max_retries pol) - attempt"
      using False by (auto simp: gives_up_def)
    have step: "run_state (?loop attempt) (attempt, v) = run_state (?loop (Suc attempt)) (Suc attempt, v2)"
      using False b u by (simp add: RetryUnary_loop.simps [of _ _ _ _ _ attempt] gives_up_def)
    from less [OF lt, of v2] obtain k v' where k: "Suc attempt \<le> k"
      "\<forall>i. Suc attempt \<le> i \<and> i < k \<longrightarrow> \<not> gives_up pol idem i (script i)"
      "gives_up pol idem k (script k)"
      "run_state (?loop (Suc attempt)) (Suc attempt, v2) = (script k, (Suc k, v'))" by blast
    have "\<forall>i. attempt \<le> i \<and> i < k \<longrightarrow> \<not> gives_up pol idem i (script i)"
      using k(2) False by (metis le_neq_implies_less less_eq_Suc_le)
    with k step show ?thesis by (intro exI [of _ k] exI [of _ v']) auto
  qed
qed

text \<open>C7. \<open>RetryUnary\<close> runs the operation until the first call that succeeds, fails with a code
  that must not be retried, or exhausts the budget, and returns the status of exactly that call:
  the operation is executed at most \<open>max_retries + 1\<close> times, and at least once.\<close>

theorem RetryUnary_calls:
  "\<exists>k v'. int k \<le> max 0 (ry_max_retries pol)
     \<and> (\<forall>i < k. \<not> ok (script i) \<and> ShouldRetry (code (script i)) idem)
     \<and> (ok (script k) \<or> int k = max 0 (ry_max_retries pol) \<or> \<not> ShouldRetry (code (script k)) idem)
     \<and> run_state (RetryUnary (\<lambda>l h. on_snd (uni l h)) (\<lambda>d. on_snd (slp d)) pol idem (scripted script)) (0, v)
        = (script k, (Suc k, v'))"
proof (cases "ry_max_retries pol \<le> 0")
  case True
  then show ?thesis by (intro exI [of _ 0] exI [of _ v]) (simp add: RetryUnary_def)
next
  case False
  obtain k v' where k: "\<forall>i. 0 \<le> i \<and> i < k \<longrightarrow> \<not> gives_up pol idem i (script i)"
    "gives_up pol idem k (script k)"
    "run_state (RetryUnary_loop (\<lambda>l h. on_snd (uni l h)) (\<lambda>d. on_snd (slp d)) pol idem (scripted script) 0) (0, v)
      = (script k, (Suc k, v'))"
    using RetryUnary_loop_script [of 0 pol idem script uni slp v]
    by (elim exE conjE) (rule that, assumption+)
  have bound: "int k \<le> ry_max_retries pol"
  proof (cases k)
    case (Suc j)
    then show ?thesis using k(1) by (auto simp: gives_up_def)
  qed (use False in simp)
  show ?thesis
    using False k bound by (intro exI [of _ k] exI [of _ v']) (auto simp: RetryUnary_def gives_up_def)
qed

theorem RetryUnary_calls_witness:
  "\<exists>v'. run_state (RetryUnary (\<lambda>l h. on_snd (ret l)) (\<lambda>d. on_snd (ret ())) RetryPolicy_default False
      (scripted (\<lambda>n. if n < 2 then Status2 kTransient ''down'' else Status_ok))) (0, ())
    = (Status_ok, (3, v'))"
proof -
  let ?s = "\<lambda>n::nat. if n < 2 then Status2 kTransient ''down'' else Status_ok"
  obtain k v' where k: "\<forall>i < k. \<not> ok (?s i) \<and> ShouldRetry (code (?s i)) False"
    "ok (?s k) \<or> int k = max 0 (ry_max_retries RetryPolicy_default) \<or> \<not> ShouldRetry (code (?s k)) False"
    "run_state (RetryUnary (\<lambda>l h. on_snd (ret l)) (\<lambda>d. on_snd (ret ())) RetryPolicy_default False (scripted ?s)) (0, ())
      = (?s k, (Suc k, v'))"
    using RetryUnary_calls [of RetryPolicy_default ?s False "\<lambda>l h. ret l" "\<lambda>d. ret ()" "()"] by blast
  have "\<not> 2 < k" using k(1) by auto
  moreover have "2 \<le> k" using k(2) by (auto simp: RetryPolicy_default_def ShouldRetry_def split: if_splits)
  ultimately have "k = 2" by simp
  with k(3) show ?thesis by simp
qed

text \<open>A non-idempotent operation that times out is never repeated: \<open>RetryUnary\<close> then behaves
  exactly like one call of the operation, whatever the policy.\<close>

theorem RetryUnary_timeout_not_repeated:
  assumes "code (result_of op w) = kTimeout"
  shows "run_state (RetryUnary uni slp pol False op) w = run_state op w"
proof -
  have "ShouldRetry (code (result_of op w)) False = False" using assms by (simp add: ShouldRetry_def)
  then show ?thesis
    by (simp add: RetryUnary_def RetryUnary_loop.simps [of _ _ _ _ _ 0] case_prod_unfold)
qed

theorem RetryUnary_timeout_not_repeated_witness:
  "code (result_of (scripted (\<lambda>_. Status2 kTimeout ''deadline'')) (0::nat, ())) = kTimeout
   \<and> run_state (RetryUnary (\<lambda>l h. ret l) (\<lambda>_. ret ()) RetryPolicy_default False
        (scripted (\<lambda>_. Status2 kTimeout ''deadline''))) (0, ()) = (Status2 kTimeout ''deadline'', (1, ()))"
proof -
  have h: "code (result_of (scripted (\<lambda>_. Status2 kTimeout ''deadline'')) (0::nat, ())) = kTimeout" by simp
  show ?thesis using h RetryUnary_timeout_not_repeated [OF h, of "\<lambda>l h. ret l" "\<lambda>_. ret ()" RetryPolicy_default]
    by simp
qed

section \<open>The StatusOr version is the same loop\<close>

definition map_result :: "('a \<Rightarrow> 'b) \<Rightarrow> ('w, 'a) state \<Rightarrow> ('w, 'b) state" where
  "map_result f m = do { a \<leftarrow> m; ret (f a) }"

lemma run_map_result [simp]: "run_state (map_result f m) w = (f (result_of m w), world_of m w)"
  by (simp add: map_result_def case_prod_unfold)

definition errors_real :: "('w, 'a StatusOr) state \<Rightarrow> bool" where
  "errors_real op = (\<forall>w s. result_of op w = Inl s \<longrightarrow> \<not> ok s)"

lemma errors_real_ok: "errors_real op \<Longrightarrow> ok (sor_status (result_of op w)) = sor_ok (result_of op w)"
  by (cases "result_of op w") (auto simp: errors_real_def)

lemma RetryUnaryOr_loop_status:
  assumes "errors_real op"
  shows "run_state (RetryUnary_loop uni slp pol idem (map_result sor_status op) attempt) w
    = run_state (map_result sor_status (RetryUnaryOr_loop uni slp pol idem op attempt)) w"
proof (induction "nat (ry_max_retries pol) - attempt" arbitrary: attempt w rule: less_induct)
  case less
  show ?case
  proof (cases "\<not> sor_ok (result_of op w) \<and> int attempt < ry_max_retries pol
      \<and> ShouldRetry (code (sor_status (result_of op w))) idem")
    case True
    have lt: "nat (ry_max_retries pol) - Suc attempt < nat (ry_max_retries pol) - attempt"
      using True by auto
    show ?thesis
      using True less [OF lt] errors_real_ok [OF assms, of w]
      by (simp add: RetryUnary_loop.simps [of _ _ _ _ _ attempt] RetryUnaryOr_loop.simps [of _ _ _ _ _ attempt]
          case_prod_unfold)
  next
    case False
    then show ?thesis
      using errors_real_ok [OF assms, of w]
      by (auto simp: RetryUnary_loop.simps [of _ _ _ _ _ attempt] RetryUnaryOr_loop.simps [of _ _ _ _ _ attempt]
          case_prod_unfold)
  qed
qed

text \<open>\<open>RetryUnaryOr\<close> retries exactly as \<open>RetryUnary\<close> does on the statuses of its operation,
  provided the operation never wraps an OK status as an error.\<close>

theorem RetryUnaryOr_refines_RetryUnary:
  assumes "errors_real op"
  shows "run_state (RetryUnary uni slp pol idem (map_result sor_status op)) w
    = run_state (map_result sor_status (RetryUnaryOr uni slp pol idem op)) w"
  using RetryUnaryOr_loop_status [OF assms] by (simp add: RetryUnary_def RetryUnaryOr_def)

theorem RetryUnaryOr_refines_RetryUnary_witness:
  "errors_real (scripted (\<lambda>n. if n < 2 then Inl (Status2 kTransient ''down'') else Inr (7::nat)) :: (nat \<times> unit, nat StatusOr) state)
   \<and> run_state (RetryUnary (\<lambda>l h. ret l) (\<lambda>_. ret ()) RetryPolicy_default True (map_result sor_status
        (scripted (\<lambda>n. if n < 2 then Inl (Status2 kTransient ''down'') else Inr (7::nat))))) (0::nat, ())
     = run_state (map_result sor_status (RetryUnaryOr (\<lambda>l h. ret l) (\<lambda>_. ret ()) RetryPolicy_default True
        (scripted (\<lambda>n. if n < 2 then Inl (Status2 kTransient ''down'') else Inr (7::nat))))) (0, ())"
proof -
  have h: "errors_real (scripted (\<lambda>n. if n < 2 then Inl (Status2 kTransient ''down'') else Inr (7::nat))
      :: (nat \<times> unit, nat StatusOr) state)"
    by (auto simp: errors_real_def scripted_def split: if_splits)
  show ?thesis using h RetryUnaryOr_refines_RetryUnary [OF h] by blast
qed

section \<open>The chain\<close>

lemma chain_loop_append: "chain_loop (xs @ ys) op = chain_loop ys (chain_loop xs op)"
  by (induction xs arbitrary: op) auto

lemma BuildChain_Cons: "BuildChain (i # is) op = i (BuildChain is op)"
  by (simp add: BuildChain_def chain_loop_append)

text \<open>The chain wraps in list order: the first interceptor is outermost and sees the rest of
  the chain as its continuation, running a concatenated chain is running one chain inside the
  other, an empty chain is the bare operation, and the telemetry stub changes nothing.\<close>

theorem RunChain_order:
  "RunChain [] op = op
   \<and> RunChain (i # is) op = i (RunChain is op)
   \<and> RunChain (is @ js) op = RunChain is (RunChain js op)
   \<and> RunChain (MakeOtelInterceptor name # is) op = RunChain is op"
proof -
  have "BuildChain (is @ js) op = BuildChain is (BuildChain js op)"
    by (induction "is") (simp_all add: BuildChain_Cons, simp add: BuildChain_def)
  then show ?thesis
    by (simp add: RunChain_def BuildChain_Cons MakeOtelInterceptor_def Let_def)
      (simp add: BuildChain_def)
qed

lemma RunChainOr_order: "RunChainOr (i # is) op = i (RunChainOr is op)"
  by (simp add: RunChainOr_def chain_loop_append)

end
