(* ===== verification/Conn_State_Machine.thy ===== *)
theory Conn_State_Machine
  imports Error_Status
begin

text \<open>
  The connection state machine (include/kubemq/connection_state.h, src/connection_state.cc,
  src/internal/transport/state_machine.h and state_machine.cc).

  \<open>transition_step\<close> is what \<^verbatim>\<open>StateMachine::Transition\<close> does inside its critical section; \<open>Transition\<close>
  adds the callback, which runs after the lock is released. A callback is an action on the
  world that may throw; a throwing callback propagates out of \<^verbatim>\<open>Transition\<close> after the state has
  already changed. Callbacks that re-enter the same machine are outside the model.
\<close>

datatype ConnectionState = kIdle | kConnecting | kReady | kReconnecting | kClosed

lemma UNIV_ConnectionState: "UNIV = set [kIdle, kConnecting, kReady, kReconnecting, kClosed]"
proof (rule UNIV_eq_I)
  fix x
  show "x \<in> set [kIdle, kConnecting, kReady, kReconnecting, kClosed]" by (cases x) simp_all
qed

instantiation ConnectionState :: enum
begin

definition enum_ConnectionState :: "ConnectionState list" where
  "enum_ConnectionState = [kIdle, kConnecting, kReady, kReconnecting, kClosed]"

definition enum_all_ConnectionState :: "(ConnectionState \<Rightarrow> bool) \<Rightarrow> bool" where
  "enum_all_ConnectionState P = list_all P enum_class.enum"

definition enum_ex_ConnectionState :: "(ConnectionState \<Rightarrow> bool) \<Rightarrow> bool" where
  "enum_ex_ConnectionState P = list_ex P enum_class.enum"

instance
  by standard
    (simp_all only: enum_all_ConnectionState_def enum_ex_ConnectionState_def enum_ConnectionState_def
      list_all_iff list_ex_iff UNIV_ConnectionState [symmetric], auto)

end

fun ConnectionStateToString :: "ConnectionState \<Rightarrow> string" where
  "ConnectionStateToString kIdle = ''IDLE''"
| "ConnectionStateToString kConnecting = ''CONNECTING''"
| "ConnectionStateToString kReady = ''READY''"
| "ConnectionStateToString kReconnecting = ''RECONNECTING''"
| "ConnectionStateToString kClosed = ''CLOSED''"

section \<open>The machine\<close>

type_synonym 'w callback = "('w, exn option) state"

record 'w StateMachine =
  sm_state :: ConnectionState
  sm_reconnecting :: bool
  on_connected :: "'w callback option"
  on_disconnected :: "'w callback option"
  on_reconnecting :: "'w callback option"
  on_reconnected :: "'w callback option"
  on_closed :: "'w callback option"

definition StateMachine_new :: "ConnectionState \<Rightarrow> 'w StateMachine" where
  "StateMachine_new initial =
     \<lparr>sm_state = initial, sm_reconnecting = False, on_connected = None, on_disconnected = None,
      on_reconnecting = None, on_reconnected = None, on_closed = None\<rparr>"

definition Current :: "'w StateMachine \<Rightarrow> ConnectionState" where
  "Current sm = sm_state sm"

fun IsValidTransition :: "ConnectionState \<Rightarrow> ConnectionState \<Rightarrow> bool" where
  "IsValidTransition kIdle to = (to = kConnecting \<or> to = kClosed)"
| "IsValidTransition kConnecting to = (to = kReady \<or> to = kClosed)"
| "IsValidTransition kReady to = (to = kReconnecting \<or> to = kClosed)"
| "IsValidTransition kReconnecting to = (to = kConnecting \<or> to = kClosed)"
| "IsValidTransition kClosed to = False"

definition both_callbacks :: "'w callback \<Rightarrow> 'w callback option \<Rightarrow> 'w callback" where
  "both_callbacks disconnected_cb reconnecting_cb = do {
     r \<leftarrow> disconnected_cb;
     (case r of
        Some e \<Rightarrow> ret (Some e)
      | None \<Rightarrow> (case reconnecting_cb of None \<Rightarrow> ret None | Some cb \<Rightarrow> cb))
   }"

definition transition_step ::
    "ConnectionState \<Rightarrow> 'w StateMachine \<Rightarrow> ('w callback option \<times> 'w StateMachine) option" where
  "transition_step to sm =
     (if \<not> IsValidTransition (sm_state sm) to then None
      else
        let from = sm_state sm;
            sm1 = sm\<lparr>sm_state := to\<rparr>;
            sm2 = (if to = kReconnecting then sm1\<lparr>sm_reconnecting := True\<rparr> else sm1)
        in Some
          (if to = kReady \<and> from = kConnecting then
             (if sm_reconnecting sm2
              then (on_reconnected sm2, sm2\<lparr>sm_reconnecting := False\<rparr>)
              else (on_connected sm2, sm2))
           else if to = kReconnecting then
             ((case on_disconnected sm2 of
                 Some d \<Rightarrow> Some (both_callbacks d (on_reconnecting sm2))
               | None \<Rightarrow> on_reconnecting sm2), sm2)
           else if to = kClosed then (on_closed sm2, sm2)
           else (None, sm2)))"

definition Transition ::
    "ConnectionState \<Rightarrow> 'w StateMachine \<Rightarrow> ('w, (exn + bool) \<times> 'w StateMachine) state" where
  "Transition to sm =
     (case transition_step to sm of
        None \<Rightarrow> ret (Inr False, sm)
      | Some (cb, sm') \<Rightarrow>
          (case cb of
             None \<Rightarrow> ret (Inr True, sm')
           | Some callback \<Rightarrow> do {
               r \<leftarrow> callback;
               ret (case r of None \<Rightarrow> Inr True | Some e \<Rightarrow> Inl e, sm')
             }))"

text \<open>
  \<^verbatim>\<open>WaitForStateFor\<close>: \<open>seen\<close> lists the states the predicate finds at its successive evaluations (on
  entry, at each wake-up, and last at the timeout); the wait ends at the first match.
  \<^verbatim>\<open>WaitForState\<close> has no timeout: it returns iff some evaluation matches.
\<close>

fun WaitForStateFor :: "ConnectionState \<Rightarrow> ConnectionState list \<Rightarrow> bool" where
  "WaitForStateFor target [] = False"
| "WaitForStateFor target (s # seen) = (if s = target then True else WaitForStateFor target seen)"

definition SetOnConnected :: "'w callback option \<Rightarrow> 'w StateMachine \<Rightarrow> 'w StateMachine" where
  "SetOnConnected cb sm = sm\<lparr>on_connected := cb\<rparr>"

definition SetOnDisconnected :: "'w callback option \<Rightarrow> 'w StateMachine \<Rightarrow> 'w StateMachine" where
  "SetOnDisconnected cb sm = sm\<lparr>on_disconnected := cb\<rparr>"

definition SetOnReconnecting :: "'w callback option \<Rightarrow> 'w StateMachine \<Rightarrow> 'w StateMachine" where
  "SetOnReconnecting cb sm = sm\<lparr>on_reconnecting := cb\<rparr>"

definition SetOnReconnected :: "'w callback option \<Rightarrow> 'w StateMachine \<Rightarrow> 'w StateMachine" where
  "SetOnReconnected cb sm = sm\<lparr>on_reconnected := cb\<rparr>"

definition SetOnClosed :: "'w callback option \<Rightarrow> 'w StateMachine \<Rightarrow> 'w StateMachine" where
  "SetOnClosed cb sm = sm\<lparr>on_closed := cb\<rparr>"

section \<open>The life cycle a client relies on\<close>

text \<open>The abstract life cycle of a connection, as a step relation.\<close>

inductive life_step :: "ConnectionState \<Rightarrow> ConnectionState \<Rightarrow> bool" where
  dial: "life_step kIdle kConnecting"
| up: "life_step kConnecting kReady"
| lost: "life_step kReady kReconnecting"
| redial: "life_step kReconnecting kConnecting"
| shut: "s \<noteq> kClosed \<Longrightarrow> life_step s kClosed"

inductive_simps life_step_simps [simp]: "life_step kIdle t" "life_step kConnecting t"
  "life_step kReady t" "life_step kReconnecting t" "life_step kClosed t"

inductive_cases life_step_from_closed: "life_step kClosed t"

text \<open>
  The contract of a life-cycle machine: an attempt to move either fails and is refused by the
  relation, or moves to exactly the requested state.
\<close>

locale lifecycle =
  fixes st :: "'m \<Rightarrow> ConnectionState"
    and step :: "ConnectionState \<Rightarrow> 'm \<Rightarrow> 'm option"
  assumes step_enabled: "step to m \<noteq> None \<longleftrightarrow> life_step (st m) to"
    and step_moves: "step to m = Some m' \<Longrightarrow> st m' = to"
begin

fun attempts :: "ConnectionState list \<Rightarrow> 'm \<Rightarrow> 'm" where
  "attempts [] m = m"
| "attempts (to # ts) m = attempts ts (case step to m of None \<Rightarrow> m | Some m' \<Rightarrow> m')"

lemma closed_absorbs: "st m = kClosed \<Longrightarrow> attempts ts m = m"
proof (induction ts)
  case (Cons to ts)
  then have "step to m = None" using step_enabled [of to m] by auto
  with Cons show ?case by simp
qed simp

lemma attempts_reachable: "life_step\<^sup>*\<^sup>* (st m) (st (attempts ts m))"
proof (induction ts arbitrary: m)
  case (Cons to ts)
  show ?case
  proof (cases "step to m")
    case None
    with Cons show ?thesis by simp
  next
    case (Some m')
    then have "life_step (st m) (st m')" using step_enabled [of to m] step_moves by auto
    with Some Cons [of m'] show ?thesis by (simp add: converse_rtranclp_into_rtranclp)
  qed
qed simp

lemma close_always_possible: "st m \<noteq> kClosed \<Longrightarrow> \<exists>m'. step kClosed m = Some m' \<and> st m' = kClosed"
proof -
  assume "st m \<noteq> kClosed"
  then have "step kClosed m \<noteq> None" using step_enabled [of kClosed m] by (auto intro: life_step.shut)
  then show ?thesis using step_moves by auto
qed

end

definition move :: "ConnectionState \<Rightarrow> 'w StateMachine \<Rightarrow> 'w StateMachine option" where
  "move to sm = map_option snd (transition_step to sm)"

lemma IsValidTransition_life: "IsValidTransition s t = life_step s t"
  by (cases s; cases t) simp_all

lemma transition_step_state: "transition_step to sm = Some (cb, sm') \<Longrightarrow> sm_state sm' = to"
  by (auto simp: transition_step_def Let_def split: if_splits)

interpretation sm_life: lifecycle sm_state move
proof unfold_locales
  fix to and m m' :: "'w StateMachine"
  show "move to m \<noteq> None \<longleftrightarrow> life_step (sm_state m) to"
    by (simp add: move_def transition_step_def IsValidTransition_life Let_def)
  show "move to m = Some m' \<Longrightarrow> sm_state m' = to"
    by (auto simp: move_def transition_step_state)
qed

lemma Transition_move:
  "snd (result_of (Transition to sm) w) = (case move to sm of None \<Rightarrow> sm | Some sm' \<Rightarrow> sm')"
  by (auto simp: Transition_def move_def case_prod_unfold split: option.splits)

lemma closing_closes: "sm_state (snd (result_of (Transition kClosed sm) w)) = kClosed"
proof (cases "sm_state sm = kClosed")
  case True
  then have "move kClosed sm = None" using sm_life.step_enabled [of kClosed sm] by simp
  with True show ?thesis by (simp add: Transition_move)
next
  case False
  then show ?thesis using sm_life.close_always_possible [of sm] by (auto simp: Transition_move)
qed

section \<open>Runs of attempted transitions\<close>

fun run_transitions :: "ConnectionState list \<Rightarrow> 'w StateMachine \<Rightarrow> ('w, 'w StateMachine) state" where
  "run_transitions [] sm = ret sm"
| "run_transitions (to # ts) sm = do { r \<leftarrow> Transition to sm; run_transitions ts (snd r) }"

lemma run_transitions_attempts: "result_of (run_transitions ts sm) w = sm_life.attempts ts sm"
proof (induction ts arbitrary: sm w)
  case (Cons to ts)
  show ?case
    using Cons.IH Transition_move [of to sm w] by (simp add: case_prod_unfold)
qed simp

text \<open>C21. \<open>Transition\<close> implements the abstract life cycle: it succeeds exactly when the life-cycle
  relation allows the move, on success the machine is in the requested state, on refusal neither
  the machine nor the world changes, and the answer tells the two apart unless the user's
  callback throws.\<close>

theorem Transition_refines_life_cycle:
  "(if life_step (Current sm) to
    then (\<exists>sm' w' r. run_state (Transition to sm) w = ((r, sm'), w') \<and> Current sm' = to \<and> r \<noteq> Inr False)
    else run_state (Transition to sm) w = ((Inr False, sm), w))"
proof (cases "transition_step to sm")
  case None
  then show ?thesis
    by (auto simp: Transition_def transition_step_def IsValidTransition_life Current_def Let_def
        split: if_splits)
next
  case (Some p)
  obtain cb sm' where p: "p = (cb, sm')" by (cases p)
  have "life_step (Current sm) to"
    using Some by (auto simp: transition_step_def IsValidTransition_life Current_def split: if_splits)
  moreover have "Current sm' = to" using Some p transition_step_state by (auto simp: Current_def)
  ultimately show ?thesis
    using Some p by (auto simp: Transition_def case_prod_unfold split: option.splits)
qed

text \<open>\<open>kClosed\<close> is terminal: once the machine is closed, no sequence of transition attempts
  changes the machine or runs any callback; and from every other state closing succeeds.\<close>

theorem closed_is_terminal:
  "(Current sm = kClosed \<longrightarrow> run_state (run_transitions ts sm) w = (sm, w))
   \<and> (Current sm \<noteq> kClosed \<longrightarrow> Current (snd (result_of (Transition kClosed sm) w)) = kClosed)"
proof
  show "Current sm = kClosed \<longrightarrow> run_state (run_transitions ts sm) w = (sm, w)"
  proof
    assume c: "Current sm = kClosed"
    then have "Transition to sm = ret (Inr False, sm)" for to
      by (simp add: Transition_def transition_step_def Current_def)
    then show "run_state (run_transitions ts sm) w = (sm, w)" by (induction ts) simp_all
  qed
  show "Current sm \<noteq> kClosed \<longrightarrow> Current (snd (result_of (Transition kClosed sm) w)) = kClosed"
    using sm_life.close_always_possible [of sm] by (auto simp: Transition_move Current_def)
qed

theorem closed_is_terminal_witness:
  "Current (StateMachine_new kClosed :: unit StateMachine) = kClosed
   \<and> run_state (run_transitions [kConnecting, kReady, kClosed] (StateMachine_new kClosed)) ()
     = (StateMachine_new kClosed, ())"
proof -
  have h: "Current (StateMachine_new kClosed :: unit StateMachine) = kClosed"
    by (simp add: Current_def StateMachine_new_def)
  show ?thesis using h closed_is_terminal [of "StateMachine_new kClosed" "[kConnecting, kReady, kClosed]" "()"]
    by blast
qed

section \<open>The protocol of the user's callbacks\<close>

text \<open>
  The events a user observes through the five callbacks, and the order they promise: one
  \<open>EvConnected\<close>, then any number of outages (\<open>EvDisconnected\<close>, \<open>EvReconnecting\<close> and, if the
  connection comes back, \<open>EvReconnected\<close>), and \<open>EvClosed\<close> at most once and last.
\<close>

datatype conn_event = EvConnected | EvDisconnected | EvReconnecting | EvReconnected | EvClosed

datatype phase = PStart | PUp | PCut | PDown | POver

fun observe :: "phase \<Rightarrow> conn_event \<Rightarrow> phase option" where
  "observe PStart EvConnected = Some PUp"
| "observe PUp EvDisconnected = Some PCut"
| "observe PCut EvReconnecting = Some PDown"
| "observe PDown EvReconnected = Some PUp"
| "observe p EvClosed = (if p \<in> {PStart, PUp, PDown} then Some POver else None)"
| "observe _ _ = None"

fun observe_all :: "phase \<Rightarrow> conn_event list \<Rightarrow> phase option" where
  "observe_all p [] = Some p"
| "observe_all p (e # es) = (case observe p e of None \<Rightarrow> None | Some q \<Rightarrow> observe_all q es)"

definition logger :: "conn_event \<Rightarrow> conn_event list callback" where
  "logger e = State (\<lambda>l. (None, l @ [e]))"

definition logged_machine :: "conn_event list StateMachine" where
  "logged_machine =
     SetOnClosed (Some (logger EvClosed)) (SetOnReconnected (Some (logger EvReconnected))
       (SetOnReconnecting (Some (logger EvReconnecting)) (SetOnDisconnected (Some (logger EvDisconnected))
         (SetOnConnected (Some (logger EvConnected)) (StateMachine_new kIdle)))))"

fun phase_rel :: "phase \<Rightarrow> ConnectionState \<Rightarrow> bool \<Rightarrow> bool" where
  "phase_rel PStart s r = (s \<in> {kIdle, kConnecting} \<and> \<not> r)"
| "phase_rel PUp s r = (s = kReady \<and> \<not> r)"
| "phase_rel PCut s r = False"
| "phase_rel PDown s r = (s \<in> {kReconnecting, kConnecting} \<and> r)"
| "phase_rel POver s r = (s = kClosed)"

definition has_loggers :: "conn_event list StateMachine \<Rightarrow> bool" where
  "has_loggers sm =
     (on_connected sm = Some (logger EvConnected) \<and> on_disconnected sm = Some (logger EvDisconnected)
      \<and> on_reconnecting sm = Some (logger EvReconnecting) \<and> on_reconnected sm = Some (logger EvReconnected)
      \<and> on_closed sm = Some (logger EvClosed))"

lemma observe_all_append:
  "observe_all p (xs @ ys) = (case observe_all p xs of None \<Rightarrow> None | Some q \<Rightarrow> observe_all q ys)"
  by (induction xs arbitrary: p) (auto split: option.splits)

lemma run_logger [simp]: "run_state (logger e) l = (None, l @ [e])"
  by (simp add: logger_def)

lemma Transition_observed:
  assumes "has_loggers sm" "observe_all PStart l = Some p" "phase_rel p (sm_state sm) (sm_reconnecting sm)"
    "run_state (Transition to sm) l = (r, l')"
  shows "has_loggers (snd r) \<and> (\<exists>q. observe_all PStart l' = Some q
      \<and> phase_rel q (sm_state (snd r)) (sm_reconnecting (snd r)))"
  using assms
  by (cases p; cases to)
    (auto simp: Transition_def transition_step_def has_loggers_def both_callbacks_def Let_def
      observe_all_append case_prod_unfold split: option.splits if_splits)

lemma run_transitions_observed:
  assumes "has_loggers sm" "observe_all PStart l = Some p" "phase_rel p (sm_state sm) (sm_reconnecting sm)"
  shows "\<exists>q. observe_all PStart (world_of (run_transitions ts sm) l) = Some q
      \<and> phase_rel q (sm_state (result_of (run_transitions ts sm) l))
          (sm_reconnecting (result_of (run_transitions ts sm) l))"
  using assms
proof (induction ts arbitrary: sm l p)
  case (Cons to ts)
  obtain r l' where r: "run_state (Transition to sm) l = (r, l')" by (cases "run_state (Transition to sm) l")
  from Transition_observed [OF Cons.prems r] obtain q where
    "has_loggers (snd r)" "observe_all PStart l' = Some q"
    "phase_rel q (sm_state (snd r)) (sm_reconnecting (snd r))" by blast
  from Cons.IH [OF this] r show ?case by simp
qed auto


lemma WaitForStateFor_iff: "WaitForStateFor target seen = (target \<in> set seen)"
  by (induction seen) auto

end
