(* ===== verification/Ring_Buffer.thy ===== *)
theory Ring_Buffer
  imports Prelude
begin

text \<open>
  The ring buffer that holds outgoing messages during a reconnection
  (src/internal/transport/message_buffer.h and message_buffer.cc). Every operation runs under
  the buffer's mutex, so each is one atomic step. The indices are natural numbers: the code keeps
  them in \<open>[0, capacity)\<close>. The sender passed to \<^verbatim>\<open>Drain\<close> is an action on the world; it does not throw.
\<close>

record MessageBuffer =
  mb_buffer :: "string list"
  mb_head :: nat
  mb_tail :: nat
  mb_count :: nat
  mb_capacity :: nat

definition MessageBuffer_new :: "int \<Rightarrow> MessageBuffer" where
  "MessageBuffer_new capacity =
     (let cap = nat (if 0 < capacity then capacity else 1)
      in \<lparr>mb_buffer = replicate cap [], mb_head = 0, mb_tail = 0, mb_count = 0, mb_capacity = cap\<rparr>)"

definition Push :: "string \<Rightarrow> MessageBuffer \<Rightarrow> nat \<times> MessageBuffer" where
  "Push msg b =
     (let (evicted, b1) =
            (if mb_count b = mb_capacity b
             then (1, b\<lparr>mb_head := (mb_head b + 1) mod mb_capacity b\<rparr>)
             else (0, b\<lparr>mb_count := mb_count b + 1\<rparr>));
          b2 = b1\<lparr>mb_buffer := (mb_buffer b1)[mb_tail b1 := msg]\<rparr>;
          b3 = b2\<lparr>mb_tail := (mb_tail b2 + 1) mod mb_capacity b2\<rparr>
      in (evicted, b3))"

definition drain_one :: "MessageBuffer \<Rightarrow> MessageBuffer" where
  "drain_one b =
     b\<lparr>mb_buffer := (mb_buffer b)[mb_head b := []],
       mb_head := (mb_head b + 1) mod mb_capacity b,
       mb_count := mb_count b - 1\<rparr>"

function Drain_loop :: "(string \<Rightarrow> ('w, bool) state) \<Rightarrow> nat \<Rightarrow> MessageBuffer
    \<Rightarrow> ('w, nat \<times> MessageBuffer) state" where
  "Drain_loop sender drained b =
     (if 0 < mb_count b then do {
        cont \<leftarrow> sender (mb_buffer b ! mb_head b);
        (if \<not> cont then ret (drained + 1, drain_one b)
         else Drain_loop sender (drained + 1) (drain_one b))
      }
      else ret (drained, b))"
  by pat_completeness auto
termination
  by (relation "measure (\<lambda>(sender, drained, b). mb_count b)") (auto simp: drain_one_def)

declare Drain_loop.simps [simp del]

definition Drain :: "(string \<Rightarrow> ('w, bool) state) \<Rightarrow> MessageBuffer \<Rightarrow> ('w, nat \<times> MessageBuffer) state" where
  "Drain sender b = Drain_loop sender 0 b"

fun clear_slots :: "nat \<Rightarrow> nat \<Rightarrow> nat \<Rightarrow> string list \<Rightarrow> string list" where
  "clear_slots 0 head cap buf = buf"
| "clear_slots (Suc i) head cap buf = (clear_slots i head cap buf)[(head + i) mod cap := []]"

definition Discard :: "MessageBuffer \<Rightarrow> nat \<times> MessageBuffer" where
  "Discard b =
     (mb_count b,
      b\<lparr>mb_buffer := clear_slots (mb_count b) (mb_head b) (mb_capacity b) (mb_buffer b),
        mb_head := 0, mb_tail := 0, mb_count := 0\<rparr>)"

definition Size :: "MessageBuffer \<Rightarrow> nat" where
  "Size b = mb_count b"

definition Capacity :: "MessageBuffer \<Rightarrow> nat" where
  "Capacity b = mb_capacity b"

definition Empty :: "MessageBuffer \<Rightarrow> bool" where
  "Empty b = (mb_count b = 0)"

section \<open>The interface: a bounded queue that evicts its oldest entry\<close>

locale bounded_queue =
  fixes invar :: "'q \<Rightarrow> bool"
    and content :: "'q \<Rightarrow> 'a list"
    and cap :: "'q \<Rightarrow> nat"
    and put :: "'a \<Rightarrow> 'q \<Rightarrow> 'q"
    and front :: "'q \<Rightarrow> 'a"
    and pop :: "'q \<Rightarrow> 'q"
  assumes cap_pos: "invar q \<Longrightarrow> 0 < cap q"
    and content_bound: "invar q \<Longrightarrow> length (content q) \<le> cap q"
    and content_put: "invar q \<Longrightarrow> content (put x q) =
      (if length (content q) = cap q then tl (content q) @ [x] else content q @ [x])"
    and invar_put: "invar q \<Longrightarrow> invar (put x q)"
    and cap_put: "cap (put x q) = cap q"
    and front_hd: "invar q \<Longrightarrow> content q \<noteq> [] \<Longrightarrow> front q = hd (content q)"
    and content_pop: "invar q \<Longrightarrow> content q \<noteq> [] \<Longrightarrow> content (pop q) = tl (content q)"
    and invar_pop: "invar q \<Longrightarrow> content q \<noteq> [] \<Longrightarrow> invar (pop q)"
begin

fun puts :: "'a list \<Rightarrow> 'q \<Rightarrow> 'q" where
  "puts [] q = q"
| "puts (x # xs) q = puts xs (put x q)"

lemma puts_spec: "invar q \<Longrightarrow> invar (puts xs q) \<and> cap (puts xs q) = cap q
    \<and> content (puts xs q) = drop (length (content q) + length xs - cap q) (content q @ xs)"
proof (induction xs arbitrary: q)
  case (Cons x xs)
  note ih = Cons.IH [OF invar_put [OF Cons.prems, of x]]
  show ?case
  proof (cases "length (content q) = cap q")
    case True
    then obtain y ys where y: "content q = y # ys"
      using cap_pos [OF Cons.prems] by (cases "content q") auto
    with True ih content_put [OF Cons.prems] show ?thesis by (simp add: cap_put flip: True)
  next
    case False
    then have "length (content q) < cap q" using content_bound [OF Cons.prems] by simp
    with False ih content_put [OF Cons.prems] show ?thesis by (simp add: cap_put)
  qed
qed (simp add: content_bound)

lemma puts_keeps_newest: "invar q \<Longrightarrow> content q = [] \<Longrightarrow> content (puts xs q) = drop (length xs - cap q) xs"
  using puts_spec [of q xs] by simp

end

section \<open>The ring buffer implements the interface\<close>

definition mb_wf :: "MessageBuffer \<Rightarrow> bool" where
  "mb_wf b = (0 < mb_capacity b \<and> length (mb_buffer b) = mb_capacity b \<and> mb_head b < mb_capacity b
     \<and> mb_count b \<le> mb_capacity b \<and> mb_tail b = (mb_head b + mb_count b) mod mb_capacity b)"

definition contents :: "MessageBuffer \<Rightarrow> string list" where
  "contents b = map (\<lambda>i. mb_buffer b ! ((mb_head b + i) mod mb_capacity b)) [0..<mb_count b]"

lemma length_contents [simp]: "length (contents b) = mb_count b"
  by (simp add: contents_def)

lemma contents_eq_Nil: "contents b = [] \<longleftrightarrow> mb_count b = 0"
  by (simp add: contents_def)

lemma mod_ring_step: "j < n \<Longrightarrow> h < n \<Longrightarrow> (h + j) mod n = (if h + j < n then h + j else h + j - (n::nat))"
  by (auto simp: mod_if)

lemma mod_ring_inj:
  fixes h :: nat
  assumes "h < n" "i < n" "j < n" "(h + i) mod n = (h + j) mod n"
  shows "i = j"
  using assms by (simp add: mod_ring_step split: if_splits)

lemma mod_ring_neq: "h < n \<Longrightarrow> Suc i < n \<Longrightarrow> (h + Suc i) mod n \<noteq> h"
  using mod_ring_inj [of h n "Suc i" 0] by auto

lemma mod_ring_shift: "(Suc h mod n + i) mod n = Suc (h + i) mod (n::nat)"
  using mod_add_left_eq [of "Suc h" n i] by simp

lemma contents_Cons:
  assumes "0 < mb_count b"
  shows "contents b = mb_buffer b ! (mb_head b mod mb_capacity b)
    # map (\<lambda>i. mb_buffer b ! ((mb_head b + Suc i) mod mb_capacity b)) [0..<mb_count b - 1]"
proof -
  have "[0..<mb_count b] = 0 # map Suc [0..<mb_count b - 1]"
    using assms by (metis One_nat_def Suc_pred map_Suc_upt upt_conv_Cons)
  then show ?thesis by (simp add: contents_def)
qed

lemma contents_Push:
  assumes "mb_wf b"
  shows "contents (snd (Push x b)) =
    (if length (contents b) = mb_capacity b then tl (contents b) @ [x] else contents b @ [x])"
proof (cases "mb_count b = mb_capacity b")
  case True
  have pos: "0 < mb_count b" and h: "mb_head b < mb_capacity b" using assms True by (auto simp: mb_wf_def)
  have tail: "mb_tail b = mb_head b" using assms True by (simp add: mb_wf_def)
  have other: "(mb_buffer b)[mb_head b := x] ! ((mb_head b + Suc i) mod mb_capacity b)
      = mb_buffer b ! ((mb_head b + Suc i) mod mb_capacity b)" if "i < mb_count b - 1" for i
    using mod_ring_neq [of "mb_head b" "mb_capacity b" i] that h True
    by (intro nth_list_update_neq) (auto simp: less_diff_conv)
  have new: "[0..<mb_capacity b] = [0..<mb_capacity b - 1] @ [mb_capacity b - 1]"
    using pos True by (metis Suc_pred' upt_Suc_append zero_le)
  have "contents (snd (Push x b))
      = map (\<lambda>i. (mb_buffer b)[mb_head b := x] ! (Suc (mb_head b + i) mod mb_capacity b)) [0..<mb_capacity b]"
    using True by (simp add: contents_def Push_def Let_def tail mod_ring_shift)
  also have "\<dots> = map (\<lambda>i. mb_buffer b ! ((mb_head b + Suc i) mod mb_capacity b)) [0..<mb_count b - 1] @ [x]"
    using other True pos h assms unfolding new by (simp add: mb_wf_def)
  finally show ?thesis using True pos by (simp add: contents_Cons [OF pos])
next
  case False
  have lt: "mb_count b < mb_capacity b" using assms False by (simp add: mb_wf_def)
  have other: "(mb_buffer b)[mb_tail b := x] ! ((mb_head b + i) mod mb_capacity b)
      = mb_buffer b ! ((mb_head b + i) mod mb_capacity b)" if "i < mb_count b" for i
    using mod_ring_inj [of "mb_head b" "mb_capacity b" i "mb_count b"] that lt assms
    by (intro nth_list_update_neq) (auto simp: mb_wf_def)
  show ?thesis
    using False other assms by (auto simp: contents_def Push_def Let_def mb_wf_def)
qed

lemma mb_wf_Push: "mb_wf b \<Longrightarrow> mb_wf (snd (Push x b))"
  by (auto simp: mb_wf_def Push_def Let_def mod_ring_shift mod_Suc_eq)

lemma Push_capacity [simp]: "mb_capacity (snd (Push x b)) = mb_capacity b"
  by (simp add: Push_def Let_def)

lemma contents_drain_one:
  assumes "mb_wf b" "contents b \<noteq> []"
  shows "contents (drain_one b) = tl (contents b)"
proof -
  have pos: "0 < mb_count b" using assms(2) by (simp add: contents_eq_Nil)
  have other: "(mb_buffer b)[mb_head b := []] ! ((mb_head b + Suc i) mod mb_capacity b)
      = mb_buffer b ! ((mb_head b + Suc i) mod mb_capacity b)" if "i < mb_count b - 1" for i
    using mod_ring_neq [of "mb_head b" "mb_capacity b" i] that assms(1)
    by (intro nth_list_update_neq) (auto simp: mb_wf_def less_diff_conv)
  show ?thesis
    using other unfolding contents_Cons [OF pos] by (simp add: contents_def drain_one_def mod_ring_shift)
qed

lemma mb_wf_drain_one:
  assumes "mb_wf b" "contents b \<noteq> []"
  shows "mb_wf (drain_one b)"
proof -
  obtain c where "mb_count b = Suc c" using assms(2) by (cases "mb_count b") (auto simp: contents_eq_Nil)
  with assms(1) show ?thesis
    using mod_ring_shift [of "mb_head b" "mb_capacity b" c] by (auto simp: mb_wf_def drain_one_def)
qed

lemma front_contents: "mb_wf b \<Longrightarrow> contents b \<noteq> [] \<Longrightarrow> mb_buffer b ! mb_head b = hd (contents b)"
  by (simp add: contents_Cons contents_eq_Nil mb_wf_def)

interpretation rb: bounded_queue mb_wf contents mb_capacity "\<lambda>x b. snd (Push x b)"
    "\<lambda>b. mb_buffer b ! mb_head b" drain_one
  by unfold_locales
    (simp_all add: contents_Push mb_wf_Push contents_drain_one mb_wf_drain_one front_contents, simp_all add: mb_wf_def)

lemma mb_new_wf: "mb_wf (MessageBuffer_new n)" "contents (MessageBuffer_new n) = []"
  by (auto simp: MessageBuffer_new_def mb_wf_def contents_def Let_def)

section \<open>Pushing\<close>

lemma Push_evicted: "fst (Push x b) = (if mb_count b = mb_capacity b then 1 else 0)"
  by (simp add: Push_def Let_def)

text \<open>\<open>Push\<close> on a well-formed buffer appends the message behind everything already queued;
  only when the buffer is full it drops exactly the oldest message, and it returns how many
  messages it dropped; size, capacity and well-formedness stay consistent.\<close>

theorem Push_evicts_oldest:
  assumes "mb_wf b"
  shows "mb_wf (snd (Push x b))
    \<and> contents (snd (Push x b)) = drop (fst (Push x b)) (contents b) @ [x]
    \<and> fst (Push x b) = (if Size b = Capacity b then 1 else 0)
    \<and> Size (snd (Push x b)) = min (Size b + 1) (Capacity b)
    \<and> Capacity (snd (Push x b)) = Capacity b"
proof -
  have "Size (snd (Push x b)) = min (Size b + 1) (Capacity b)"
    using assms by (auto simp: Push_def Let_def Size_def Capacity_def mb_wf_def)
  then show ?thesis
    using rb.invar_put [OF assms, of x] rb.content_put [OF assms, of x]
    by (simp add: Push_evicted Size_def Capacity_def drop_Suc)
qed

theorem Push_evicts_oldest_witness:
  "mb_wf (MessageBuffer_new 2)
   \<and> contents (snd (Push ''c'' (snd (Push ''b'' (snd (Push ''a'' (MessageBuffer_new 2))))))) = [''b'', ''c'']"
proof -
  have new: "mb_wf (MessageBuffer_new 2)" by (rule mb_new_wf)
  have a: "mb_wf (snd (Push ''a'' (MessageBuffer_new 2)))" by (rule mb_wf_Push [OF new])
  have b: "mb_wf (snd (Push ''b'' (snd (Push ''a'' (MessageBuffer_new 2)))))" by (rule mb_wf_Push [OF a])
  show ?thesis
    using new Push_evicts_oldest [OF b, of "''c''"]
    by (simp add: Push_def Let_def MessageBuffer_new_def contents_def eval_nat_numeral)
qed

lemma fold_Push_puts: "fold (\<lambda>x b. snd (Push x b)) xs b = rb.puts xs b"
  by (induction xs arbitrary: b) simp_all

text \<open>C20. However many messages are pushed into a new buffer, it holds exactly the newest ones that
  fit, in the order they were pushed.\<close>

theorem buffer_keeps_newest:
  "contents (fold (\<lambda>x b. snd (Push x b)) xs (MessageBuffer_new n)) = drop (length xs - nat (max 1 n)) xs"
proof -
  have "mb_capacity (MessageBuffer_new n) = nat (max 1 n)" by (simp add: MessageBuffer_new_def Let_def max_def)
  then show ?thesis
    using rb.puts_keeps_newest [OF mb_new_wf(1) mb_new_wf(2)] by (simp add: fold_Push_puts)
qed

section \<open>Draining\<close>

text \<open>
  The specification of a drain on the plain list of queued messages: hand over the messages in
  order until the sender refuses one (which counts as handed over) or none is left.
\<close>

fun hand_over :: "('a \<Rightarrow> ('w, bool) state) \<Rightarrow> 'a list \<Rightarrow> ('w, nat \<times> 'a list) state" where
  "hand_over sender [] = ret (0, [])"
| "hand_over sender (x # xs) = do {
     cont \<leftarrow> sender x;
     (if \<not> cont then ret (1, xs)
      else do { r \<leftarrow> hand_over sender xs; ret (Suc (fst r), snd r) })
   }"

lemma Drain_loop_hand_over:
  assumes "mb_wf b"
  shows "let ((n, b'), w') = run_state (Drain_loop sender d b) w
    in mb_wf b' \<and> mb_capacity b' = mb_capacity b
       \<and> run_state (hand_over sender (contents b)) w = ((n - d, contents b'), w') \<and> d \<le> n"
  using assms
proof (induction "mb_count b" arbitrary: b d w)
  case 0
  then have "contents b = []" by (simp add: contents_eq_Nil)
  with 0 show ?case by (simp add: Drain_loop.simps [of _ _ b])
next
  case (Suc k)
  then have ne: "contents b \<noteq> []" by (auto simp: contents_eq_Nil)
  then obtain x xs where c: "contents b = x # xs" by (cases "contents b") auto
  have x: "mb_buffer b ! mb_head b = x" using rb.front_hd [OF Suc.prems ne] c by simp
  have xs: "contents (drain_one b) = xs" using rb.content_pop [OF Suc.prems ne] c by simp
  have wf: "mb_wf (drain_one b)" by (rule rb.invar_pop [OF Suc.prems ne])
  have k: "k = mb_count (drain_one b)" using Suc.hyps(2) by (simp add: drain_one_def flip: Suc.hyps(2))
  have cap: "mb_capacity (drain_one b) = mb_capacity b" by (simp add: drain_one_def)
  obtain cont w1 where s: "run_state (sender x) w = (cont, w1)" by (cases "run_state (sender x) w")
  show ?case
    using Suc.hyps(1) [OF k wf, of "Suc d" w1] Suc.hyps(2) wf xs cap s
    by (simp add: Drain_loop.simps [of _ _ b] x c case_prod_unfold Let_def Suc_diff_le split: if_splits)
       (metis Suc_diff_le Suc_diff_Suc Suc_le_eq Suc_leD)
qed

text \<open>C4. \<open>Drain\<close> implements the specification for every sender: it offers the queued messages in
  FIFO order, stops behind the first one the sender refuses, returns how many were handed over,
  keeps the rest queued in order, and leaves a well-formed buffer; with a sender that never
  refuses it empties the buffer.\<close>

theorem Drain_refines_hand_over:
  assumes "mb_wf b"
  shows "let ((n, b'), w') = run_state (Drain sender b) w
    in mb_wf b' \<and> run_state (hand_over sender (contents b)) w = ((n, contents b'), w')
       \<and> contents b' = drop n (contents b)
       \<and> ((\<forall>x w. result_of (sender x) w) \<longrightarrow> Empty b' \<and> n = Size b)"
proof -
  have drop: "run_state (hand_over sender xs) w = ((n, ys), w') \<Longrightarrow> ys = drop n xs" for xs w n ys w'
  proof (induction xs arbitrary: w n ys w')
    case (Cons x xs)
    have "snd (result_of (hand_over sender xs) v) = drop (fst (result_of (hand_over sender xs) v)) xs" for v
      by (rule Cons.IH [of v]) (auto intro: run_state_eqI)
    with Cons.prems show ?case by (auto simp: case_prod_unfold split: if_splits)
  qed simp
  have all: "\<forall>x w. result_of (sender x) w \<Longrightarrow> result_of (hand_over sender xs) w = (length xs, [])" for xs w
    by (induction xs arbitrary: w) (simp_all add: case_prod_unfold)
  show ?thesis
    using Drain_loop_hand_over [OF assms, of sender 0 w] drop [of "contents b" w] all [of "contents b" w]
    by (auto simp: Drain_def case_prod_unfold Let_def Empty_def Size_def contents_eq_Nil)
qed

definition log_sender :: "nat \<Rightarrow> string \<Rightarrow> (string list, bool) state" where
  "log_sender room msg = State (\<lambda>l. (length l + 1 < room, l @ [msg]))"

theorem Drain_refines_hand_over_witness:
  "mb_wf (snd (Push ''b'' (snd (Push ''a'' (MessageBuffer_new 2)))))
   \<and> contents (snd (result_of (Drain (log_sender 1) (snd (Push ''b'' (snd (Push ''a'' (MessageBuffer_new 2)))))) []))
     = [''b'']"
proof -
  have wf: "mb_wf (snd (Push ''b'' (snd (Push ''a'' (MessageBuffer_new 2)))))"
    by (intro mb_wf_Push mb_new_wf)
  have c: "contents (snd (Push ''b'' (snd (Push ''a'' (MessageBuffer_new 2))))) = [''a'', ''b'']"
    by (simp add: contents_Push mb_wf_Push mb_new_wf, simp add: MessageBuffer_new_def Let_def)
  have r: "run_state (hand_over (log_sender 1) [''a'', ''b'']) [] = ((1, [''b'']), [''a''])"
    by (simp add: log_sender_def)
  have "contents (snd (result_of (Drain (log_sender 1) B) [])) = [''b'']"
    if "mb_wf B" "contents B = [''a'', ''b'']" for B
    using Drain_refines_hand_over [OF that(1), of "log_sender 1" "[]"] that(2) r
    by (simp add: case_prod_unfold Let_def)
  from wf this [OF wf c] show ?thesis by (rule conjI)
qed

section \<open>Discarding\<close>

lemma clear_slots_length [simp]: "length (clear_slots n h c buf) = length buf"
  by (induction n) simp_all

lemma clear_slots_clears: "k < n \<Longrightarrow> (h + k) mod c < length buf \<Longrightarrow> clear_slots n h c buf ! ((h + k) mod c) = []"
proof (induction n)
  case (Suc n)
  then show ?case by (cases "(h + n) mod c = (h + k) mod c") (auto simp: less_Suc_eq)
qed simp

text \<open>\<open>Discard\<close> reports the number of queued messages and leaves an empty well-formed buffer of
  the same capacity, and no payload that was queued stays in the storage.\<close>

theorem Discard_clears:
  assumes "mb_wf b"
  shows "fst (Discard b) = Size b \<and> mb_wf (snd (Discard b)) \<and> Empty (snd (Discard b))
    \<and> Capacity (snd (Discard b)) = Capacity b
    \<and> (\<forall>i < Size b. mb_buffer (snd (Discard b)) ! ((mb_head b + i) mod Capacity b) = [])"
  using assms clear_slots_clears [of _ "mb_count b" "mb_head b" "mb_capacity b" "mb_buffer b"]
  by (auto simp: Discard_def mb_wf_def Size_def Empty_def Capacity_def)

theorem Discard_clears_witness:
  "mb_wf (snd (Push ''a'' (MessageBuffer_new 2)))
   \<and> fst (Discard (snd (Push ''a'' (MessageBuffer_new 2)))) = 1
   \<and> Empty (snd (Discard (snd (Push ''a'' (MessageBuffer_new 2)))))"
proof -
  have wf: "mb_wf (snd (Push ''a'' (MessageBuffer_new 2)))" by (intro mb_wf_Push mb_new_wf)
  have "Size (snd (Push ''a'' (MessageBuffer_new 2))) = 1"
    by (simp add: Push_def Let_def MessageBuffer_new_def Size_def)
  with wf Discard_clears [OF wf] show ?thesis by simp
qed

end
