(* ===== verification/Reconnect_Driver.thy ===== *)
theory Reconnect_Driver
  imports Backoff_Policy Error_Status
begin

text \<open>
  The reconnection driver ReconnectLoop (src/internal/transport/reconnect.h and reconnect.cc): a
  background thread that calls a connect function until it succeeds, the attempts are used up or the
  loop is stopped.

  \<open>ReconnectLoop\<close> holds the members, the state of the \<^verbatim>\<open>std::thread\<close> and the position of the thread in
  \<^verbatim>\<open>Run\<close>; \<open>run_step\<close> is one step of the thread and \<open>loop_step\<close> interleaves it with \<^verbatim>\<open>Start\<close> and
  \<^verbatim>\<open>Stop\<close> of other threads. \<open>rn_calls\<close> counts the calls of the connect function since the last start.
\<close>

datatype thread_state = No_thread | Alive | Finished

datatype run_pc = Run_test | Run_connect | Run_backoff | Run_end | Run_over

record 'w ReconnectLoop =
  rn_policy :: ReconnectPolicy
  rn_running :: bool
  rn_stop_requested :: bool
  rn_thread :: thread_state
  rn_pc :: run_pc
  rn_attempt :: nat
  rn_calls :: nat
  rn_world :: 'w

definition ReconnectLoop_new :: "ReconnectPolicy \<Rightarrow> 'w \<Rightarrow> 'w ReconnectLoop" where
  "ReconnectLoop_new policy w = \<lparr>rn_policy = policy, rn_running = False, rn_stop_requested = False,
     rn_thread = No_thread, rn_pc = Run_over, rn_attempt = 0, rn_calls = 0, rn_world = w\<rparr>"

text \<open>\<^verbatim>\<open>Start\<close> runs under the lock; joining a leftover thread waits for its end, which is near: the
  thread clears \<^verbatim>\<open>running_\<close> as its last action.\<close>

definition Loop_Start :: "'w ReconnectLoop \<Rightarrow> 'w ReconnectLoop" where
  "Loop_Start l =
     (if rn_running l then l
      else l\<lparr>rn_stop_requested := False, rn_running := True, rn_thread := Alive, rn_pc := Run_test,
             rn_attempt := 0, rn_calls := 0\<rparr>)"

text \<open>The critical section of \<^verbatim>\<open>Stop\<close>: it tells whether the caller goes on to join the thread.\<close>

definition Stop_section :: "'w ReconnectLoop \<Rightarrow> bool \<times> 'w ReconnectLoop" where
  "Stop_section l = (if \<not> rn_running l then (False, l) else (True, l\<lparr>rn_stop_requested := True\<rparr>))"

definition IsRunning :: "'w ReconnectLoop \<Rightarrow> bool" where
  "IsRunning l = rn_running l"

fun run_step :: "'w uniform \<Rightarrow> ('w, Status) state \<Rightarrow> (millis \<Rightarrow> ('w, unit) state) \<Rightarrow> 'w ReconnectLoop
    \<Rightarrow> 'w ReconnectLoop" where
  "run_step uni connect_fn wait_for l =
     (case rn_pc l of
        Run_test \<Rightarrow>
          (if rn_stop_requested l then l\<lparr>rn_pc := Run_end\<rparr>
           else if 0 < rp_max_attempts (rn_policy l) \<and> rp_max_attempts (rn_policy l) \<le> int (rn_attempt l)
           then l\<lparr>rn_pc := Run_end\<rparr>
           else l\<lparr>rn_pc := Run_connect\<rparr>)
      | Run_connect \<Rightarrow>
          (case run_state connect_fn (rn_world l) of
             (status, w) \<Rightarrow> l\<lparr>rn_pc := (if ok status then Run_end else Run_backoff), rn_calls := Suc (rn_calls l), rn_world := w\<rparr>)
      | Run_backoff \<Rightarrow>
          (case run_state (ReconnectLoop_CalculateBackoff uni (rn_policy l) (rn_attempt l)) (rn_world l) of
             (backoff, w) \<Rightarrow> l\<lparr>rn_pc := Run_test, rn_attempt := Suc (rn_attempt l), rn_world := world_of (wait_for backoff) w\<rparr>)
      | Run_end \<Rightarrow> l\<lparr>rn_pc := Run_over, rn_running := False, rn_thread := Finished\<rparr>
      | Run_over \<Rightarrow> l)"

declare run_step.simps [simp del]

inductive loop_step :: "'w uniform \<Rightarrow> ('w, Status) state \<Rightarrow> (millis \<Rightarrow> ('w, unit) state)
    \<Rightarrow> 'w ReconnectLoop \<Rightarrow> 'w ReconnectLoop \<Rightarrow> bool"
  for uni connect_fn wait_for where
  start: "loop_step uni connect_fn wait_for l (Loop_Start l)"
| stop: "Stop_section l = (b, l') \<Longrightarrow> loop_step uni connect_fn wait_for l l'"
| join: "rn_thread l = Finished \<Longrightarrow> rn_stop_requested l \<Longrightarrow> loop_step uni connect_fn wait_for l (l\<lparr>rn_thread := No_thread\<rparr>)"
| thread: "loop_step uni connect_fn wait_for l (run_step uni connect_fn wait_for l)"
| world: "loop_step uni connect_fn wait_for l (l\<lparr>rn_world := w\<rparr>)"

inductive_cases loop_stepE: "loop_step uni connect_fn wait_for l l'"

section \<open>Bounded attempts\<close>

definition loop_inv :: "'w ReconnectLoop \<Rightarrow> bool" where
  "loop_inv l \<longleftrightarrow>
     (rn_pc l = Run_test \<or> rn_pc l = Run_connect \<longrightarrow> rn_calls l = rn_attempt l)
     \<and> (rn_pc l = Run_backoff \<longrightarrow> rn_calls l = Suc (rn_attempt l))
     \<and> (0 < rp_max_attempts (rn_policy l) \<longrightarrow> int (rn_calls l) \<le> rp_max_attempts (rn_policy l)
         \<and> (rn_pc l = Run_connect \<longrightarrow> int (rn_attempt l) < rp_max_attempts (rn_policy l)))
     \<and> (rn_running l \<longleftrightarrow> rn_pc l \<noteq> Run_over) \<and> (rn_pc l = Run_over \<longrightarrow> rn_thread l \<noteq> Alive)
     \<and> (rn_running l \<longrightarrow> rn_thread l = Alive)"

lemma loop_inv_step:
  assumes "loop_step uni connect_fn wait_for l l'" "loop_inv l"
  shows "loop_inv l' \<and> rn_policy l' = rn_policy l"
  using assms
proof (cases rule: loop_step.cases)
  case start
  then show ?thesis using assms(2) by (auto simp: Loop_Start_def loop_inv_def)
next
  case (stop b)
  then show ?thesis using assms(2) by (auto simp: Stop_section_def loop_inv_def split: if_splits)
next
  case thread
  then show ?thesis using assms(2)
    by (cases "rn_pc l") (auto simp: run_step.simps loop_inv_def case_prod_unfold)
qed (use assms(2) in \<open>auto simp: loop_inv_def\<close>)

lemma loop_inv_reachable:
  "(loop_step uni connect_fn wait_for)\<^sup>*\<^sup>* (ReconnectLoop_new p w) l \<Longrightarrow> loop_inv l \<and> rn_policy l = p"
proof (induction rule: rtranclp_induct)
  case base
  then show ?case by (simp add: loop_inv_def ReconnectLoop_new_def)
next
  case (step y z)
  then show ?case using loop_inv_step by metis
qed

text \<open>C33. With a positive \<^verbatim>\<open>max_attempts\<close> the driver calls the connect function at most that often per
  start, in every interleaving with \<^verbatim>\<open>Start\<close> and \<^verbatim>\<open>Stop\<close>; and it reports itself as running exactly
  while its thread is at work.\<close>

theorem reconnect_attempts_bounded:
  assumes "(loop_step uni connect_fn wait_for)\<^sup>*\<^sup>* (ReconnectLoop_new p w) l" "0 < rp_max_attempts p"
  shows "int (rn_calls l) \<le> rp_max_attempts p \<and> (IsRunning l \<longleftrightarrow> rn_thread l = Alive)"
  using loop_inv_reachable [OF assms(1)] assms(2) by (auto simp: loop_inv_def IsRunning_def)

section \<open>Stopping and destroying\<close>

text \<open>The destructor calls \<^verbatim>\<open>Stop\<close>; then the members are destroyed, and destroying a \<^verbatim>\<open>std::thread\<close>
  that is still joinable calls \<^verbatim>\<open>std::terminate\<close>.\<close>

definition loop_destructor_terminates :: "'w ReconnectLoop \<Rightarrow> bool" where
  "loop_destructor_terminates l = (\<not> fst (Stop_section l) \<and> rn_thread l \<noteq> No_thread)"

text \<open>A driver that has done its work kills the process: when the connect function succeeds at
  once, the thread ends and clears \<^verbatim>\<open>running_\<close>, so \<^verbatim>\<open>Stop\<close> returns without joining it and the
  destructor calls \<^verbatim>\<open>std::terminate\<close>; while the thread is running, stopping does join it.\<close>

theorem finished_driver_destructor_terminates:
  assumes "ok (result_of connect_fn w)" "rp_max_attempts p \<ge> 0"
  shows "loop_destructor_terminates ((run_step uni connect_fn wait_for ^^ 3) (Loop_Start (ReconnectLoop_new p w)))
    \<and> \<not> loop_destructor_terminates (Loop_Start (ReconnectLoop_new p w))
    \<and> \<not> loop_destructor_terminates (ReconnectLoop_new p w)"
  using assms
  by (auto simp: numeral_eq_Suc run_step.simps Loop_Start_def ReconnectLoop_new_def case_prod_unfold
      loop_destructor_terminates_def Stop_section_def)

text \<open>Once a stop is requested, the thread ends within four of its own steps (a pending connect and a
  pending wait included), so the join in \<^verbatim>\<open>Stop\<close> returns.\<close>

fun steps_left :: "run_pc \<Rightarrow> nat" where
  "steps_left Run_connect = 4"
| "steps_left Run_backoff = 3"
| "steps_left Run_test = 2"
| "steps_left Run_end = 1"
| "steps_left Run_over = 0"

lemma run_step_stopping:
  assumes "rn_stop_requested l"
  shows "rn_stop_requested (run_step uni connect_fn wait_for l)
    \<and> steps_left (rn_pc (run_step uni connect_fn wait_for l)) \<le> steps_left (rn_pc l) - 1"
  using assms by (cases "rn_pc l") (auto simp: run_step.simps case_prod_unfold)

lemma run_steps_stopping:
  assumes "rn_stop_requested l"
  shows "rn_stop_requested ((run_step uni connect_fn wait_for ^^ n) l)
    \<and> steps_left (rn_pc ((run_step uni connect_fn wait_for ^^ n) l)) \<le> steps_left (rn_pc l) - n"
proof (induction n)
  case (Suc n)
  then show ?case
    using run_step_stopping [of "(run_step uni connect_fn wait_for ^^ n) l" uni connect_fn wait_for] by auto
qed (use assms in simp)

theorem stopped_driver_ends:
  assumes "rn_stop_requested l"
  shows "rn_pc ((run_step uni connect_fn wait_for ^^ 4) l) = Run_over"
proof -
  have m: "steps_left pc \<le> 4" for pc by (cases pc) simp_all
  have z: "steps_left pc = 0 \<Longrightarrow> pc = Run_over" for pc by (cases pc) simp_all
  show ?thesis
    using run_steps_stopping [OF assms, where n = 4 and uni = uni and connect_fn = connect_fn and wait_for = wait_for] m [of "rn_pc l"] z by auto
qed

section \<open>Concrete instances\<close>

definition failing_connect :: "(int, Status) state" where
  "failing_connect = State (\<lambda>n. (Status2 kTransient ''refused'', n + 1))"

definition two_attempts :: ReconnectPolicy where
  "two_attempts = ReconnectPolicy_default\<lparr>rp_max_attempts := 2\<rparr>"

theorem reconnect_attempts_bounded_witness:
  "int (rn_calls ((run_step counter_uniform failing_connect (\<lambda>_. ret ()) ^^ 20) (Loop_Start (ReconnectLoop_new two_attempts 0)))) \<le> 2"
proof -
  let ?step = "loop_step counter_uniform failing_connect (\<lambda>_. ret ())"
  have r: "?step\<^sup>*\<^sup>* l ((run_step counter_uniform failing_connect (\<lambda>_. ret ()) ^^ n) l)" for n l
    by (induction n) (auto intro: rtranclp.rtrancl_into_rtrancl loop_step.thread)
  have s: "?step\<^sup>*\<^sup>* (ReconnectLoop_new two_attempts 0) (Loop_Start (ReconnectLoop_new two_attempts 0))"
    using loop_step.start by fastforce
  have m: "rp_max_attempts two_attempts = 2" by (simp add: two_attempts_def)
  then have "0 < rp_max_attempts two_attempts" by simp
  from reconnect_attempts_bounded [OF rtranclp_trans [OF s r [of _ 20]] this] m show ?thesis by simp
qed

theorem finished_driver_destructor_terminates_witness:
  "loop_destructor_terminates ((run_step counter_uniform (ret Status_ok) (\<lambda>_. ret ()) ^^ 3)
     (Loop_Start (ReconnectLoop_new ReconnectPolicy_default 0)))"
proof -
  have "ok (result_of (ret Status_ok) (0 :: int))" "rp_max_attempts ReconnectPolicy_default \<ge> 0"
    by (simp_all add: status_simps ReconnectPolicy_default_def)
  from finished_driver_destructor_terminates [OF this] show ?thesis by blast
qed

end
