(* ===== verification/Client_Config.thy ===== *)
theory Client_Config
  imports Error_Status Backoff_Policy Conn_State_Machine
begin

text \<open>
  The client's configuration: \<^verbatim>\<open>TlsConfig\<close> (include/kubemq/tls_config.h, src/tls_config.cc),
  \<^verbatim>\<open>ClientOptions\<close> with its setters and \<^verbatim>\<open>Validate\<close> (include/kubemq/client_options.h,
  src/client_options.cc), the credential files (src/internal/transport/tls.cc), the keepalive
  arguments (keepalive.cc) and the token providers (src/credential_provider.cc).

  The file system is a parameter \<open>fs\<close> that maps a path to its content, or to \<open>None\<close> if the file
  cannot be opened. A credential provider is its \<^verbatim>\<open>GetToken\<close> action. Loggers and telemetry
  providers, which no modelled code calls, are opaque references.
\<close>

section \<open>Credential providers\<close>

type_synonym 'w credential_provider = "('w, string StatusOr) state"

definition StaticTokenProvider :: "string \<Rightarrow> 'w credential_provider" where
  "StaticTokenProvider token = ret (Inr token)"

section \<open>TLS configuration\<close>

record TlsConfig =
  tls_ca_cert_file :: string
  tls_cert_file :: string
  tls_key_file :: string
  tls_ca_pem :: string
  tls_cert_pem :: string
  tls_key_pem :: string
  tls_server_name_override :: string
  tls_insecure_skip_verify :: bool
  tls_enabled :: bool
  tls_mtls :: bool

definition TlsConfig_default :: TlsConfig where
  "TlsConfig_default =
     \<lparr>tls_ca_cert_file = [], tls_cert_file = [], tls_key_file = [], tls_ca_pem = [], tls_cert_pem = [],
      tls_key_pem = [], tls_server_name_override = [], tls_insecure_skip_verify = False,
      tls_enabled = False, tls_mtls = False\<rparr>"

definition FromCertFile :: "string \<Rightarrow> TlsConfig" where
  "FromCertFile ca_cert_file = TlsConfig_default\<lparr>tls_ca_cert_file := ca_cert_file, tls_enabled := True\<rparr>"

definition FromPem :: "string \<Rightarrow> TlsConfig" where
  "FromPem ca_pem = TlsConfig_default\<lparr>tls_ca_pem := ca_pem, tls_enabled := True\<rparr>"

definition FromMTLS :: "string \<Rightarrow> string \<Rightarrow> string \<Rightarrow> TlsConfig" where
  "FromMTLS cert_file key_file ca_file =
     TlsConfig_default\<lparr>tls_cert_file := cert_file, tls_key_file := key_file, tls_ca_cert_file := ca_file,
       tls_enabled := True, tls_mtls := True\<rparr>"

definition FromMTLSPem :: "string \<Rightarrow> string \<Rightarrow> string \<Rightarrow> TlsConfig" where
  "FromMTLSPem cert_pem key_pem ca_pem =
     TlsConfig_default\<lparr>tls_cert_pem := cert_pem, tls_key_pem := key_pem, tls_ca_pem := ca_pem,
       tls_enabled := True, tls_mtls := True\<rparr>"

definition set_server_name_override :: "string \<Rightarrow> TlsConfig \<Rightarrow> TlsConfig" where
  "set_server_name_override nm c = c\<lparr>tls_server_name_override := nm\<rparr>"

definition set_insecure_skip_verify :: "bool \<Rightarrow> TlsConfig \<Rightarrow> TlsConfig" where
  "set_insecure_skip_verify skip c = c\<lparr>tls_insecure_skip_verify := skip\<rparr>"

section \<open>Client options\<close>

record 'w ClientOptions =
  co_host :: string
  co_port :: int
  co_client_id :: string
  co_auth_token :: string
  co_credential_provider :: "'w credential_provider option"
  co_tls_config :: TlsConfig
  co_connection_timeout :: millis
  co_reconnect_policy :: ReconnectPolicy
  co_max_receive_message_size :: int
  co_max_send_message_size :: int
  co_wait_for_ready :: bool
  co_check_connection :: bool
  co_keepalive_time :: millis
  co_keepalive_timeout :: millis
  co_permit_keepalive_without_stream :: bool
  co_drain_timeout :: millis
  co_subscription_buffer_size :: int
  co_retry_policy :: RetryPolicy
  co_default_channel :: string
  co_default_cache_ttl :: millis
  co_on_connected :: "'w callback option"
  co_on_disconnected :: "'w callback option"
  co_on_reconnecting :: "'w callback option"
  co_on_reconnected :: "'w callback option"
  co_on_closed :: "'w callback option"
  co_on_buffer_drain :: "(int \<Rightarrow> 'w callback) option"
  co_max_concurrent_callbacks :: int
  co_callback_timeout :: millis
  co_logger :: "nat option"
  co_tracer_provider :: "nat option"
  co_meter_provider :: "nat option"

definition ClientOptions_default :: "'w ClientOptions" where
  "ClientOptions_default =
     \<lparr>co_host = ''localhost'', co_port = 50000, co_client_id = [], co_auth_token = [],
      co_credential_provider = None, co_tls_config = TlsConfig_default,
      co_connection_timeout = 10000, co_reconnect_policy = ReconnectPolicy_default,
      co_max_receive_message_size = (4 * 1024 * 1024),
      co_max_send_message_size = (100 * 1024 * 1024), co_wait_for_ready = True,
      co_check_connection = True, co_keepalive_time = 10000, co_keepalive_timeout = 20000,
      co_permit_keepalive_without_stream = True, co_drain_timeout = 5000,
      co_subscription_buffer_size = 10, co_retry_policy = RetryPolicy_default,
      co_default_channel = [], co_default_cache_ttl = 0, co_on_connected = None,
      co_on_disconnected = None, co_on_reconnecting = None, co_on_reconnected = None,
      co_on_closed = None, co_on_buffer_drain = None, co_max_concurrent_callbacks = 1,
      co_callback_timeout = 30000, co_logger = None, co_tracer_provider = None,
      co_meter_provider = None\<rparr>"

definition set_address_host_port :: "string \<Rightarrow> int \<Rightarrow> 'w ClientOptions \<Rightarrow> 'w ClientOptions" where
  "set_address_host_port host port opts = opts\<lparr>co_host := host, co_port := port\<rparr>"

definition set_address :: "string \<Rightarrow> 'w ClientOptions \<Rightarrow> 'w ClientOptions" where
  "set_address address opts =
     (case rfind CHR '':'' address of
        Some pos \<Rightarrow>
          (if pos < length address - 1 then
             opts\<lparr>co_host := take pos address,
               co_port := (case stoi (drop (pos + 1) address) of Inr p \<Rightarrow> p | Inl _ \<Rightarrow> 0)\<rparr>
           else opts\<lparr>co_host := address, co_port := 0\<rparr>)
      | None \<Rightarrow> opts\<lparr>co_host := address, co_port := 0\<rparr>)"

definition set_client_id :: "string \<Rightarrow> 'w ClientOptions \<Rightarrow> 'w ClientOptions" where
  "set_client_id v opts = opts\<lparr>co_client_id := v\<rparr>"

definition set_auth_token :: "string \<Rightarrow> 'w ClientOptions \<Rightarrow> 'w ClientOptions" where
  "set_auth_token v opts = opts\<lparr>co_auth_token := v\<rparr>"

definition set_credential_provider :: "'w credential_provider option \<Rightarrow> 'w ClientOptions \<Rightarrow> 'w ClientOptions" where
  "set_credential_provider v opts = opts\<lparr>co_credential_provider := v\<rparr>"

definition set_tls_config :: "TlsConfig \<Rightarrow> 'w ClientOptions \<Rightarrow> 'w ClientOptions" where
  "set_tls_config v opts = opts\<lparr>co_tls_config := v\<rparr>"

definition set_connection_timeout :: "millis \<Rightarrow> 'w ClientOptions \<Rightarrow> 'w ClientOptions" where
  "set_connection_timeout v opts = opts\<lparr>co_connection_timeout := v\<rparr>"

definition set_reconnect_policy :: "ReconnectPolicy \<Rightarrow> 'w ClientOptions \<Rightarrow> 'w ClientOptions" where
  "set_reconnect_policy v opts = opts\<lparr>co_reconnect_policy := v\<rparr>"

definition set_max_receive_message_size :: "int \<Rightarrow> 'w ClientOptions \<Rightarrow> 'w ClientOptions" where
  "set_max_receive_message_size v opts = opts\<lparr>co_max_receive_message_size := v\<rparr>"

definition set_max_send_message_size :: "int \<Rightarrow> 'w ClientOptions \<Rightarrow> 'w ClientOptions" where
  "set_max_send_message_size v opts = opts\<lparr>co_max_send_message_size := v\<rparr>"

definition set_wait_for_ready :: "bool \<Rightarrow> 'w ClientOptions \<Rightarrow> 'w ClientOptions" where
  "set_wait_for_ready v opts = opts\<lparr>co_wait_for_ready := v\<rparr>"

definition set_check_connection :: "bool \<Rightarrow> 'w ClientOptions \<Rightarrow> 'w ClientOptions" where
  "set_check_connection v opts = opts\<lparr>co_check_connection := v\<rparr>"

definition set_keepalive_time :: "millis \<Rightarrow> 'w ClientOptions \<Rightarrow> 'w ClientOptions" where
  "set_keepalive_time v opts = opts\<lparr>co_keepalive_time := v\<rparr>"

definition set_keepalive_timeout :: "millis \<Rightarrow> 'w ClientOptions \<Rightarrow> 'w ClientOptions" where
  "set_keepalive_timeout v opts = opts\<lparr>co_keepalive_timeout := v\<rparr>"

definition set_permit_keepalive_without_stream :: "bool \<Rightarrow> 'w ClientOptions \<Rightarrow> 'w ClientOptions" where
  "set_permit_keepalive_without_stream v opts = opts\<lparr>co_permit_keepalive_without_stream := v\<rparr>"

definition set_drain_timeout :: "millis \<Rightarrow> 'w ClientOptions \<Rightarrow> 'w ClientOptions" where
  "set_drain_timeout v opts = opts\<lparr>co_drain_timeout := v\<rparr>"

definition set_subscription_buffer_size :: "int \<Rightarrow> 'w ClientOptions \<Rightarrow> 'w ClientOptions" where
  "set_subscription_buffer_size v opts = opts\<lparr>co_subscription_buffer_size := v\<rparr>"

definition set_retry_policy :: "RetryPolicy \<Rightarrow> 'w ClientOptions \<Rightarrow> 'w ClientOptions" where
  "set_retry_policy v opts = opts\<lparr>co_retry_policy := v\<rparr>"

definition set_default_channel :: "string \<Rightarrow> 'w ClientOptions \<Rightarrow> 'w ClientOptions" where
  "set_default_channel v opts = opts\<lparr>co_default_channel := v\<rparr>"

definition set_default_cache_ttl :: "millis \<Rightarrow> 'w ClientOptions \<Rightarrow> 'w ClientOptions" where
  "set_default_cache_ttl v opts = opts\<lparr>co_default_cache_ttl := v\<rparr>"

definition set_on_connected :: "'w callback option \<Rightarrow> 'w ClientOptions \<Rightarrow> 'w ClientOptions" where
  "set_on_connected v opts = opts\<lparr>co_on_connected := v\<rparr>"

definition set_on_disconnected :: "'w callback option \<Rightarrow> 'w ClientOptions \<Rightarrow> 'w ClientOptions" where
  "set_on_disconnected v opts = opts\<lparr>co_on_disconnected := v\<rparr>"

definition set_on_reconnecting :: "'w callback option \<Rightarrow> 'w ClientOptions \<Rightarrow> 'w ClientOptions" where
  "set_on_reconnecting v opts = opts\<lparr>co_on_reconnecting := v\<rparr>"

definition set_on_reconnected :: "'w callback option \<Rightarrow> 'w ClientOptions \<Rightarrow> 'w ClientOptions" where
  "set_on_reconnected v opts = opts\<lparr>co_on_reconnected := v\<rparr>"

definition set_on_closed :: "'w callback option \<Rightarrow> 'w ClientOptions \<Rightarrow> 'w ClientOptions" where
  "set_on_closed v opts = opts\<lparr>co_on_closed := v\<rparr>"

definition set_on_buffer_drain :: "(int \<Rightarrow> 'w callback) option \<Rightarrow> 'w ClientOptions \<Rightarrow> 'w ClientOptions" where
  "set_on_buffer_drain v opts = opts\<lparr>co_on_buffer_drain := v\<rparr>"

definition set_max_concurrent_callbacks :: "int \<Rightarrow> 'w ClientOptions \<Rightarrow> 'w ClientOptions" where
  "set_max_concurrent_callbacks v opts = opts\<lparr>co_max_concurrent_callbacks := v\<rparr>"

definition set_callback_timeout :: "millis \<Rightarrow> 'w ClientOptions \<Rightarrow> 'w ClientOptions" where
  "set_callback_timeout v opts = opts\<lparr>co_callback_timeout := v\<rparr>"

definition set_logger :: "nat option \<Rightarrow> 'w ClientOptions \<Rightarrow> 'w ClientOptions" where
  "set_logger v opts = opts\<lparr>co_logger := v\<rparr>"

definition set_tracer_provider :: "nat option \<Rightarrow> 'w ClientOptions \<Rightarrow> 'w ClientOptions" where
  "set_tracer_provider v opts = opts\<lparr>co_tracer_provider := v\<rparr>"

definition set_meter_provider :: "nat option \<Rightarrow> 'w ClientOptions \<Rightarrow> 'w ClientOptions" where
  "set_meter_provider v opts = opts\<lparr>co_meter_provider := v\<rparr>"

definition Validate :: "'w ClientOptions \<Rightarrow> Status" where
  "Validate opts =
     (if co_host opts = []
        then Status5 kValidation ''host is required'' ''ClientOptions::Validate'' [] []
      else if co_port opts \<le> 0
        then Status5 kValidation ''port must be > 0'' ''ClientOptions::Validate'' [] []
      else if 65535 < co_port opts
        then Status5 kValidation ''port must be <= 65535'' ''ClientOptions::Validate'' [] []
      else if co_subscription_buffer_size opts \<le> 0
        then Status5 kValidation ''subscription_buffer_size must be > 0'' ''ClientOptions::Validate'' [] []
      else if co_max_receive_message_size opts \<le> 0
        then Status5 kValidation ''max_receive_message_size must be > 0'' ''ClientOptions::Validate'' [] []
      else if co_max_send_message_size opts \<le> 0
        then Status5 kValidation ''max_send_message_size must be > 0'' ''ClientOptions::Validate'' [] []
      else if co_connection_timeout opts \<le> 0
        then Status5 kValidation ''connection_timeout must be > 0'' ''ClientOptions::Validate'' [] []
      else if co_max_concurrent_callbacks opts \<le> 0
        then Status5 kValidation ''max_concurrent_callbacks must be > 0'' ''ClientOptions::Validate'' [] []
      else if ry_max_retries (co_retry_policy opts) < 0 \<or> 10 < ry_max_retries (co_retry_policy opts)
        then Status5 kValidation ''retry_policy max_retries must be 0-10'' ''ClientOptions::Validate'' [] []
      else Status_ok)"

section \<open>Credential files and channel arguments\<close>

record SslCredentialsOptions =
  pem_root_certs :: string
  pem_private_key :: string
  pem_cert_chain :: string

datatype channel_credentials = InsecureChannelCredentials | SslCredentials SslCredentialsOptions

type_synonym filesystem = "string \<Rightarrow> string option"

definition ReadFile :: "filesystem \<Rightarrow> string \<Rightarrow> string StatusOr" where
  "ReadFile fs path =
     (if path = [] then Inl (MakeError kValidation ''TLS file path is empty'' ''ReadFile'' [] [])
      else (case fs path of
         None \<Rightarrow> Inl (MakeError kValidation (''failed to open TLS file: '' @ path) ''ReadFile'' [] [])
       | Some content \<Rightarrow>
           (if content = [] then Inl (MakeError kValidation (''TLS file is empty: '' @ path) ''ReadFile'' [] [])
            else Inr content)))"

text \<open>The choice the code makes three times: the PEM text if there is one, else the file if a path
  is set, else nothing.\<close>

definition pem_or_file :: "filesystem \<Rightarrow> string \<Rightarrow> string \<Rightarrow> string StatusOr" where
  "pem_or_file fs pem path =
     (if pem \<noteq> [] then Inr pem else if path \<noteq> [] then ReadFile fs path else Inr [])"

definition BuildChannelCredentials :: "filesystem \<Rightarrow> TlsConfig \<Rightarrow> channel_credentials StatusOr" where
  "BuildChannelCredentials fs config =
     (if \<not> tls_enabled config then Inr InsecureChannelCredentials
      else if tls_insecure_skip_verify config
        then Inl (MakeError kValidation
          (''insecure_skip_verify is not supported in the C++ SDK. ''
            @ ''Use a custom root CA certificate instead.'') ''TlsConfig::Validate'' [] [])
      else
        let ssl_opts = \<lparr>pem_root_certs = [], pem_private_key = [], pem_cert_chain = []\<rparr>
        in (case pem_or_file fs (tls_ca_pem config) (tls_ca_cert_file config) of
              Inl s \<Rightarrow> Inl s
            | Inr ca \<Rightarrow>
                (if tls_mtls config then
                   (case pem_or_file fs (tls_cert_pem config) (tls_cert_file config) of
                      Inl s \<Rightarrow> Inl s
                    | Inr cert \<Rightarrow>
                        (case pem_or_file fs (tls_key_pem config) (tls_key_file config) of
                           Inl s \<Rightarrow> Inl s
                         | Inr key \<Rightarrow> Inr (SslCredentials (ssl_opts\<lparr>pem_root_certs := ca,
                             pem_cert_chain := cert, pem_private_key := key\<rparr>))))
                 else Inr (SslCredentials (ssl_opts\<lparr>pem_root_certs := ca\<rparr>)))))"

datatype channel_arg = KEEPALIVE_TIME_MS | KEEPALIVE_TIMEOUT_MS | KEEPALIVE_PERMIT_WITHOUT_CALLS

record ChannelArguments =
  ca_ints :: "channel_arg \<rightharpoonup> int"
  ca_max_receive :: "int option"
  ca_max_send :: "int option"
  ca_ssl_target_name :: "string option"

definition ChannelArguments_new :: ChannelArguments where
  "ChannelArguments_new = \<lparr>ca_ints = Map.empty, ca_max_receive = None, ca_max_send = None, ca_ssl_target_name = None\<rparr>"

definition ApplyKeepalive :: "'w ClientOptions \<Rightarrow> ChannelArguments \<Rightarrow> ChannelArguments" where
  "ApplyKeepalive opts args =
     args\<lparr>ca_ints := (ca_ints args)(
       KEEPALIVE_TIME_MS \<mapsto> to_int32 (co_keepalive_time opts),
       KEEPALIVE_TIMEOUT_MS \<mapsto> to_int32 (co_keepalive_timeout opts),
       KEEPALIVE_PERMIT_WITHOUT_CALLS \<mapsto> (if co_permit_keepalive_without_stream opts then 1 else 0))\<rparr>"

section \<open>Addresses\<close>

text \<open>The text \<open>host:port\<close> that the transport dials.\<close>

definition dial_target :: "'w ClientOptions \<Rightarrow> string" where
  "dial_target opts = co_host opts @ '':'' @ to_string (co_port opts)"

lemma to_string_of_nat: "to_string (int n) = nat_to_string n"
  by (simp add: to_string_def)

lemma set_address_text:
  assumes "n \<le> 2147483647"
  shows "set_address (h @ '':'' @ nat_to_string n) opts = opts\<lparr>co_host := h, co_port := int n\<rparr>"
proof -
  have r: "rfind CHR '':'' (h @ CHR '':'' # nat_to_string n) = Some (length h)"
    by (rule rfind_append_last [OF nat_to_string_no_colon])
  have "0 < length (nat_to_string n)" by simp
  then show ?thesis using r stoi_nat_to_string [OF assms] by (simp add: set_address_def)
qed

lemma Validate_ok_iff:
  "ok (Validate opts) \<longleftrightarrow> co_host opts \<noteq> [] \<and> 0 < co_port opts \<and> co_port opts \<le> 65535
     \<and> 0 < co_subscription_buffer_size opts \<and> 0 < co_max_receive_message_size opts
     \<and> 0 < co_max_send_message_size opts \<and> 0 < co_connection_timeout opts
     \<and> 0 < co_max_concurrent_callbacks opts
     \<and> 0 \<le> ry_max_retries (co_retry_policy opts) \<and> ry_max_retries (co_retry_policy opts) \<le> 10"
  by (auto simp: Validate_def not_le not_less)

lemma Validate_error_code: "\<not> ok (Validate opts) \<Longrightarrow> code (Validate opts) = kValidation"
  by (auto simp: Validate_def split: if_splits)

text \<open>For options that pass validation, the address the transport dials and the parser of
  addresses are inverse: giving the dialled text to \<open>set_address\<close> changes nothing, even when the
  host itself contains colons.\<close>

theorem set_address_roundtrip:
  assumes "ok (Validate opts)"
  shows "set_address (dial_target opts) opts = opts
    \<and> set_address (dial_target opts) other = set_address_host_port (co_host opts) (co_port opts) other"
proof -
  obtain n where n: "co_port opts = int n" "n \<le> 65535"
    using assms by (metis Validate_ok_iff nonneg_int_cases less_imp_le of_nat_le_iff of_nat_numeral)
  then have le: "n \<le> 2147483647" by simp
  have t: "dial_target opts = co_host opts @ '':'' @ nat_to_string n"
    using n by (simp add: dial_target_def to_string_of_nat)
  show ?thesis
    using set_address_text [OF le, of "co_host opts" opts] set_address_text [OF le, of "co_host opts" other] n
    by (simp add: t set_address_host_port_def)
qed

theorem set_address_roundtrip_witness:
  "ok (Validate (ClientOptions_default :: unit ClientOptions))
   \<and> set_address (dial_target (ClientOptions_default :: unit ClientOptions)) (ClientOptions_default :: unit ClientOptions)
     = ClientOptions_default"
proof -
  have h: "ok (Validate (ClientOptions_default :: unit ClientOptions))"
    by (simp add: Validate_ok_iff ClientOptions_default_def RetryPolicy_default_def)
  show ?thesis using h set_address_roundtrip [OF h] by blast
qed

text \<open>An address text without a usable port never yields options that pass validation: not when
  it has no colon, not when nothing follows the last colon, and not when what follows does not
  start with a number of the range of \<^verbatim>\<open>int\<close>.\<close>

theorem set_address_rejects_bad_port:
  assumes "CHR '':'' \<notin> set a \<or> (\<exists>h. a = h @ '':'')
    \<or> (\<exists>h p. a = h @ '':'' @ p \<and> CHR '':'' \<notin> set p \<and> (\<exists>e. stoi p = Inl e))"
  shows "code (Validate (set_address a opts)) = kValidation"
proof -
  have "co_port (set_address a opts) = 0"
    using assms
  proof (elim disjE exE conjE)
    assume "CHR '':'' \<notin> set a"
    then have "rfind CHR '':'' a = None" by (simp add: rfind_None)
    then show ?thesis by (simp add: set_address_def)
  next
    fix h assume "a = h @ '':''"
    then show ?thesis using rfind_append_last [of "CHR '':''" "[]" h] by (simp add: set_address_def)
  next
    fix h p e assume "a = h @ '':'' @ p" "CHR '':'' \<notin> set p" "stoi p = Inl e"
    then show ?thesis using rfind_append_last [of "CHR '':''" p h] by (simp add: set_address_def)
  qed
  then have "\<not> ok (Validate (set_address a opts))" by (simp add: Validate_ok_iff)
  then show ?thesis by (rule Validate_error_code)
qed

theorem set_address_rejects_bad_port_witness:
  "CHR '':'' \<notin> set ''broker''
   \<and> code (Validate (set_address ''broker'' (ClientOptions_default :: unit ClientOptions))) = kValidation"
proof -
  have h: "CHR '':'' \<notin> set ''broker''" by simp
  show ?thesis using h set_address_rejects_bad_port [of "''broker''" "ClientOptions_default :: unit ClientOptions"]
    by blast
qed

section \<open>Credentials\<close>

lemma pem_or_file_error: "pem_or_file fs pem path = Inl s \<Longrightarrow> code s = kValidation \<and> pem = [] \<and> path \<noteq> []"
  by (auto simp: pem_or_file_def ReadFile_def MakeError_def split: if_splits option.splits)

lemma pem_or_file_content: "pem_or_file fs pem path = Inr c \<Longrightarrow>
    (pem \<noteq> [] \<and> c = pem) \<or> (pem = [] \<and> path \<noteq> [] \<and> fs path = Some c \<and> c \<noteq> []) \<or> (pem = [] \<and> path = [] \<and> c = [])"
  by (auto simp: pem_or_file_def ReadFile_def split: if_splits option.splits)


text \<open>A client certificate read from files is what ends up in the credentials of a mutual TLS
  configuration; a missing or empty file of any of the three makes the whole configuration fail.\<close>

theorem mtls_from_files:
  assumes "cert \<noteq> []" "key \<noteq> []" "ca \<noteq> []"
  shows "BuildChannelCredentials fs (FromMTLS cert key ca) =
    (case (ReadFile fs ca, ReadFile fs cert, ReadFile fs key) of
       (Inr a, Inr c, Inr k) \<Rightarrow>
         Inr (SslCredentials \<lparr>pem_root_certs = a, pem_private_key = k, pem_cert_chain = c\<rparr>)
     | (Inl s, _, _) \<Rightarrow> Inl s
     | (Inr _, Inl s, _) \<Rightarrow> Inl s
     | (Inr _, Inr _, Inl s) \<Rightarrow> Inl s)"
  using assms
  by (auto simp: BuildChannelCredentials_def FromMTLS_def TlsConfig_default_def pem_or_file_def Let_def
      split: sum.splits)

theorem mtls_from_files_witness:
  "BuildChannelCredentials [''c.pem'' \<mapsto> ''C'', ''k.pem'' \<mapsto> ''K'', ''ca.pem'' \<mapsto> ''A''] (FromMTLS ''c.pem'' ''k.pem'' ''ca.pem'')
   = Inr (SslCredentials \<lparr>pem_root_certs = ''A'', pem_private_key = ''K'', pem_cert_chain = ''C''\<rparr>)"
  using mtls_from_files [of "''c.pem''" "''k.pem''" "''ca.pem''"
      "[''c.pem'' \<mapsto> ''C'', ''k.pem'' \<mapsto> ''K'', ''ca.pem'' \<mapsto> ''A'']"]
  by (simp add: ReadFile_def)

end
