(* ===== verification/Auth_Guard.thy ===== *)
theory Auth_Guard
  imports Client_Config Grpc_Errors
begin

text \<open>
  The call context, token injection (src/internal/middleware/auth.cc) and the guard around user
  callbacks (src/internal/callback_guard.h).

  \<open>ClientContext\<close> keeps what the SDK sets on a \<^verbatim>\<open>grpc::ClientContext\<close>: the metadata added and the
  deadline, as milliseconds from the moment it is set. A null pointer is \<open>None\<close>. Providers report
  failures by their \<open>StatusOr\<close>; they do not throw.
\<close>

record ClientContext =
  ctx_metadata :: "(string \<times> string) list"
  ctx_deadline :: "millis option"

definition ClientContext_new :: ClientContext where
  "ClientContext_new = \<lparr>ctx_metadata = [], ctx_deadline = None\<rparr>"

definition AddMetadata :: "string \<Rightarrow> string \<Rightarrow> ClientContext \<Rightarrow> ClientContext" where
  "AddMetadata key v ctx = ctx\<lparr>ctx_metadata := ctx_metadata ctx @ [(key, v)]\<rparr>"

definition set_deadline :: "millis \<Rightarrow> ClientContext \<Rightarrow> ClientContext" where
  "set_deadline d ctx = ctx\<lparr>ctx_deadline := Some d\<rparr>"

section \<open>Token injection\<close>

definition InjectAuthToken :: "ClientContext option \<Rightarrow> string \<Rightarrow> 'w credential_provider option
    \<Rightarrow> ('w, Status \<times> ClientContext option) state" where
  "InjectAuthToken context auth_token provider =
     (case context of
        None \<Rightarrow> ret (Status2 kValidation ''ClientContext is null'', None)
      | Some ctx \<Rightarrow>
          (if auth_token \<noteq> [] then ret (Status_ok, Some (AddMetadata ''authorization'' auth_token ctx))
           else (case provider of
              Some get_token \<Rightarrow> do {
                token_result \<leftarrow> get_token;
                (case token_result of
                   Inl s \<Rightarrow> ret (s, Some ctx)
                 | Inr token \<Rightarrow>
                     ret (Status_ok,
                       Some (if token \<noteq> [] then AddMetadata ''authorization'' token ctx else ctx)))
              }
            | None \<Rightarrow> ret (Status_ok, Some ctx))))"

record 'w AuthPlugin =
  ap_auth_token :: string
  ap_provider :: "'w credential_provider option"

definition MakeAuthPlugin :: "string \<Rightarrow> 'w credential_provider option \<Rightarrow> 'w AuthPlugin" where
  "MakeAuthPlugin auth_token provider = \<lparr>ap_auth_token = auth_token, ap_provider = provider\<rparr>"

definition GetMetadata :: "'w AuthPlugin \<Rightarrow> (string \<times> string) list option
    \<Rightarrow> ('w, grpc_status \<times> (string \<times> string) list option) state" where
  "GetMetadata plugin metadata = do {
     token \<leftarrow> (if ap_auth_token plugin \<noteq> [] then ret (ap_auth_token plugin)
              else (case ap_provider plugin of
                 Some get_token \<Rightarrow> do {
                   r \<leftarrow> get_token;
                   ret (case r of Inr t \<Rightarrow> t | Inl _ \<Rightarrow> [])
                 }
               | None \<Rightarrow> ret []));
     ret (grpc_status_OK,
       (case metadata of
          Some md \<Rightarrow> Some (if token \<noteq> [] then md @ [(''authorization'', token)] else md)
        | None \<Rightarrow> None))
   }"

definition IsBlocking :: "'w AuthPlugin \<Rightarrow> bool" where
  "IsBlocking plugin = (ap_provider plugin \<noteq> None)"

section \<open>Callback guard\<close>

text \<open>
  What \<^verbatim>\<open>e.what()\<close> returns for an exception derived from \<^verbatim>\<open>std::exception\<close>, \<open>None\<close> for any other. The
  text of \<^verbatim>\<open>std::bad_variant_access\<close> is the one of libstdc++.
\<close>

fun exn_what :: "exn \<Rightarrow> string option" where
  "exn_what (BadStatusAccess s) = Some (BadStatusAccess_what s)"
| "exn_what BadVariantAccess = Some ''std::get: wrong index for variant''"
| "exn_what (StdException m) = Some m"
| "exn_what UnknownException = None"

type_synonym 'w error_callback = "Status \<Rightarrow> 'w callback"

definition SafeInvoke :: "'w callback \<Rightarrow> 'w error_callback option \<Rightarrow> string \<Rightarrow> ('w, unit) state" where
  "SafeInvoke fn on_error op = do {
     thrown \<leftarrow> fn;
     (case thrown of
        None \<Rightarrow> ret ()
      | Some e \<Rightarrow>
          (case on_error of
             None \<Rightarrow> ret ()
           | Some handler \<Rightarrow> do {
               _ \<leftarrow> handler (MakeError kFatal
                      (case exn_what e of
                         Some what \<Rightarrow> ''callback threw: '' @ what
                       | None \<Rightarrow> ''callback threw unknown exception'') op [] []);
               ret ()
             }))
   }"

definition SafeInvoke_null :: "'w callback \<Rightarrow> string \<Rightarrow> ('w, unit) state" where
  "SafeInvoke_null fn op = do { _ \<leftarrow> fn; ret () }"

section \<open>Facts\<close>

text \<open>The token a configuration provides: the static one first, else the provider's.\<close>

definition token_of :: "string \<Rightarrow> 'w credential_provider option \<Rightarrow> ('w, string StatusOr) state" where
  "token_of auth_token provider =
     (if auth_token \<noteq> [] then ret (Inr auth_token)
      else (case provider of Some get_token \<Rightarrow> get_token | None \<Rightarrow> ret (Inr [])))"

definition with_token :: "string \<Rightarrow> ClientContext \<Rightarrow> ClientContext" where
  "with_token token ctx = (if token \<noteq> [] then AddMetadata ''authorization'' token ctx else ctx)"

lemma InjectAuthToken_token:
  "InjectAuthToken (Some ctx) auth_token provider = do {
     r \<leftarrow> token_of auth_token provider;
     ret (case r of Inl s \<Rightarrow> (s, Some ctx) | Inr t \<Rightarrow> (Status_ok, Some (with_token t ctx)))
   }"
  by (rule state.expand)
    (auto simp: InjectAuthToken_def token_of_def with_token_def case_prod_unfold fun_eq_iff
      split: option.splits sum.splits)

text \<open>Whichever way a token is configured, a call context gets at most one authorization entry:
  the static token if there is one (the provider is then not even asked), else the provider's
  token, else none; a failing provider leaves the context untouched and its status is returned.
  The credentials plugin attaches the same token but swallows the provider's failure.\<close>

theorem auth_token_precedence:
  "run_state (InjectAuthToken (Some ctx) auth_token provider) w =
     (case result_of (token_of auth_token provider) w of
        Inl s \<Rightarrow> (s, Some ctx) | Inr t \<Rightarrow> (Status_ok, Some (with_token t ctx)),
      world_of (token_of auth_token provider) w)
   \<and> run_state (GetMetadata (MakeAuthPlugin auth_token provider) (Some md)) w =
     ((grpc_status_OK, Some (case result_of (token_of auth_token provider) w of
        Inl s \<Rightarrow> md | Inr t \<Rightarrow> (if t = [] then md else md @ [(''authorization'', t)]))),
      world_of (token_of auth_token provider) w)
   \<and> length (ctx_metadata (with_token t ctx)) \<le> Suc (length (ctx_metadata ctx))
   \<and> token_of (x # xs) provider = ret (Inr (x # xs))"
proof -
  have "run_state (GetMetadata (MakeAuthPlugin auth_token provider) (Some md)) w =
     ((grpc_status_OK, Some (case result_of (token_of auth_token provider) w of
        Inl s \<Rightarrow> md | Inr t \<Rightarrow> (if t = [] then md else md @ [(''authorization'', t)]))),
      world_of (token_of auth_token provider) w)"
    by (auto simp: GetMetadata_def MakeAuthPlugin_def token_of_def case_prod_unfold
        split: option.splits sum.splits)
  then show ?thesis
    by (simp add: InjectAuthToken_token case_prod_unfold with_token_def AddMetadata_def)
      (simp add: token_of_def)
qed

text \<open>A guarded callback cannot take the caller down: the callback runs once; the error handler
  runs exactly when the callback threw, once, after it, with a \<open>kFatal\<close> status naming the
  operation; and what the handler itself throws is swallowed.\<close>

theorem SafeInvoke_reports_once:
  "run_state (SafeInvoke fn (Some handler) op) w =
     ((), case result_of fn w of
        None \<Rightarrow> world_of fn w
      | Some e \<Rightarrow> (let s = MakeError kFatal (case exn_what e of
            Some what \<Rightarrow> ''callback threw: '' @ what
          | None \<Rightarrow> ''callback threw unknown exception'') op [] []
          in world_of (handler s) (world_of fn w)))
   \<and> run_state (SafeInvoke fn None op) w = ((), world_of fn w)
   \<and> SafeInvoke fn None op = SafeInvoke_null fn op"
  by (auto simp: SafeInvoke_def SafeInvoke_null_def case_prod_unfold Let_def fun_eq_iff
      intro!: state.expand split: option.splits)

end
