(* ===== verification/Proto_Messages.thy ===== *)
theory Proto_Messages
  imports Prelude
begin

text \<open>
  The messages of the wire protocol (src/proto/kubemq.proto), one record per message and one
  datatype per enumeration. A field that is not set holds its proto3 default; \<^verbatim>\<open>bytes\<close> fields are
  strings; a sub-message field is an option (\<^verbatim>\<open>has_policy()\<close> is \<open>\<noteq> None\<close>); a repeated field is a
  list. \<^verbatim>\<open>int32\<close> and \<^verbatim>\<open>int64\<close> fields are integers: the writers cast to the field's width.
\<close>

section \<open>Enumerations\<close>

datatype SubscribeType = SubscribeTypeUndefined | Events | EventsStore | Commands | Queries

datatype EventsStoreType =
    EventsStoreTypeUndefined | StartNewOnly | StartFromFirst | StartFromLast
  | StartAtSequence | StartAtTime | StartAtTimeDelta

datatype RequestType = RequestTypeUnknown | RequestTypeCommand | RequestTypeQuery

datatype QueuesDownstreamRequestType =
    PollRequestTypeUnknown | Get | AckAll | AckRange | NAckAll | NAckRange | ReQueueAll
  | ReQueueRange | ActiveOffsets | TransactionStatus | CloseByClient | CloseByServer

section \<open>Messages\<close>

record PbPingResult =
  pr_Host :: string
  pr_Version :: string
  pr_ServerStartTime :: int
  pr_ServerUpTimeSeconds :: int

definition PbPingResult_default :: PbPingResult where
  "PbPingResult_default =
     \<lparr>pr_Host = [], pr_Version = [], pr_ServerStartTime = 0, pr_ServerUpTimeSeconds = 0\<rparr>"

record PbResult =
  rs_EventID :: string
  rs_Sent :: bool
  rs_Error :: string

definition PbResult_default :: PbResult where
  "PbResult_default =
     \<lparr>rs_EventID = [], rs_Sent = False, rs_Error = []\<rparr>"

record PbEvent =
  pe_EventID :: string
  pe_ClientID :: string
  pe_Channel :: string
  pe_Metadata :: string
  pe_Body :: string
  pe_Store :: bool
  pe_Tags :: tags

definition PbEvent_default :: PbEvent where
  "PbEvent_default =
     \<lparr>pe_EventID = [], pe_ClientID = [], pe_Channel = [], pe_Metadata = [], pe_Body = [],
      pe_Store = False, pe_Tags = Map.empty\<rparr>"

record PbEventReceive =
  per_EventID :: string
  per_Channel :: string
  per_Metadata :: string
  per_Body :: string
  per_Timestamp :: int
  per_Sequence :: "64 word"
  per_Tags :: tags

definition PbEventReceive_default :: PbEventReceive where
  "PbEventReceive_default =
     \<lparr>per_EventID = [], per_Channel = [], per_Metadata = [], per_Body = [], per_Timestamp = 0,
      per_Sequence = 0, per_Tags = Map.empty\<rparr>"

record PbSubscribe =
  ps_SubscribeTypeData :: SubscribeType
  ps_ClientID :: string
  ps_Channel :: string
  ps_Group :: string
  ps_EventsStoreTypeData :: EventsStoreType
  ps_EventsStoreTypeValue :: int

definition PbSubscribe_default :: PbSubscribe where
  "PbSubscribe_default =
     \<lparr>ps_SubscribeTypeData = SubscribeTypeUndefined, ps_ClientID = [], ps_Channel = [],
      ps_Group = [], ps_EventsStoreTypeData = EventsStoreTypeUndefined,
      ps_EventsStoreTypeValue = 0\<rparr>"

record PbRequest =
  rq_RequestID :: string
  rq_RequestTypeData :: RequestType
  rq_ClientID :: string
  rq_Channel :: string
  rq_Metadata :: string
  rq_Body :: string
  rq_ReplyChannel :: string
  rq_Timeout :: int
  rq_CacheKey :: string
  rq_CacheTTL :: int
  rq_Span :: string
  rq_Tags :: tags

definition PbRequest_default :: PbRequest where
  "PbRequest_default =
     \<lparr>rq_RequestID = [], rq_RequestTypeData = RequestTypeUnknown, rq_ClientID = [],
      rq_Channel = [], rq_Metadata = [], rq_Body = [], rq_ReplyChannel = [], rq_Timeout = 0,
      rq_CacheKey = [], rq_CacheTTL = 0, rq_Span = [], rq_Tags = Map.empty\<rparr>"

record PbResponse =
  rp_ClientID :: string
  rp_RequestID :: string
  rp_ReplyChannel :: string
  rp_Metadata :: string
  rp_Body :: string
  rp_CacheHit :: bool
  rp_Timestamp :: int
  rp_Executed :: bool
  rp_Error :: string
  rp_Span :: string
  rp_Tags :: tags

definition PbResponse_default :: PbResponse where
  "PbResponse_default =
     \<lparr>rp_ClientID = [], rp_RequestID = [], rp_ReplyChannel = [], rp_Metadata = [], rp_Body = [],
      rp_CacheHit = False, rp_Timestamp = 0, rp_Executed = False, rp_Error = [], rp_Span = [],
      rp_Tags = Map.empty\<rparr>"

record PbQueueMessageAttributes =
  pa_Timestamp :: int
  pa_Sequence :: "64 word"
  pa_MD5OfBody :: string
  pa_ReceiveCount :: int
  pa_ReRouted :: bool
  pa_ReRoutedFromQueue :: string
  pa_ExpirationAt :: int
  pa_DelayedTo :: int

definition PbQueueMessageAttributes_default :: PbQueueMessageAttributes where
  "PbQueueMessageAttributes_default =
     \<lparr>pa_Timestamp = 0, pa_Sequence = 0, pa_MD5OfBody = [], pa_ReceiveCount = 0,
      pa_ReRouted = False, pa_ReRoutedFromQueue = [], pa_ExpirationAt = 0, pa_DelayedTo = 0\<rparr>"

record PbQueueMessagePolicy =
  pp_ExpirationSeconds :: int
  pp_DelaySeconds :: int
  pp_MaxReceiveCount :: int
  pp_MaxReceiveQueue :: string

definition PbQueueMessagePolicy_default :: PbQueueMessagePolicy where
  "PbQueueMessagePolicy_default =
     \<lparr>pp_ExpirationSeconds = 0, pp_DelaySeconds = 0, pp_MaxReceiveCount = 0,
      pp_MaxReceiveQueue = []\<rparr>"

record PbQueueMessage =
  pq_MessageID :: string
  pq_ClientID :: string
  pq_Channel :: string
  pq_Metadata :: string
  pq_Body :: string
  pq_Tags :: tags
  pq_Attributes :: "PbQueueMessageAttributes option"
  pq_Policy :: "PbQueueMessagePolicy option"

definition PbQueueMessage_default :: PbQueueMessage where
  "PbQueueMessage_default =
     \<lparr>pq_MessageID = [], pq_ClientID = [], pq_Channel = [], pq_Metadata = [], pq_Body = [],
      pq_Tags = Map.empty, pq_Attributes = None, pq_Policy = None\<rparr>"

record PbSendQueueMessageResult =
  sq_MessageID :: string
  sq_SentAt :: int
  sq_ExpirationAt :: int
  sq_DelayedTo :: int
  sq_IsError :: bool
  sq_Error :: string

definition PbSendQueueMessageResult_default :: PbSendQueueMessageResult where
  "PbSendQueueMessageResult_default =
     \<lparr>sq_MessageID = [], sq_SentAt = 0, sq_ExpirationAt = 0, sq_DelayedTo = 0,
      sq_IsError = False, sq_Error = []\<rparr>"

record PbQueueMessagesBatchRequest =
  bq_BatchID :: string
  bq_Messages :: "PbQueueMessage list"

definition PbQueueMessagesBatchRequest_default :: PbQueueMessagesBatchRequest where
  "PbQueueMessagesBatchRequest_default =
     \<lparr>bq_BatchID = [], bq_Messages = []\<rparr>"

record PbQueueMessagesBatchResponse =
  bp_BatchID :: string
  bp_Results :: "PbSendQueueMessageResult list"
  bp_HaveErrors :: bool

definition PbQueueMessagesBatchResponse_default :: PbQueueMessagesBatchResponse where
  "PbQueueMessagesBatchResponse_default =
     \<lparr>bp_BatchID = [], bp_Results = [], bp_HaveErrors = False\<rparr>"

record PbReceiveQueueMessagesRequest =
  rr_RequestID :: string
  rr_ClientID :: string
  rr_Channel :: string
  rr_MaxNumberOfMessages :: int
  rr_WaitTimeSeconds :: int
  rr_IsPeak :: bool

definition PbReceiveQueueMessagesRequest_default :: PbReceiveQueueMessagesRequest where
  "PbReceiveQueueMessagesRequest_default =
     \<lparr>rr_RequestID = [], rr_ClientID = [], rr_Channel = [], rr_MaxNumberOfMessages = 0,
      rr_WaitTimeSeconds = 0, rr_IsPeak = False\<rparr>"

record PbReceiveQueueMessagesResponse =
  ro_RequestID :: string
  ro_Messages :: "PbQueueMessage list"
  ro_MessagesReceived :: int
  ro_MessagesExpired :: int
  ro_IsPeak :: bool
  ro_IsError :: bool
  ro_Error :: string

definition PbReceiveQueueMessagesResponse_default :: PbReceiveQueueMessagesResponse where
  "PbReceiveQueueMessagesResponse_default =
     \<lparr>ro_RequestID = [], ro_Messages = [], ro_MessagesReceived = 0, ro_MessagesExpired = 0,
      ro_IsPeak = False, ro_IsError = False, ro_Error = []\<rparr>"

record PbAckAllQueueMessagesRequest =
  aq_RequestID :: string
  aq_ClientID :: string
  aq_Channel :: string
  aq_WaitTimeSeconds :: int

definition PbAckAllQueueMessagesRequest_default :: PbAckAllQueueMessagesRequest where
  "PbAckAllQueueMessagesRequest_default =
     \<lparr>aq_RequestID = [], aq_ClientID = [], aq_Channel = [], aq_WaitTimeSeconds = 0\<rparr>"

record PbAckAllQueueMessagesResponse =
  ao_RequestID :: string
  ao_AffectedMessages :: "64 word"
  ao_IsError :: bool
  ao_Error :: string

definition PbAckAllQueueMessagesResponse_default :: PbAckAllQueueMessagesResponse where
  "PbAckAllQueueMessagesResponse_default =
     \<lparr>ao_RequestID = [], ao_AffectedMessages = 0, ao_IsError = False, ao_Error = []\<rparr>"

record PbQueuesUpstreamRequest =
  uq_RequestID :: string
  uq_Messages :: "PbQueueMessage list"

definition PbQueuesUpstreamRequest_default :: PbQueuesUpstreamRequest where
  "PbQueuesUpstreamRequest_default =
     \<lparr>uq_RequestID = [], uq_Messages = []\<rparr>"

record PbQueuesUpstreamResponse =
  uo_RefRequestID :: string
  uo_Results :: "PbSendQueueMessageResult list"
  uo_IsError :: bool
  uo_Error :: string

definition PbQueuesUpstreamResponse_default :: PbQueuesUpstreamResponse where
  "PbQueuesUpstreamResponse_default =
     \<lparr>uo_RefRequestID = [], uo_Results = [], uo_IsError = False, uo_Error = []\<rparr>"

record PbQueuesDownstreamRequest =
  dq_RequestID :: string
  dq_ClientID :: string
  dq_RequestTypeData :: QueuesDownstreamRequestType
  dq_Channel :: string
  dq_MaxItems :: int
  dq_WaitTimeout :: int
  dq_AutoAck :: bool
  dq_ReQueueChannel :: string
  dq_SequenceRange :: "int list"
  dq_RefTransactionId :: string
  dq_Metadata :: tags

definition PbQueuesDownstreamRequest_default :: PbQueuesDownstreamRequest where
  "PbQueuesDownstreamRequest_default =
     \<lparr>dq_RequestID = [], dq_ClientID = [], dq_RequestTypeData = PollRequestTypeUnknown,
      dq_Channel = [], dq_MaxItems = 0, dq_WaitTimeout = 0, dq_AutoAck = False,
      dq_ReQueueChannel = [], dq_SequenceRange = [], dq_RefTransactionId = [],
      dq_Metadata = Map.empty\<rparr>"

record PbQueuesDownstreamResponse =
  do_TransactionId :: string
  do_RefRequestId :: string
  do_RequestTypeData :: QueuesDownstreamRequestType
  do_Messages :: "PbQueueMessage list"
  do_ActiveOffsets :: "int list"
  do_IsError :: bool
  do_Error :: string
  do_TransactionComplete :: bool
  do_Metadata :: tags

definition PbQueuesDownstreamResponse_default :: PbQueuesDownstreamResponse where
  "PbQueuesDownstreamResponse_default =
     \<lparr>do_TransactionId = [], do_RefRequestId = [], do_RequestTypeData = PollRequestTypeUnknown,
      do_Messages = [], do_ActiveOffsets = [], do_IsError = False, do_Error = [],
      do_TransactionComplete = False, do_Metadata = Map.empty\<rparr>"

lemmas pb_defaults [proto_simps] =
  PbPingResult_default_def
  PbResult_default_def
  PbEvent_default_def
  PbEventReceive_default_def
  PbSubscribe_default_def
  PbRequest_default_def
  PbResponse_default_def
  PbQueueMessageAttributes_default_def
  PbQueueMessagePolicy_default_def
  PbQueueMessage_default_def
  PbSendQueueMessageResult_default_def
  PbQueueMessagesBatchRequest_default_def
  PbQueueMessagesBatchResponse_default_def
  PbReceiveQueueMessagesRequest_default_def
  PbReceiveQueueMessagesResponse_default_def
  PbAckAllQueueMessagesRequest_default_def
  PbAckAllQueueMessagesResponse_default_def
  PbQueuesUpstreamRequest_default_def
  PbQueuesUpstreamResponse_default_def
  PbQueuesDownstreamRequest_default_def
  PbQueuesDownstreamResponse_default_def

end
