(* ===== verification/Sdk_Messages.thy ===== *)
theory Sdk_Messages
  imports Error_Status Uuid_Gen
begin

text \<open>
  The SDK's message types and their builders (include/kubemq/event.h, event_store.h, command.h,
  query.h, queue_message.h, channel_info.h, server_info.h; src/event.cc, event_store.cc,
  command.cc, query.cc, queue_message.cc). A \<^verbatim>\<open>Builder\<close> has the members of the message it builds, so
  one record serves both; \<open>X_default\<close> is the default-constructed object. \<^verbatim>\<open>Build\<close> returns the
  message or the validation error; a builder whose members were moved out by a successful \<^verbatim>\<open>Build\<close>
  is not used again. The random engine behind a generated id is the parameter \<open>rand64\<close> of
  \<open>GenerateUUID\<close>.
\<close>

section \<open>Data\<close>

record Event =
  ev_id :: string
  ev_channel :: string
  ev_metadata :: string
  ev_body :: string
  ev_client_id :: string
  ev_tags :: tags

definition Event_default :: Event where
  "Event_default =
     \<lparr>ev_id = [], ev_channel = [], ev_metadata = [], ev_body = [], ev_client_id = [],
      ev_tags = Map.empty\<rparr>"

record EventReceive =
  er_id :: string
  er_channel :: string
  er_metadata :: string
  er_body :: string
  er_timestamp :: int
  er_sequence :: "64 word"
  er_tags :: tags

definition EventReceive_default :: EventReceive where
  "EventReceive_default =
     \<lparr>er_id = [], er_channel = [], er_metadata = [], er_body = [], er_timestamp = 0,
      er_sequence = 0, er_tags = Map.empty\<rparr>"

record EventStreamResult =
  esr_event_id :: string
  esr_sent :: bool
  esr_error :: string

definition EventStreamResult_default :: EventStreamResult where
  "EventStreamResult_default =
     \<lparr>esr_event_id = [], esr_sent = False, esr_error = []\<rparr>"

record EventStore =
  es_id :: string
  es_channel :: string
  es_metadata :: string
  es_body :: string
  es_client_id :: string
  es_tags :: tags

definition EventStore_default :: EventStore where
  "EventStore_default =
     \<lparr>es_id = [], es_channel = [], es_metadata = [], es_body = [], es_client_id = [],
      es_tags = Map.empty\<rparr>"

record EventStoreResult =
  ers_id :: string
  ers_sent :: bool
  ers_error :: string

definition EventStoreResult_default :: EventStoreResult where
  "EventStoreResult_default =
     \<lparr>ers_id = [], ers_sent = False, ers_error = []\<rparr>"

record EventStoreReceive =
  eer_id :: string
  eer_sequence :: "64 word"
  eer_timestamp :: int
  eer_channel :: string
  eer_metadata :: string
  eer_body :: string
  eer_tags :: tags

definition EventStoreReceive_default :: EventStoreReceive where
  "EventStoreReceive_default =
     \<lparr>eer_id = [], eer_sequence = 0, eer_timestamp = 0, eer_channel = [], eer_metadata = [],
      eer_body = [], eer_tags = Map.empty\<rparr>"

record Command =
  cm_id :: string
  cm_channel :: string
  cm_metadata :: string
  cm_body :: string
  cm_timeout :: int
  cm_client_id :: string
  cm_tags :: tags

definition Command_default :: Command where
  "Command_default =
     \<lparr>cm_id = [], cm_channel = [], cm_metadata = [], cm_body = [], cm_timeout = 0,
      cm_client_id = [], cm_tags = Map.empty\<rparr>"

record CommandReceive =
  cv_id :: string
  cv_client_id :: string
  cv_channel :: string
  cv_metadata :: string
  cv_body :: string
  cv_response_to :: string
  cv_timeout :: int
  cv_tags :: tags

definition CommandReceive_default :: CommandReceive where
  "CommandReceive_default =
     \<lparr>cv_id = [], cv_client_id = [], cv_channel = [], cv_metadata = [], cv_body = [],
      cv_response_to = [], cv_timeout = 0, cv_tags = Map.empty\<rparr>"

record CommandResponse =
  co_command_id :: string
  co_response_client_id :: string
  co_reply_channel :: string
  co_executed :: bool
  co_executed_at :: int
  co_error :: string
  co_tags :: tags

definition CommandResponse_default :: CommandResponse where
  "CommandResponse_default =
     \<lparr>co_command_id = [], co_response_client_id = [], co_reply_channel = [],
      co_executed = False, co_executed_at = 0, co_error = [], co_tags = Map.empty\<rparr>"

record CommandReply =
  cr_request_id :: string
  cr_response_to :: string
  cr_metadata :: string
  cr_body :: string
  cr_client_id :: string
  cr_tags :: tags
  cr_error :: string
  cr_executed_at :: int
  cr_executed :: bool

definition CommandReply_default :: CommandReply where
  "CommandReply_default =
     \<lparr>cr_request_id = [], cr_response_to = [], cr_metadata = [], cr_body = [],
      cr_client_id = [], cr_tags = Map.empty, cr_error = [], cr_executed_at = 0,
      cr_executed = True\<rparr>"

record Query =
  qy_id :: string
  qy_channel :: string
  qy_metadata :: string
  qy_body :: string
  qy_timeout :: int
  qy_client_id :: string
  qy_cache_key :: string
  qy_cache_ttl :: int
  qy_tags :: tags

definition Query_default :: Query where
  "Query_default =
     \<lparr>qy_id = [], qy_channel = [], qy_metadata = [], qy_body = [], qy_timeout = 0,
      qy_client_id = [], qy_cache_key = [], qy_cache_ttl = 0, qy_tags = Map.empty\<rparr>"

record QueryReceive =
  qv_id :: string
  qv_channel :: string
  qv_client_id :: string
  qv_metadata :: string
  qv_body :: string
  qv_response_to :: string
  qv_timeout :: int
  qv_cache_key :: string
  qv_cache_ttl :: int
  qv_tags :: tags

definition QueryReceive_default :: QueryReceive where
  "QueryReceive_default =
     \<lparr>qv_id = [], qv_channel = [], qv_client_id = [], qv_metadata = [], qv_body = [],
      qv_response_to = [], qv_timeout = 0, qv_cache_key = [], qv_cache_ttl = 0,
      qv_tags = Map.empty\<rparr>"

record QueryResponse =
  qo_query_id :: string
  qo_reply_channel :: string
  qo_executed :: bool
  qo_executed_at :: int
  qo_metadata :: string
  qo_response_client_id :: string
  qo_body :: string
  qo_cache_hit :: bool
  qo_error :: string
  qo_tags :: tags

definition QueryResponse_default :: QueryResponse where
  "QueryResponse_default =
     \<lparr>qo_query_id = [], qo_reply_channel = [], qo_executed = False, qo_executed_at = 0,
      qo_metadata = [], qo_response_client_id = [], qo_body = [], qo_cache_hit = False,
      qo_error = [], qo_tags = Map.empty\<rparr>"

record QueryReply =
  qr_request_id :: string
  qr_response_to :: string
  qr_metadata :: string
  qr_body :: string
  qr_client_id :: string
  qr_tags :: tags
  qr_error :: string
  qr_executed_at :: int
  qr_cache_hit :: bool
  qr_executed :: bool

definition QueryReply_default :: QueryReply where
  "QueryReply_default =
     \<lparr>qr_request_id = [], qr_response_to = [], qr_metadata = [], qr_body = [],
      qr_client_id = [], qr_tags = Map.empty, qr_error = [], qr_executed_at = 0,
      qr_cache_hit = False, qr_executed = True\<rparr>"

record QueuePolicy =
  qp_expiration_seconds :: int
  qp_delay_seconds :: int
  qp_max_receive_count :: int
  qp_max_receive_queue :: string

definition QueuePolicy_default :: QueuePolicy where
  "QueuePolicy_default =
     \<lparr>qp_expiration_seconds = 0, qp_delay_seconds = 0, qp_max_receive_count = 0,
      qp_max_receive_queue = []\<rparr>"

record QueueMessageAttributes =
  qa_timestamp :: int
  qa_sequence :: "64 word"
  qa_md5_of_body :: string
  qa_receive_count :: int
  qa_re_routed :: bool
  qa_re_routed_from_queue :: string
  qa_expiration_at :: int
  qa_delayed_to :: int

definition QueueMessageAttributes_default :: QueueMessageAttributes where
  "QueueMessageAttributes_default =
     \<lparr>qa_timestamp = 0, qa_sequence = 0, qa_md5_of_body = [], qa_receive_count = 0,
      qa_re_routed = False, qa_re_routed_from_queue = [], qa_expiration_at = 0,
      qa_delayed_to = 0\<rparr>"

record QueueSendResult =
  qs_message_id :: string
  qs_sent_at :: int
  qs_expiration_at :: int
  qs_delayed_to :: int
  qs_is_error :: bool
  qs_error :: string

definition QueueSendResult_default :: QueueSendResult where
  "QueueSendResult_default =
     \<lparr>qs_message_id = [], qs_sent_at = 0, qs_expiration_at = 0, qs_delayed_to = 0,
      qs_is_error = False, qs_error = []\<rparr>"

record QueueMessage =
  qm_id :: string
  qm_channel :: string
  qm_metadata :: string
  qm_body :: string
  qm_client_id :: string
  qm_tags :: tags
  qm_policy :: QueuePolicy
  qm_attributes :: QueueMessageAttributes

definition QueueMessage_default :: QueueMessage where
  "QueueMessage_default =
     \<lparr>qm_id = [], qm_channel = [], qm_metadata = [], qm_body = [], qm_client_id = [],
      qm_tags = Map.empty, qm_policy = QueuePolicy_default,
      qm_attributes = QueueMessageAttributes_default\<rparr>"

record ReceiveQueueMessagesRequest =
  rmq_request_id :: string
  rmq_client_id :: string
  rmq_channel :: string
  rmq_max_number_of_messages :: int
  rmq_wait_time_seconds :: int
  rmq_is_peek :: bool

definition ReceiveQueueMessagesRequest_default :: ReceiveQueueMessagesRequest where
  "ReceiveQueueMessagesRequest_default =
     \<lparr>rmq_request_id = [], rmq_client_id = [], rmq_channel = [], rmq_max_number_of_messages = 1,
      rmq_wait_time_seconds = 5, rmq_is_peek = False\<rparr>"

record ReceiveQueueMessagesResponse =
  rmo_request_id :: string
  rmo_messages :: "QueueMessage list"
  rmo_messages_received :: int
  rmo_messages_expired :: int
  rmo_is_peek :: bool
  rmo_is_error :: bool
  rmo_error :: string

definition ReceiveQueueMessagesResponse_default :: ReceiveQueueMessagesResponse where
  "ReceiveQueueMessagesResponse_default =
     \<lparr>rmo_request_id = [], rmo_messages = [], rmo_messages_received = 0,
      rmo_messages_expired = 0, rmo_is_peek = False, rmo_is_error = False, rmo_error = []\<rparr>"

record AckAllQueueMessagesRequest =
  akq_request_id :: string
  akq_client_id :: string
  akq_channel :: string
  akq_wait_time_seconds :: int

definition AckAllQueueMessagesRequest_default :: AckAllQueueMessagesRequest where
  "AckAllQueueMessagesRequest_default =
     \<lparr>akq_request_id = [], akq_client_id = [], akq_channel = [], akq_wait_time_seconds = 0\<rparr>"

record AckAllQueueMessagesResponse =
  ako_request_id :: string
  ako_affected_messages :: "64 word"
  ako_is_error :: bool
  ako_error :: string

definition AckAllQueueMessagesResponse_default :: AckAllQueueMessagesResponse where
  "AckAllQueueMessagesResponse_default =
     \<lparr>ako_request_id = [], ako_affected_messages = 0, ako_is_error = False, ako_error = []\<rparr>"

record ServerInfo =
  si_host :: string
  si_version :: string
  si_server_start_time :: int
  si_server_up_time_seconds :: int

definition ServerInfo_default :: ServerInfo where
  "ServerInfo_default =
     \<lparr>si_host = [], si_version = [], si_server_start_time = 0, si_server_up_time_seconds = 0\<rparr>"

record ChannelStats =
  cs_messages :: int
  cs_volume :: int
  cs_responses :: int
  cs_waiting :: int
  cs_expired :: int
  cs_delayed :: int

definition ChannelStats_default :: ChannelStats where
  "ChannelStats_default =
     \<lparr>cs_messages = 0, cs_volume = 0, cs_responses = 0, cs_waiting = 0, cs_expired = 0,
      cs_delayed = 0\<rparr>"

record ChannelInfo =
  ci_name :: string
  ci_type :: string
  ci_last_activity :: int
  ci_is_active :: bool
  ci_incoming :: ChannelStats
  ci_outgoing :: ChannelStats

definition ChannelInfo_default :: ChannelInfo where
  "ChannelInfo_default =
     \<lparr>ci_name = [], ci_type = [], ci_last_activity = 0, ci_is_active = False,
      ci_incoming = ChannelStats_default, ci_outgoing = ChannelStats_default\<rparr>"

section \<open>Event builder\<close>

definition Event_SetId :: "string \<Rightarrow> Event \<Rightarrow> Event" where
  "Event_SetId v b = b\<lparr>ev_id := v\<rparr>"

definition Event_SetChannel :: "string \<Rightarrow> Event \<Rightarrow> Event" where
  "Event_SetChannel v b = b\<lparr>ev_channel := v\<rparr>"

definition Event_SetMetadata :: "string \<Rightarrow> Event \<Rightarrow> Event" where
  "Event_SetMetadata v b = b\<lparr>ev_metadata := v\<rparr>"

definition Event_SetBody :: "string \<Rightarrow> Event \<Rightarrow> Event" where
  "Event_SetBody v b = b\<lparr>ev_body := v\<rparr>"

definition Event_SetClientId :: "string \<Rightarrow> Event \<Rightarrow> Event" where
  "Event_SetClientId v b = b\<lparr>ev_client_id := v\<rparr>"

definition Event_SetTags :: "tags \<Rightarrow> Event \<Rightarrow> Event" where
  "Event_SetTags v b = b\<lparr>ev_tags := v\<rparr>"

definition Event_AddTag :: "string \<Rightarrow> string \<Rightarrow> Event \<Rightarrow> Event" where
  "Event_AddTag key v b = b\<lparr>ev_tags := (ev_tags b)(key \<mapsto> v)\<rparr>"

definition Event_Build :: "('w, 64 word) state \<Rightarrow> Event \<Rightarrow> ('w, Event StatusOr) state" where
  "Event_Build rand64 b =
     (if ev_channel b = [] then ret (Inl (Status2 kValidation ''channel is required''))
      else if ev_body b = [] \<and> ev_metadata b = []
        then ret (Inl (Status2 kValidation ''body or metadata is required''))
      else do {
        uid \<leftarrow> (if ev_id b = [] then GenerateUUID rand64 else ret (ev_id b));
        ret (Inr (Event_default\<lparr>ev_id := uid, ev_channel := ev_channel b, ev_metadata := ev_metadata b,
          ev_body := ev_body b, ev_client_id := ev_client_id b, ev_tags := ev_tags b\<rparr>))
      })"

section \<open>EventStore builder\<close>

definition EventStore_SetId :: "string \<Rightarrow> EventStore \<Rightarrow> EventStore" where
  "EventStore_SetId v b = b\<lparr>es_id := v\<rparr>"

definition EventStore_SetChannel :: "string \<Rightarrow> EventStore \<Rightarrow> EventStore" where
  "EventStore_SetChannel v b = b\<lparr>es_channel := v\<rparr>"

definition EventStore_SetMetadata :: "string \<Rightarrow> EventStore \<Rightarrow> EventStore" where
  "EventStore_SetMetadata v b = b\<lparr>es_metadata := v\<rparr>"

definition EventStore_SetBody :: "string \<Rightarrow> EventStore \<Rightarrow> EventStore" where
  "EventStore_SetBody v b = b\<lparr>es_body := v\<rparr>"

definition EventStore_SetClientId :: "string \<Rightarrow> EventStore \<Rightarrow> EventStore" where
  "EventStore_SetClientId v b = b\<lparr>es_client_id := v\<rparr>"

definition EventStore_SetTags :: "tags \<Rightarrow> EventStore \<Rightarrow> EventStore" where
  "EventStore_SetTags v b = b\<lparr>es_tags := v\<rparr>"

definition EventStore_AddTag :: "string \<Rightarrow> string \<Rightarrow> EventStore \<Rightarrow> EventStore" where
  "EventStore_AddTag key v b = b\<lparr>es_tags := (es_tags b)(key \<mapsto> v)\<rparr>"

definition EventStore_Build :: "('w, 64 word) state \<Rightarrow> EventStore \<Rightarrow> ('w, EventStore StatusOr) state" where
  "EventStore_Build rand64 b =
     (if es_channel b = [] then ret (Inl (Status2 kValidation ''channel is required''))
      else if es_body b = [] \<and> es_metadata b = []
        then ret (Inl (Status2 kValidation ''body or metadata is required''))
      else do {
        uid \<leftarrow> (if es_id b = [] then GenerateUUID rand64 else ret (es_id b));
        ret (Inr (EventStore_default\<lparr>es_id := uid, es_channel := es_channel b, es_metadata := es_metadata b,
          es_body := es_body b, es_client_id := es_client_id b, es_tags := es_tags b\<rparr>))
      })"

section \<open>Command builder\<close>

definition Command_SetId :: "string \<Rightarrow> Command \<Rightarrow> Command" where
  "Command_SetId v b = b\<lparr>cm_id := v\<rparr>"

definition Command_SetChannel :: "string \<Rightarrow> Command \<Rightarrow> Command" where
  "Command_SetChannel v b = b\<lparr>cm_channel := v\<rparr>"

definition Command_SetMetadata :: "string \<Rightarrow> Command \<Rightarrow> Command" where
  "Command_SetMetadata v b = b\<lparr>cm_metadata := v\<rparr>"

definition Command_SetBody :: "string \<Rightarrow> Command \<Rightarrow> Command" where
  "Command_SetBody v b = b\<lparr>cm_body := v\<rparr>"

definition Command_SetTimeout :: "int \<Rightarrow> Command \<Rightarrow> Command" where
  "Command_SetTimeout v b = b\<lparr>cm_timeout := v\<rparr>"

definition Command_SetClientId :: "string \<Rightarrow> Command \<Rightarrow> Command" where
  "Command_SetClientId v b = b\<lparr>cm_client_id := v\<rparr>"

definition Command_SetTags :: "tags \<Rightarrow> Command \<Rightarrow> Command" where
  "Command_SetTags v b = b\<lparr>cm_tags := v\<rparr>"

definition Command_AddTag :: "string \<Rightarrow> string \<Rightarrow> Command \<Rightarrow> Command" where
  "Command_AddTag key v b = b\<lparr>cm_tags := (cm_tags b)(key \<mapsto> v)\<rparr>"

definition Command_Build :: "('w, 64 word) state \<Rightarrow> Command \<Rightarrow> ('w, Command StatusOr) state" where
  "Command_Build rand64 b =
     (if cm_channel b = [] then ret (Inl (Status2 kValidation ''channel is required''))
      else if cm_body b = [] \<and> cm_metadata b = []
        then ret (Inl (Status2 kValidation ''body or metadata is required''))
      else if cm_timeout b \<le> 0 then ret (Inl (Status2 kValidation ''timeout must be > 0''))
      else do {
        uid \<leftarrow> (if cm_id b = [] then GenerateUUID rand64 else ret (cm_id b));
        ret (Inr (Command_default\<lparr>cm_id := uid, cm_channel := cm_channel b, cm_metadata := cm_metadata b,
          cm_body := cm_body b, cm_timeout := cm_timeout b, cm_client_id := cm_client_id b,
          cm_tags := cm_tags b\<rparr>))
      })"

section \<open>CommandReply builder\<close>

definition CommandReply_SetRequestId :: "string \<Rightarrow> CommandReply \<Rightarrow> CommandReply" where
  "CommandReply_SetRequestId v b = b\<lparr>cr_request_id := v\<rparr>"

definition CommandReply_SetResponseTo :: "string \<Rightarrow> CommandReply \<Rightarrow> CommandReply" where
  "CommandReply_SetResponseTo v b = b\<lparr>cr_response_to := v\<rparr>"

definition CommandReply_SetMetadata :: "string \<Rightarrow> CommandReply \<Rightarrow> CommandReply" where
  "CommandReply_SetMetadata v b = b\<lparr>cr_metadata := v\<rparr>"

definition CommandReply_SetBody :: "string \<Rightarrow> CommandReply \<Rightarrow> CommandReply" where
  "CommandReply_SetBody v b = b\<lparr>cr_body := v\<rparr>"

definition CommandReply_SetClientId :: "string \<Rightarrow> CommandReply \<Rightarrow> CommandReply" where
  "CommandReply_SetClientId v b = b\<lparr>cr_client_id := v\<rparr>"

definition CommandReply_SetTags :: "tags \<Rightarrow> CommandReply \<Rightarrow> CommandReply" where
  "CommandReply_SetTags v b = b\<lparr>cr_tags := v\<rparr>"

definition CommandReply_SetError :: "string \<Rightarrow> CommandReply \<Rightarrow> CommandReply" where
  "CommandReply_SetError v b = b\<lparr>cr_error := v\<rparr>"

definition CommandReply_SetExecutedAt :: "int \<Rightarrow> CommandReply \<Rightarrow> CommandReply" where
  "CommandReply_SetExecutedAt v b = b\<lparr>cr_executed_at := v\<rparr>"

definition CommandReply_SetExecuted :: "bool \<Rightarrow> CommandReply \<Rightarrow> CommandReply" where
  "CommandReply_SetExecuted v b = b\<lparr>cr_executed := v\<rparr>"

definition CommandReply_Build :: "CommandReply \<Rightarrow> CommandReply StatusOr" where
  "CommandReply_Build b =
     (if cr_request_id b = [] then Inl (Status5 kValidation ''request_id is required'' ''CommandReply::Build'' [] [])
      else if cr_response_to b = [] then Inl (Status5 kValidation ''response_to is required'' ''CommandReply::Build'' [] [])
      else Inr (CommandReply_default\<lparr>cr_request_id := cr_request_id b, cr_response_to := cr_response_to b,
        cr_metadata := cr_metadata b, cr_body := cr_body b, cr_client_id := cr_client_id b,
        cr_tags := cr_tags b, cr_error := cr_error b, cr_executed_at := cr_executed_at b,
        cr_executed := cr_executed b\<rparr>))"

section \<open>Query builder\<close>

definition Query_SetId :: "string \<Rightarrow> Query \<Rightarrow> Query" where
  "Query_SetId v b = b\<lparr>qy_id := v\<rparr>"

definition Query_SetChannel :: "string \<Rightarrow> Query \<Rightarrow> Query" where
  "Query_SetChannel v b = b\<lparr>qy_channel := v\<rparr>"

definition Query_SetMetadata :: "string \<Rightarrow> Query \<Rightarrow> Query" where
  "Query_SetMetadata v b = b\<lparr>qy_metadata := v\<rparr>"

definition Query_SetBody :: "string \<Rightarrow> Query \<Rightarrow> Query" where
  "Query_SetBody v b = b\<lparr>qy_body := v\<rparr>"

definition Query_SetTimeout :: "int \<Rightarrow> Query \<Rightarrow> Query" where
  "Query_SetTimeout v b = b\<lparr>qy_timeout := v\<rparr>"

definition Query_SetClientId :: "string \<Rightarrow> Query \<Rightarrow> Query" where
  "Query_SetClientId v b = b\<lparr>qy_client_id := v\<rparr>"

definition Query_SetCacheKey :: "string \<Rightarrow> Query \<Rightarrow> Query" where
  "Query_SetCacheKey v b = b\<lparr>qy_cache_key := v\<rparr>"

definition Query_SetCacheTTL :: "int \<Rightarrow> Query \<Rightarrow> Query" where
  "Query_SetCacheTTL v b = b\<lparr>qy_cache_ttl := v\<rparr>"

definition Query_SetTags :: "tags \<Rightarrow> Query \<Rightarrow> Query" where
  "Query_SetTags v b = b\<lparr>qy_tags := v\<rparr>"

definition Query_AddTag :: "string \<Rightarrow> string \<Rightarrow> Query \<Rightarrow> Query" where
  "Query_AddTag key v b = b\<lparr>qy_tags := (qy_tags b)(key \<mapsto> v)\<rparr>"

definition Query_Build :: "('w, 64 word) state \<Rightarrow> Query \<Rightarrow> ('w, Query StatusOr) state" where
  "Query_Build rand64 b =
     (if qy_channel b = [] then ret (Inl (Status2 kValidation ''channel is required''))
      else if qy_body b = [] \<and> qy_metadata b = []
        then ret (Inl (Status2 kValidation ''body or metadata is required''))
      else if qy_timeout b \<le> 0 then ret (Inl (Status2 kValidation ''timeout must be > 0''))
      else do {
        uid \<leftarrow> (if qy_id b = [] then GenerateUUID rand64 else ret (qy_id b));
        ret (Inr (Query_default\<lparr>qy_id := uid, qy_channel := qy_channel b, qy_metadata := qy_metadata b,
          qy_body := qy_body b, qy_timeout := qy_timeout b, qy_client_id := qy_client_id b,
          qy_cache_key := qy_cache_key b, qy_cache_ttl := qy_cache_ttl b, qy_tags := qy_tags b\<rparr>))
      })"

section \<open>QueryReply builder\<close>

definition QueryReply_SetRequestId :: "string \<Rightarrow> QueryReply \<Rightarrow> QueryReply" where
  "QueryReply_SetRequestId v b = b\<lparr>qr_request_id := v\<rparr>"

definition QueryReply_SetResponseTo :: "string \<Rightarrow> QueryReply \<Rightarrow> QueryReply" where
  "QueryReply_SetResponseTo v b = b\<lparr>qr_response_to := v\<rparr>"

definition QueryReply_SetMetadata :: "string \<Rightarrow> QueryReply \<Rightarrow> QueryReply" where
  "QueryReply_SetMetadata v b = b\<lparr>qr_metadata := v\<rparr>"

definition QueryReply_SetBody :: "string \<Rightarrow> QueryReply \<Rightarrow> QueryReply" where
  "QueryReply_SetBody v b = b\<lparr>qr_body := v\<rparr>"

definition QueryReply_SetClientId :: "string \<Rightarrow> QueryReply \<Rightarrow> QueryReply" where
  "QueryReply_SetClientId v b = b\<lparr>qr_client_id := v\<rparr>"

definition QueryReply_SetTags :: "tags \<Rightarrow> QueryReply \<Rightarrow> QueryReply" where
  "QueryReply_SetTags v b = b\<lparr>qr_tags := v\<rparr>"

definition QueryReply_SetError :: "string \<Rightarrow> QueryReply \<Rightarrow> QueryReply" where
  "QueryReply_SetError v b = b\<lparr>qr_error := v\<rparr>"

definition QueryReply_SetExecutedAt :: "int \<Rightarrow> QueryReply \<Rightarrow> QueryReply" where
  "QueryReply_SetExecutedAt v b = b\<lparr>qr_executed_at := v\<rparr>"

definition QueryReply_SetCacheHit :: "bool \<Rightarrow> QueryReply \<Rightarrow> QueryReply" where
  "QueryReply_SetCacheHit v b = b\<lparr>qr_cache_hit := v\<rparr>"

definition QueryReply_SetExecuted :: "bool \<Rightarrow> QueryReply \<Rightarrow> QueryReply" where
  "QueryReply_SetExecuted v b = b\<lparr>qr_executed := v\<rparr>"

definition QueryReply_Build :: "QueryReply \<Rightarrow> QueryReply StatusOr" where
  "QueryReply_Build b =
     (if qr_request_id b = [] then Inl (Status5 kValidation ''request_id is required'' ''QueryReply::Build'' [] [])
      else if qr_response_to b = [] then Inl (Status5 kValidation ''response_to is required'' ''QueryReply::Build'' [] [])
      else Inr (QueryReply_default\<lparr>qr_request_id := qr_request_id b, qr_response_to := qr_response_to b,
        qr_metadata := qr_metadata b, qr_body := qr_body b, qr_client_id := qr_client_id b,
        qr_tags := qr_tags b, qr_error := qr_error b, qr_executed_at := qr_executed_at b,
        qr_cache_hit := qr_cache_hit b, qr_executed := qr_executed b\<rparr>))"

section \<open>QueueMessage builder\<close>

definition QueueMessage_SetId :: "string \<Rightarrow> QueueMessage \<Rightarrow> QueueMessage" where
  "QueueMessage_SetId v b = b\<lparr>qm_id := v\<rparr>"

definition QueueMessage_SetChannel :: "string \<Rightarrow> QueueMessage \<Rightarrow> QueueMessage" where
  "QueueMessage_SetChannel v b = b\<lparr>qm_channel := v\<rparr>"

definition QueueMessage_SetMetadata :: "string \<Rightarrow> QueueMessage \<Rightarrow> QueueMessage" where
  "QueueMessage_SetMetadata v b = b\<lparr>qm_metadata := v\<rparr>"

definition QueueMessage_SetBody :: "string \<Rightarrow> QueueMessage \<Rightarrow> QueueMessage" where
  "QueueMessage_SetBody v b = b\<lparr>qm_body := v\<rparr>"

definition QueueMessage_SetClientId :: "string \<Rightarrow> QueueMessage \<Rightarrow> QueueMessage" where
  "QueueMessage_SetClientId v b = b\<lparr>qm_client_id := v\<rparr>"

definition QueueMessage_SetTags :: "tags \<Rightarrow> QueueMessage \<Rightarrow> QueueMessage" where
  "QueueMessage_SetTags v b = b\<lparr>qm_tags := v\<rparr>"

definition QueueMessage_AddTag :: "string \<Rightarrow> string \<Rightarrow> QueueMessage \<Rightarrow> QueueMessage" where
  "QueueMessage_AddTag key v b = b\<lparr>qm_tags := (qm_tags b)(key \<mapsto> v)\<rparr>"

definition QueueMessage_SetPolicy :: "QueuePolicy \<Rightarrow> QueueMessage \<Rightarrow> QueueMessage" where
  "QueueMessage_SetPolicy v b = b\<lparr>qm_policy := v\<rparr>"

definition QueueMessage_SetExpirationSeconds :: "int \<Rightarrow> QueueMessage \<Rightarrow> QueueMessage" where
  "QueueMessage_SetExpirationSeconds v b = b\<lparr>qm_policy := (qm_policy b)\<lparr>qp_expiration_seconds := v\<rparr>\<rparr>"

definition QueueMessage_SetDelaySeconds :: "int \<Rightarrow> QueueMessage \<Rightarrow> QueueMessage" where
  "QueueMessage_SetDelaySeconds v b = b\<lparr>qm_policy := (qm_policy b)\<lparr>qp_delay_seconds := v\<rparr>\<rparr>"

definition QueueMessage_SetMaxReceiveCount :: "int \<Rightarrow> QueueMessage \<Rightarrow> QueueMessage" where
  "QueueMessage_SetMaxReceiveCount v b = b\<lparr>qm_policy := (qm_policy b)\<lparr>qp_max_receive_count := v\<rparr>\<rparr>"

definition QueueMessage_SetMaxReceiveQueue :: "string \<Rightarrow> QueueMessage \<Rightarrow> QueueMessage" where
  "QueueMessage_SetMaxReceiveQueue v b = b\<lparr>qm_policy := (qm_policy b)\<lparr>qp_max_receive_queue := v\<rparr>\<rparr>"

definition QueueMessage_Build :: "('w, 64 word) state \<Rightarrow> QueueMessage \<Rightarrow> ('w, QueueMessage StatusOr) state" where
  "QueueMessage_Build rand64 b =
     (if qm_channel b = [] then ret (Inl (Status2 kValidation ''channel is required''))
      else if qm_body b = [] \<and> qm_metadata b = []
        then ret (Inl (Status2 kValidation ''body or metadata is required''))
      else do {
        uid \<leftarrow> (if qm_id b = [] then GenerateUUID rand64 else ret (qm_id b));
        ret (Inr (QueueMessage_default\<lparr>qm_id := uid, qm_channel := qm_channel b, qm_metadata := qm_metadata b,
          qm_body := qm_body b, qm_client_id := qm_client_id b, qm_tags := qm_tags b,
          qm_policy := qm_policy b\<rparr>))
      })"

lemmas setter_defs =
  Event_SetId_def Event_SetChannel_def Event_SetMetadata_def Event_SetBody_def
  Event_SetClientId_def Event_SetTags_def Event_AddTag_def EventStore_SetId_def
  EventStore_SetChannel_def EventStore_SetMetadata_def EventStore_SetBody_def
  EventStore_SetClientId_def EventStore_SetTags_def EventStore_AddTag_def Command_SetId_def
  Command_SetChannel_def Command_SetMetadata_def Command_SetBody_def Command_SetTimeout_def
  Command_SetClientId_def Command_SetTags_def Command_AddTag_def
  CommandReply_SetRequestId_def CommandReply_SetResponseTo_def CommandReply_SetMetadata_def
  CommandReply_SetBody_def CommandReply_SetClientId_def CommandReply_SetTags_def
  CommandReply_SetError_def CommandReply_SetExecutedAt_def CommandReply_SetExecuted_def
  Query_SetId_def Query_SetChannel_def Query_SetMetadata_def Query_SetBody_def
  Query_SetTimeout_def Query_SetClientId_def Query_SetCacheKey_def Query_SetCacheTTL_def
  Query_SetTags_def Query_AddTag_def QueryReply_SetRequestId_def
  QueryReply_SetResponseTo_def QueryReply_SetMetadata_def QueryReply_SetBody_def
  QueryReply_SetClientId_def QueryReply_SetTags_def QueryReply_SetError_def
  QueryReply_SetExecutedAt_def QueryReply_SetCacheHit_def QueryReply_SetExecuted_def
  QueueMessage_SetId_def QueueMessage_SetChannel_def QueueMessage_SetMetadata_def
  QueueMessage_SetBody_def QueueMessage_SetClientId_def QueueMessage_SetTags_def
  QueueMessage_AddTag_def QueueMessage_SetPolicy_def QueueMessage_SetExpirationSeconds_def
  QueueMessage_SetDelaySeconds_def QueueMessage_SetMaxReceiveCount_def
  QueueMessage_SetMaxReceiveQueue_def

lemmas sdk_defaults [proto_simps] =
  Event_default_def EventReceive_default_def EventStreamResult_default_def
  EventStore_default_def EventStoreResult_default_def EventStoreReceive_default_def
  Command_default_def CommandReceive_default_def CommandResponse_default_def
  CommandReply_default_def Query_default_def QueryReceive_default_def
  QueryResponse_default_def QueryReply_default_def QueuePolicy_default_def
  QueueMessageAttributes_default_def QueueSendResult_default_def QueueMessage_default_def
  ReceiveQueueMessagesRequest_default_def ReceiveQueueMessagesResponse_default_def
  AckAllQueueMessagesRequest_default_def AckAllQueueMessagesResponse_default_def
  ServerInfo_default_def ChannelStats_default_def ChannelInfo_default_def
section \<open>The contract of a message builder\<close>

text \<open>
  What the clients of a builder rely on: an invalid builder is refused with a validation error
  and without any effect; a valid one yields the message \<open>with_id i b\<close> that carries the builder's
  members, where the id \<open>i\<close> is the given one or, if none was given, a fresh UUID, and only then is
  the random engine used.
\<close>

locale message_builder =
  fixes rand64 :: "('w, 64 word) state"
    and build :: "'b \<Rightarrow> ('w, 'm StatusOr) state"
    and valid :: "'b \<Rightarrow> bool"
    and given_id :: "'b \<Rightarrow> string"
    and with_id :: "string \<Rightarrow> 'b \<Rightarrow> 'm"
  assumes build_invalid: "\<not> valid b \<Longrightarrow> \<exists>s. run_state (build b) w = (Inl s, w) \<and> code s = kValidation"
    and build_given: "valid b \<Longrightarrow> given_id b \<noteq> [] \<Longrightarrow> run_state (build b) w = (Inr (with_id (given_id b) b), w)"
    and build_fresh: "valid b \<Longrightarrow> given_id b = [] \<Longrightarrow> run_state (build b) w
      = (Inr (with_id (result_of (GenerateUUID rand64) w) b), world_of (GenerateUUID rand64) w)"
begin

lemma build_ok_iff: "sor_ok (result_of (build b) w) = valid b"
  using build_invalid [of b w] build_given [of b w] build_fresh [of b w]
  by (cases "valid b"; cases "given_id b = []") auto

lemma build_error: "result_of (build b) w = Inl s \<Longrightarrow> code s = kValidation \<and> world_of (build b) w = w \<and> \<not> valid b"
  using build_invalid [of b w] build_given [of b w] build_fresh [of b w]
  by (cases "valid b"; cases "given_id b = []") auto

lemma build_result: "result_of (build b) w = Inr m \<Longrightarrow>
    valid b \<and> (\<exists>i. m = with_id i b \<and> (if given_id b = [] then is_uuid_v4 i else i = given_id b))"
  using build_invalid [of b w] build_given [of b w] build_fresh [of b w]
    GenerateUUID_v4 [of rand64 w]
  by (cases "valid b"; cases "given_id b = []") auto

end

definition plain_valid :: "string \<Rightarrow> string \<Rightarrow> string \<Rightarrow> bool" where
  "plain_valid channel body metadata = (channel \<noteq> [] \<and> (body \<noteq> [] \<or> metadata \<noteq> []))"

definition Event_valid :: "Event \<Rightarrow> bool" where
  "Event_valid b = plain_valid (ev_channel b) (ev_body b) (ev_metadata b)"

definition EventStore_valid :: "EventStore \<Rightarrow> bool" where
  "EventStore_valid b = plain_valid (es_channel b) (es_body b) (es_metadata b)"

definition Command_valid :: "Command \<Rightarrow> bool" where
  "Command_valid b = (plain_valid (cm_channel b) (cm_body b) (cm_metadata b) \<and> 0 < cm_timeout b)"

definition Query_valid :: "Query \<Rightarrow> bool" where
  "Query_valid b = (plain_valid (qy_channel b) (qy_body b) (qy_metadata b) \<and> 0 < qy_timeout b)"

definition QueueMessage_valid :: "QueueMessage \<Rightarrow> bool" where
  "QueueMessage_valid b = plain_valid (qm_channel b) (qm_body b) (qm_metadata b)"

lemmas builder_defs = plain_valid_def Event_valid_def EventStore_valid_def Command_valid_def
  Query_valid_def QueueMessage_valid_def Event_Build_def EventStore_Build_def Command_Build_def
  Query_Build_def QueueMessage_Build_def

interpretation event_builder: message_builder rand64 "Event_Build rand64" Event_valid ev_id
    "\<lambda>i b. b\<lparr>ev_id := i\<rparr>"
  by unfold_locales (auto simp: builder_defs sdk_defaults case_prod_unfold)

interpretation event_store_builder: message_builder rand64 "EventStore_Build rand64" EventStore_valid es_id
    "\<lambda>i b. b\<lparr>es_id := i\<rparr>"
  by unfold_locales (auto simp: builder_defs sdk_defaults case_prod_unfold)

interpretation command_builder: message_builder rand64 "Command_Build rand64" Command_valid cm_id
    "\<lambda>i b. b\<lparr>cm_id := i\<rparr>"
  by unfold_locales (auto simp: builder_defs sdk_defaults case_prod_unfold)

interpretation query_builder: message_builder rand64 "Query_Build rand64" Query_valid qy_id
    "\<lambda>i b. b\<lparr>qy_id := i\<rparr>"
  by unfold_locales (auto simp: builder_defs sdk_defaults case_prod_unfold)

interpretation queue_builder: message_builder rand64 "QueueMessage_Build rand64" QueueMessage_valid qm_id
    "\<lambda>i b. b\<lparr>qm_id := i, qm_attributes := QueueMessageAttributes_default\<rparr>"
  by unfold_locales (auto simp: builder_defs sdk_defaults case_prod_unfold)

text \<open>Each of the five builders succeeds exactly when the channel is set, a body or metadata is
  set and, for commands and queries, the timeout is positive.\<close>

theorem builders_accept_exactly_valid:
  "sor_ok (result_of (Event_Build rand64 e) w) = plain_valid (ev_channel e) (ev_body e) (ev_metadata e)
   \<and> sor_ok (result_of (EventStore_Build rand64 s) w) = plain_valid (es_channel s) (es_body s) (es_metadata s)
   \<and> sor_ok (result_of (Command_Build rand64 c) w)
       = (plain_valid (cm_channel c) (cm_body c) (cm_metadata c) \<and> 0 < cm_timeout c)
   \<and> sor_ok (result_of (Query_Build rand64 q) w)
       = (plain_valid (qy_channel q) (qy_body q) (qy_metadata q) \<and> 0 < qy_timeout q)
   \<and> sor_ok (result_of (QueueMessage_Build rand64 m) w) = plain_valid (qm_channel m) (qm_body m) (qm_metadata m)"
  unfolding event_builder.build_ok_iff event_store_builder.build_ok_iff command_builder.build_ok_iff
    query_builder.build_ok_iff queue_builder.build_ok_iff
  by (simp add: Event_valid_def EventStore_valid_def Command_valid_def Query_valid_def QueueMessage_valid_def)

text \<open>A command that is built carries every member of its builder unchanged; its id is the one
  the caller set or, when none was set, a version-4 UUID; a refused build draws no randomness and
  reports a validation error.\<close>

theorem Command_Build_contract:
  "case result_of (Command_Build rand64 b) w of
     Inr c \<Rightarrow> c = b\<lparr>cm_id := cm_id c\<rparr> \<and> (if cm_id b = [] then is_uuid_v4 (cm_id c) else cm_id c = cm_id b)
   | Inl s \<Rightarrow> code s = kValidation \<and> world_of (Command_Build rand64 b) w = w"
proof (cases "result_of (Command_Build rand64 b) w")
  case (Inl s)
  then show ?thesis using command_builder.build_error [OF Inl] by simp
next
  case (Inr c)
  then show ?thesis using command_builder.build_result [OF Inr] by (auto split: if_splits)
qed

end
