(* ===== verification/Converters.thy ===== *)
theory Converters
  imports Proto_Messages Sdk_Messages
begin

text \<open>
  Conversions between SDK types and wire messages (src/internal/transport/converter.cc,
  converter.h). A function that fills a \<^verbatim>\<open>kubemq_pb\<close> object takes the object and returns it updated;
  copying a tag map entry by entry into a map is \<open>++\<close>. The JSON library behind
  \<^verbatim>\<open>ParseChannelListResponse\<close> is a parameter (\<open>json_ops\<close>): its accessors return the value or the
  exception the library throws.
\<close>

section \<open>Helpers\<close>

definition kInternalChannel :: string where
  "kInternalChannel = ''kubemq.cluster.internal.requests''"

definition FirstNonEmpty :: "string \<Rightarrow> string \<Rightarrow> string" where
  "FirstNonEmpty a b = (if a \<noteq> [] then a else b)"

definition CopyTags :: "tags \<Rightarrow> tags" where
  "CopyTags proto_tags = Map.empty ++ proto_tags"

definition SetTags :: "tags \<Rightarrow> tags \<Rightarrow> tags" where
  "SetTags t proto_tags = proto_tags ++ t"

lemma CopyTags_id [simp]: "CopyTags t = t"
  by (simp add: CopyTags_def)

lemma SetTags_empty [simp]: "SetTags t Map.empty = t"
  by (simp add: SetTags_def)

section \<open>Events\<close>

definition EventToProto :: "Event \<Rightarrow> string \<Rightarrow> PbEvent \<Rightarrow> PbEvent" where
  "EventToProto event client_id proto =
     proto\<lparr>pe_EventID := ev_id event,
       pe_ClientID := FirstNonEmpty (ev_client_id event) client_id,
       pe_Channel := ev_channel event,
       pe_Metadata := ev_metadata event,
       pe_Body := ev_body event,
       pe_Store := False,
       pe_Tags := SetTags (ev_tags event) (pe_Tags proto)\<rparr>"

definition EventStoreToProto :: "EventStore \<Rightarrow> string \<Rightarrow> PbEvent \<Rightarrow> PbEvent" where
  "EventStoreToProto event client_id proto =
     proto\<lparr>pe_EventID := es_id event,
       pe_ClientID := FirstNonEmpty (es_client_id event) client_id,
       pe_Channel := es_channel event,
       pe_Metadata := es_metadata event,
       pe_Body := es_body event,
       pe_Store := True,
       pe_Tags := SetTags (es_tags event) (pe_Tags proto)\<rparr>"

definition EventStreamResultFromProto :: "PbResult \<Rightarrow> EventStreamResult" where
  "EventStreamResultFromProto r =
     EventStreamResult_default\<lparr>esr_event_id := rs_EventID r, esr_sent := rs_Sent r, esr_error := rs_Error r\<rparr>"

definition EventStoreResultFromProto :: "PbResult \<Rightarrow> EventStoreResult" where
  "EventStoreResultFromProto r =
     EventStoreResult_default\<lparr>ers_id := rs_EventID r, ers_sent := rs_Sent r, ers_error := rs_Error r\<rparr>"

definition EventReceiveFromProto :: "PbEventReceive \<Rightarrow> EventReceive" where
  "EventReceiveFromProto proto =
     EventReceive_default\<lparr>er_id := per_EventID proto,
       er_channel := per_Channel proto,
       er_metadata := per_Metadata proto,
       er_body := per_Body proto,
       er_timestamp := per_Timestamp proto,
       er_sequence := per_Sequence proto,
       er_tags := CopyTags (per_Tags proto)\<rparr>"

definition EventStoreReceiveFromProto :: "PbEventReceive \<Rightarrow> EventStoreReceive" where
  "EventStoreReceiveFromProto proto =
     EventStoreReceive_default\<lparr>eer_id := per_EventID proto,
       eer_channel := per_Channel proto,
       eer_metadata := per_Metadata proto,
       eer_body := per_Body proto,
       eer_timestamp := per_Timestamp proto,
       eer_sequence := per_Sequence proto,
       eer_tags := CopyTags (per_Tags proto)\<rparr>"

section \<open>Commands\<close>

definition CommandToProto :: "Command \<Rightarrow> string \<Rightarrow> PbRequest \<Rightarrow> PbRequest" where
  "CommandToProto command client_id proto =
     proto\<lparr>rq_RequestID := cm_id command,
       rq_RequestTypeData := RequestTypeCommand,
       rq_ClientID := FirstNonEmpty (cm_client_id command) client_id,
       rq_Channel := cm_channel command,
       rq_Metadata := cm_metadata command,
       rq_Body := cm_body command,
       rq_Timeout := to_int32 (cm_timeout command),
       rq_Tags := SetTags (cm_tags command) (rq_Tags proto)\<rparr>"

definition CommandResponseFromProto :: "PbResponse \<Rightarrow> CommandResponse" where
  "CommandResponseFromProto proto =
     CommandResponse_default\<lparr>co_command_id := rp_RequestID proto,
       co_response_client_id := rp_ClientID proto,
       co_reply_channel := rp_ReplyChannel proto,
       co_executed := rp_Executed proto,
       co_executed_at := rp_Timestamp proto,
       co_error := rp_Error proto,
       co_tags := CopyTags (rp_Tags proto)\<rparr>"

definition CommandReceiveFromProto :: "PbRequest \<Rightarrow> CommandReceive" where
  "CommandReceiveFromProto proto =
     CommandReceive_default\<lparr>cv_id := rq_RequestID proto,
       cv_client_id := rq_ClientID proto,
       cv_channel := rq_Channel proto,
       cv_metadata := rq_Metadata proto,
       cv_body := rq_Body proto,
       cv_response_to := rq_ReplyChannel proto,
       cv_timeout := 1000 * rq_Timeout proto,
       cv_tags := CopyTags (rq_Tags proto)\<rparr>"

definition CommandReplyToProto :: "CommandReply \<Rightarrow> PbResponse \<Rightarrow> PbResponse" where
  "CommandReplyToProto reply proto =
     proto\<lparr>rp_ClientID := cr_client_id reply,
       rp_RequestID := cr_request_id reply,
       rp_ReplyChannel := cr_response_to reply,
       rp_Metadata := cr_metadata reply,
       rp_Body := cr_body reply,
       rp_Timestamp := cr_executed_at reply,
       rp_Executed := cr_executed reply,
       rp_Error := cr_error reply,
       rp_Tags := SetTags (cr_tags reply) (rp_Tags proto)\<rparr>"

section \<open>Queries\<close>

definition QueryToProto :: "Query \<Rightarrow> string \<Rightarrow> PbRequest \<Rightarrow> PbRequest" where
  "QueryToProto query client_id proto =
     proto\<lparr>rq_RequestID := qy_id query,
       rq_RequestTypeData := RequestTypeQuery,
       rq_ClientID := FirstNonEmpty (qy_client_id query) client_id,
       rq_Channel := qy_channel query,
       rq_Metadata := qy_metadata query,
       rq_Body := qy_body query,
       rq_Timeout := to_int32 (qy_timeout query),
       rq_CacheKey := qy_cache_key query,
       rq_CacheTTL := to_int32 (trunc_div (qy_cache_ttl query) 1000),
       rq_Tags := SetTags (qy_tags query) (rq_Tags proto)\<rparr>"

definition QueryResponseFromProto :: "PbResponse \<Rightarrow> QueryResponse" where
  "QueryResponseFromProto proto =
     QueryResponse_default\<lparr>qo_query_id := rp_RequestID proto,
       qo_reply_channel := rp_ReplyChannel proto,
       qo_executed := rp_Executed proto,
       qo_executed_at := rp_Timestamp proto,
       qo_metadata := rp_Metadata proto,
       qo_response_client_id := rp_ClientID proto,
       qo_body := rp_Body proto,
       qo_cache_hit := rp_CacheHit proto,
       qo_error := rp_Error proto,
       qo_tags := CopyTags (rp_Tags proto)\<rparr>"

definition QueryReceiveFromProto :: "PbRequest \<Rightarrow> QueryReceive" where
  "QueryReceiveFromProto proto =
     QueryReceive_default\<lparr>qv_id := rq_RequestID proto,
       qv_client_id := rq_ClientID proto,
       qv_channel := rq_Channel proto,
       qv_metadata := rq_Metadata proto,
       qv_body := rq_Body proto,
       qv_response_to := rq_ReplyChannel proto,
       qv_timeout := 1000 * rq_Timeout proto,
       qv_cache_key := rq_CacheKey proto,
       qv_cache_ttl := 1000 * rq_CacheTTL proto,
       qv_tags := CopyTags (rq_Tags proto)\<rparr>"

definition QueryReplyToProto :: "QueryReply \<Rightarrow> PbResponse \<Rightarrow> PbResponse" where
  "QueryReplyToProto reply proto =
     proto\<lparr>rp_ClientID := qr_client_id reply,
       rp_RequestID := qr_request_id reply,
       rp_ReplyChannel := qr_response_to reply,
       rp_Metadata := qr_metadata reply,
       rp_Body := qr_body reply,
       rp_Timestamp := qr_executed_at reply,
       rp_Executed := qr_executed reply,
       rp_Error := qr_error reply,
       rp_CacheHit := qr_cache_hit reply,
       rp_Tags := SetTags (qr_tags reply) (rp_Tags proto)\<rparr>"

section \<open>Queues\<close>

text \<open>\<^verbatim>\<open>QueueMessage::policy()\<close> returns the address of a member, so it is never null.\<close>

definition QueueMessageToProto :: "QueueMessage \<Rightarrow> string \<Rightarrow> PbQueueMessage \<Rightarrow> PbQueueMessage" where
  "QueueMessageToProto msg client_id proto =
     (let pb_policy0 = (case pq_Policy proto of Some p \<Rightarrow> p | None \<Rightarrow> PbQueueMessagePolicy_default);
          pb_policy = pb_policy0\<lparr>
            pp_ExpirationSeconds := to_int32 (qp_expiration_seconds (qm_policy msg)),
            pp_DelaySeconds := to_int32 (qp_delay_seconds (qm_policy msg)),
            pp_MaxReceiveCount := to_int32 (qp_max_receive_count (qm_policy msg)),
            pp_MaxReceiveQueue := qp_max_receive_queue (qm_policy msg)\<rparr>
      in proto\<lparr>pq_MessageID := qm_id msg,
           pq_ClientID := FirstNonEmpty (qm_client_id msg) client_id,
           pq_Channel := qm_channel msg,
           pq_Metadata := qm_metadata msg,
           pq_Body := qm_body msg,
           pq_Tags := SetTags (qm_tags msg) (pq_Tags proto),
           pq_Policy := Some pb_policy\<rparr>)"

definition policy_from_proto :: "PbQueueMessagePolicy \<Rightarrow> QueuePolicy" where
  "policy_from_proto p =
     QueuePolicy_default\<lparr>qp_expiration_seconds := pp_ExpirationSeconds p,
       qp_delay_seconds := pp_DelaySeconds p,
       qp_max_receive_count := pp_MaxReceiveCount p,
       qp_max_receive_queue := pp_MaxReceiveQueue p\<rparr>"

definition attributes_from_proto :: "PbQueueMessageAttributes \<Rightarrow> QueueMessageAttributes \<Rightarrow> QueueMessageAttributes" where
  "attributes_from_proto attrs a =
     a\<lparr>qa_timestamp := pa_Timestamp attrs,
       qa_sequence := pa_Sequence attrs,
       qa_md5_of_body := pa_MD5OfBody attrs,
       qa_receive_count := pa_ReceiveCount attrs,
       qa_re_routed := pa_ReRouted attrs,
       qa_re_routed_from_queue := pa_ReRoutedFromQueue attrs,
       qa_expiration_at := pa_ExpirationAt attrs,
       qa_delayed_to := pa_DelayedTo attrs\<rparr>"

definition QueueMessageFromProto :: "('w, 64 word) state \<Rightarrow> PbQueueMessage \<Rightarrow> ('w, QueueMessage) state" where
  "QueueMessageFromProto rand64 proto =
     (let b1 = QueueMessage_SetId (pq_MessageID proto) QueueMessage_default;
          b2 = QueueMessage_SetChannel (pq_Channel proto) b1;
          b3 = QueueMessage_SetClientId (pq_ClientID proto) b2;
          b4 = QueueMessage_SetMetadata (pq_Metadata proto) b3;
          b5 = QueueMessage_SetBody (pq_Body proto) b4;
          b6 = QueueMessage_SetTags (Map.empty ++ pq_Tags proto) b5;
          builder = (case pq_Policy proto of
             Some p \<Rightarrow> QueueMessage_SetPolicy (policy_from_proto p) b6
           | None \<Rightarrow> b6)
      in do {
        result \<leftarrow> QueueMessage_Build rand64 builder;
        (case result of
           Inl _ \<Rightarrow> ret QueueMessage_default
         | Inr msg \<Rightarrow>
             ret (case pq_Attributes proto of
                Some attrs \<Rightarrow> msg\<lparr>qm_attributes := attributes_from_proto attrs (qm_attributes msg)\<rparr>
              | None \<Rightarrow> msg))
      })"

definition QueueSendResultFromProto :: "PbSendQueueMessageResult \<Rightarrow> QueueSendResult" where
  "QueueSendResultFromProto proto =
     QueueSendResult_default\<lparr>qs_message_id := sq_MessageID proto,
       qs_sent_at := sq_SentAt proto,
       qs_expiration_at := sq_ExpirationAt proto,
       qs_delayed_to := sq_DelayedTo proto,
       qs_is_error := sq_IsError proto,
       qs_error := sq_Error proto\<rparr>"

definition ReceiveQueueMessagesRequestToProto ::
    "ReceiveQueueMessagesRequest \<Rightarrow> PbReceiveQueueMessagesRequest \<Rightarrow> PbReceiveQueueMessagesRequest" where
  "ReceiveQueueMessagesRequestToProto req proto =
     proto\<lparr>rr_RequestID := rmq_request_id req,
       rr_ClientID := rmq_client_id req,
       rr_Channel := rmq_channel req,
       rr_MaxNumberOfMessages := rmq_max_number_of_messages req,
       rr_WaitTimeSeconds := rmq_wait_time_seconds req,
       rr_IsPeak := rmq_is_peek req\<rparr>"

definition ReceiveQueueMessagesResponseFromProto :: "('w, 64 word) state
    \<Rightarrow> PbReceiveQueueMessagesResponse \<Rightarrow> ('w, ReceiveQueueMessagesResponse) state" where
  "ReceiveQueueMessagesResponseFromProto rand64 proto =
     (let resp = ReceiveQueueMessagesResponse_default\<lparr>rmo_request_id := ro_RequestID proto,
            rmo_messages_received := ro_MessagesReceived proto,
            rmo_messages_expired := ro_MessagesExpired proto,
            rmo_is_peek := ro_IsPeak proto,
            rmo_is_error := ro_IsError proto,
            rmo_error := ro_Error proto\<rparr>
      in do {
        msgs \<leftarrow> map_state (QueueMessageFromProto rand64) (ro_Messages proto);
        ret (resp\<lparr>rmo_messages := rmo_messages resp @ msgs\<rparr>)
      })"

definition AckAllQueueMessagesRequestToProto ::
    "AckAllQueueMessagesRequest \<Rightarrow> PbAckAllQueueMessagesRequest \<Rightarrow> PbAckAllQueueMessagesRequest" where
  "AckAllQueueMessagesRequestToProto req proto =
     proto\<lparr>aq_RequestID := akq_request_id req,
       aq_ClientID := akq_client_id req,
       aq_Channel := akq_channel req,
       aq_WaitTimeSeconds := akq_wait_time_seconds req\<rparr>"

definition AckAllQueueMessagesResponseFromProto ::
    "PbAckAllQueueMessagesResponse \<Rightarrow> AckAllQueueMessagesResponse" where
  "AckAllQueueMessagesResponseFromProto proto =
     AckAllQueueMessagesResponse_default\<lparr>ako_request_id := ao_RequestID proto,
       ako_affected_messages := ao_AffectedMessages proto,
       ako_is_error := ao_IsError proto,
       ako_error := ao_Error proto\<rparr>"

section \<open>Server information and channel management\<close>

definition ServerInfoFromProto :: "PbPingResult \<Rightarrow> ServerInfo" where
  "ServerInfoFromProto proto =
     ServerInfo_default\<lparr>si_host := pr_Host proto,
       si_version := pr_Version proto,
       si_server_start_time := pr_ServerStartTime proto,
       si_server_up_time_seconds := pr_ServerUpTimeSeconds proto\<rparr>"

definition BuildChannelManagementRequest ::
    "string \<Rightarrow> string \<Rightarrow> string \<Rightarrow> string \<Rightarrow> string \<Rightarrow> PbRequest \<Rightarrow> PbRequest" where
  "BuildChannelManagementRequest client_id channel_name channel_type op request_id proto =
     proto\<lparr>rq_RequestID := request_id,
       rq_RequestTypeData := RequestTypeQuery,
       rq_ClientID := client_id,
       rq_Channel := kInternalChannel,
       rq_Metadata := op,
       rq_Timeout := 10000,
       rq_Tags := (rq_Tags proto)(''channel'' \<mapsto> channel_name, ''channel_type'' \<mapsto> channel_type,
          ''client_id'' \<mapsto> client_id)\<rparr>"

datatype json_exn = JParseError string | JTypeError string | JOtherError string

record 'j json_ops =
  j_parse :: "string \<Rightarrow> json_exn + 'j"
  j_is_array :: "'j \<Rightarrow> bool"
  j_items :: "'j \<Rightarrow> 'j list"
  j_contains :: "'j \<Rightarrow> string \<Rightarrow> bool"
  j_at :: "'j \<Rightarrow> string \<Rightarrow> 'j"
  j_value_string :: "'j \<Rightarrow> string \<Rightarrow> string \<Rightarrow> json_exn + string"
  j_value_int64 :: "'j \<Rightarrow> string \<Rightarrow> int \<Rightarrow> json_exn + int"
  j_value_bool :: "'j \<Rightarrow> string \<Rightarrow> bool \<Rightarrow> json_exn + bool"

definition jbind :: "json_exn + 'a \<Rightarrow> ('a \<Rightarrow> json_exn + 'b) \<Rightarrow> json_exn + 'b" where
  "jbind r f = (case r of Inl e \<Rightarrow> Inl e | Inr a \<Rightarrow> f a)"

definition parse_stats :: "'j json_ops \<Rightarrow> 'j \<Rightarrow> ChannelStats \<Rightarrow> json_exn + ChannelStats" where
  "parse_stats J inc st =
     jbind (j_value_int64 J inc ''messages'' 0) (\<lambda>m.
     jbind (j_value_int64 J inc ''volume'' 0) (\<lambda>v.
     jbind (j_value_int64 J inc ''responses'' 0) (\<lambda>r.
     jbind (j_value_int64 J inc ''waiting'' 0) (\<lambda>wt.
     jbind (j_value_int64 J inc ''expired'' 0) (\<lambda>ex.
     jbind (j_value_int64 J inc ''delayed'' 0) (\<lambda>d.
       Inr (st\<lparr>cs_messages := m, cs_volume := v, cs_responses := r, cs_waiting := wt,
         cs_expired := ex, cs_delayed := d\<rparr>)))))))"

definition parse_channel :: "'j json_ops \<Rightarrow> 'j \<Rightarrow> json_exn + ChannelInfo" where
  "parse_channel J item =
     jbind (j_value_string J item ''name'' []) (\<lambda>nm.
     jbind (j_value_string J item ''type'' []) (\<lambda>ty.
     jbind (j_value_int64 J item ''lastActivity'' 0) (\<lambda>la.
     jbind (j_value_bool J item ''isActive'' False) (\<lambda>act.
     jbind (if j_contains J item ''incoming''
            then parse_stats J (j_at J item ''incoming'') ChannelStats_default
            else Inr ChannelStats_default) (\<lambda>inc.
     jbind (if j_contains J item ''outgoing''
            then parse_stats J (j_at J item ''outgoing'') ChannelStats_default
            else Inr ChannelStats_default) (\<lambda>out.
       Inr (ChannelInfo_default\<lparr>ci_name := nm, ci_type := ty, ci_last_activity := la,
         ci_is_active := act, ci_incoming := inc, ci_outgoing := out\<rparr>)))))))"

fun parse_channels :: "'j json_ops \<Rightarrow> 'j list \<Rightarrow> ChannelInfo list \<Rightarrow> json_exn + ChannelInfo list" where
  "parse_channels J [] channels = Inr channels"
| "parse_channels J (item # items) channels =
     jbind (parse_channel J item) (\<lambda>info. parse_channels J items (channels @ [info]))"

text \<open>The two \<^verbatim>\<open>catch\<close> clauses turn parse and type errors into statuses; any other exception of the
  library leaves the function (\<open>Inl\<close>).\<close>

definition ParseChannelListResponse :: "'j json_ops \<Rightarrow> string \<Rightarrow> exn + ChannelInfo list StatusOr" where
  "ParseChannelListResponse J json_body =
     (if json_body = [] then Inr (Inr [])
      else
        (case jbind (j_parse J json_body) (\<lambda>json.
                if \<not> j_is_array J json
                then Inr (Inl (Status2 kFatal ''expected JSON array in channel list response''))
                else jbind (parse_channels J (j_items J json) []) (\<lambda>channels. Inr (Inr channels))) of
           Inr r \<Rightarrow> Inr r
         | Inl (JParseError e) \<Rightarrow>
             Inr (Inl (Status2 kFatal (''failed to parse channel list JSON: '' @ e)))
         | Inl (JTypeError e) \<Rightarrow>
             Inr (Inl (Status2 kFatal (''unexpected type in channel list JSON: '' @ e)))
         | Inl (JOtherError e) \<Rightarrow> Inl (StdException e)))"

section \<open>Queue streams\<close>

record QueueUpstreamResultData =
  ud_ref_request_id :: string
  ud_results :: "QueueSendResult list"
  ud_is_error :: bool
  ud_error :: string

definition QueueUpstreamRequestToProto ::
    "string \<Rightarrow> QueueMessage list \<Rightarrow> string \<Rightarrow> PbQueuesUpstreamRequest \<Rightarrow> PbQueuesUpstreamRequest" where
  "QueueUpstreamRequestToProto request_id messages client_id proto =
     proto\<lparr>uq_RequestID := request_id,
       uq_Messages := uq_Messages proto
         @ map (\<lambda>msg. QueueMessageToProto msg client_id PbQueueMessage_default) messages\<rparr>"

definition QueueUpstreamResponseFromProto :: "PbQueuesUpstreamResponse \<Rightarrow> QueueUpstreamResultData" where
  "QueueUpstreamResponseFromProto proto =
     \<lparr>ud_ref_request_id = uo_RefRequestID proto,
      ud_results = map QueueSendResultFromProto (uo_Results proto),
      ud_is_error = uo_IsError proto,
      ud_error = uo_Error proto\<rparr>"

lemmas converter_defs [proto_simps] =
  EventToProto_def EventStoreToProto_def EventReceiveFromProto_def EventStoreReceiveFromProto_def
  CommandToProto_def CommandResponseFromProto_def CommandReceiveFromProto_def CommandReplyToProto_def
  QueryToProto_def QueryResponseFromProto_def QueryReceiveFromProto_def QueryReplyToProto_def
  QueueMessageToProto_def policy_from_proto_def QueueSendResultFromProto_def

section \<open>What survives the wire\<close>

text \<open>
  The contract of a codec: what the receiver reads from the encoding of a sendable message is a
  fixed view of that message, and reading it has no effect.
\<close>

locale wire_codec =
  fixes encode :: "'m \<Rightarrow> 'p"
    and decode :: "'p \<Rightarrow> ('w, 'r) state"
    and sendable :: "'m \<Rightarrow> bool"
    and view :: "'m \<Rightarrow> 'r"
  assumes decode_encode: "sendable m \<Longrightarrow> run_state (decode (encode m)) w = (view m, w)"
begin

lemma batch: "list_all sendable ms \<Longrightarrow> run_state (map_state decode (map encode ms)) w = (map view ms, w)"
  by (induction ms) (simp_all add: decode_encode)

lemma encode_determines_view: "sendable m \<Longrightarrow> sendable m' \<Longrightarrow> encode m = encode m' \<Longrightarrow> view m = view m'"
  using decode_encode [of m undefined] decode_encode [of m' undefined] by simp

end

definition int32_range :: "int \<Rightarrow> bool" where
  "int32_range i = (- 2147483648 \<le> i \<and> i < 2147483648)"

lemma to_int32_range: "int32_range i \<Longrightarrow> to_int32 i = i"
  by (simp add: int32_range_def to_int32_id)

definition QueueMessage_sendable :: "QueueMessage \<Rightarrow> bool" where
  "QueueMessage_sendable m =
     (QueueMessage_valid m \<and> qm_id m \<noteq> [] \<and> int32_range (qp_expiration_seconds (qm_policy m))
      \<and> int32_range (qp_delay_seconds (qm_policy m)) \<and> int32_range (qp_max_receive_count (qm_policy m)))"

definition queue_view :: "string \<Rightarrow> QueueMessage \<Rightarrow> QueueMessage" where
  "queue_view cid m =
     m\<lparr>qm_client_id := FirstNonEmpty (qm_client_id m) cid, qm_attributes := QueueMessageAttributes_default\<rparr>"

definition command_view :: "string \<Rightarrow> Command \<Rightarrow> CommandReceive" where
  "command_view cid c =
     \<lparr>cv_id = cm_id c, cv_client_id = FirstNonEmpty (cm_client_id c) cid, cv_channel = cm_channel c,
      cv_metadata = cm_metadata c, cv_body = cm_body c, cv_response_to = [],
      cv_timeout = 1000 * cm_timeout c, cv_tags = cm_tags c\<rparr>"

definition query_view :: "string \<Rightarrow> Query \<Rightarrow> QueryReceive" where
  "query_view cid q =
     \<lparr>qv_id = qy_id q, qv_channel = qy_channel q, qv_client_id = FirstNonEmpty (qy_client_id q) cid,
      qv_metadata = qy_metadata q, qv_body = qy_body q, qv_response_to = [],
      qv_timeout = 1000 * qy_timeout q, qv_cache_key = qy_cache_key q,
      qv_cache_ttl = 1000 * (qy_cache_ttl q div 1000), qv_tags = qy_tags q\<rparr>"

interpretation queue_codec: wire_codec "\<lambda>m. QueueMessageToProto m cid PbQueueMessage_default"
    "QueueMessageFromProto rand64" QueueMessage_sendable "queue_view cid"
proof unfold_locales
  fix m and w :: 'a
  assume m: "QueueMessage_sendable m"
  then have r: "to_int32 (qp_expiration_seconds (qm_policy m)) = qp_expiration_seconds (qm_policy m)"
    "to_int32 (qp_delay_seconds (qm_policy m)) = qp_delay_seconds (qm_policy m)"
    "to_int32 (qp_max_receive_count (qm_policy m)) = qp_max_receive_count (qm_policy m)"
    by (simp_all add: QueueMessage_sendable_def to_int32_range)
  show "run_state (QueueMessageFromProto rand64 (QueueMessageToProto m cid PbQueueMessage_default)) w
      = (queue_view cid m, w)"
    using m by (auto simp: QueueMessageFromProto_def QueueMessageToProto_def policy_from_proto_def r
        queue_view_def QueueMessage_sendable_def QueueMessage_valid_def plain_valid_def
        QueueMessage_Build_def setter_defs pb_defaults sdk_defaults Let_def)
qed

interpretation command_codec: wire_codec "\<lambda>c. CommandToProto c cid PbRequest_default"
    "\<lambda>p. ret (CommandReceiveFromProto p)" "\<lambda>c. int32_range (cm_timeout c)" "command_view cid"
  by unfold_locales
    (simp add: CommandToProto_def CommandReceiveFromProto_def command_view_def to_int32_range
      pb_defaults sdk_defaults)

interpretation query_codec: wire_codec "\<lambda>q. QueryToProto q cid PbRequest_default"
    "\<lambda>p. ret (QueryReceiveFromProto p)"
    "\<lambda>q. int32_range (qy_timeout q) \<and> 0 \<le> qy_cache_ttl q \<and> int32_range (qy_cache_ttl q div 1000)"
    "query_view cid"
  by unfold_locales
    (simp add: QueryToProto_def QueryReceiveFromProto_def query_view_def to_int32_range trunc_div_pos
      pb_defaults sdk_defaults)

text \<open>C5. A batch of queue messages survives the wire: decoding the messages of an upstream request
  gives back every message in order with all its members, except that an empty client id is
  replaced by the client's own and the attributes (which only the server sets) are reset.\<close>

theorem queue_batch_roundtrip:
  assumes "list_all QueueMessage_sendable ms"
  shows "run_state (map_state (QueueMessageFromProto rand64)
      (uq_Messages (QueueUpstreamRequestToProto rid ms cid PbQueuesUpstreamRequest_default))) w
    = (map (queue_view cid) ms, w)"
  using queue_codec.batch [OF assms, of rand64 cid w]
  by (simp add: QueueUpstreamRequestToProto_def PbQueuesUpstreamRequest_default_def)

definition sample_message :: QueueMessage where
  "sample_message =
     QueueMessage_default\<lparr>qm_id := ''m-1'', qm_channel := ''orders'', qm_body := ''x'',
       qm_tags := [''k'' \<mapsto> ''v''], qm_policy := QueuePolicy_default\<lparr>qp_delay_seconds := 30\<rparr>\<rparr>"

lemma sample_sendable: "QueueMessage_sendable sample_message"
  by (simp add: sample_message_def QueueMessage_sendable_def QueueMessage_valid_def plain_valid_def
      int32_range_def sdk_defaults)

theorem queue_batch_roundtrip_witness:
  "list_all QueueMessage_sendable [sample_message, sample_message]
   \<and> run_state (map_state (QueueMessageFromProto (ret 0))
      (uq_Messages (QueueUpstreamRequestToProto ''r'' [sample_message, sample_message] ''me'' PbQueuesUpstreamRequest_default))) ()
    = ([sample_message\<lparr>qm_client_id := ''me''\<rparr>, sample_message\<lparr>qm_client_id := ''me''\<rparr>], ())"
proof -
  have h: "list_all QueueMessage_sendable [sample_message, sample_message]"
    by (simp add: sample_sendable)
  have "queue_view ''me'' sample_message = sample_message\<lparr>qm_client_id := ''me''\<rparr>"
    by (simp add: queue_view_def sample_message_def FirstNonEmpty_def sdk_defaults)
  then show ?thesis using h queue_batch_roundtrip [OF h, of "ret 0" "''r''" "''me''" "()"] by simp
qed

text \<open>What a responder reads of a command is what was sent, with an empty client id filled in,
  except for the timeout: it is written to the wire in milliseconds and read back in seconds, so
  the responder sees a timeout a thousand times too long (and no wrap-around occurs only while the
  timeout fits 32 bits).\<close>

theorem command_wire_timeout_scaled:
  assumes "int32_range (cm_timeout c)"
  shows "CommandReceiveFromProto (CommandToProto c cid PbRequest_default) = command_view cid c
    \<and> cv_timeout (CommandReceiveFromProto (CommandToProto c cid PbRequest_default)) = 1000 * cm_timeout c"
  using command_codec.decode_encode [OF assms, of cid undefined] by (simp add: command_view_def)

theorem command_wire_timeout_scaled_witness:
  "int32_range (cm_timeout (Command_default\<lparr>cm_timeout := 5000\<rparr>))
   \<and> cv_timeout (CommandReceiveFromProto (CommandToProto (Command_default\<lparr>cm_timeout := 5000\<rparr>) ''me'' PbRequest_default))
     = 5000000"
proof -
  have h: "int32_range (cm_timeout (Command_default\<lparr>cm_timeout := 5000\<rparr>))"
    by (simp add: int32_range_def)
  show ?thesis using h command_wire_timeout_scaled [OF h, of "''me''"] by (simp add: command_view_def)
qed

text \<open>A timeout is cut to 32 bits on its way to the wire: two commands whose timeouts differ by
  a multiple of \<open>2 ^ 32\<close> milliseconds are sent identically, so a positive timeout can be sent as 0,
  which the transport treats as no timeout set.\<close>

theorem command_timeout_wraps:
  "CommandToProto (c\<lparr>cm_timeout := t + 4294967296 * k\<rparr>) cid proto = CommandToProto (c\<lparr>cm_timeout := t\<rparr>) cid proto
   \<and> rq_Timeout (CommandToProto (c\<lparr>cm_timeout := 4294967296\<rparr>) cid proto) = 0"
  using to_int32_add_wrap [of t k] to_int32_add_wrap [of 0 1]
  by (simp add: CommandToProto_def, simp add: to_int32_def)

text \<open>What a responder reads of a query is what was sent up to the client id and the scaled
  timeout; the cache lifetime loses at most its fraction of a second.\<close>

theorem query_wire_roundtrip:
  assumes "int32_range (qy_timeout q)" "0 \<le> qy_cache_ttl q" "int32_range (qy_cache_ttl q div 1000)"
  shows "QueryReceiveFromProto (QueryToProto q cid PbRequest_default) = query_view cid q
    \<and> qv_cache_ttl (query_view cid q) \<le> qy_cache_ttl q
    \<and> qy_cache_ttl q < qv_cache_ttl (query_view cid q) + 1000"
proof -
  have "qv_cache_ttl (query_view cid q) \<le> qy_cache_ttl q \<and> qy_cache_ttl q < qv_cache_ttl (query_view cid q) + 1000"
    by (simp add: query_view_def)
       (metis add.commute mult_div_mod_eq add_le_cancel_left add_less_cancel_left pos_mod_bound
         pos_mod_sign zero_less_numeral le_add_same_cancel1)
  then show ?thesis using query_codec.decode_encode [of q cid undefined] assms by simp
qed

theorem query_wire_roundtrip_witness:
  "int32_range (qy_timeout (Query_default\<lparr>qy_timeout := 10, qy_cache_ttl := 1500\<rparr>))
   \<and> QueryReceiveFromProto (QueryToProto (Query_default\<lparr>qy_timeout := 10, qy_cache_ttl := 1500\<rparr>) ''me'' PbRequest_default)
     = query_view ''me'' (Query_default\<lparr>qy_timeout := 10, qy_cache_ttl := 1500\<rparr>)"
proof -
  have h: "int32_range (qy_timeout (Query_default\<lparr>qy_timeout := 10, qy_cache_ttl := 1500\<rparr>))"
    "0 \<le> qy_cache_ttl (Query_default\<lparr>qy_timeout := 10, qy_cache_ttl := 1500\<rparr>)"
    "int32_range (qy_cache_ttl (Query_default\<lparr>qy_timeout := 10, qy_cache_ttl := 1500\<rparr>) div 1000)"
    by (simp_all add: int32_range_def)
  show ?thesis using h(1) query_wire_roundtrip [OF h, of "''me''"] by simp
qed

text \<open>A reply that a responder builds reaches the requester with every member it has a place
  for: all ten of a query reply, and of a command reply everything but metadata and body.\<close>

theorem reply_wire_roundtrip:
  "QueryResponseFromProto (QueryReplyToProto qreply PbResponse_default)
     = \<lparr>qo_query_id = qr_request_id qreply, qo_reply_channel = qr_response_to qreply,
        qo_executed = qr_executed qreply, qo_executed_at = qr_executed_at qreply,
        qo_metadata = qr_metadata qreply, qo_response_client_id = qr_client_id qreply,
        qo_body = qr_body qreply, qo_cache_hit = qr_cache_hit qreply, qo_error = qr_error qreply,
        qo_tags = qr_tags qreply\<rparr>
   \<and> CommandResponseFromProto (CommandReplyToProto creply PbResponse_default)
     = \<lparr>co_command_id = cr_request_id creply, co_response_client_id = cr_client_id creply,
        co_reply_channel = cr_response_to creply, co_executed = cr_executed creply,
        co_executed_at = cr_executed_at creply, co_error = cr_error creply, co_tags = cr_tags creply\<rparr>"
  by (simp add: proto_simps)

text \<open>A queue message received without a channel, or with neither body nor metadata, is replaced
  by an empty default message: its id, tags, policy and attributes (the sequence number needed to
  acknowledge it among them) are lost, although the conversion is meant to skip validation.\<close>

theorem received_message_lost:
  assumes "\<not> plain_valid (pq_Channel p) (pq_Body p) (pq_Metadata p)"
  shows "run_state (QueueMessageFromProto rand64 p) w = (QueueMessage_default, w)"
  using assms
  by (auto simp: QueueMessageFromProto_def plain_valid_def QueueMessage_Build_def setter_defs Let_def
      split: option.splits)

theorem received_message_lost_witness:
  "\<not> plain_valid ''orders'' [] []
   \<and> run_state (QueueMessageFromProto (ret 0) (PbQueueMessage_default\<lparr>pq_MessageID := ''m-1'', pq_Channel := ''orders'',
        pq_Attributes := Some (PbQueueMessageAttributes_default\<lparr>pa_Sequence := 7\<rparr>)\<rparr>)) ()
     = (QueueMessage_default, ())"
proof -
  let ?p = "PbQueueMessage_default\<lparr>pq_MessageID := ''m-1'', pq_Channel := ''orders'',
        pq_Attributes := Some (PbQueueMessageAttributes_default\<lparr>pa_Sequence := 7\<rparr>)\<rparr>"
  have h: "\<not> plain_valid (pq_Channel ?p) (pq_Body ?p) (pq_Metadata ?p)"
    by (simp add: plain_valid_def PbQueueMessage_default_def)
  show ?thesis using received_message_lost [OF h, of "ret 0" "()"] by (simp add: plain_valid_def)
qed

section \<open>Channel lists\<close>

lemma parse_channels_length:
  "parse_channels J items acc = Inr cs \<Longrightarrow> length cs = length acc + length items"
  by (induction items arbitrary: acc) (auto simp: jbind_def split: sum.splits)

lemma parse_channels_parsed:
  "parse_channels J items acc = Inr cs \<Longrightarrow>
    \<exists>new. cs = acc @ new \<and> list_all2 (\<lambda>item info. parse_channel J item = Inr info) items new"
proof (induction items arbitrary: acc)
  case (Cons item items)
  then obtain info where i: "parse_channel J item = Inr info" "parse_channels J items (acc @ [info]) = Inr cs"
    by (auto simp: jbind_def split: sum.splits)
  from Cons.IH [OF i(2)] obtain new where
    "cs = (acc @ [info]) @ new" "list_all2 (\<lambda>item info. parse_channel J item = Inr info) items new" by blast
  with i(1) show ?case by (intro exI [of _ "info # new"]) simp
qed simp

text \<open>Parsing a channel list returns one entry per element of the JSON array, each parsed from
  its element, in order; a failure of the JSON library while parsing or converting becomes a
  \<open>kFatal\<close> status, and only an exception of another kind leaves the function.\<close>

theorem ParseChannelListResponse_spec:
  "case ParseChannelListResponse J body of
     Inr (Inr cs) \<Rightarrow> (body = [] \<and> cs = []) \<or>
       (\<exists>json. j_parse J body = Inr json \<and> j_is_array J json
          \<and> list_all2 (\<lambda>item info. parse_channel J item = Inr info) (j_items J json) cs)
   | Inr (Inl s) \<Rightarrow> code s = kFatal
   | Inl e \<Rightarrow> (\<exists>m. e = StdException m)"
  using parse_channels_parsed [of J "j_items J json" "[]" for json]
  by (auto simp: ParseChannelListResponse_def jbind_def Status2_def
      split: sum.splits json_exn.splits if_splits)

end
