(* ===== verification/Grpc_Transport.thy ===== *)
theory Grpc_Transport
  imports Auth_Guard Converters
begin

text \<open>
  The transport (src/internal/transport/grpc_transport.h and grpc_transport.cc): connecting,
  closing and one operation per RPC of the service.

  The gRPC runtime is a parameter: \<open>grpc_env\<close> holds the channel functions and \<open>Stub\<close> the generated
  client stub, one action on the world per RPC; a stream that an RPC opens is a handle (\<open>nat\<close>, or
  \<open>None\<close> for a null pointer). A transport object exists only after a successful \<^verbatim>\<open>Connect\<close>, so its
  channel and stub are plain members; \<^verbatim>\<open>reconnect_loop_\<close> and \<^verbatim>\<open>message_buffer_\<close> are never created by
  the code and have no counterpart here. Sums of a wait time and five seconds are exact: the C++
  addition overflows (undefined behaviour) above \<open>2 ^ 31 - 6\<close>.
\<close>

section \<open>Default timeouts\<close>

text \<open>The constants of types.h are \<^verbatim>\<open>std::chrono::seconds\<close>; their \<^verbatim>\<open>count()\<close> is the number of seconds.\<close>

definition kDefaultSendTimeout :: int where
  "kDefaultSendTimeout = 5"

definition kDefaultRPCTimeout :: int where
  "kDefaultRPCTimeout = 10"

section \<open>The gRPC runtime\<close>

record 'w Stub =
  stub_Ping :: "ClientContext \<Rightarrow> ('w, grpc_status \<times> PbPingResult) state"
  stub_SendEvent :: "ClientContext \<Rightarrow> PbEvent \<Rightarrow> ('w, grpc_status \<times> PbResult) state"
  stub_SendEventsStream :: "ClientContext \<Rightarrow> ('w, nat option) state"
  stub_SubscribeToEvents :: "ClientContext \<Rightarrow> PbSubscribe \<Rightarrow> ('w, nat option) state"
  stub_SendRequest :: "ClientContext \<Rightarrow> PbRequest \<Rightarrow> ('w, grpc_status \<times> PbResponse) state"
  stub_SendResponse :: "ClientContext \<Rightarrow> PbResponse \<Rightarrow> ('w, grpc_status) state"
  stub_SubscribeToRequests :: "ClientContext \<Rightarrow> PbSubscribe \<Rightarrow> ('w, nat option) state"
  stub_SendQueueMessage :: "ClientContext \<Rightarrow> PbQueueMessage \<Rightarrow> ('w, grpc_status \<times> PbSendQueueMessageResult) state"
  stub_SendQueueMessagesBatch :: "ClientContext \<Rightarrow> PbQueueMessagesBatchRequest
    \<Rightarrow> ('w, grpc_status \<times> PbQueueMessagesBatchResponse) state"
  stub_ReceiveQueueMessages :: "ClientContext \<Rightarrow> PbReceiveQueueMessagesRequest
    \<Rightarrow> ('w, grpc_status \<times> PbReceiveQueueMessagesResponse) state"
  stub_AckAllQueueMessages :: "ClientContext \<Rightarrow> PbAckAllQueueMessagesRequest
    \<Rightarrow> ('w, grpc_status \<times> PbAckAllQueueMessagesResponse) state"
  stub_QueuesUpstream :: "ClientContext \<Rightarrow> ('w, nat option) state"
  stub_QueuesDownstream :: "ClientContext \<Rightarrow> ('w, nat option) state"

datatype grpc_channel_state = CHANNEL_IDLE | CHANNEL_CONNECTING | CHANNEL_READY
  | CHANNEL_TRANSIENT_FAILURE | CHANNEL_SHUTDOWN

record 'w grpc_env =
  ge_CreateCustomChannel :: "string \<Rightarrow> channel_credentials \<Rightarrow> ChannelArguments \<Rightarrow> ('w, nat option) state"
  ge_NewStub :: "nat \<Rightarrow> 'w Stub option"
  ge_WaitForConnected :: "nat \<Rightarrow> millis \<Rightarrow> ('w, bool) state"
  ge_GetState :: "nat \<Rightarrow> ('w, grpc_channel_state) state"

section \<open>Life cycle\<close>

record 'w GrpcTransport =
  gt_channel :: nat
  gt_stub :: "'w Stub"
  gt_opts :: "'w ClientOptions"
  gt_closed :: bool
  gt_close_once :: bool
  gt_state_machine :: "'w StateMachine option"

definition connect_args :: "'w ClientOptions \<Rightarrow> ChannelArguments" where
  "connect_args opts =
     \<lparr>ca_ints = [KEEPALIVE_TIME_MS \<mapsto> to_int32 (co_keepalive_time opts),
        KEEPALIVE_TIMEOUT_MS \<mapsto> to_int32 (co_keepalive_timeout opts),
        KEEPALIVE_PERMIT_WITHOUT_CALLS \<mapsto> (if co_permit_keepalive_without_stream opts then 1 else 0)],
      ca_max_receive = Some (co_max_receive_message_size opts),
      ca_max_send = Some (co_max_send_message_size opts),
      ca_ssl_target_name =
        (if tls_enabled (co_tls_config opts) \<and> tls_server_name_override (co_tls_config opts) \<noteq> []
         then Some (tls_server_name_override (co_tls_config opts)) else None)\<rparr>"

definition Connect :: "'w grpc_env \<Rightarrow> filesystem \<Rightarrow> 'w ClientOptions \<Rightarrow> ('w, 'w GrpcTransport StatusOr) state" where
  "Connect env fs opts =
     (let target = co_host opts @ '':'' @ to_string (co_port opts)
      in (case BuildChannelCredentials fs (co_tls_config opts) of
            Inl s \<Rightarrow> ret (Inl s)
          | Inr creds \<Rightarrow> do {
              channel \<leftarrow> ge_CreateCustomChannel env target creds (connect_args opts);
              (case channel of
                 None \<Rightarrow> ret (Inl (MakeError kTransient ''failed to create gRPC channel'' ''GrpcTransport::Connect'' [] []))
               | Some ch \<Rightarrow>
                   (case ge_NewStub env ch of
                      None \<Rightarrow> ret (Inl (MakeError kTransient ''failed to create gRPC stub'' ''GrpcTransport::Connect'' [] []))
                    | Some stub \<Rightarrow> do {
                        connected \<leftarrow> (if co_wait_for_ready opts
                                      then ge_WaitForConnected env ch (co_connection_timeout opts)
                                      else ret True);
                        (if \<not> connected
                         then ret (Inl (MakeError kTimeout
                           ''connection timeout waiting for channel to be ready'' ''GrpcTransport::Connect'' [] []))
                         else do {
                           r1 \<leftarrow> Transition kConnecting (StateMachine_new kIdle);
                           r2 \<leftarrow> Transition kReady (snd r1);
                           ret (Inr \<lparr>gt_channel = ch, gt_stub = stub, gt_opts = opts, gt_closed = False,
                             gt_close_once = False, gt_state_machine = Some (snd r2)\<rparr>)
                         })
                      }))
            }))"

definition GrpcTransport_Create :: "'w grpc_env \<Rightarrow> filesystem \<Rightarrow> 'w ClientOptions
    \<Rightarrow> ('w, 'w GrpcTransport StatusOr) state" where
  "GrpcTransport_Create env fs opts = do {
     r \<leftarrow> Connect env fs opts;
     ret (case r of Inl s \<Rightarrow> Inl s | Inr transport \<Rightarrow> Inr transport)
   }"

text \<open>\<^verbatim>\<open>call_once\<close> leaves its flag unset when the callable throws.\<close>

definition GrpcTransport_Close :: "'w GrpcTransport \<Rightarrow> ('w, (exn + Status) \<times> 'w GrpcTransport) state" where
  "GrpcTransport_Close t =
     (if gt_close_once t then ret (Inr Status_ok, t)
      else
        let t1 = t\<lparr>gt_closed := True\<rparr>
        in (case gt_state_machine t1 of
              None \<Rightarrow> ret (Inr Status_ok, t1\<lparr>gt_close_once := True\<rparr>)
            | Some sm \<Rightarrow> do {
                r \<leftarrow> Transition kClosed sm;
                ret (case fst r of
                   Inl e \<Rightarrow> (Inl e, t1\<lparr>gt_state_machine := Some (snd r)\<rparr>)
                 | Inr _ \<Rightarrow> (Inr Status_ok, t1\<lparr>gt_state_machine := Some (snd r), gt_close_once := True\<rparr>))
              }))"

definition GrpcTransport_State :: "'w grpc_env \<Rightarrow> 'w GrpcTransport \<Rightarrow> ('w, ConnectionState) state" where
  "GrpcTransport_State env t =
     (if gt_closed t then ret kClosed
      else (case gt_state_machine t of
         Some sm \<Rightarrow> ret (Current sm)
       | None \<Rightarrow> do {
           grpc_state \<leftarrow> ge_GetState env (gt_channel t);
           ret (case grpc_state of
              CHANNEL_IDLE \<Rightarrow> kIdle
            | CHANNEL_CONNECTING \<Rightarrow> kReconnecting
            | CHANNEL_READY \<Rightarrow> kReady
            | CHANNEL_TRANSIENT_FAILURE \<Rightarrow> kReconnecting
            | CHANNEL_SHUTDOWN \<Rightarrow> kClosed)
         }))"

definition ClientID :: "'w GrpcTransport \<Rightarrow> string" where
  "ClientID t = co_client_id (gt_opts t)"

definition GrpcTransport_CheckClosed :: "'w GrpcTransport \<Rightarrow> Status" where
  "GrpcTransport_CheckClosed t = (if gt_closed t then kErrClientClosed else Status_ok)"

definition ApplyAuth :: "'w GrpcTransport \<Rightarrow> ClientContext \<Rightarrow> ('w, Status \<times> ClientContext) state" where
  "ApplyAuth t ctx = do {
     r \<leftarrow> InjectAuthToken (Some ctx) (co_auth_token (gt_opts t)) (co_credential_provider (gt_opts t));
     ret (fst r, (case snd r of Some c \<Rightarrow> c | None \<Rightarrow> ctx))
   }"

section \<open>Unary calls\<close>

definition GrpcTransport_Ping :: "'w GrpcTransport \<Rightarrow> ('w, ServerInfo StatusOr) state" where
  "GrpcTransport_Ping t =
     (let s = GrpcTransport_CheckClosed t
      in if \<not> ok s then ret (Inl s)
         else do {
           (auth_status, ctx) \<leftarrow> ApplyAuth t (set_deadline (co_connection_timeout (gt_opts t)) ClientContext_new);
           if \<not> ok auth_status then ret (Inl auth_status)
           else do {
             (status, response) \<leftarrow> stub_Ping (gt_stub t) ctx;
             if \<not> grpc_ok status then ret (Inl (FromGrpcStatus status ''GrpcTransport::Ping'' [] []))
             else ret (Inr \<lparr>si_host = pr_Host response, si_version = pr_Version response,
                    si_server_start_time = pr_ServerStartTime response,
                    si_server_up_time_seconds = pr_ServerUpTimeSeconds response\<rparr>)
           }
         })"

definition GrpcTransport_SendEvent :: "'w GrpcTransport \<Rightarrow> PbEvent \<Rightarrow> ('w, Status) state" where
  "GrpcTransport_SendEvent t proto_event =
     (let s = GrpcTransport_CheckClosed t
      in if \<not> ok s then ret s
         else do {
           (auth_status, ctx) \<leftarrow> ApplyAuth t (set_deadline (1000 * kDefaultSendTimeout) ClientContext_new);
           if \<not> ok auth_status then ret auth_status
           else do {
             (status, result) \<leftarrow> stub_SendEvent (gt_stub t) ctx proto_event;
             if \<not> grpc_ok status
             then ret (FromGrpcStatus status ''GrpcTransport::SendEvent'' (pe_Channel proto_event) [])
             else if rs_Error result \<noteq> []
             then ret (FromServerError (rs_Error result) ''GrpcTransport::SendEvent'' (pe_Channel proto_event))
             else ret Status_ok
           }
         })"

definition GrpcTransport_SendEventStore :: "'w GrpcTransport \<Rightarrow> PbEvent \<Rightarrow> ('w, EventStoreResult StatusOr) state" where
  "GrpcTransport_SendEventStore t proto_event =
     (let s = GrpcTransport_CheckClosed t
      in if \<not> ok s then ret (Inl s)
         else do {
           (auth_status, ctx) \<leftarrow> ApplyAuth t (set_deadline (1000 * kDefaultSendTimeout) ClientContext_new);
           if \<not> ok auth_status then ret (Inl auth_status)
           else do {
             (status, result) \<leftarrow> stub_SendEvent (gt_stub t) ctx proto_event;
             if \<not> grpc_ok status
             then ret (Inl (FromGrpcStatus status ''GrpcTransport::SendEventStore'' (pe_Channel proto_event) []))
             else if rs_Error result \<noteq> []
             then ret (Inl (MakeError kFatal (rs_Error result) ''GrpcTransport::SendEventStore'' (pe_Channel proto_event) []))
             else ret (Inr \<lparr>ers_id = rs_EventID result, ers_sent = rs_Sent result, ers_error = rs_Error result\<rparr>)
           }
         })"

definition request_timeout_ms :: "PbRequest \<Rightarrow> int" where
  "request_timeout_ms request = (if 0 < rq_Timeout request then rq_Timeout request else to_int32 kDefaultRPCTimeout)"

definition GrpcTransport_SendRequest :: "'w GrpcTransport \<Rightarrow> PbRequest \<Rightarrow> ('w, PbResponse StatusOr) state" where
  "GrpcTransport_SendRequest t request =
     (let s = GrpcTransport_CheckClosed t
      in if \<not> ok s then ret (Inl s)
         else do {
           (auth_status, ctx) \<leftarrow> ApplyAuth t (set_deadline (request_timeout_ms request) ClientContext_new);
           if \<not> ok auth_status then ret (Inl auth_status)
           else do {
             (status, response) \<leftarrow> stub_SendRequest (gt_stub t) ctx request;
             if \<not> grpc_ok status
             then ret (Inl (FromGrpcStatus status ''GrpcTransport::SendRequest'' (rq_Channel request) []))
             else ret (Inr response)
           }
         })"

definition GrpcTransport_SendResponse :: "'w GrpcTransport \<Rightarrow> PbResponse \<Rightarrow> ('w, Status) state" where
  "GrpcTransport_SendResponse t response =
     (let s = GrpcTransport_CheckClosed t
      in if \<not> ok s then ret s
         else do {
           (auth_status, ctx) \<leftarrow> ApplyAuth t (set_deadline (1000 * kDefaultSendTimeout) ClientContext_new);
           if \<not> ok auth_status then ret auth_status
           else do {
             status \<leftarrow> stub_SendResponse (gt_stub t) ctx response;
             if \<not> grpc_ok status
             then ret (FromGrpcStatus status ''GrpcTransport::SendResponse'' (rp_ReplyChannel response) [])
             else ret Status_ok
           }
         })"

definition GrpcTransport_SendQueueMessage ::
    "'w GrpcTransport \<Rightarrow> PbQueueMessage \<Rightarrow> ('w, PbSendQueueMessageResult StatusOr) state" where
  "GrpcTransport_SendQueueMessage t msg =
     (let s = GrpcTransport_CheckClosed t
      in if \<not> ok s then ret (Inl s)
         else do {
           (auth_status, ctx) \<leftarrow> ApplyAuth t (set_deadline (1000 * kDefaultSendTimeout) ClientContext_new);
           if \<not> ok auth_status then ret (Inl auth_status)
           else do {
             (status, result) \<leftarrow> stub_SendQueueMessage (gt_stub t) ctx msg;
             if \<not> grpc_ok status
             then ret (Inl (FromGrpcStatus status ''GrpcTransport::SendQueueMessage'' (pq_Channel msg) []))
             else ret (Inr result)
           }
         })"

definition GrpcTransport_SendQueueMessagesBatch ::
    "'w GrpcTransport \<Rightarrow> PbQueueMessagesBatchRequest \<Rightarrow> ('w, PbQueueMessagesBatchResponse StatusOr) state" where
  "GrpcTransport_SendQueueMessagesBatch t req =
     (let s = GrpcTransport_CheckClosed t
      in if \<not> ok s then ret (Inl s)
         else do {
           (auth_status, ctx) \<leftarrow> ApplyAuth t (set_deadline (1000 * kDefaultSendTimeout) ClientContext_new);
           if \<not> ok auth_status then ret (Inl auth_status)
           else do {
             (status, response) \<leftarrow> stub_SendQueueMessagesBatch (gt_stub t) ctx req;
             if \<not> grpc_ok status
             then ret (Inl (FromGrpcStatus status ''GrpcTransport::SendQueueMessagesBatch'' [] []))
             else ret (Inr response)
           }
         })"

definition wait_deadline_ms :: "int \<Rightarrow> millis" where
  "wait_deadline_ms wait_seconds = 1000 * (if 0 < wait_seconds then wait_seconds + 5 else 30)"

definition GrpcTransport_ReceiveQueueMessages ::
    "'w GrpcTransport \<Rightarrow> PbReceiveQueueMessagesRequest \<Rightarrow> ('w, PbReceiveQueueMessagesResponse StatusOr) state" where
  "GrpcTransport_ReceiveQueueMessages t req =
     (let s = GrpcTransport_CheckClosed t
      in if \<not> ok s then ret (Inl s)
         else do {
           (auth_status, ctx) \<leftarrow> ApplyAuth t (set_deadline (wait_deadline_ms (rr_WaitTimeSeconds req)) ClientContext_new);
           if \<not> ok auth_status then ret (Inl auth_status)
           else do {
             (status, response) \<leftarrow> stub_ReceiveQueueMessages (gt_stub t) ctx req;
             if \<not> grpc_ok status
             then ret (Inl (FromGrpcStatus status ''GrpcTransport::ReceiveQueueMessages'' (rr_Channel req) []))
             else ret (Inr response)
           }
         })"

definition GrpcTransport_AckAllQueueMessages ::
    "'w GrpcTransport \<Rightarrow> PbAckAllQueueMessagesRequest \<Rightarrow> ('w, PbAckAllQueueMessagesResponse StatusOr) state" where
  "GrpcTransport_AckAllQueueMessages t req =
     (let s = GrpcTransport_CheckClosed t
      in if \<not> ok s then ret (Inl s)
         else do {
           (auth_status, ctx) \<leftarrow> ApplyAuth t (set_deadline (wait_deadline_ms (aq_WaitTimeSeconds req)) ClientContext_new);
           if \<not> ok auth_status then ret (Inl auth_status)
           else do {
             (status, response) \<leftarrow> stub_AckAllQueueMessages (gt_stub t) ctx req;
             if \<not> grpc_ok status
             then ret (Inl (FromGrpcStatus status ''GrpcTransport::AckAllQueueMessages'' (aq_Channel req) []))
             else ret (Inr response)
           }
         })"

section \<open>Opening streams\<close>

text \<open>The stream openers hand their context to the caller together with the stream.\<close>

definition OpenEventStream :: "'w GrpcTransport \<Rightarrow> ('w, (nat \<times> ClientContext) StatusOr) state" where
  "OpenEventStream t =
     (let s = GrpcTransport_CheckClosed t
      in if \<not> ok s then ret (Inl s)
         else do {
           (auth_status, ctx) \<leftarrow> ApplyAuth t ClientContext_new;
           if \<not> ok auth_status then ret (Inl auth_status)
           else do {
             stream \<leftarrow> stub_SendEventsStream (gt_stub t) ctx;
             ret (case stream of
                None \<Rightarrow> Inl (MakeError kTransient ''failed to open event stream'' ''GrpcTransport::OpenEventStream'' [] [])
              | Some h \<Rightarrow> Inr (h, ctx))
           }
         })"

definition GrpcTransport_SubscribeToEvents ::
    "'w GrpcTransport \<Rightarrow> PbSubscribe \<Rightarrow> ClientContext \<Rightarrow> ('w, (nat \<times> ClientContext) StatusOr) state" where
  "GrpcTransport_SubscribeToEvents t sub ctx0 =
     (let s = GrpcTransport_CheckClosed t
      in if \<not> ok s then ret (Inl s)
         else do {
           (auth_status, ctx) \<leftarrow> ApplyAuth t ctx0;
           if \<not> ok auth_status then ret (Inl auth_status)
           else do {
             reader \<leftarrow> stub_SubscribeToEvents (gt_stub t) ctx sub;
             ret (case reader of
                None \<Rightarrow> Inl (MakeError kTransient ''failed to open event subscription stream''
                  ''GrpcTransport::SubscribeToEvents'' (ps_Channel sub) [])
              | Some h \<Rightarrow> Inr (h, ctx))
           }
         })"

definition GrpcTransport_SubscribeToRequests ::
    "'w GrpcTransport \<Rightarrow> PbSubscribe \<Rightarrow> ClientContext \<Rightarrow> ('w, (nat \<times> ClientContext) StatusOr) state" where
  "GrpcTransport_SubscribeToRequests t sub ctx0 =
     (let s = GrpcTransport_CheckClosed t
      in if \<not> ok s then ret (Inl s)
         else do {
           (auth_status, ctx) \<leftarrow> ApplyAuth t ctx0;
           if \<not> ok auth_status then ret (Inl auth_status)
           else do {
             reader \<leftarrow> stub_SubscribeToRequests (gt_stub t) ctx sub;
             ret (case reader of
                None \<Rightarrow> Inl (MakeError kTransient ''failed to open request subscription stream''
                  ''GrpcTransport::SubscribeToRequests'' (ps_Channel sub) [])
              | Some h \<Rightarrow> Inr (h, ctx))
           }
         })"

definition OpenQueueUpstream :: "'w GrpcTransport \<Rightarrow> ('w, (nat \<times> ClientContext) StatusOr) state" where
  "OpenQueueUpstream t =
     (let s = GrpcTransport_CheckClosed t
      in if \<not> ok s then ret (Inl s)
         else do {
           (auth_status, ctx) \<leftarrow> ApplyAuth t ClientContext_new;
           if \<not> ok auth_status then ret (Inl auth_status)
           else do {
             stream \<leftarrow> stub_QueuesUpstream (gt_stub t) ctx;
             ret (case stream of
                None \<Rightarrow> Inl (MakeError kTransient ''failed to open queue upstream stream''
                  ''GrpcTransport::OpenQueueUpstream'' [] [])
              | Some h \<Rightarrow> Inr (h, ctx))
           }
         })"

definition OpenQueueDownstream :: "'w GrpcTransport \<Rightarrow> ('w, (nat \<times> ClientContext) StatusOr) state" where
  "OpenQueueDownstream t =
     (let s = GrpcTransport_CheckClosed t
      in if \<not> ok s then ret (Inl s)
         else do {
           (auth_status, ctx) \<leftarrow> ApplyAuth t ClientContext_new;
           if \<not> ok auth_status then ret (Inl auth_status)
           else do {
             stream \<leftarrow> stub_QueuesDownstream (gt_stub t) ctx;
             ret (case stream of
                None \<Rightarrow> Inl (MakeError kTransient ''failed to open queue downstream stream''
                  ''GrpcTransport::OpenQueueDownstream'' [] [])
              | Some h \<Rightarrow> Inr (h, ctx))
           }
         })"

section \<open>The contract of a guarded RPC\<close>

text \<open>
  What every operation of the transport promises its callers: on a closed transport it fails with
  \<open>kErrClientClosed\<close> and does nothing; otherwise it asks for the token first, gives up with the
  provider's status if that fails, and only then runs the RPC, once, on a context that carries the
  token and the deadline.
\<close>

locale guarded_rpc =
  fixes call :: "'w GrpcTransport \<Rightarrow> 'q \<Rightarrow> ('w, 'r) state"
    and failed :: "Status \<Rightarrow> 'r"
    and ctx_for :: "'w GrpcTransport \<Rightarrow> 'q \<Rightarrow> ClientContext"
    and rpc :: "'w Stub \<Rightarrow> ClientContext \<Rightarrow> 'q \<Rightarrow> ('w, 'p) state"
    and finish :: "'q \<Rightarrow> ClientContext \<Rightarrow> 'p \<Rightarrow> 'r"
  assumes call_closed: "gt_closed t \<Longrightarrow> call t q = ret (failed kErrClientClosed)"
    and call_open: "\<not> gt_closed t \<Longrightarrow> run_state (call t q) w =
      run_state (do {
        a \<leftarrow> ApplyAuth t (ctx_for t q);
        (if \<not> ok (fst a) then ret (failed (fst a))
         else do { p \<leftarrow> rpc (gt_stub t) (snd a) q; ret (finish q (snd a) p) })
      }) w"
begin

abbreviation token :: "'w GrpcTransport \<Rightarrow> ('w, string StatusOr) state" where
  "token t \<equiv> token_of (co_auth_token (gt_opts t)) (co_credential_provider (gt_opts t))"

lemma closed_no_effect: "gt_closed t \<Longrightarrow> run_state (call t q) w = (failed kErrClientClosed, w)"
  by (simp add: call_closed)

lemma refused_token:
  assumes "\<not> gt_closed t" "result_of (token t) w = Inl s" "\<not> ok s"
  shows "run_state (call t q) w = (failed s, world_of (token t) w)"
  using assms by (simp add: call_open ApplyAuth_def InjectAuthToken_token case_prod_unfold)

lemma authorized:
  assumes "\<not> gt_closed t" "result_of (token t) w = Inr tok"
  shows "run_state (call t q) w =
    (let ctx = with_token tok (ctx_for t q);
         (p, w') = run_state (rpc (gt_stub t) ctx q) (world_of (token t) w)
     in (finish q ctx p, w'))"
  using assms by (simp add: call_open ApplyAuth_def InjectAuthToken_token case_prod_unfold Let_def)

end

lemmas rpc_defs = GrpcTransport_Ping_def GrpcTransport_SendEvent_def GrpcTransport_SendEventStore_def
  GrpcTransport_SendRequest_def GrpcTransport_SendResponse_def GrpcTransport_SendQueueMessage_def
  GrpcTransport_SendQueueMessagesBatch_def GrpcTransport_ReceiveQueueMessages_def
  GrpcTransport_AckAllQueueMessages_def OpenEventStream_def GrpcTransport_SubscribeToEvents_def
  GrpcTransport_SubscribeToRequests_def OpenQueueUpstream_def OpenQueueDownstream_def
  GrpcTransport_CheckClosed_def

abbreviation send_ctx :: ClientContext where
  "send_ctx \<equiv> set_deadline (1000 * kDefaultSendTimeout) ClientContext_new"

definition reply_or :: "string \<Rightarrow> string \<Rightarrow> grpc_status \<times> 'p \<Rightarrow> 'p StatusOr" where
  "reply_or op ch p = (if grpc_ok (fst p) then Inr (snd p) else Inl (FromGrpcStatus (fst p) op ch []))"

definition stream_or :: "string \<Rightarrow> string \<Rightarrow> string \<Rightarrow> ClientContext \<Rightarrow> nat option \<Rightarrow> (nat \<times> ClientContext) StatusOr" where
  "stream_or msg op ch ctx h =
     (case h of None \<Rightarrow> Inl (MakeError kTransient msg op ch []) | Some s \<Rightarrow> Inr (s, ctx))"

interpretation rpc_ping: guarded_rpc "\<lambda>t (_ :: unit). GrpcTransport_Ping t" Inl
    "\<lambda>t _. set_deadline (co_connection_timeout (gt_opts t)) ClientContext_new"
    "\<lambda>st ctx _. stub_Ping st ctx"
    "\<lambda>_ _ p. map_sum id ServerInfoFromProto (reply_or ''GrpcTransport::Ping'' [] p)"
  by unfold_locales (auto simp: rpc_defs reply_or_def case_prod_unfold ServerInfoFromProto_def sdk_defaults)

interpretation rpc_send_event: guarded_rpc GrpcTransport_SendEvent "\<lambda>s. s" "\<lambda>_ _. send_ctx" stub_SendEvent
    "\<lambda>q _ p. if grpc_ok (fst p) then FromServerError (rs_Error (snd p)) ''GrpcTransport::SendEvent'' (pe_Channel q)
       else FromGrpcStatus (fst p) ''GrpcTransport::SendEvent'' (pe_Channel q) []"
  by unfold_locales (auto simp: rpc_defs case_prod_unfold FromServerError_def)

interpretation rpc_send_event_store: guarded_rpc GrpcTransport_SendEventStore Inl "\<lambda>_ _. send_ctx" stub_SendEvent
    "\<lambda>q _ p. case reply_or ''GrpcTransport::SendEventStore'' (pe_Channel q) p of
       Inl s \<Rightarrow> Inl s
     | Inr r \<Rightarrow> (if rs_Error r \<noteq> [] then Inl (Status5 kFatal (rs_Error r) ''GrpcTransport::SendEventStore'' (pe_Channel q) [])
         else Inr (EventStoreResultFromProto r))"
  by unfold_locales
    (auto simp: rpc_defs case_prod_unfold reply_or_def MakeError_def EventStoreResultFromProto_def sdk_defaults)

interpretation rpc_send_request: guarded_rpc GrpcTransport_SendRequest Inl
    "\<lambda>_ q. set_deadline (request_timeout_ms q) ClientContext_new" stub_SendRequest
    "\<lambda>q _ p. reply_or ''GrpcTransport::SendRequest'' (rq_Channel q) p"
  by unfold_locales (auto simp: rpc_defs case_prod_unfold reply_or_def)

interpretation rpc_send_response: guarded_rpc GrpcTransport_SendResponse "\<lambda>s. s" "\<lambda>_ _. send_ctx" stub_SendResponse
    "\<lambda>q _ p. FromGrpcStatus p ''GrpcTransport::SendResponse'' (rp_ReplyChannel q) []"
  by unfold_locales (auto simp: rpc_defs case_prod_unfold FromGrpcStatus_def)

interpretation rpc_send_queue: guarded_rpc GrpcTransport_SendQueueMessage Inl "\<lambda>_ _. send_ctx" stub_SendQueueMessage
    "\<lambda>q _ p. reply_or ''GrpcTransport::SendQueueMessage'' (pq_Channel q) p"
  by unfold_locales (auto simp: rpc_defs case_prod_unfold reply_or_def)

interpretation rpc_send_batch: guarded_rpc GrpcTransport_SendQueueMessagesBatch Inl "\<lambda>_ _. send_ctx"
    stub_SendQueueMessagesBatch "\<lambda>q _ p. reply_or ''GrpcTransport::SendQueueMessagesBatch'' [] p"
  by unfold_locales (auto simp: rpc_defs case_prod_unfold reply_or_def)

interpretation rpc_receive: guarded_rpc GrpcTransport_ReceiveQueueMessages Inl
    "\<lambda>_ q. set_deadline (wait_deadline_ms (rr_WaitTimeSeconds q)) ClientContext_new" stub_ReceiveQueueMessages
    "\<lambda>q _ p. reply_or ''GrpcTransport::ReceiveQueueMessages'' (rr_Channel q) p"
  by unfold_locales (auto simp: rpc_defs case_prod_unfold reply_or_def)

interpretation rpc_ack_all: guarded_rpc GrpcTransport_AckAllQueueMessages Inl
    "\<lambda>_ q. set_deadline (wait_deadline_ms (aq_WaitTimeSeconds q)) ClientContext_new" stub_AckAllQueueMessages
    "\<lambda>q _ p. reply_or ''GrpcTransport::AckAllQueueMessages'' (aq_Channel q) p"
  by unfold_locales (auto simp: rpc_defs case_prod_unfold reply_or_def)

interpretation rpc_event_stream: guarded_rpc "\<lambda>t (_ :: unit). OpenEventStream t" Inl "\<lambda>_ _. ClientContext_new"
    "\<lambda>st ctx _. stub_SendEventsStream st ctx"
    "\<lambda>_. stream_or ''failed to open event stream'' ''GrpcTransport::OpenEventStream'' []"
  by unfold_locales (auto simp: rpc_defs case_prod_unfold stream_or_def)

interpretation rpc_subscribe_events: guarded_rpc "\<lambda>t q. GrpcTransport_SubscribeToEvents t (fst q) (snd q)" Inl
    "\<lambda>_ q. snd q" "\<lambda>st ctx q. stub_SubscribeToEvents st ctx (fst q)"
    "\<lambda>q. stream_or ''failed to open event subscription stream'' ''GrpcTransport::SubscribeToEvents'' (ps_Channel (fst q))"
  by unfold_locales (auto simp: rpc_defs case_prod_unfold stream_or_def)

interpretation rpc_subscribe_requests: guarded_rpc "\<lambda>t q. GrpcTransport_SubscribeToRequests t (fst q) (snd q)" Inl
    "\<lambda>_ q. snd q" "\<lambda>st ctx q. stub_SubscribeToRequests st ctx (fst q)"
    "\<lambda>q. stream_or ''failed to open request subscription stream'' ''GrpcTransport::SubscribeToRequests'' (ps_Channel (fst q))"
  by unfold_locales (auto simp: rpc_defs case_prod_unfold stream_or_def)

interpretation rpc_upstream: guarded_rpc "\<lambda>t (_ :: unit). OpenQueueUpstream t" Inl "\<lambda>_ _. ClientContext_new"
    "\<lambda>st ctx _. stub_QueuesUpstream st ctx"
    "\<lambda>_. stream_or ''failed to open queue upstream stream'' ''GrpcTransport::OpenQueueUpstream'' []"
  by unfold_locales (auto simp: rpc_defs case_prod_unfold stream_or_def)

interpretation rpc_downstream: guarded_rpc "\<lambda>t (_ :: unit). OpenQueueDownstream t" Inl "\<lambda>_ _. ClientContext_new"
    "\<lambda>st ctx _. stub_QueuesDownstream st ctx"
    "\<lambda>_. stream_or ''failed to open queue downstream stream'' ''GrpcTransport::OpenQueueDownstream'' []"
  by unfold_locales (auto simp: rpc_defs case_prod_unfold stream_or_def)

text \<open>C6. Once the transport is closed, no operation reaches the broker or the credential provider:
  every one of the fourteen returns \<open>kErrClientClosed\<close> at once and changes nothing.\<close>

theorem closed_transport_is_silent:
  assumes "gt_closed t"
  shows "run_state (GrpcTransport_Ping t) w = (Inl kErrClientClosed, w)
    \<and> run_state (GrpcTransport_SendEvent t e) w = (kErrClientClosed, w)
    \<and> run_state (GrpcTransport_SendEventStore t e) w = (Inl kErrClientClosed, w)
    \<and> run_state (GrpcTransport_SendRequest t rq) w = (Inl kErrClientClosed, w)
    \<and> run_state (GrpcTransport_SendResponse t rp) w = (kErrClientClosed, w)
    \<and> run_state (GrpcTransport_SendQueueMessage t m) w = (Inl kErrClientClosed, w)
    \<and> run_state (GrpcTransport_SendQueueMessagesBatch t b) w = (Inl kErrClientClosed, w)
    \<and> run_state (GrpcTransport_ReceiveQueueMessages t rr) w = (Inl kErrClientClosed, w)
    \<and> run_state (GrpcTransport_AckAllQueueMessages t aq) w = (Inl kErrClientClosed, w)
    \<and> run_state (OpenEventStream t) w = (Inl kErrClientClosed, w)
    \<and> run_state (GrpcTransport_SubscribeToEvents t sub ctx) w = (Inl kErrClientClosed, w)
    \<and> run_state (GrpcTransport_SubscribeToRequests t sub ctx) w = (Inl kErrClientClosed, w)
    \<and> run_state (OpenQueueUpstream t) w = (Inl kErrClientClosed, w)
    \<and> run_state (OpenQueueDownstream t) w = (Inl kErrClientClosed, w)"
  using rpc_ping.closed_no_effect [OF assms] rpc_send_event.closed_no_effect [OF assms]
    rpc_send_event_store.closed_no_effect [OF assms] rpc_send_request.closed_no_effect [OF assms]
    rpc_send_response.closed_no_effect [OF assms] rpc_send_queue.closed_no_effect [OF assms]
    rpc_send_batch.closed_no_effect [OF assms] rpc_receive.closed_no_effect [OF assms]
    rpc_ack_all.closed_no_effect [OF assms] rpc_event_stream.closed_no_effect [OF assms]
    rpc_subscribe_events.closed_no_effect [OF assms, of "(sub, ctx)"]
    rpc_subscribe_requests.closed_no_effect [OF assms, of "(sub, ctx)"]
    rpc_upstream.closed_no_effect [OF assms] rpc_downstream.closed_no_effect [OF assms]
  by (intro conjI) simp_all

text \<open>A stub that counts the calls it gets, for concrete instances.\<close>

definition count_call :: "'a \<Rightarrow> (nat, 'a) state" where
  "count_call a = State (\<lambda>n. (a, Suc n))"

definition counting_stub :: "nat Stub" where
  "counting_stub =
     \<lparr>stub_Ping = \<lambda>_. count_call (grpc_status_OK, PbPingResult_default),
      stub_SendEvent = \<lambda>_ _. count_call (grpc_status_OK, PbResult_default),
      stub_SendEventsStream = \<lambda>_. count_call (Some 1),
      stub_SubscribeToEvents = \<lambda>_ _. count_call (Some 1),
      stub_SendRequest = \<lambda>_ _. count_call (grpc_status_OK, PbResponse_default),
      stub_SendResponse = \<lambda>_ _. count_call grpc_status_OK,
      stub_SubscribeToRequests = \<lambda>_ _. count_call (Some 1),
      stub_SendQueueMessage = \<lambda>_ _. count_call (grpc_status_OK, PbSendQueueMessageResult_default),
      stub_SendQueueMessagesBatch = \<lambda>_ _. count_call (grpc_status_OK, PbQueueMessagesBatchResponse_default),
      stub_ReceiveQueueMessages = \<lambda>_ _. count_call (grpc_status_OK, PbReceiveQueueMessagesResponse_default),
      stub_AckAllQueueMessages = \<lambda>_ _. count_call (grpc_status_OK, PbAckAllQueueMessagesResponse_default),
      stub_QueuesUpstream = \<lambda>_. count_call (Some 1),
      stub_QueuesDownstream = \<lambda>_. count_call (Some 1)\<rparr>"

definition sample_transport :: "nat GrpcTransport" where
  "sample_transport =
     \<lparr>gt_channel = 1, gt_stub = counting_stub, gt_opts = ClientOptions_default\<lparr>co_client_id := ''me''\<rparr>,
      gt_closed = False, gt_close_once = False, gt_state_machine = Some (StateMachine_new kReady)\<rparr>"

theorem closed_transport_is_silent_witness:
  "gt_closed (sample_transport\<lparr>gt_closed := True\<rparr>)
   \<and> run_state (GrpcTransport_Ping (sample_transport\<lparr>gt_closed := True\<rparr>)) 0 = (Inl kErrClientClosed, 0)"
proof -
  have h: "gt_closed (sample_transport\<lparr>gt_closed := True\<rparr>)" by simp
  show ?thesis using h closed_transport_is_silent [OF h, of 0] by blast
qed


definition failing_transport :: "nat GrpcTransport" where
  "failing_transport = sample_transport\<lparr>gt_opts := ClientOptions_default\<lparr>co_credential_provider :=
     Some (ret (Inl (Status2 kAuthentication ''expired'')))\<rparr>\<rparr>"


text \<open>A request without a positive timeout gets a deadline of ten milliseconds, not of the ten
  seconds that the default is documented to be: the number of seconds is used as a number of
  milliseconds. A positive timeout is used as it is.\<close>

theorem default_rpc_deadline_is_10ms:
  assumes "\<not> gt_closed t" "co_auth_token (gt_opts t) = []" "co_credential_provider (gt_opts t) = None"
  shows "run_state (GrpcTransport_SendRequest t q) w =
    (let ctx = set_deadline (if 0 < rq_Timeout q then rq_Timeout q else 10) ClientContext_new;
         (p, w') = run_state (stub_SendRequest (gt_stub t) ctx q) w
     in (reply_or ''GrpcTransport::SendRequest'' (rq_Channel q) p, w'))"
proof -
  have tok: "result_of (token_of (co_auth_token (gt_opts t)) (co_credential_provider (gt_opts t))) w = Inr []"
    "world_of (token_of (co_auth_token (gt_opts t)) (co_credential_provider (gt_opts t))) w = w"
    using assms by (simp_all add: token_of_def)
  have "request_timeout_ms q = (if 0 < rq_Timeout q then rq_Timeout q else 10)"
    by (simp add: request_timeout_ms_def kDefaultRPCTimeout_def to_int32_id)
  then show ?thesis
    using rpc_send_request.authorized [OF assms(1) tok(1)] by (simp add: tok(2) with_token_def)
qed

theorem default_rpc_deadline_is_10ms_witness:
  "\<not> gt_closed sample_transport
   \<and> run_state (GrpcTransport_SendRequest sample_transport (PbRequest_default\<lparr>rq_Timeout := 0\<rparr>)) 0
     = (Inr PbResponse_default, 1)"
proof -
  have h: "\<not> gt_closed sample_transport" "co_auth_token (gt_opts sample_transport) = []"
    "co_credential_provider (gt_opts sample_transport) = None"
    by (simp_all add: sample_transport_def ClientOptions_default_def)
  have st: "stub_SendRequest (gt_stub sample_transport) = (\<lambda>_ _. count_call (grpc_status_OK, PbResponse_default))"
    by (simp add: sample_transport_def counting_stub_def)
  show ?thesis using h(1) default_rpc_deadline_is_10ms [OF h, of "PbRequest_default\<lparr>rq_Timeout := 0\<rparr>" 0]
    by (simp add: st count_call_def reply_or_def)
qed

section \<open>Opening and closing\<close>

lemma Transition_no_callbacks:
  assumes "on_connected sm = None" "on_closed sm = None" "on_reconnected sm = None"
    "on_disconnected sm = None" "on_reconnecting sm = None" "life_step (sm_state sm) to" "to \<noteq> kReconnecting"
    "\<not> sm_reconnecting sm"
  shows "Transition to sm = ret (Inr True, sm\<lparr>sm_state := to\<rparr>)"
  using assms by (auto simp: Transition_def transition_step_def IsValidTransition_life Let_def)

lemma connect_machine:
  "do { r1 \<leftarrow> Transition kConnecting (StateMachine_new kIdle); r2 \<leftarrow> Transition kReady (snd r1); f (snd r2) }
    = f (StateMachine_new kReady)"
  by (subst Transition_no_callbacks; (simp add: StateMachine_new_def)?)
     (subst Transition_no_callbacks; simp add: StateMachine_new_def)

text \<open>What connecting does, with the fresh state machine's two silent transitions carried out.\<close>

lemma Connect_run:
  "run_state (Connect env fs opts) w =
    (case BuildChannelCredentials fs (co_tls_config opts) of
       Inl s \<Rightarrow> (Inl s, w)
     | Inr creds \<Rightarrow>
         (let (channel, w1) = run_state (ge_CreateCustomChannel env (dial_target opts) creds (connect_args opts)) w
          in (case channel of
                None \<Rightarrow> (Inl (MakeError kTransient ''failed to create gRPC channel'' ''GrpcTransport::Connect'' [] []), w1)
              | Some ch \<Rightarrow>
                  (case ge_NewStub env ch of
                     None \<Rightarrow> (Inl (MakeError kTransient ''failed to create gRPC stub'' ''GrpcTransport::Connect'' [] []), w1)
                   | Some stub \<Rightarrow>
                       (let (connected, w2) = run_state (if co_wait_for_ready opts
                              then ge_WaitForConnected env ch (co_connection_timeout opts) else ret True) w1
                        in (if connected
                            then Inr \<lparr>gt_channel = ch, gt_stub = stub, gt_opts = opts, gt_closed = False,
                              gt_close_once = False, gt_state_machine = Some (StateMachine_new kReady)\<rparr>
                            else Inl (MakeError kTimeout
                              ''connection timeout waiting for channel to be ready'' ''GrpcTransport::Connect'' [] []),
                            w2))))))"
  unfolding Connect_def Let_def dial_target_def
    connect_machine [where f = "\<lambda>sm. ret (Inr \<lparr>gt_channel = _, gt_stub = _, gt_opts = opts,
      gt_closed = False, gt_close_once = False, gt_state_machine = Some sm\<rparr>)"]
  by (simp add: case_prod_unfold split: option.splits sum.splits)

text \<open>A successful connect dials exactly the configured address with the credentials built from
  the TLS configuration, has waited for the channel if asked to, and yields an open transport whose
  state machine is ready; no user callback has run by then.\<close>

theorem connect_yields_ready_transport:
  assumes "result_of (Connect env fs opts) w = Inr t"
  shows "gt_opts t = opts \<and> \<not> gt_closed t \<and> gt_state_machine t = Some (StateMachine_new kReady)
    \<and> result_of (GrpcTransport_State env t) w' = kReady
    \<and> (\<exists>creds. BuildChannelCredentials fs (co_tls_config opts) = Inr creds
        \<and> result_of (ge_CreateCustomChannel env (dial_target opts) creds (connect_args opts)) w = Some (gt_channel t)
        \<and> (co_wait_for_ready opts \<longrightarrow>
            result_of (ge_WaitForConnected env (gt_channel t) (co_connection_timeout opts))
              (world_of (ge_CreateCustomChannel env (dial_target opts) creds (connect_args opts)) w))
        \<and> ge_NewStub env (gt_channel t) = Some (gt_stub t))"
  using assms
  by (auto simp: Connect_run case_prod_unfold Let_def GrpcTransport_State_def Current_def StateMachine_new_def
      split: option.splits sum.splits if_splits)

definition sample_env :: "nat grpc_env" where
  "sample_env =
     \<lparr>ge_CreateCustomChannel = \<lambda>_ _ _. ret (Some 1), ge_NewStub = \<lambda>_. Some counting_stub,
      ge_WaitForConnected = \<lambda>_ _. ret True, ge_GetState = \<lambda>_. ret CHANNEL_READY\<rparr>"

theorem connect_yields_ready_transport_witness:
  "\<exists>t. result_of (Connect sample_env Map.empty ClientOptions_default) 0 = Inr t
     \<and> result_of (GrpcTransport_State sample_env t) 0 = kReady"
proof -
  have "\<exists>t. result_of (Connect sample_env Map.empty ClientOptions_default) 0 = Inr t"
    by (simp add: Connect_run sample_env_def Let_def BuildChannelCredentials_def ClientOptions_default_def
        TlsConfig_default_def case_prod_unfold)
  then obtain t where h: "result_of (Connect sample_env Map.empty ClientOptions_default) 0 = Inr t" by blast
  show ?thesis using h connect_yields_ready_transport [OF h, of 0] by blast
qed

text \<open>Closing is idempotent and final: after a close during which the user's callback does not
  throw, the transport reports \<open>kClosed\<close>, its state machine is closed, and closing again has no
  effect whatsoever (in particular the closed callback runs at most once).\<close>

theorem transport_close_once:
  assumes "run_state (GrpcTransport_Close t) w = ((Inr s, t'), w')" "\<not> gt_close_once t"
  shows "s = Status_ok \<and> gt_closed t' \<and> run_state (GrpcTransport_Close t') w' = ((Inr Status_ok, t'), w')
    \<and> run_state (GrpcTransport_State env t') w' = (kClosed, w')
    \<and> (\<forall>sm. gt_state_machine t' = Some sm \<longrightarrow> Current sm = kClosed)"
proof (cases "gt_state_machine t")
  case None
  then show ?thesis using assms by (auto simp: GrpcTransport_Close_def GrpcTransport_State_def Let_def)
next
  case (Some sm)
  show ?thesis
    using assms Some closing_closes [of sm w]
    by (auto simp: GrpcTransport_Close_def GrpcTransport_State_def Current_def case_prod_unfold
        Let_def split: sum.splits)
qed

theorem transport_close_once_witness:
  "\<exists>t'. run_state (GrpcTransport_Close sample_transport) 0 = ((Inr Status_ok, t'), 0)
     \<and> run_state (GrpcTransport_Close t') 0 = ((Inr Status_ok, t'), 0)"
proof -
  let ?t = "sample_transport\<lparr>gt_closed := True, gt_state_machine := Some (StateMachine_new kClosed), gt_close_once := True\<rparr>"
  have "Transition kClosed (StateMachine_new kReady :: nat StateMachine) = ret (Inr True, StateMachine_new kClosed)"
    by (subst Transition_no_callbacks) (simp_all add: StateMachine_new_def)
  then have h: "run_state (GrpcTransport_Close sample_transport) 0 = ((Inr Status_ok, ?t), 0)"
    by (simp add: GrpcTransport_Close_def sample_transport_def)
  have h2: "\<not> gt_close_once sample_transport" by (simp add: sample_transport_def)
  show ?thesis using h transport_close_once [OF h h2] by blast
qed

end
