(* ===== verification/Client_Core.thy ===== *)
theory Client_Core
  imports Grpc_Transport Validation_Rules
begin

text \<open>
  The client object (src/client.cc, src/internal/client_impl.h): creation, state, ping and close.

  \<^verbatim>\<open>active_contexts\<close> holds weak references; \<open>alive\<close> tells whether a context still exists and \<open>cancel\<close>
  is \<^verbatim>\<open>TryCancel\<close>. A client that is given up during \<^verbatim>\<open>Create\<close> is destroyed, and its destructor closes
  it. A user callback that throws during that destruction terminates the process; the model then
  continues with the state reached.
\<close>

record 'w Client =
  cl_transport :: "'w GrpcTransport"
  cl_opts :: "'w ClientOptions"
  cl_closed :: bool
  cl_close_once :: bool
  cl_active_contexts :: "nat list"

record 'w context_ops =
  cx_alive :: "nat \<Rightarrow> ('w, bool) state"
  cx_cancel :: "nat \<Rightarrow> ('w, unit) state"

definition TrackContext :: "nat \<Rightarrow> 'w Client \<Rightarrow> 'w Client" where
  "TrackContext ctx c = c\<lparr>cl_active_contexts := cl_active_contexts c @ [ctx]\<rparr>"

fun cancel_all :: "'w context_ops \<Rightarrow> nat list \<Rightarrow> ('w, unit) state" where
  "cancel_all ops [] = ret ()"
| "cancel_all ops (ctx # ctxs) = do {
     live \<leftarrow> cx_alive ops ctx;
     _ \<leftarrow> (if live then cx_cancel ops ctx else ret ());
     cancel_all ops ctxs
   }"

definition DrainAll :: "'w context_ops \<Rightarrow> millis \<Rightarrow> 'w Client \<Rightarrow> ('w, 'w Client) state" where
  "DrainAll ops timeout c = do {
     _ \<leftarrow> cancel_all ops (cl_active_contexts c);
     ret (c\<lparr>cl_active_contexts := []\<rparr>)
   }"

definition CheckClosed :: "'w Client \<Rightarrow> Status" where
  "CheckClosed c = (if cl_closed c then kErrClientClosed else Status_ok)"

definition Client_State :: "'w grpc_env \<Rightarrow> 'w Client \<Rightarrow> ('w, ConnectionState) state" where
  "Client_State env c = (if cl_closed c then ret kClosed else GrpcTransport_State env (cl_transport c))"

definition Client_Ping :: "'w Client \<Rightarrow> ('w, ServerInfo StatusOr) state" where
  "Client_Ping c =
     (let s = CheckClosed c in if \<not> ok s then ret (Inl s) else GrpcTransport_Ping (cl_transport c))"

definition Client_Close :: "'w context_ops \<Rightarrow> 'w Client \<Rightarrow> ('w, (exn + Status) \<times> 'w Client) state" where
  "Client_Close ops c =
     (if cl_close_once c then ret (Inr Status_ok, c)
      else do {
        c1 \<leftarrow> DrainAll ops (co_drain_timeout (cl_opts c)) (c\<lparr>cl_closed := True\<rparr>);
        r \<leftarrow> GrpcTransport_Close (cl_transport c1);
        ret (case fst r of
           Inl e \<Rightarrow> (Inl e, c1\<lparr>cl_transport := snd r\<rparr>)
         | Inr s \<Rightarrow> (Inr s, c1\<lparr>cl_transport := snd r, cl_close_once := True\<rparr>))
      })"

definition set_if :: "('a option \<Rightarrow> 'm \<Rightarrow> 'm) \<Rightarrow> 'a option \<Rightarrow> 'm \<Rightarrow> 'm" where
  "set_if setter cb m = (if cb \<noteq> None then setter cb m else m)"

definition wire_callbacks :: "'w ClientOptions \<Rightarrow> 'w StateMachine \<Rightarrow> 'w StateMachine" where
  "wire_callbacks co sm =
     set_if SetOnClosed (co_on_closed co)
       (set_if SetOnReconnected (co_on_reconnected co)
         (set_if SetOnReconnecting (co_on_reconnecting co)
           (set_if SetOnDisconnected (co_on_disconnected co)
             (set_if SetOnConnected (co_on_connected co) sm))))"

definition assemble_client :: "'w GrpcTransport \<Rightarrow> 'w ClientOptions \<Rightarrow> 'w Client" where
  "assemble_client transport opts =
     \<lparr>cl_transport = transport\<lparr>gt_state_machine := map_option (wire_callbacks opts) (gt_state_machine transport)\<rparr>,
      cl_opts = opts, cl_closed = False, cl_close_once = False, cl_active_contexts = []\<rparr>"

definition with_client_id :: "('w, 64 word) state \<Rightarrow> 'w ClientOptions \<Rightarrow> ('w, 'w ClientOptions) state" where
  "with_client_id rand64 options =
     (if co_client_id options = [] then do {
        u \<leftarrow> GenerateUUID rand64;
        ret (options\<lparr>co_client_id := u\<rparr>)
      } else ret options)"

definition create_from :: "'w grpc_env \<Rightarrow> filesystem \<Rightarrow> 'w context_ops \<Rightarrow> 'w ClientOptions
    \<Rightarrow> ('w, 'w Client StatusOr) state" where
  "create_from env fs ops opts =
     (let validation = Validate opts
      in if \<not> ok validation then ret (Inl validation)
         else do {
           transport_or \<leftarrow> GrpcTransport_Create env fs opts;
           (case transport_or of
              Inl s \<Rightarrow> ret (Inl s)
            | Inr transport \<Rightarrow>
                (let client = assemble_client transport opts
                 in if co_check_connection (cl_opts client) then do {
                      ping_or \<leftarrow> Client_Ping client;
                      (case ping_or of
                         Inl s \<Rightarrow> do { _ \<leftarrow> Client_Close ops client; ret (Inl s) }
                       | Inr _ \<Rightarrow> ret (Inr client))
                    }
                    else ret (Inr client)))
         })"

definition Client_Create :: "'w grpc_env \<Rightarrow> filesystem \<Rightarrow> ('w, 64 word) state \<Rightarrow> 'w context_ops
    \<Rightarrow> 'w ClientOptions \<Rightarrow> ('w, 'w Client StatusOr) state" where
  "Client_Create env fs rand64 ops options = do {
     opts \<leftarrow> with_client_id rand64 options;
     create_from env fs ops opts
   }"

section \<open>Closing\<close>

lemma DrainAll_fields: "result_of (DrainAll ops tm c) w = c\<lparr>cl_active_contexts := []\<rparr>"
  by (simp add: DrainAll_def case_prod_unfold)

lemma DrainAll_nothing: "cl_active_contexts c = [] \<Longrightarrow> DrainAll ops tm c = ret c"
  by (cases c) (simp add: DrainAll_def)

text \<open>Closing a client is idempotent: after a close that did not throw, the client refuses
  further work, reports \<open>kClosed\<close>, and closing it again (as its destructor does) has no effect on
  the client, the transport or the world.\<close>

theorem client_close_once:
  assumes "run_state (Client_Close ops c) w = ((Inr s, c'), w')" "\<not> cl_close_once c"
  shows "CheckClosed c' = kErrClientClosed
    \<and> run_state (Client_State env c') w' = (kClosed, w')
    \<and> run_state (Client_Close ops c') w' = ((Inr Status_ok, c'), w')
    \<and> cl_active_contexts c' = []"
  using assms DrainAll_fields [of ops "co_drain_timeout (cl_opts c)" "c\<lparr>cl_closed := True\<rparr>" w]
  by (auto simp: Client_Close_def CheckClosed_def Client_State_def case_prod_unfold split: sum.splits)

definition sample_client :: "nat Client" where
  "sample_client = \<lparr>cl_transport = sample_transport, cl_opts = gt_opts sample_transport, cl_closed = False,
     cl_close_once = False, cl_active_contexts = [3]\<rparr>"

definition sample_contexts :: "nat context_ops" where
  "sample_contexts = \<lparr>cx_alive = \<lambda>_. ret True, cx_cancel = \<lambda>_. State (\<lambda>n. ((), n + 100))\<rparr>"

theorem client_close_once_witness:
  "\<exists>c'. run_state (Client_Close sample_contexts sample_client) 0 = ((Inr Status_ok, c'), 100)
     \<and> run_state (Client_Close sample_contexts c') 100 = ((Inr Status_ok, c'), 100)"
proof -
  have "Transition kClosed (StateMachine_new kReady :: nat StateMachine) = ret (Inr True, StateMachine_new kClosed)"
    by (subst Transition_no_callbacks) (simp_all add: StateMachine_new_def)
  then have "\<exists>c'. run_state (Client_Close sample_contexts sample_client) 0 = ((Inr Status_ok, c'), 100)"
    by (simp add: Client_Close_def sample_client_def sample_contexts_def DrainAll_def
        GrpcTransport_Close_def sample_transport_def)
  then obtain c' where h: "run_state (Client_Close sample_contexts sample_client) 0 = ((Inr Status_ok, c'), 100)"
    by blast
  have h2: "\<not> cl_close_once sample_client" by (simp add: sample_client_def)
  show ?thesis using h client_close_once [OF h h2] by blast
qed

section \<open>Creation\<close>

lemma Connect_opts: "result_of (Connect env fs opts) w = Inr t \<Longrightarrow>
    gt_opts t = opts \<and> gt_state_machine t = Some (StateMachine_new kReady) \<and> \<not> gt_closed t \<and> \<not> gt_close_once t"
  by (auto simp: Connect_run case_prod_unfold Let_def split: option.splits sum.splits if_splits)

lemma GrpcTransport_Create_run: "GrpcTransport_Create env fs opts = Connect env fs opts"
  by (rule state.expand)
    (auto simp: GrpcTransport_Create_def case_prod_unfold fun_eq_iff prod_eq_iff split: sum.splits)

lemma create_from_result:
  assumes "result_of (create_from env fs ops opts) w = Inr c"
  shows "ok (Validate opts) \<and> (\<exists>t. result_of (Connect env fs opts) w = Inr t \<and> c = assemble_client t opts)"
  using assms unfolding create_from_def GrpcTransport_Create_run Let_def
  by (cases "result_of (Connect env fs opts) w") (auto simp: case_prod_unfold split: if_splits sum.splits)

text \<open>C31. A created client is usable and identified: its options passed validation, it has a client
  id (the given one or a generated UUID), it is open and reports \<open>kReady\<close>, and its state machine
  carries exactly the callbacks of the options.\<close>

theorem create_yields_usable_client:
  assumes "result_of (Client_Create env fs rand64 ops options) w = Inr c"
  shows "ok (Validate (cl_opts c)) \<and> CheckClosed c = Status_ok
    \<and> (if co_client_id options = [] then is_uuid_v4 (co_client_id (cl_opts c))
       else co_client_id (cl_opts c) = co_client_id options)
    \<and> ClientID (cl_transport c) = co_client_id (cl_opts c)
    \<and> result_of (Client_State env c) w' = kReady
    \<and> (\<exists>sm. gt_state_machine (cl_transport c) = Some sm \<and> on_connected sm = co_on_connected options
         \<and> on_disconnected sm = co_on_disconnected options \<and> on_reconnecting sm = co_on_reconnecting options
         \<and> on_reconnected sm = co_on_reconnected options \<and> on_closed sm = co_on_closed options)"
proof -
  define opts where "opts = result_of (with_client_id rand64 options) w"
  have ident: "if co_client_id options = [] then is_uuid_v4 (co_client_id opts)
      else co_client_id opts = co_client_id options"
    by (simp add: opts_def with_client_id_def case_prod_unfold GenerateUUID_v4)
  have cbs: "co_on_connected opts = co_on_connected options" "co_on_disconnected opts = co_on_disconnected options"
    "co_on_reconnecting opts = co_on_reconnecting options" "co_on_reconnected opts = co_on_reconnected options"
    "co_on_closed opts = co_on_closed options"
    by (simp_all add: opts_def with_client_id_def case_prod_unfold)
  have "result_of (create_from env fs ops opts) (world_of (with_client_id rand64 options) w) = Inr c"
    using assms by (simp add: Client_Create_def opts_def case_prod_unfold)
  from create_from_result [OF this] obtain t where t: "ok (Validate opts)" "c = assemble_client t opts"
    "result_of (Connect env fs opts) (world_of (with_client_id rand64 options) w) = Inr t" by blast
  show ?thesis
    using t(1,2) Connect_opts [OF t(3)] ident
    by (auto simp: assemble_client_def CheckClosed_def ClientID_def Client_State_def GrpcTransport_State_def
        wire_callbacks_def set_if_def SetOnConnected_def SetOnDisconnected_def SetOnReconnecting_def
        SetOnReconnected_def SetOnClosed_def StateMachine_new_def Current_def cbs)
qed

theorem create_yields_usable_client_witness:
  "\<exists>c. result_of (Client_Create sample_env Map.empty (ret 0) sample_contexts ClientOptions_default) 0 = Inr c
     \<and> is_uuid_v4 (co_client_id (cl_opts c)) \<and> result_of (Client_State sample_env c) 5 = kReady"
proof -
  have "\<exists>c. result_of (Client_Create sample_env Map.empty (ret 0) sample_contexts ClientOptions_default) 0 = Inr c"
    by (simp add: Client_Create_def with_client_id_def create_from_def GrpcTransport_Create_run Connect_run sample_env_def Let_def
        BuildChannelCredentials_def Validate_ok_iff ClientOptions_default_def RetryPolicy_default_def
        TlsConfig_default_def case_prod_unfold Client_Ping_def CheckClosed_def assemble_client_def
        GrpcTransport_Ping_def GrpcTransport_CheckClosed_def ApplyAuth_def InjectAuthToken_def
        counting_stub_def count_call_def)
  then obtain c where h: "result_of (Client_Create sample_env Map.empty (ret 0) sample_contexts ClientOptions_default) 0 = Inr c"
    by blast
  have "co_client_id (ClientOptions_default :: nat ClientOptions) = []" by (simp add: ClientOptions_default_def)
  then show ?thesis using h create_yields_usable_client [OF h, of 5] by auto
qed

section \<open>The connected callback\<close>

definition create_and_close :: "'w grpc_env \<Rightarrow> filesystem \<Rightarrow> ('w, 64 word) state \<Rightarrow> 'w context_ops
    \<Rightarrow> 'w ClientOptions \<Rightarrow> ('w, bool) state" where
  "create_and_close env fs rand64 ops options = do {
     r \<leftarrow> Client_Create env fs rand64 ops options;
     (case r of
        Inl _ \<Rightarrow> ret False
      | Inr c \<Rightarrow> do { _ \<leftarrow> Client_Close ops c; ret True })
   }"

lemma Connect_on_connected:
  "run_state (Connect env fs (opts\<lparr>co_on_connected := cb\<rparr>)) w =
    apfst (map_sum id (\<lambda>t. t\<lparr>gt_opts := opts\<lparr>co_on_connected := cb\<rparr>\<rparr>)) (run_state (Connect env fs opts) w)"
proof -
  have same: "connect_args (opts\<lparr>co_on_connected := cb\<rparr>) = connect_args opts"
    "dial_target (opts\<lparr>co_on_connected := cb\<rparr>) = dial_target opts"
    by (simp_all add: connect_args_def dial_target_def)
  show ?thesis
    unfolding Connect_run same by (simp add: case_prod_unfold Let_def split: option.splits sum.splits)
qed

lemma Validate_on_connected: "Validate (opts\<lparr>co_on_connected := cb\<rparr>) = Validate opts"
  by (simp add: Validate_def)

lemma Ping_on_connected:
  "Client_Ping (assemble_client (t\<lparr>gt_opts := opts\<lparr>co_on_connected := cb\<rparr>\<rparr>) (opts\<lparr>co_on_connected := cb\<rparr>))
    = Client_Ping (assemble_client (t\<lparr>gt_opts := opts\<rparr>) opts)"
  by (simp add: Client_Ping_def CheckClosed_def assemble_client_def GrpcTransport_Ping_def
      GrpcTransport_CheckClosed_def ApplyAuth_def cong del: if_weak_cong)

lemma close_transition_world:
  "world_of (Transition kClosed (sm\<lparr>on_connected := cb\<rparr>)) w = world_of (Transition kClosed sm) w"
  by (auto simp: Transition_def transition_step_def Let_def case_prod_unfold split: option.splits)

lemma Close_on_connected:
  "world_of (Client_Close ops (assemble_client (t\<lparr>gt_opts := opts\<lparr>co_on_connected := cb\<rparr>\<rparr>) (opts\<lparr>co_on_connected := cb\<rparr>))) w
    = world_of (Client_Close ops (assemble_client (t\<lparr>gt_opts := opts\<rparr>) opts)) w"
proof (cases "gt_state_machine t")
  case None
  then show ?thesis
    by (simp add: Client_Close_def assemble_client_def DrainAll_def GrpcTransport_Close_def Let_def)
next
  case (Some sm)
  have a: "wire_callbacks (opts\<lparr>co_on_connected := cb\<rparr>) sm
      = (wire_callbacks opts sm)\<lparr>on_connected := (if cb = None then on_connected sm else cb)\<rparr>"
    by (cases sm) (simp add: wire_callbacks_def set_if_def SetOnConnected_def SetOnDisconnected_def
        SetOnReconnecting_def SetOnReconnected_def SetOnClosed_def)
  show ?thesis
    using Some a
    by (simp add: Client_Close_def assemble_client_def DrainAll_def GrpcTransport_Close_def Let_def
        case_prod_unfold close_transition_world)
qed

lemma create_from_on_connected:
  "run_state (do { r \<leftarrow> create_from env fs ops (opts\<lparr>co_on_connected := cb\<rparr>);
      (case r of Inl _ \<Rightarrow> ret False | Inr c \<Rightarrow> do { _ \<leftarrow> Client_Close ops c; ret True }) }) w
    = run_state (do { r \<leftarrow> create_from env fs ops opts;
      (case r of Inl _ \<Rightarrow> ret False | Inr c \<Rightarrow> do { _ \<leftarrow> Client_Close ops c; ret True }) }) w"
proof (cases "ok (Validate opts)")
  case False
  then show ?thesis by (simp add: create_from_def Validate_on_connected)
next
  case True
  obtain r w1 where r: "run_state (Connect env fs opts) w = (r, w1)" by fastforce
  show ?thesis
  proof (cases r)
    case (Inl s)
    with True r show ?thesis
      by (simp add: create_from_def GrpcTransport_Create_run Validate_on_connected Connect_on_connected)
  next
    case (Inr t)
    then have t: "t = t\<lparr>gt_opts := opts\<rparr>" using Connect_opts [of env fs opts w t] r by (cases t) simp
    let ?c = "assemble_client t opts"
    let ?d = "assemble_client (t\<lparr>gt_opts := opts\<lparr>co_on_connected := cb\<rparr>\<rparr>) (opts\<lparr>co_on_connected := cb\<rparr>)"
    have p: "Client_Ping ?d = Client_Ping ?c" using Ping_on_connected [where t = t and opts = opts and cb = cb] t by simp
    have cl: "world_of (Client_Close ops ?d) v = world_of (Client_Close ops ?c) v" for v
      using Close_on_connected [where ops = ops and t = t and opts = opts and cb = cb and w = v] t by simp
    obtain q w2 where q: "run_state (Client_Ping ?c) w1 = (q, w2)" by fastforce
    have chk: "co_check_connection (cl_opts ?d) = co_check_connection opts" "co_check_connection (cl_opts ?c) = co_check_connection opts"
      by (simp_all add: assemble_client_def)
    show ?thesis
      using True r Inr q p cl chk
      by (cases q) (simp_all add: create_from_def GrpcTransport_Create_run Validate_on_connected
          Connect_on_connected case_prod_unfold Let_def)
  qed
qed

text \<open>The connected callback never runs: the callbacks are installed only after the transport has
  made its single transition to ready, so creating and closing a client has the same effect on the
  world whatever \<^verbatim>\<open>on_connected\<close> is set to.\<close>

theorem on_connected_never_runs:
  "run_state (create_and_close env fs rand64 ops (options\<lparr>co_on_connected := cb\<rparr>)) w
    = run_state (create_and_close env fs rand64 ops options) w"
proof -
  have "run_state (with_client_id rand64 (options\<lparr>co_on_connected := cb\<rparr>)) w
      = apfst (\<lambda>o'. o'\<lparr>co_on_connected := cb\<rparr>) (run_state (with_client_id rand64 options) w)"
    by (simp add: with_client_id_def case_prod_unfold)
  then show ?thesis
    using create_from_on_connected [where env = env and fs = fs and ops = ops and cb = cb
        and opts = "result_of (with_client_id rand64 options) w"
        and w = "world_of (with_client_id rand64 options) w"]
    by (simp add: create_and_close_def Client_Create_def case_prod_unfold)
qed

end
