(* ===== verification/Client_Messaging.thy ===== *)
theory Client_Messaging
  imports Client_Core
begin

text \<open>
  The client's send operations: events (src/client_events.cc, client_events_store.cc), commands and
  queries with their responses (src/client_commands.cc, client_queries.cc) and the one-call
  variants that build the message first. Every operation checks that the client is open, resolves
  the channel and the client id, validates, converts and calls the transport, in this order.
\<close>

definition effective_channel :: "'w Client \<Rightarrow> string \<Rightarrow> string" where
  "effective_channel c ch = (if ch = [] then co_default_channel (cl_opts c) else ch)"

definition effective_client_id :: "'w Client \<Rightarrow> string \<Rightarrow> string" where
  "effective_client_id c cid = (if cid = [] then co_client_id (cl_opts c) else cid)"

definition fresh_id :: "('w, 64 word) state \<Rightarrow> string \<Rightarrow> ('w, string) state" where
  "fresh_id rand64 i = (if i = [] then GenerateUUID rand64 else ret i)"

section \<open>Events\<close>

definition Client_SendEvent :: "('w, 64 word) state \<Rightarrow> 'w Client \<Rightarrow> Event \<Rightarrow> ('w, Status) state" where
  "Client_SendEvent rand64 c event =
     (let s = CheckClosed c
      in if \<not> ok s then ret s
      else let channel = effective_channel c (ev_channel event);
               client_id = effective_client_id c (ev_client_id event);
               s1 = ValidateChannelNoWildcard channel ''SendEvent''
      in if \<not> ok s1 then ret s1
      else let s2 = ValidateBody (ev_body event) (ev_metadata event) ''SendEvent''
      in if \<not> ok s2 then ret s2
      else do {
        eid \<leftarrow> fresh_id rand64 (ev_id event);
        GrpcTransport_SendEvent (cl_transport c)
          (PbEvent_default\<lparr>pe_EventID := eid, pe_ClientID := client_id, pe_Channel := channel,
             pe_Metadata := ev_metadata event, pe_Body := ev_body event, pe_Store := False,
             pe_Tags := Map.empty ++ ev_tags event\<rparr>)
      })"

definition Client_SendEventStore ::
    "('w, 64 word) state \<Rightarrow> 'w Client \<Rightarrow> EventStore \<Rightarrow> ('w, EventStoreResult StatusOr) state" where
  "Client_SendEventStore rand64 c event =
     (let s = CheckClosed c
      in if \<not> ok s then ret (Inl s)
      else let channel = effective_channel c (es_channel event);
               client_id = effective_client_id c (es_client_id event);
               s1 = ValidateChannelNoWildcard channel ''SendEventStore''
      in if \<not> ok s1 then ret (Inl s1)
      else let s2 = ValidateBody (es_body event) (es_metadata event) ''SendEventStore''
      in if \<not> ok s2 then ret (Inl s2)
      else do {
        eid \<leftarrow> fresh_id rand64 (es_id event);
        GrpcTransport_SendEventStore (cl_transport c)
          (PbEvent_default\<lparr>pe_EventID := eid, pe_ClientID := client_id, pe_Channel := channel,
             pe_Metadata := es_metadata event, pe_Body := es_body event, pe_Store := True,
             pe_Tags := Map.empty ++ es_tags event\<rparr>)
      })"

definition PublishEvent :: "('w, 64 word) state \<Rightarrow> 'w Client \<Rightarrow> string \<Rightarrow> string \<Rightarrow> string \<Rightarrow> tags
    \<Rightarrow> ('w, Status) state" where
  "PublishEvent rand64 c channel body metadata t = do {
     event_or \<leftarrow> Event_Build rand64
       (Event_SetTags t (Event_SetMetadata metadata (Event_SetBody body (Event_SetChannel channel Event_default))));
     (case event_or of
        Inl s \<Rightarrow> ret s
      | Inr event \<Rightarrow> Client_SendEvent rand64 c event)
   }"

definition PublishEventStore :: "('w, 64 word) state \<Rightarrow> 'w Client \<Rightarrow> string \<Rightarrow> string \<Rightarrow> string \<Rightarrow> tags
    \<Rightarrow> ('w, EventStoreResult StatusOr) state" where
  "PublishEventStore rand64 c channel body metadata t = do {
     event_or \<leftarrow> EventStore_Build rand64
       (EventStore_SetTags t (EventStore_SetMetadata metadata (EventStore_SetBody body
         (EventStore_SetChannel channel EventStore_default))));
     (case event_or of
        Inl s \<Rightarrow> ret (Inl s)
      | Inr event \<Rightarrow> Client_SendEventStore rand64 c event)
   }"

section \<open>Commands\<close>

definition Client_SendCommand ::
    "('w, 64 word) state \<Rightarrow> 'w Client \<Rightarrow> Command \<Rightarrow> ('w, CommandResponse StatusOr) state" where
  "Client_SendCommand rand64 c command =
     (let s = CheckClosed c
      in if \<not> ok s then ret (Inl s)
      else let channel = effective_channel c (cm_channel command);
               client_id = effective_client_id c (cm_client_id command);
               s1 = ValidateChannelNoWildcard channel ''SendCommand''
      in if \<not> ok s1 then ret (Inl s1)
      else let timeout = (if cm_timeout command \<le> 0 then 1000 * kDefaultRPCTimeout else cm_timeout command);
               s2 = ValidateTimeout timeout ''SendCommand''
      in if \<not> ok s2 then ret (Inl s2)
      else let s3 = ValidateBody (cm_body command) (cm_metadata command) ''SendCommand''
      in if \<not> ok s3 then ret (Inl s3)
      else do {
        rid \<leftarrow> fresh_id rand64 (cm_id command);
        response_or \<leftarrow> GrpcTransport_SendRequest (cl_transport c)
          (PbRequest_default\<lparr>rq_RequestID := rid, rq_RequestTypeData := RequestTypeCommand,
             rq_ClientID := client_id, rq_Channel := channel, rq_Metadata := cm_metadata command,
             rq_Body := cm_body command, rq_Timeout := to_int32 timeout,
             rq_Tags := Map.empty ++ cm_tags command\<rparr>);
        (case response_or of
           Inl e \<Rightarrow> ret (Inl e)
         | Inr resp \<Rightarrow>
             (if rp_Error resp \<noteq> [] then ret (Inl (Status5 kFatal (rp_Error resp) ''SendCommand'' channel rid))
              else ret (Inr (CommandResponse_default\<lparr>co_command_id := rp_RequestID resp,
                co_response_client_id := rp_ClientID resp, co_reply_channel := rp_ReplyChannel resp,
                co_executed := rp_Executed resp, co_executed_at := rp_Timestamp resp,
                co_error := rp_Error resp, co_tags := Map.empty ++ rp_Tags resp\<rparr>))))
      })"

definition Client_SendCommandResponse :: "'w Client \<Rightarrow> CommandReply \<Rightarrow> ('w, Status) state" where
  "Client_SendCommandResponse c reply =
     (let s = CheckClosed c
      in if \<not> ok s then ret s
      else GrpcTransport_SendResponse (cl_transport c)
        (PbResponse_default\<lparr>rp_ClientID := effective_client_id c (cr_client_id reply),
           rp_RequestID := cr_request_id reply, rp_ReplyChannel := cr_response_to reply,
           rp_Metadata := cr_metadata reply, rp_Body := cr_body reply, rp_Executed := cr_executed reply,
           rp_Timestamp := cr_executed_at reply, rp_Error := cr_error reply,
           rp_Tags := Map.empty ++ cr_tags reply\<rparr>))"

definition SendCommandSimple :: "('w, 64 word) state \<Rightarrow> 'w Client \<Rightarrow> string \<Rightarrow> string \<Rightarrow> millis
    \<Rightarrow> ('w, CommandResponse StatusOr) state" where
  "SendCommandSimple rand64 c channel body timeout = do {
     cmd_or \<leftarrow> Command_Build rand64
       (Command_SetTimeout timeout (Command_SetBody body (Command_SetChannel channel Command_default)));
     (case cmd_or of
        Inl s \<Rightarrow> ret (Inl s)
      | Inr cmd \<Rightarrow> Client_SendCommand rand64 c cmd)
   }"

section \<open>Queries\<close>

definition query_cache_ttl :: "'w Client \<Rightarrow> Query \<Rightarrow> millis" where
  "query_cache_ttl c query =
     (if qy_cache_ttl query \<le> 0 \<and> 0 < co_default_cache_ttl (cl_opts c)
      then co_default_cache_ttl (cl_opts c) else qy_cache_ttl query)"

definition Client_SendQuery ::
    "('w, 64 word) state \<Rightarrow> 'w Client \<Rightarrow> Query \<Rightarrow> ('w, QueryResponse StatusOr) state" where
  "Client_SendQuery rand64 c query =
     (let s = CheckClosed c
      in if \<not> ok s then ret (Inl s)
      else let channel = effective_channel c (qy_channel query);
               client_id = effective_client_id c (qy_client_id query);
               s1 = ValidateChannelNoWildcard channel ''SendQuery''
      in if \<not> ok s1 then ret (Inl s1)
      else let timeout = (if qy_timeout query \<le> 0 then 1000 * kDefaultRPCTimeout else qy_timeout query);
               s2 = ValidateTimeout timeout ''SendQuery''
      in if \<not> ok s2 then ret (Inl s2)
      else let s3 = ValidateBody (qy_body query) (qy_metadata query) ''SendQuery''
      in if \<not> ok s3 then ret (Inl s3)
      else do {
        rid \<leftarrow> fresh_id rand64 (qy_id query);
        let cache_ttl = query_cache_ttl c query;
        response_or \<leftarrow> GrpcTransport_SendRequest (cl_transport c)
          (PbRequest_default\<lparr>rq_RequestID := rid, rq_RequestTypeData := RequestTypeQuery,
             rq_ClientID := client_id, rq_Channel := channel, rq_Metadata := qy_metadata query,
             rq_Body := qy_body query, rq_Timeout := to_int32 timeout,
             rq_CacheKey := (if qy_cache_key query \<noteq> [] then qy_cache_key query else []),
             rq_CacheTTL := (if 0 < cache_ttl then to_int32 (trunc_div cache_ttl 1000) else 0),
             rq_Tags := Map.empty ++ qy_tags query\<rparr>);
        (case response_or of
           Inl e \<Rightarrow> ret (Inl e)
         | Inr resp \<Rightarrow>
             (if rp_Error resp \<noteq> [] then ret (Inl (Status5 kFatal (rp_Error resp) ''SendQuery'' channel rid))
              else ret (Inr (QueryResponse_default\<lparr>qo_query_id := rp_RequestID resp,
                qo_reply_channel := rp_ReplyChannel resp, qo_executed := rp_Executed resp,
                qo_executed_at := rp_Timestamp resp, qo_metadata := rp_Metadata resp,
                qo_response_client_id := rp_ClientID resp, qo_body := rp_Body resp,
                qo_cache_hit := rp_CacheHit resp, qo_error := rp_Error resp,
                qo_tags := Map.empty ++ rp_Tags resp\<rparr>))))
      })"

definition Client_SendQueryResponse :: "'w Client \<Rightarrow> QueryReply \<Rightarrow> ('w, Status) state" where
  "Client_SendQueryResponse c reply =
     (let s = CheckClosed c
      in if \<not> ok s then ret s
      else GrpcTransport_SendResponse (cl_transport c)
        (PbResponse_default\<lparr>rp_ClientID := effective_client_id c (qr_client_id reply),
           rp_RequestID := qr_request_id reply, rp_ReplyChannel := qr_response_to reply,
           rp_Metadata := qr_metadata reply, rp_Body := qr_body reply, rp_Executed := qr_executed reply,
           rp_Timestamp := qr_executed_at reply, rp_CacheHit := qr_cache_hit reply,
           rp_Error := qr_error reply, rp_Tags := Map.empty ++ qr_tags reply\<rparr>))"

definition SendQuerySimple :: "('w, 64 word) state \<Rightarrow> 'w Client \<Rightarrow> string \<Rightarrow> string \<Rightarrow> millis
    \<Rightarrow> ('w, QueryResponse StatusOr) state" where
  "SendQuerySimple rand64 c channel body timeout = do {
     qry_or \<leftarrow> Query_Build rand64
       (Query_SetTimeout timeout (Query_SetBody body (Query_SetChannel channel Query_default)));
     (case qry_or of
        Inl s \<Rightarrow> ret (Inl s)
      | Inr qry \<Rightarrow> Client_SendQuery rand64 c qry)
   }"

section \<open>The contract of a checked operation\<close>

text \<open>
  What every operation of a client promises: a closed client and an invalid request are refused
  before anything happens, the first with \<open>kErrClientClosed\<close>, the second with a validation error.
\<close>

locale checked_operation =
  fixes run :: "'w Client \<Rightarrow> 'q \<Rightarrow> ('w, 'r) state"
    and failed :: "Status \<Rightarrow> 'r"
    and valid :: "'w Client \<Rightarrow> 'q \<Rightarrow> bool"
  assumes run_closed: "cl_closed c \<Longrightarrow> run_state (run c q) w = (failed kErrClientClosed, w)"
    and run_invalid: "\<not> cl_closed c \<Longrightarrow> \<not> valid c q \<Longrightarrow>
      \<exists>s. code s = kValidation \<and> run_state (run c q) w = (failed s, w)"
begin

lemma refused: "cl_closed c \<or> \<not> valid c q \<Longrightarrow> \<exists>s. \<not> ok s \<and> run_state (run c q) w = (failed s, w)"
  using run_closed [of c q w] run_invalid [of c q w] not_ok_kErrClientClosed
  by (metis ErrorCode.distinct(11) ok_def)

lemma refused_no_effect: "cl_closed c \<or> \<not> valid c q \<Longrightarrow> world_of (run c q) w = w"
  using refused [of c q w] by auto

end

definition valid_send :: "'w Client \<Rightarrow> string \<Rightarrow> string \<Rightarrow> string \<Rightarrow> bool" where
  "valid_send c channel body metadata =
     (channel_sendable (effective_channel c channel) \<and> (body \<noteq> [] \<or> metadata \<noteq> []))"

lemmas client_op_defs =
  Client_SendEvent_def Client_SendEventStore_def Client_SendCommand_def Client_SendQuery_def
  CheckClosed_def

lemma validation_error: "\<not> channel_sendable ch \<Longrightarrow> code (ValidateChannelNoWildcard ch op) = kValidation"
  "\<not> channel_wf ch \<Longrightarrow> code (ValidateChannel ch op) = kValidation"
  "b = [] \<Longrightarrow> m = [] \<Longrightarrow> code (ValidateBody b m op) = kValidation"
  using validation_codes(1,2,3) by (auto simp: status_simps)

interpretation op_send_event: checked_operation "Client_SendEvent rand64" "\<lambda>s. s"
    "\<lambda>c e. valid_send c (ev_channel e) (ev_body e) (ev_metadata e)"
  by unfold_locales (auto simp: client_op_defs valid_send_def status_simps Let_def validation_error)

interpretation op_send_event_store: checked_operation "Client_SendEventStore rand64" Inl
    "\<lambda>c e. valid_send c (es_channel e) (es_body e) (es_metadata e)"
  by unfold_locales (auto simp: client_op_defs valid_send_def status_simps Let_def validation_error)

interpretation op_send_command: checked_operation "Client_SendCommand rand64" Inl
    "\<lambda>c e. valid_send c (cm_channel e) (cm_body e) (cm_metadata e)"
  by unfold_locales
    (auto simp: client_op_defs valid_send_def status_simps Let_def validation_error kDefaultRPCTimeout_def)

interpretation op_send_query: checked_operation "Client_SendQuery rand64" Inl
    "\<lambda>c e. valid_send c (qy_channel e) (qy_body e) (qy_metadata e)"
  by unfold_locales
    (auto simp: client_op_defs valid_send_def status_simps Let_def validation_error kDefaultRPCTimeout_def)

interpretation op_command_response: checked_operation Client_SendCommandResponse "\<lambda>s. s" "\<lambda>_ _. True"
  by unfold_locales (auto simp: Client_SendCommandResponse_def CheckClosed_def)

interpretation op_query_response: checked_operation Client_SendQueryResponse "\<lambda>s. s" "\<lambda>_ _. True"
  by unfold_locales (auto simp: Client_SendQueryResponse_def CheckClosed_def)

section \<open>What is sent\<close>

lemma fresh_id_given [simp]: "i \<noteq> [] \<Longrightarrow> fresh_id rand64 i = ret i"
  by (simp add: fresh_id_def)

lemma effective_client_id_FirstNonEmpty:
  "effective_client_id c cid = FirstNonEmpty cid (co_client_id (cl_opts c))"
  by (simp add: effective_client_id_def FirstNonEmpty_def)

text \<open>An open client hands a valid event to the transport exactly as the converter of the
  transport layer would translate it, with the default channel and client id filled in, the store
  flag telling events from stored events, and an id (the given one, or a fresh UUID drawn first).\<close>

theorem send_event_matches_converter:
  assumes "\<not> cl_closed c"
  shows "(valid_send c (ev_channel e) (ev_body e) (ev_metadata e) \<longrightarrow>
      Client_SendEvent rand64 c e = do {
        eid \<leftarrow> fresh_id rand64 (ev_id e);
        GrpcTransport_SendEvent (cl_transport c)
          (EventToProto (e\<lparr>ev_id := eid, ev_channel := effective_channel c (ev_channel e)\<rparr>)
            (co_client_id (cl_opts c)) PbEvent_default)
      })
    \<and> (valid_send c (es_channel s) (es_body s) (es_metadata s) \<longrightarrow>
      Client_SendEventStore rand64 c s = do {
        eid \<leftarrow> fresh_id rand64 (es_id s);
        GrpcTransport_SendEventStore (cl_transport c)
          (EventStoreToProto (s\<lparr>es_id := eid, es_channel := effective_channel c (es_channel s)\<rparr>)
            (co_client_id (cl_opts c)) PbEvent_default)
      })"
  using assms
  by (auto simp: client_op_defs valid_send_def status_simps Let_def EventToProto_def EventStoreToProto_def
      effective_client_id_FirstNonEmpty SetTags_def PbEvent_default_def)

text \<open>C19. A command with a positive timeout and an id travels as the converter translates it; a
  transport failure is returned unchanged, an error reported by the responder becomes a \<open>kFatal\<close>
  status naming channel and request, and any other answer is the converter's command response.\<close>

theorem send_command_outcome:
  assumes "\<not> cl_closed c" "valid_send c (cm_channel m) (cm_body m) (cm_metadata m)" "0 < cm_timeout m" "cm_id m \<noteq> []"
  shows "run_state (Client_SendCommand rand64 c m) w =
    (let (r, w') = run_state (GrpcTransport_SendRequest (cl_transport c)
           (CommandToProto (m\<lparr>cm_channel := effective_channel c (cm_channel m)\<rparr>) (co_client_id (cl_opts c)) PbRequest_default)) w
     in (case r of
           Inl e \<Rightarrow> Inl e
         | Inr resp \<Rightarrow> (if rp_Error resp = [] then Inr (CommandResponseFromProto resp)
             else Inl (Status5 kFatal (rp_Error resp) ''SendCommand'' (effective_channel c (cm_channel m)) (cm_id m))), w'))"
proof -
  have req: "PbRequest_default\<lparr>rq_RequestID := cm_id m, rq_RequestTypeData := RequestTypeCommand,
      rq_ClientID := effective_client_id c (cm_client_id m), rq_Channel := effective_channel c (cm_channel m),
      rq_Metadata := cm_metadata m, rq_Body := cm_body m, rq_Timeout := to_int32 (cm_timeout m), rq_Tags := cm_tags m\<rparr>
    = CommandToProto (m\<lparr>cm_channel := effective_channel c (cm_channel m)\<rparr>) (co_client_id (cl_opts c)) PbRequest_default"
    by (simp add: CommandToProto_def effective_client_id_FirstNonEmpty SetTags_def PbRequest_default_def)
  show ?thesis
    using assms
    by (auto simp: Client_SendCommand_def CheckClosed_def valid_send_def status_simps Let_def req
        CommandResponseFromProto_def CopyTags_def case_prod_unfold split: sum.splits)
qed

definition sample_command :: Command where
  "sample_command = Command_default\<lparr>cm_id := ''c-1'', cm_channel := ''cmds'', cm_body := ''go'', cm_timeout := 5000\<rparr>"

lemma sample_command_valid:
  "\<not> cl_closed sample_client" "valid_send sample_client (cm_channel sample_command) (cm_body sample_command) (cm_metadata sample_command)"
  "0 < cm_timeout sample_command" "cm_id sample_command \<noteq> []"
  by (simp_all add: sample_client_def sample_command_def valid_send_def effective_channel_def
      channel_sendable_def channel_wf_def is_ascii_space_def sdk_defaults)

theorem send_command_outcome_witness:
  "run_state (Client_SendCommand (ret 0) sample_client sample_command) 0
    = (Inr (CommandResponseFromProto PbResponse_default), 1)"
proof -
  have open_t: "\<not> gt_closed sample_transport" "result_of (token_of (co_auth_token (gt_opts sample_transport))
      (co_credential_provider (gt_opts sample_transport))) (0::nat) = Inr []"
    "world_of (token_of (co_auth_token (gt_opts sample_transport))
      (co_credential_provider (gt_opts sample_transport))) (0::nat) = 0"
    by (simp_all add: sample_transport_def token_of_def ClientOptions_default_def)
  have st: "stub_SendRequest (gt_stub sample_transport) ctx q = count_call (grpc_status_OK, PbResponse_default)" for ctx q
    by (simp add: sample_transport_def counting_stub_def)
  have "run_state (GrpcTransport_SendRequest sample_transport q) 0 = (Inr PbResponse_default, 1)" for q
    using rpc_send_request.authorized [OF open_t(1,2)] open_t(3)
    by (simp add: st count_call_def reply_or_def Let_def)
  then show ?thesis
    using send_command_outcome [OF sample_command_valid, of "ret 0" 0]
    by (simp add: sample_client_def PbResponse_default_def)
qed

theorem send_event_matches_converter_witness:
  "\<not> cl_closed sample_client
   \<and> Client_SendEvent (ret 0) sample_client (Event_default\<lparr>ev_id := ''e'', ev_channel := ''news'', ev_body := ''x''\<rparr>)
     = GrpcTransport_SendEvent sample_transport
         (EventToProto (Event_default\<lparr>ev_id := ''e'', ev_channel := ''news'', ev_body := ''x''\<rparr>) ''me'' PbEvent_default)"
proof -
  have h: "\<not> cl_closed sample_client" by (rule sample_command_valid)
  have v: "valid_send sample_client ''news'' ''x'' []"
    by (simp add: valid_send_def effective_channel_def channel_sendable_def channel_wf_def is_ascii_space_def)
  show ?thesis
    using h v send_event_matches_converter [OF h, of "Event_default\<lparr>ev_id := ''e'', ev_channel := ''news'', ev_body := ''x''\<rparr>" "ret 0"]
    by (simp add: Event_default_def effective_channel_def)
       (simp add: sample_client_def sample_transport_def EventToProto_def)
qed

text \<open>The default channel of the client options never applies to a published event: the builder
  refuses the empty channel before the client could fill it in, so publishing without a channel
  fails with a validation error whatever default is configured. A message object that did pass the
  builder always has a channel of its own.\<close>

theorem default_channel_unused_by_publish:
  "\<exists>s. code s = kValidation \<and> run_state (PublishEvent rand64 c [] body metadata t) w = (s, w)
     \<and> run_state (PublishEventStore rand64 c [] body metadata t) w = (Inl s, w)
     \<and> run_state (SendCommandSimple rand64 c [] body tm) w = (Inl s, w)
     \<and> run_state (SendQuerySimple rand64 c [] body tm) w = (Inl s, w)"
  by (simp add: PublishEvent_def PublishEventStore_def SendCommandSimple_def SendQuerySimple_def
      Event_Build_def EventStore_Build_def Command_Build_def Query_Build_def setter_defs)

end
