(* ===== verification/Client_Queues.thy ===== *)
theory Client_Queues
  imports Client_Messaging
begin

text \<open>
  The client's simple queue operations (src/client_queues.cc) and channel management
  (src/client_channels.cc, client_convenience.cc). The JSON library that decodes a channel list is
  the parameter \<open>J\<close>; an exception it throws that the code does not catch leaves the operation as
  \<open>Inl\<close>.
\<close>

section \<open>Queue messages\<close>

definition Client_SendQueueMessage :: "'w Client \<Rightarrow> QueueMessage \<Rightarrow> ('w, QueueSendResult StatusOr) state" where
  "Client_SendQueueMessage c message =
     (let s = CheckClosed c
      in if \<not> ok s then ret (Inl s)
      else let channel = effective_channel c (qm_channel message);
               s1 = ValidateChannelNoWildcard channel ''SendQueueMessage''
      in if \<not> ok s1 then ret (Inl s1)
      else let s2 = ValidateBody (qm_body message) (qm_metadata message) ''SendQueueMessage''
      in if \<not> ok s2 then ret (Inl s2)
      else do {
        result_or \<leftarrow> GrpcTransport_SendQueueMessage (cl_transport c)
          ((QueueMessageToProto message (co_client_id (cl_opts c)) PbQueueMessage_default)\<lparr>pq_Channel := channel\<rparr>);
        (case result_or of
           Inl e \<Rightarrow> ret (Inl e)
         | Inr r \<Rightarrow>
             (let result = QueueSendResultFromProto r
              in if qs_is_error result
                 then ret (Inl (Status5 kFatal (qs_error result) ''SendQueueMessage'' channel (qs_message_id result)))
                 else ret (Inr result)))
      })"

text \<open>The loop of \<^verbatim>\<open>SendQueueMessages\<close> adds each message to the batch after checking it, and leaves at
  the first one that fails.\<close>

fun add_messages :: "'w Client \<Rightarrow> QueueMessage list \<Rightarrow> PbQueueMessagesBatchRequest
    \<Rightarrow> PbQueueMessagesBatchRequest StatusOr" where
  "add_messages c [] batch_request = Inr batch_request"
| "add_messages c (msg # messages) batch_request =
     (let channel = effective_channel c (qm_channel msg);
          s1 = ValidateChannelNoWildcard channel ''SendQueueMessages''
      in if \<not> ok s1 then Inl s1
      else let s2 = ValidateBody (qm_body msg) (qm_metadata msg) ''SendQueueMessages''
      in if \<not> ok s2 then Inl s2
      else add_messages c messages
        (batch_request\<lparr>bq_Messages := bq_Messages batch_request
           @ [(QueueMessageToProto msg (co_client_id (cl_opts c)) PbQueueMessage_default)\<lparr>pq_Channel := channel\<rparr>]\<rparr>))"

definition Client_SendQueueMessages :: "('w, 64 word) state \<Rightarrow> 'w Client \<Rightarrow> QueueMessage list
    \<Rightarrow> ('w, QueueSendResult list StatusOr) state" where
  "Client_SendQueueMessages rand64 c messages =
     (let s = CheckClosed c
      in if \<not> ok s then ret (Inl s)
      else if messages = [] then ret (Inl (Status5 kValidation ''messages list is empty'' ''SendQueueMessages'' [] []))
      else do {
        batch_id \<leftarrow> GenerateUUID rand64;
        (case add_messages c messages (PbQueueMessagesBatchRequest_default\<lparr>bq_BatchID := batch_id\<rparr>) of
           Inl e \<Rightarrow> ret (Inl e)
         | Inr batch_request \<Rightarrow> do {
             response_or \<leftarrow> GrpcTransport_SendQueueMessagesBatch (cl_transport c) batch_request;
             (case response_or of
                Inl e \<Rightarrow> ret (Inl e)
              | Inr resp \<Rightarrow> ret (Inr (map QueueSendResultFromProto (bp_Results resp))))
           })
      })"

definition Client_ReceiveQueueMessages :: "('w, 64 word) state \<Rightarrow> 'w Client \<Rightarrow> ReceiveQueueMessagesRequest
    \<Rightarrow> ('w, ReceiveQueueMessagesResponse StatusOr) state" where
  "Client_ReceiveQueueMessages rand64 c request =
     (let s = CheckClosed c
      in if \<not> ok s then ret (Inl s)
      else let channel = effective_channel c (rmq_channel request);
               s1 = ValidateChannel channel ''ReceiveQueueMessages''
      in if \<not> ok s1 then ret (Inl s1)
      else do {
        rid \<leftarrow> fresh_id rand64 (rmq_request_id request);
        response_or \<leftarrow> GrpcTransport_ReceiveQueueMessages (cl_transport c)
          (PbReceiveQueueMessagesRequest_default\<lparr>rr_RequestID := rid,
             rr_ClientID := effective_client_id c (rmq_client_id request), rr_Channel := channel,
             rr_MaxNumberOfMessages := rmq_max_number_of_messages request,
             rr_WaitTimeSeconds := rmq_wait_time_seconds request, rr_IsPeak := rmq_is_peek request\<rparr>);
        (case response_or of
           Inl e \<Rightarrow> ret (Inl e)
         | Inr resp \<Rightarrow>
             (if ro_IsError resp
              then ret (Inl (Status5 kFatal (ro_Error resp) ''ReceiveQueueMessages'' channel rid))
              else do {
                msgs \<leftarrow> map_state (QueueMessageFromProto rand64) (ro_Messages resp);
                ret (Inr (ReceiveQueueMessagesResponse_default\<lparr>rmo_request_id := ro_RequestID resp,
                  rmo_messages_received := ro_MessagesReceived resp,
                  rmo_messages_expired := ro_MessagesExpired resp, rmo_is_peek := ro_IsPeak resp,
                  rmo_is_error := ro_IsError resp, rmo_error := ro_Error resp, rmo_messages := msgs\<rparr>))
              }))
      })"

definition Client_AckAllQueueMessages :: "('w, 64 word) state \<Rightarrow> 'w Client \<Rightarrow> AckAllQueueMessagesRequest
    \<Rightarrow> ('w, AckAllQueueMessagesResponse StatusOr) state" where
  "Client_AckAllQueueMessages rand64 c request =
     (let s = CheckClosed c
      in if \<not> ok s then ret (Inl s)
      else let channel = effective_channel c (akq_channel request);
               s1 = ValidateChannel channel ''AckAllQueueMessages''
      in if \<not> ok s1 then ret (Inl s1)
      else do {
        rid \<leftarrow> fresh_id rand64 (akq_request_id request);
        response_or \<leftarrow> GrpcTransport_AckAllQueueMessages (cl_transport c)
          (PbAckAllQueueMessagesRequest_default\<lparr>aq_RequestID := rid,
             aq_ClientID := effective_client_id c (akq_client_id request), aq_Channel := channel,
             aq_WaitTimeSeconds := akq_wait_time_seconds request\<rparr>);
        (case response_or of
           Inl e \<Rightarrow> ret (Inl e)
         | Inr resp \<Rightarrow>
             (if ao_IsError resp
              then ret (Inl (Status5 kFatal (ao_Error resp) ''AckAllQueueMessages'' channel rid))
              else ret (Inr (AckAllQueueMessagesResponse_default\<lparr>ako_request_id := ao_RequestID resp,
                ako_affected_messages := ao_AffectedMessages resp, ako_is_error := ao_IsError resp,
                ako_error := ao_Error resp\<rparr>))))
      })"

definition SendQueueMessageSimple :: "('w, 64 word) state \<Rightarrow> 'w Client \<Rightarrow> string \<Rightarrow> string \<Rightarrow> int \<Rightarrow> int
    \<Rightarrow> ('w, QueueSendResult StatusOr) state" where
  "SendQueueMessageSimple rand64 c channel body expiration_seconds delay_seconds =
     (let b0 = QueueMessage_SetBody body (QueueMessage_SetChannel channel QueueMessage_default);
          b1 = (if 0 < expiration_seconds then QueueMessage_SetExpirationSeconds expiration_seconds b0 else b0);
          b2 = (if 0 < delay_seconds then QueueMessage_SetDelaySeconds delay_seconds b1 else b1)
      in do {
        msg_or \<leftarrow> QueueMessage_Build rand64 b2;
        (case msg_or of
           Inl s \<Rightarrow> ret (Inl s)
         | Inr msg \<Rightarrow> Client_SendQueueMessage c msg)
      })"

section \<open>Channel management\<close>

definition kChannelTypeEvents :: string where "kChannelTypeEvents = ''events''"
definition kChannelTypeEventsStore :: string where "kChannelTypeEventsStore = ''events_store''"
definition kChannelTypeCommands :: string where "kChannelTypeCommands = ''commands''"
definition kChannelTypeQueries :: string where "kChannelTypeQueries = ''queries''"
definition kChannelTypeQueues :: string where "kChannelTypeQueues = ''queues''"

definition kValidChannelTypeError :: string where
  "kValidChannelTypeError =
     ''invalid channel type; must be one of: events, events_store, '' @ ''commands, queries, queues''"

definition IsValidChannelType :: "string \<Rightarrow> bool" where
  "IsValidChannelType channel_type =
     (channel_type = kChannelTypeEvents \<or> channel_type = kChannelTypeEventsStore
      \<or> channel_type = kChannelTypeCommands \<or> channel_type = kChannelTypeQueries
      \<or> channel_type = kChannelTypeQueues)"

definition ValidateChannelManagement :: "string \<Rightarrow> string \<Rightarrow> string \<Rightarrow> Status" where
  "ValidateChannelManagement channel_name channel_type op =
     (if channel_name = [] then Status5 kValidation ''channel name is required'' op [] []
      else if \<not> IsValidChannelType channel_type then Status5 kValidation kValidChannelTypeError op [] []
      else Status_ok)"

definition CreateChannel :: "('w, 64 word) state \<Rightarrow> 'w Client \<Rightarrow> string \<Rightarrow> string \<Rightarrow> ('w, Status) state" where
  "CreateChannel rand64 c channel_name channel_type =
     (let s = CheckClosed c
      in if \<not> ok s then ret s
      else let s1 = ValidateChannelManagement channel_name channel_type ''CreateChannel''
      in if \<not> ok s1 then ret s1
      else do {
        request_id \<leftarrow> GenerateUUID rand64;
        response_or \<leftarrow> GrpcTransport_SendRequest (cl_transport c)
          (BuildChannelManagementRequest (co_client_id (cl_opts c)) channel_name channel_type
             ''create-channel'' request_id PbRequest_default);
        (case response_or of
           Inl e \<Rightarrow> ret e
         | Inr resp \<Rightarrow>
             (if rp_Error resp \<noteq> [] then ret (Status5 kFatal (rp_Error resp) ''CreateChannel'' channel_name request_id)
              else ret Status_ok))
      })"

definition DeleteChannel :: "('w, 64 word) state \<Rightarrow> 'w Client \<Rightarrow> string \<Rightarrow> string \<Rightarrow> ('w, Status) state" where
  "DeleteChannel rand64 c channel_name channel_type =
     (let s = CheckClosed c
      in if \<not> ok s then ret s
      else let s1 = ValidateChannelManagement channel_name channel_type ''DeleteChannel''
      in if \<not> ok s1 then ret s1
      else do {
        request_id \<leftarrow> GenerateUUID rand64;
        response_or \<leftarrow> GrpcTransport_SendRequest (cl_transport c)
          (BuildChannelManagementRequest (co_client_id (cl_opts c)) channel_name channel_type
             ''delete-channel'' request_id PbRequest_default);
        (case response_or of
           Inl e \<Rightarrow> ret e
         | Inr resp \<Rightarrow>
             (if rp_Error resp \<noteq> [] then ret (Status5 kFatal (rp_Error resp) ''DeleteChannel'' channel_name request_id)
              else ret Status_ok))
      })"

definition ListChannels :: "'j json_ops \<Rightarrow> ('w, 64 word) state \<Rightarrow> 'w Client \<Rightarrow> string \<Rightarrow> string
    \<Rightarrow> ('w, exn + ChannelInfo list StatusOr) state" where
  "ListChannels J rand64 c channel_type search =
     (let s = CheckClosed c
      in if \<not> ok s then ret (Inr (Inl s))
      else if \<not> IsValidChannelType channel_type
        then ret (Inr (Inl (Status5 kValidation kValidChannelTypeError ''ListChannels'' [] [])))
      else do {
        request_id \<leftarrow> GenerateUUID rand64;
        let request = BuildChannelManagementRequest (co_client_id (cl_opts c)) [] channel_type
             ''list-channels'' request_id PbRequest_default;
        let request' = (if search \<noteq> [] then request\<lparr>rq_Tags := (rq_Tags request)(''search'' \<mapsto> search)\<rparr> else request);
        response_or \<leftarrow> GrpcTransport_SendRequest (cl_transport c) request';
        (case response_or of
           Inl e \<Rightarrow> ret (Inr (Inl e))
         | Inr resp \<Rightarrow>
             (if rp_Error resp \<noteq> [] then ret (Inr (Inl (Status5 kFatal (rp_Error resp) ''ListChannels'' [] request_id)))
              else ret (ParseChannelListResponse J (rp_Body resp))))
      })"

definition CreateEventsChannel :: "('w, 64 word) state \<Rightarrow> 'w Client \<Rightarrow> string \<Rightarrow> ('w, Status) state" where
  "CreateEventsChannel rand64 c nm = CreateChannel rand64 c nm kChannelTypeEvents"

definition CreateEventsStoreChannel :: "('w, 64 word) state \<Rightarrow> 'w Client \<Rightarrow> string \<Rightarrow> ('w, Status) state" where
  "CreateEventsStoreChannel rand64 c nm = CreateChannel rand64 c nm kChannelTypeEventsStore"

definition CreateCommandsChannel :: "('w, 64 word) state \<Rightarrow> 'w Client \<Rightarrow> string \<Rightarrow> ('w, Status) state" where
  "CreateCommandsChannel rand64 c nm = CreateChannel rand64 c nm kChannelTypeCommands"

definition CreateQueriesChannel :: "('w, 64 word) state \<Rightarrow> 'w Client \<Rightarrow> string \<Rightarrow> ('w, Status) state" where
  "CreateQueriesChannel rand64 c nm = CreateChannel rand64 c nm kChannelTypeQueries"

definition CreateQueuesChannel :: "('w, 64 word) state \<Rightarrow> 'w Client \<Rightarrow> string \<Rightarrow> ('w, Status) state" where
  "CreateQueuesChannel rand64 c nm = CreateChannel rand64 c nm kChannelTypeQueues"

definition DeleteEventsChannel :: "('w, 64 word) state \<Rightarrow> 'w Client \<Rightarrow> string \<Rightarrow> ('w, Status) state" where
  "DeleteEventsChannel rand64 c nm = DeleteChannel rand64 c nm kChannelTypeEvents"

definition DeleteEventsStoreChannel :: "('w, 64 word) state \<Rightarrow> 'w Client \<Rightarrow> string \<Rightarrow> ('w, Status) state" where
  "DeleteEventsStoreChannel rand64 c nm = DeleteChannel rand64 c nm kChannelTypeEventsStore"

definition DeleteCommandsChannel :: "('w, 64 word) state \<Rightarrow> 'w Client \<Rightarrow> string \<Rightarrow> ('w, Status) state" where
  "DeleteCommandsChannel rand64 c nm = DeleteChannel rand64 c nm kChannelTypeCommands"

definition DeleteQueriesChannel :: "('w, 64 word) state \<Rightarrow> 'w Client \<Rightarrow> string \<Rightarrow> ('w, Status) state" where
  "DeleteQueriesChannel rand64 c nm = DeleteChannel rand64 c nm kChannelTypeQueries"

definition DeleteQueuesChannel :: "('w, 64 word) state \<Rightarrow> 'w Client \<Rightarrow> string \<Rightarrow> ('w, Status) state" where
  "DeleteQueuesChannel rand64 c nm = DeleteChannel rand64 c nm kChannelTypeQueues"

definition ListEventsChannels :: "'j json_ops \<Rightarrow> ('w, 64 word) state \<Rightarrow> 'w Client \<Rightarrow> string
    \<Rightarrow> ('w, exn + ChannelInfo list StatusOr) state" where
  "ListEventsChannels J rand64 c search = ListChannels J rand64 c kChannelTypeEvents search"

definition ListEventsStoreChannels :: "'j json_ops \<Rightarrow> ('w, 64 word) state \<Rightarrow> 'w Client \<Rightarrow> string
    \<Rightarrow> ('w, exn + ChannelInfo list StatusOr) state" where
  "ListEventsStoreChannels J rand64 c search = ListChannels J rand64 c kChannelTypeEventsStore search"

definition ListCommandsChannels :: "'j json_ops \<Rightarrow> ('w, 64 word) state \<Rightarrow> 'w Client \<Rightarrow> string
    \<Rightarrow> ('w, exn + ChannelInfo list StatusOr) state" where
  "ListCommandsChannels J rand64 c search = ListChannels J rand64 c kChannelTypeCommands search"

definition ListQueriesChannels :: "'j json_ops \<Rightarrow> ('w, 64 word) state \<Rightarrow> 'w Client \<Rightarrow> string
    \<Rightarrow> ('w, exn + ChannelInfo list StatusOr) state" where
  "ListQueriesChannels J rand64 c search = ListChannels J rand64 c kChannelTypeQueries search"

definition ListQueuesChannels :: "'j json_ops \<Rightarrow> ('w, 64 word) state \<Rightarrow> 'w Client \<Rightarrow> string
    \<Rightarrow> ('w, exn + ChannelInfo list StatusOr) state" where
  "ListQueuesChannels J rand64 c search = ListChannels J rand64 c kChannelTypeQueues search"

section \<open>Refusals\<close>

lemma ValidateChannelManagement_ok [status_simps]:
  "ok (ValidateChannelManagement n t op) = (n \<noteq> [] \<and> IsValidChannelType t)"
  by (simp add: ValidateChannelManagement_def)

lemma management_error: "\<not> (n \<noteq> [] \<and> IsValidChannelType t) \<Longrightarrow> code (ValidateChannelManagement n t op) = kValidation"
  by (auto simp: ValidateChannelManagement_def)

interpretation op_send_queue: checked_operation Client_SendQueueMessage Inl
    "\<lambda>c m. valid_send c (qm_channel m) (qm_body m) (qm_metadata m)"
  by unfold_locales
    (auto simp: Client_SendQueueMessage_def CheckClosed_def valid_send_def status_simps Let_def validation_error)

interpretation op_receive: checked_operation "Client_ReceiveQueueMessages rand64" Inl
    "\<lambda>c q. channel_wf (effective_channel c (rmq_channel q))"
  by unfold_locales
    (auto simp: Client_ReceiveQueueMessages_def CheckClosed_def status_simps Let_def validation_error)

interpretation op_ack_all: checked_operation "Client_AckAllQueueMessages rand64" Inl
    "\<lambda>c q. channel_wf (effective_channel c (akq_channel q))"
  by unfold_locales
    (auto simp: Client_AckAllQueueMessages_def CheckClosed_def status_simps Let_def validation_error)

interpretation op_create_channel: checked_operation "\<lambda>c q. CreateChannel rand64 c (fst q) (snd q)" "\<lambda>s. s"
    "\<lambda>c q. fst q \<noteq> [] \<and> IsValidChannelType (snd q)"
  by unfold_locales (auto simp: CreateChannel_def CheckClosed_def status_simps Let_def management_error)

interpretation op_delete_channel: checked_operation "\<lambda>c q. DeleteChannel rand64 c (fst q) (snd q)" "\<lambda>s. s"
    "\<lambda>c q. fst q \<noteq> [] \<and> IsValidChannelType (snd q)"
  by unfold_locales (auto simp: DeleteChannel_def CheckClosed_def status_simps Let_def management_error)

interpretation op_list_channels: checked_operation "\<lambda>c q. ListChannels J rand64 c (fst q) (snd q)" "\<lambda>s. Inr (Inl s)"
    "\<lambda>c q. IsValidChannelType (fst q)"
  by unfold_locales (auto simp: ListChannels_def CheckClosed_def status_simps Let_def)

section \<open>Batches\<close>

definition batch_entry :: "'w Client \<Rightarrow> QueueMessage \<Rightarrow> PbQueueMessage" where
  "batch_entry c m = QueueMessageToProto (m\<lparr>qm_channel := effective_channel c (qm_channel m)\<rparr>)
     (co_client_id (cl_opts c)) PbQueueMessage_default"

definition valid_message :: "'w Client \<Rightarrow> QueueMessage \<Rightarrow> bool" where
  "valid_message c m = valid_send c (qm_channel m) (qm_body m) (qm_metadata m)"

lemma batch_entry_alt: "(QueueMessageToProto m (co_client_id (cl_opts c)) PbQueueMessage_default)
    \<lparr>pq_Channel := effective_channel c (qm_channel m)\<rparr> = batch_entry c m"
  by (simp add: batch_entry_def QueueMessageToProto_def PbQueueMessage_default_def Let_def)

lemma add_messages_valid:
  "list_all (valid_message c) ms \<Longrightarrow>
    add_messages c ms b = Inr (b\<lparr>bq_Messages := bq_Messages b @ map (batch_entry c) ms\<rparr>)"
  by (induction ms arbitrary: b)
    (auto simp: valid_message_def valid_send_def status_simps Let_def batch_entry_alt)

lemma add_messages_invalid:
  "\<not> list_all (valid_message c) ms \<Longrightarrow> \<exists>s. code s = kValidation \<and> add_messages c ms b = Inl s"
proof (induction ms arbitrary: b)
  case (Cons m ms)
  show ?case
  proof (cases "valid_message c m")
    case True
    then show ?thesis
      using Cons by (auto simp: valid_message_def valid_send_def status_simps Let_def batch_entry_alt)
  next
    case False
    then show ?thesis
      by (auto simp: valid_message_def valid_send_def status_simps Let_def validation_error)
  qed
qed simp

text \<open>Sending a batch is all or nothing on the client's side: one invalid message makes the whole
  call fail with a validation error before any RPC (only the batch id has been drawn); otherwise a
  single RPC carries every message, in order, each with its resolved channel and client id.\<close>

theorem batch_all_or_nothing:
  assumes "\<not> cl_closed c" "ms \<noteq> []"
  shows "(\<not> list_all (valid_message c) ms \<longrightarrow>
      (\<exists>s. code s = kValidation
        \<and> run_state (Client_SendQueueMessages rand64 c ms) w = (Inl s, world_of (GenerateUUID rand64) w)))
    \<and> (list_all (valid_message c) ms \<longrightarrow>
      Client_SendQueueMessages rand64 c ms = do {
        bid \<leftarrow> GenerateUUID rand64;
        r \<leftarrow> GrpcTransport_SendQueueMessagesBatch (cl_transport c)
          \<lparr>bq_BatchID = bid, bq_Messages = map (batch_entry c) ms\<rparr>;
        ret (map_sum id (\<lambda>resp. map QueueSendResultFromProto (bp_Results resp)) r)
      })"
proof (intro conjI impI)
  assume "\<not> list_all (valid_message c) ms"
  from add_messages_invalid [OF this]
  show "\<exists>s. code s = kValidation
      \<and> run_state (Client_SendQueueMessages rand64 c ms) w = (Inl s, world_of (GenerateUUID rand64) w)"
    using assms by (auto simp: Client_SendQueueMessages_def CheckClosed_def case_prod_unfold)
       (metis old.sum.simps(5) run_state_return)
next
  assume v: "list_all (valid_message c) ms"
  have id_case: "case_sum (\<lambda>e. ret (Inl e)) (\<lambda>resp. ret (Inr (f resp))) = (\<lambda>r. ret (map_sum id f r))" for f
    by (rule ext) (simp split: sum.splits)
  show "Client_SendQueueMessages rand64 c ms = do {
        bid \<leftarrow> GenerateUUID rand64;
        r \<leftarrow> GrpcTransport_SendQueueMessagesBatch (cl_transport c)
          \<lparr>bq_BatchID = bid, bq_Messages = map (batch_entry c) ms\<rparr>;
        ret (map_sum id (\<lambda>resp. map QueueSendResultFromProto (bp_Results resp)) r)
      }"
    using assms add_messages_valid [OF v]
    by (simp add: Client_SendQueueMessages_def CheckClosed_def id_case PbQueueMessagesBatchRequest_default_def)
qed

definition unsendable_message :: QueueMessage where
  "unsendable_message = sample_message\<lparr>qm_channel := ''a b''\<rparr>"

theorem batch_all_or_nothing_witness:
  "\<not> cl_closed sample_client
   \<and> (\<exists>s. code s = kValidation \<and> run_state (Client_SendQueueMessages (State (\<lambda>n. (0, n + 7))) sample_client
        [sample_message, unsendable_message]) 0 = (Inl s, 14))"
proof -
  have h: "\<not> cl_closed sample_client" "[sample_message, unsendable_message] \<noteq> []"
    by (simp_all add: sample_client_def)
  have bad: "\<not> list_all (valid_message sample_client) [sample_message, unsendable_message]"
    by (simp add: valid_message_def valid_send_def effective_channel_def unsendable_message_def
        channel_sendable_def channel_wf_def is_ascii_space_def)
  have "world_of (GenerateUUID (State (\<lambda>n. (0, n + 7)))) (0::nat) = 14"
    by (simp add: GenerateUUID_def)
  moreover have "\<exists>s. code s = kValidation \<and> run_state (Client_SendQueueMessages (State (\<lambda>n. (0, n + 7))) sample_client
        [sample_message, unsendable_message]) 0 = (Inl s, world_of (GenerateUUID (State (\<lambda>n. (0, n + 7)))) 0)"
    using batch_all_or_nothing [OF h, of "State (\<lambda>n. (0, n + 7))" 0] bad by blast
  ultimately show ?thesis using h(1) by simp
qed

text \<open>What one client sends, another receives: when the broker's answer carries queue messages as
  some client encoded them, receiving returns these messages in order, with their ids, bodies,
  tags and policies, and the counters of the answer; an answer marked as an error becomes a \<open>kFatal\<close>
  status with the broker's text.\<close>

theorem receive_returns_sent_messages:
  assumes "\<not> cl_closed c" "channel_wf (effective_channel c (rmq_channel q))" "rmq_request_id q \<noteq> []"
    and "list_all QueueMessage_sendable ms"
    and "ro_Messages resp = map (\<lambda>m. QueueMessageToProto m cid PbQueueMessage_default) ms"
    and "run_state (GrpcTransport_ReceiveQueueMessages (cl_transport c)
        ((ReceiveQueueMessagesRequestToProto q PbReceiveQueueMessagesRequest_default)
          \<lparr>rr_ClientID := effective_client_id c (rmq_client_id q),
           rr_Channel := effective_channel c (rmq_channel q)\<rparr>)) w = (Inr resp, w')"
  shows "run_state (Client_ReceiveQueueMessages rand64 c q) w =
    (if ro_IsError resp
     then Inl (Status5 kFatal (ro_Error resp) ''ReceiveQueueMessages'' (effective_channel c (rmq_channel q)) (rmq_request_id q))
     else Inr \<lparr>rmo_request_id = ro_RequestID resp, rmo_messages = map (queue_view cid) ms,
        rmo_messages_received = ro_MessagesReceived resp, rmo_messages_expired = ro_MessagesExpired resp,
        rmo_is_peek = ro_IsPeak resp, rmo_is_error = False, rmo_error = ro_Error resp\<rparr>, w')"
proof -
  have dec: "run_state (map_state (QueueMessageFromProto rand64) (ro_Messages resp)) w' = (map (queue_view cid) ms, w')"
    using queue_codec.batch [OF assms(4), of rand64 cid w'] assms(5) by simp
  have req: "PbReceiveQueueMessagesRequest_default\<lparr>rr_RequestID := rmq_request_id q,
      rr_ClientID := effective_client_id c (rmq_client_id q), rr_Channel := effective_channel c (rmq_channel q),
      rr_MaxNumberOfMessages := rmq_max_number_of_messages q,
      rr_WaitTimeSeconds := rmq_wait_time_seconds q, rr_IsPeak := rmq_is_peek q\<rparr>
    = (ReceiveQueueMessagesRequestToProto q PbReceiveQueueMessagesRequest_default)
          \<lparr>rr_ClientID := effective_client_id c (rmq_client_id q), rr_Channel := effective_channel c (rmq_channel q)\<rparr>"
    by (simp add: ReceiveQueueMessagesRequestToProto_def)
  show ?thesis
    using assms(1-3) assms(6) dec
    by (simp add: Client_ReceiveQueueMessages_def CheckClosed_def status_simps Let_def req
        ReceiveQueueMessagesResponse_default_def)
qed

definition full_answer :: PbReceiveQueueMessagesResponse where
  "full_answer = PbReceiveQueueMessagesResponse_default\<lparr>ro_RequestID := ''r-1'', ro_MessagesReceived := 1,
     ro_Messages := [QueueMessageToProto sample_message ''producer'' PbQueueMessage_default]\<rparr>"

definition consumer :: "nat Client" where
  "consumer = sample_client\<lparr>cl_transport := sample_transport\<lparr>gt_stub := counting_stub
     \<lparr>stub_ReceiveQueueMessages := \<lambda>_ _. count_call (grpc_status_OK, full_answer)\<rparr>\<rparr>\<rparr>"

definition sample_request :: ReceiveQueueMessagesRequest where
  "sample_request = ReceiveQueueMessagesRequest_default\<lparr>rmq_request_id := ''r-1'', rmq_channel := ''orders''\<rparr>"

theorem receive_returns_sent_messages_witness:
  "\<exists>resp. run_state (Client_ReceiveQueueMessages (ret 0) consumer sample_request) 0 = (Inr resp, 1)
     \<and> rmo_messages resp = [sample_message\<lparr>qm_client_id := ''producer''\<rparr>]"
proof -
  have h: "\<not> cl_closed consumer" "channel_wf (effective_channel consumer (rmq_channel sample_request))"
    "rmq_request_id sample_request \<noteq> []" "list_all QueueMessage_sendable [sample_message]"
    "ro_Messages full_answer = map (\<lambda>m. QueueMessageToProto m ''producer'' PbQueueMessage_default) [sample_message]"
    by (simp_all add: consumer_def sample_client_def sample_request_def effective_channel_def
        channel_wf_def is_ascii_space_def sample_sendable full_answer_def)
  have t: "run_state (GrpcTransport_ReceiveQueueMessages (cl_transport consumer) q) 0 = (Inr full_answer, 1)" for q
    by (simp add: consumer_def sample_transport_def GrpcTransport_ReceiveQueueMessages_def
        GrpcTransport_CheckClosed_def ApplyAuth_def InjectAuthToken_def ClientOptions_default_def count_call_def)
  have v: "queue_view ''producer'' sample_message = sample_message\<lparr>qm_client_id := ''producer''\<rparr>"
    by (simp add: queue_view_def sample_message_def FirstNonEmpty_def sdk_defaults)
  have "\<not> ro_IsError full_answer" by (simp add: full_answer_def PbReceiveQueueMessagesResponse_default_def)
  then show ?thesis
    using receive_returns_sent_messages [OF h t, of "ret 0"] v by simp
qed

text \<open>Channel management asks the broker's internal channel for the right thing: each convenience
  function sends one request of ten seconds whose tags name the channel, its type and the client,
  and an answer with an error text becomes a \<open>kFatal\<close> status for that channel and request.\<close>

lemma channel_management_request:
  assumes "\<not> cl_closed c" "nm \<noteq> []" "IsValidChannelType ty"
  shows "CreateChannel rand64 c nm ty = do {
      rid \<leftarrow> GenerateUUID rand64;
      r \<leftarrow> GrpcTransport_SendRequest (cl_transport c)
        (PbRequest_default\<lparr>rq_RequestID := rid, rq_RequestTypeData := RequestTypeQuery,
           rq_ClientID := co_client_id (cl_opts c), rq_Channel := ''kubemq.cluster.internal.requests'',
           rq_Metadata := ''create-channel'', rq_Timeout := 10000,
           rq_Tags := [''channel'' \<mapsto> nm, ''channel_type'' \<mapsto> ty, ''client_id'' \<mapsto> co_client_id (cl_opts c)]\<rparr>);
      ret (case r of
         Inl e \<Rightarrow> e
       | Inr resp \<Rightarrow> FromServerError (rp_Error resp) ''CreateChannel'' nm
            \<lparr>st_request_id := if rp_Error resp = [] then [] else rid\<rparr>)
    }"
proof -
  have fin: "case_sum ret (\<lambda>resp. if rp_Error resp \<noteq> []
        then ret (Status5 kFatal (rp_Error resp) ''CreateChannel'' nm rid) else ret Status_ok)
      = (\<lambda>r. ret (case r of Inl e \<Rightarrow> e | Inr resp \<Rightarrow> FromServerError (rp_Error resp) ''CreateChannel'' nm
            \<lparr>st_request_id := if rp_Error resp = [] then [] else rid\<rparr>))" for rid
    by (rule ext) (auto simp: FromServerError_def Status5_def Status_ok_def split: sum.splits)
  show ?thesis
    using assms
    by (simp add: CreateChannel_def CheckClosed_def status_simps Let_def BuildChannelManagementRequest_def
        kInternalChannel_def PbRequest_default_def fin [simplified])
qed

end
