(* ===== verification/Queue_Stream.thy ===== *)
theory Queue_Stream
  imports Client_Queues
begin

text \<open>
  Receiving queue messages over the downstream stream (src/client_queues_stream.cc and the
  downstream half of src/internal/queue_stream_impl.h): polling, settling single messages or a
  whole poll, closing the receiver.

  The bidirectional gRPC stream is a parameter (\<open>downstream_ops\<close>), addressed by the handle that the
  transport returned. The receiver owns the stream (\<^verbatim>\<open>shared_ptr\<close>); messages and poll responses hold
  weak references. Ownership is explicit: \<open>live\<close> is the set of streams whose owner still exists, and
  \<^verbatim>\<open>weak_ptr::lock\<close> succeeds exactly on those. A receiver is only made by
  \<^verbatim>\<open>Client::NewQueueDownstreamReceiver\<close>, which never stores a null stream, so its stream is a plain
  handle. The mutex \<^verbatim>\<open>stream_mu\<close> makes every operation atomic; only whether it exists is recorded.
\<close>

section \<open>Data\<close>

record PollRequest =
  plr_channel :: string
  plr_max_items :: int
  plr_wait_timeout_seconds :: int
  plr_auto_ack :: bool

definition PollRequest_default :: PollRequest where
  "PollRequest_default =
     \<lparr>plr_channel = [], plr_max_items = 1, plr_wait_timeout_seconds = 5, plr_auto_ack = False\<rparr>"

record QueueDownstreamMessage =
  qd_message :: QueueMessage
  qd_transaction_id :: string
  qd_sequence :: "64 word"
  qd_auto_ack :: bool
  qd_stream :: "nat option"
  qd_stream_mu :: bool

definition QueueDownstreamMessage_new :: QueueDownstreamMessage where
  "QueueDownstreamMessage_new =
     \<lparr>qd_message = QueueMessage_default, qd_transaction_id = [], qd_sequence = 0, qd_auto_ack = False,
      qd_stream = None, qd_stream_mu = False\<rparr>"

record 'w QueueDownstreamReceiver =
  dr_ctx :: ClientContext
  dr_stream :: nat
  dr_on_error :: "'w error_callback option"
  dr_opts :: "'w ClientOptions"
  dr_closed :: bool

record 'w PollResponse =
  po_transaction_id :: string
  po_messages :: "QueueDownstreamMessage list"
  po_is_error :: bool
  po_error :: string
  po_auto_ack :: bool
  po_transaction_complete :: bool
  po_receiver :: "'w QueueDownstreamReceiver option"
  po_stream :: "nat option"
  po_stream_mu :: bool

definition PollResponse_new :: "'w PollResponse" where
  "PollResponse_new =
     \<lparr>po_transaction_id = [], po_messages = [], po_is_error = False, po_error = [], po_auto_ack = False,
      po_transaction_complete = False, po_receiver = None, po_stream = None, po_stream_mu = False\<rparr>"

text \<open>The generated stream class: \<^verbatim>\<open>Write\<close>, \<^verbatim>\<open>Read\<close> (which gives a message or fails) and \<^verbatim>\<open>WritesDone\<close>.\<close>

record 'w downstream_ops =
  dn_Write :: "nat \<Rightarrow> PbQueuesDownstreamRequest \<Rightarrow> ('w, bool) state"
  dn_Read :: "nat \<Rightarrow> ('w, PbQueuesDownstreamResponse option) state"
  dn_WritesDone :: "nat \<Rightarrow> ('w, bool) state"

text \<open>\<^verbatim>\<open>static_cast\<close> from \<^verbatim>\<open>int\<close> to the protobuf enum, for the numbers the enum declares.\<close>

definition downstream_request_type :: "nat \<Rightarrow> QueuesDownstreamRequestType" where
  "downstream_request_type n =
     (if n < 12
      then [PollRequestTypeUnknown, Get, AckAll, AckRange, NAckAll, NAckRange, ReQueueAll,
        ReQueueRange, ActiveOffsets, TransactionStatus, CloseByClient, CloseByServer] ! n
      else PollRequestTypeUnknown)"

definition weak_lock :: "nat set \<Rightarrow> nat option \<Rightarrow> nat option" where
  "weak_lock live p = (case p of Some h \<Rightarrow> if h \<in> live then Some h else None | None \<Rightarrow> None)"

section \<open>Settling one message\<close>

definition SendSettle :: "('w, 64 word) state \<Rightarrow> 'w downstream_ops \<Rightarrow> nat set
    \<Rightarrow> QueueDownstreamMessage \<Rightarrow> nat \<Rightarrow> string \<Rightarrow> ('w, Status) state" where
  "SendSettle rand64 ops live m request_type requeue_channel =
     (if qd_auto_ack m
      then ret (Status5 kValidation ''cannot settle: poll used AutoAck'' ''QueueDownstreamMessage::Settle'' [] [])
      else (case weak_lock live (qd_stream m) of
        None \<Rightarrow> ret (Status5 kFatal ''receiver has been destroyed; settlement no longer possible''
          ''QueueDownstreamMessage::Settle'' [] [])
      | Some s \<Rightarrow>
          (if qd_transaction_id m = []
           then ret (Status5 kValidation ''message has no transaction ID'' ''QueueDownstreamMessage::Settle'' [] [])
           else do {
             rid \<leftarrow> GenerateUUID rand64;
             (let req0 = PbQueuesDownstreamRequest_default\<lparr>dq_RequestID := rid,
                    dq_RequestTypeData := downstream_request_type request_type,
                    dq_RefTransactionId := qd_transaction_id m,
                    dq_SequenceRange := [to_int64 (uint (qd_sequence m))]\<rparr>;
                  req = (if requeue_channel \<noteq> [] then req0\<lparr>dq_ReQueueChannel := requeue_channel\<rparr> else req0)
              in if \<not> qd_stream_mu m
                 then ret (Status5 kFatal ''no stream mutex available'' ''QueueDownstreamMessage::Settle'' [] [])
                 else do {
                   written \<leftarrow> dn_Write ops s req;
                   (if \<not> written
                    then ret (Status5 kTransient ''failed to write settlement to downstream stream''
                      ''QueueDownstreamMessage::Settle'' [] [])
                    else ret Status_ok)
                 })
           })))"

definition Message_Ack :: "('w, 64 word) state \<Rightarrow> 'w downstream_ops \<Rightarrow> nat set
    \<Rightarrow> QueueDownstreamMessage \<Rightarrow> ('w, Status) state" where
  "Message_Ack rand64 ops live m = SendSettle rand64 ops live m 3 []"

definition Message_Nack :: "('w, 64 word) state \<Rightarrow> 'w downstream_ops \<Rightarrow> nat set
    \<Rightarrow> QueueDownstreamMessage \<Rightarrow> ('w, Status) state" where
  "Message_Nack rand64 ops live m = SendSettle rand64 ops live m 5 []"

definition Message_ReQueue :: "('w, 64 word) state \<Rightarrow> 'w downstream_ops \<Rightarrow> nat set
    \<Rightarrow> QueueDownstreamMessage \<Rightarrow> string \<Rightarrow> ('w, Status) state" where
  "Message_ReQueue rand64 ops live m channel =
     (if channel = []
      then ret (Status5 kValidation ''requeue channel is required'' ''QueueDownstreamMessage::ReQueue'' [] [])
      else SendSettle rand64 ops live m 7 channel)"

section \<open>Settling a whole poll\<close>

definition SendSettleAll :: "('w, 64 word) state \<Rightarrow> 'w downstream_ops \<Rightarrow> nat set
    \<Rightarrow> 'w PollResponse \<Rightarrow> nat \<Rightarrow> string \<Rightarrow> ('w, Status) state" where
  "SendSettleAll rand64 ops live p request_type requeue_channel =
     (if po_auto_ack p
      then ret (Status5 kValidation ''cannot settle: poll used AutoAck'' ''PollResponse::Settle'' [] [])
      else (case weak_lock live (po_stream p) of
        None \<Rightarrow> ret (Status5 kFatal ''receiver has been destroyed; settlement no longer possible''
          ''PollResponse::Settle'' [] [])
      | Some s \<Rightarrow>
          (if po_transaction_id p = []
           then ret (Status5 kValidation ''no transaction ID'' ''PollResponse::Settle'' [] [])
           else if po_messages p = [] then ret Status_ok
           else do {
             rid \<leftarrow> GenerateUUID rand64;
             (let req0 = PbQueuesDownstreamRequest_default\<lparr>dq_RequestID := rid,
                    dq_RequestTypeData := downstream_request_type request_type,
                    dq_RefTransactionId := po_transaction_id p\<rparr>;
                  req = (if requeue_channel \<noteq> [] then req0\<lparr>dq_ReQueueChannel := requeue_channel\<rparr> else req0)
              in if \<not> po_stream_mu p
                 then ret (Status5 kFatal ''no stream mutex available'' ''PollResponse::Settle'' [] [])
                 else do {
                   written \<leftarrow> dn_Write ops s req;
                   (if \<not> written
                    then ret (Status5 kTransient ''failed to write settlement to downstream stream''
                      ''PollResponse::Settle'' [] [])
                    else ret Status_ok)
                 })
           })))"

definition Poll_AckAll :: "('w, 64 word) state \<Rightarrow> 'w downstream_ops \<Rightarrow> nat set
    \<Rightarrow> 'w PollResponse \<Rightarrow> ('w, Status) state" where
  "Poll_AckAll rand64 ops live p = SendSettleAll rand64 ops live p 2 []"

definition Poll_NackAll :: "('w, 64 word) state \<Rightarrow> 'w downstream_ops \<Rightarrow> nat set
    \<Rightarrow> 'w PollResponse \<Rightarrow> ('w, Status) state" where
  "Poll_NackAll rand64 ops live p = SendSettleAll rand64 ops live p 4 []"

definition Poll_ReQueueAll :: "('w, 64 word) state \<Rightarrow> 'w downstream_ops \<Rightarrow> nat set
    \<Rightarrow> 'w PollResponse \<Rightarrow> string \<Rightarrow> ('w, Status) state" where
  "Poll_ReQueueAll rand64 ops live p channel =
     (if channel = []
      then ret (Status5 kValidation ''requeue channel is required'' ''PollResponse::ReQueueAll'' [] [])
      else SendSettleAll rand64 ops live p 6 channel)"

section \<open>The receiver\<close>

definition downstream_message :: "('w, 64 word) state \<Rightarrow> PollRequest \<Rightarrow> nat \<Rightarrow> PbQueuesDownstreamResponse
    \<Rightarrow> PbQueueMessage \<Rightarrow> ('w, QueueDownstreamMessage) state" where
  "downstream_message rand64 request stream proto_response proto_msg = do {
     msg \<leftarrow> QueueMessageFromProto rand64 proto_msg;
     ret (QueueDownstreamMessage_new\<lparr>qd_message := msg,
       qd_transaction_id := do_TransactionId proto_response,
       qd_sequence := (case pq_Attributes proto_msg of Some a \<Rightarrow> pa_Sequence a | None \<Rightarrow> 0),
       qd_auto_ack := plr_auto_ack request,
       qd_stream := Some stream,
       qd_stream_mu := True\<rparr>)
   }"

definition Poll :: "('w, 64 word) state \<Rightarrow> 'w downstream_ops \<Rightarrow> 'w QueueDownstreamReceiver
    \<Rightarrow> PollRequest \<Rightarrow> ('w, 'w PollResponse StatusOr) state" where
  "Poll rand64 ops r request =
     (if dr_closed r
      then ret (Inl (Status5 kFatal ''downstream receiver is closed'' ''QueueDownstreamReceiver::Poll'' [] []))
      else let channel = plr_channel request;
               s = ValidateChannel channel ''QueueDownstreamReceiver::Poll''
      in if \<not> ok s then ret (Inl s)
      else do {
        rid \<leftarrow> GenerateUUID rand64;
        written \<leftarrow> dn_Write ops (dr_stream r)
          (PbQueuesDownstreamRequest_default\<lparr>dq_RequestID := rid,
             dq_ClientID := co_client_id (dr_opts r), dq_RequestTypeData := Get, dq_Channel := channel,
             dq_MaxItems := plr_max_items request, dq_WaitTimeout := plr_wait_timeout_seconds request,
             dq_AutoAck := plr_auto_ack request\<rparr>);
        (if \<not> written
         then ret (Inl (Status5 kTransient ''failed to write poll request to downstream stream''
           ''QueueDownstreamReceiver::Poll'' channel []))
         else do {
           response \<leftarrow> dn_Read ops (dr_stream r);
           (case response of
              None \<Rightarrow> ret (Inl (Status5 kTransient ''failed to read poll response from downstream stream''
                ''QueueDownstreamReceiver::Poll'' channel []))
            | Some proto_response \<Rightarrow>
                (if do_IsError proto_response
                 then ret (Inl (Status5 kFatal (do_Error proto_response) ''QueueDownstreamReceiver::Poll'' channel []))
                 else do {
                   msgs \<leftarrow> map_state (downstream_message rand64 request (dr_stream r) proto_response)
                     (do_Messages proto_response);
                   ret (Inr (PollResponse_new\<lparr>po_transaction_id := do_TransactionId proto_response,
                     po_is_error := do_IsError proto_response, po_error := do_Error proto_response,
                     po_auto_ack := plr_auto_ack request,
                     po_transaction_complete := do_TransactionComplete proto_response,
                     po_stream := Some (dr_stream r), po_stream_mu := True, po_messages := msgs\<rparr>))
                 }))
         })
      })"

definition Receiver_Close :: "('w, 64 word) state \<Rightarrow> 'w downstream_ops \<Rightarrow> 'w QueueDownstreamReceiver
    \<Rightarrow> ('w, 'w QueueDownstreamReceiver) state" where
  "Receiver_Close rand64 ops r =
     (if dr_closed r then ret r
      else do {
        rid \<leftarrow> GenerateUUID rand64;
        _ \<leftarrow> dn_Write ops (dr_stream r) (PbQueuesDownstreamRequest_default\<lparr>dq_RequestID := rid,
               dq_RequestTypeData := CloseByClient\<rparr>);
        _ \<leftarrow> dn_WritesDone ops (dr_stream r);
        ret (r\<lparr>dr_closed := True\<rparr>)
      })"

definition Receiver_SetOnError :: "'w error_callback option \<Rightarrow> 'w QueueDownstreamReceiver
    \<Rightarrow> 'w QueueDownstreamReceiver" where
  "Receiver_SetOnError cb r = r\<lparr>dr_on_error := cb\<rparr>"

text \<open>The destructor closes the receiver; then its members go, and with them the stream.\<close>

definition Receiver_destroy :: "('w, 64 word) state \<Rightarrow> 'w downstream_ops \<Rightarrow> 'w QueueDownstreamReceiver
    \<Rightarrow> nat set \<Rightarrow> ('w, nat set) state" where
  "Receiver_destroy rand64 ops r live = do {
     _ \<leftarrow> Receiver_Close rand64 ops r;
     ret (live - {dr_stream r})
   }"

section \<open>Client operations\<close>

definition NewQueueDownstreamReceiver :: "'w Client \<Rightarrow> nat set
    \<Rightarrow> ('w, 'w QueueDownstreamReceiver StatusOr \<times> nat set) state" where
  "NewQueueDownstreamReceiver c live =
     (let s = CheckClosed c
      in if \<not> ok s then ret (Inl s, live)
      else do {
        stream_or \<leftarrow> OpenQueueDownstream (cl_transport c);
        ret (case stream_or of
           Inl e \<Rightarrow> (Inl e, live)
         | Inr (h, ctx) \<Rightarrow>
             (Inr \<lparr>dr_ctx = ctx, dr_stream = h, dr_on_error = None, dr_opts = cl_opts c, dr_closed = False\<rparr>,
              insert h live))
      })"

definition PollQueue :: "('w, 64 word) state \<Rightarrow> 'w downstream_ops \<Rightarrow> 'w Client \<Rightarrow> PollRequest
    \<Rightarrow> nat set \<Rightarrow> ('w, 'w PollResponse StatusOr \<times> nat set) state" where
  "PollQueue rand64 ops c request live = do {
     (receiver_or, live1) \<leftarrow> NewQueueDownstreamReceiver c live;
     (case receiver_or of
        Inl e \<Rightarrow> ret (Inl e, live1)
      | Inr receiver \<Rightarrow> do {
          poll_result \<leftarrow> Poll rand64 ops receiver request;
          (case poll_result of
             Inl e \<Rightarrow> do {
               live2 \<leftarrow> Receiver_destroy rand64 ops receiver live1;
               ret (Inl e, live2)
             }
           | Inr p \<Rightarrow> ret (Inr (p\<lparr>po_receiver := Some receiver\<rparr>), live1))
        })
   }"

section \<open>The contract of a settlement\<close>

text \<open>
  What the six settlement operations share: a settlement that is possible writes exactly one request
  on the stream of its poll and reports whether the write was accepted; one that is not possible
  has no effect at all, and reports an error unless there was nothing to settle.
\<close>

definition write_settlement :: "('w, 64 word) state \<Rightarrow> 'w downstream_ops \<Rightarrow> nat
    \<Rightarrow> (string \<Rightarrow> PbQueuesDownstreamRequest) \<Rightarrow> string \<Rightarrow> ('w, Status) state" where
  "write_settlement rand64 ops h request op = do {
     rid \<leftarrow> GenerateUUID rand64;
     written \<leftarrow> dn_Write ops h (request rid);
     ret (if written then Status_ok
          else Status5 kTransient ''failed to write settlement to downstream stream'' op [] [])
   }"

locale settlement =
  fixes settle :: "('w, 64 word) state \<Rightarrow> 'w downstream_ops \<Rightarrow> nat set \<Rightarrow> 'm \<Rightarrow> ('w, Status) state"
    and wf :: "'m \<Rightarrow> bool"
    and target :: "nat set \<Rightarrow> 'm \<Rightarrow> nat option"
    and vacuous :: "'m \<Rightarrow> bool"
    and request :: "'m \<Rightarrow> string \<Rightarrow> PbQueuesDownstreamRequest"
    and op :: string
  assumes target_live: "target live m = Some h \<Longrightarrow> h \<in> live"
    and settle_possible: "wf m \<Longrightarrow> target live m = Some h \<Longrightarrow> run_state (settle rand64 ops live m) w =
      run_state (write_settlement rand64 ops h (request m) op) w"
    and settle_impossible: "target live m = None \<Longrightarrow>
      \<exists>s. (ok s \<longrightarrow> vacuous m) \<and> run_state (settle rand64 ops live m) w = (s, w)"
begin

lemma ok_means_written:
  assumes "wf m" "\<not> vacuous m" "ok (result_of (settle rand64 ops live m) w)"
  shows "\<exists>h \<in> live. target live m = Some h \<and>
    result_of (dn_Write ops h (request m (result_of (GenerateUUID rand64) w))) (world_of (GenerateUUID rand64) w)"
proof (cases "target live m")
  case None
  then show ?thesis using settle_impossible [of live m rand64 ops w] assms by auto
next
  case (Some h)
  then show ?thesis
    using settle_possible [OF assms(1) Some, of rand64 ops w] assms(3) target_live [OF Some]
    by (auto simp: write_settlement_def case_prod_unfold ok_def Status5_def split: if_splits)
qed

lemma impossible_fails:
  "\<not> vacuous m \<Longrightarrow> target live m = None \<Longrightarrow> \<exists>s. \<not> ok s \<and> run_state (settle rand64 ops live m) w = (s, w)"
  using settle_impossible [of live m rand64 ops w] by auto

end

definition message_target :: "nat set \<Rightarrow> QueueDownstreamMessage \<Rightarrow> nat option" where
  "message_target live m =
     (if qd_auto_ack m \<or> qd_transaction_id m = [] then None else weak_lock live (qd_stream m))"

definition poll_target :: "nat set \<Rightarrow> 'w PollResponse \<Rightarrow> nat option" where
  "poll_target live p =
     (if po_auto_ack p \<or> po_transaction_id p = [] \<or> po_messages p = [] then None
      else weak_lock live (po_stream p))"

definition settle_one :: "QueuesDownstreamRequestType \<Rightarrow> string \<Rightarrow> QueueDownstreamMessage \<Rightarrow> string
    \<Rightarrow> PbQueuesDownstreamRequest" where
  "settle_one ty channel m rid = PbQueuesDownstreamRequest_default\<lparr>dq_RequestID := rid,
     dq_RequestTypeData := ty, dq_RefTransactionId := qd_transaction_id m,
     dq_SequenceRange := [sint (qd_sequence m)], dq_ReQueueChannel := channel\<rparr>"

definition settle_all :: "QueuesDownstreamRequestType \<Rightarrow> string \<Rightarrow> 'w PollResponse \<Rightarrow> string
    \<Rightarrow> PbQueuesDownstreamRequest" where
  "settle_all ty channel p rid = PbQueuesDownstreamRequest_default\<lparr>dq_RequestID := rid,
     dq_RequestTypeData := ty, dq_RefTransactionId := po_transaction_id p, dq_ReQueueChannel := channel\<rparr>"

lemma to_int64_uint: "to_int64 (uint (x :: 64 word)) = sint x"
  by (simp add: to_int64_def sint_uint)

lemma weak_lock_simps [simp]:
  "weak_lock live None = None"
  "h \<in> live \<Longrightarrow> weak_lock live (Some h) = Some h"
  "h \<notin> live \<Longrightarrow> weak_lock live (Some h) = None"
  by (simp_all add: weak_lock_def)

lemma weak_lock_live: "weak_lock live p = Some h \<Longrightarrow> h \<in> live"
  by (auto simp: weak_lock_def split: option.splits if_splits)

lemma request_types [simp]:
  "downstream_request_type 2 = AckAll" "downstream_request_type 3 = AckRange"
  "downstream_request_type 4 = NAckAll" "downstream_request_type 5 = NAckRange"
  "downstream_request_type 6 = ReQueueAll" "downstream_request_type 7 = ReQueueRange"
  by (simp_all add: downstream_request_type_def)

lemmas settle_defs = SendSettle_def SendSettleAll_def Message_Ack_def Message_Nack_def Message_ReQueue_def
  Poll_AckAll_def Poll_NackAll_def Poll_ReQueueAll_def message_target_def poll_target_def
  settle_one_def settle_all_def to_int64_uint write_settlement_def

interpretation ack: settlement Message_Ack qd_stream_mu message_target "\<lambda>_. False"
    "settle_one AckRange []" "''QueueDownstreamMessage::Settle''"
  by unfold_locales (auto simp: settle_defs weak_lock_live case_prod_unfold Let_def
      ok_def Status5_def pb_defaults split: option.splits if_splits)

interpretation nack: settlement Message_Nack qd_stream_mu message_target "\<lambda>_. False"
    "settle_one NAckRange []" "''QueueDownstreamMessage::Settle''"
  by unfold_locales (auto simp: settle_defs weak_lock_live case_prod_unfold Let_def
      ok_def Status5_def pb_defaults split: option.splits if_splits)

interpretation requeue: settlement "\<lambda>rand64 ops live mc. Message_ReQueue rand64 ops live (fst mc) (snd mc)"
    "\<lambda>mc. qd_stream_mu (fst mc)" "\<lambda>live mc. if snd mc = [] then None else message_target live (fst mc)"
    "\<lambda>_. False" "\<lambda>mc. settle_one ReQueueRange (snd mc) (fst mc)" "''QueueDownstreamMessage::Settle''"
  by unfold_locales (auto simp: settle_defs weak_lock_live case_prod_unfold Let_def
      ok_def Status5_def pb_defaults split: option.splits if_splits)

interpretation ack_all: settlement Poll_AckAll po_stream_mu poll_target "\<lambda>p. po_messages p = []"
    "settle_all AckAll []" "''PollResponse::Settle''"
  by unfold_locales (auto simp: settle_defs weak_lock_live case_prod_unfold Let_def
      ok_def Status5_def pb_defaults split: option.splits if_splits)

interpretation nack_all: settlement Poll_NackAll po_stream_mu poll_target "\<lambda>p. po_messages p = []"
    "settle_all NAckAll []" "''PollResponse::Settle''"
  by unfold_locales (auto simp: settle_defs weak_lock_live case_prod_unfold Let_def
      ok_def Status5_def pb_defaults split: option.splits if_splits)

interpretation requeue_all: settlement "\<lambda>rand64 ops live pc. Poll_ReQueueAll rand64 ops live (fst pc) (snd pc)"
    "\<lambda>pc. po_stream_mu (fst pc)" "\<lambda>live pc. if snd pc = [] then None else poll_target live (fst pc)"
    "\<lambda>pc. po_messages (fst pc) = []" "\<lambda>pc. settle_all ReQueueAll (snd pc) (fst pc)" "''PollResponse::Settle''"
  by unfold_locales (auto simp: settle_defs weak_lock_live case_prod_unfold Let_def
      ok_def Status5_def pb_defaults split: option.splits if_splits)

section \<open>What a poll returns\<close>

definition poll_proto :: "'w QueueDownstreamReceiver \<Rightarrow> PollRequest \<Rightarrow> string \<Rightarrow> PbQueuesDownstreamRequest" where
  "poll_proto r q rid = PbQueuesDownstreamRequest_default\<lparr>dq_RequestID := rid,
     dq_ClientID := co_client_id (dr_opts r), dq_RequestTypeData := Get, dq_Channel := plr_channel q,
     dq_MaxItems := plr_max_items q, dq_WaitTimeout := plr_wait_timeout_seconds q, dq_AutoAck := plr_auto_ack q\<rparr>"

definition attribute_sequence :: "PbQueueMessage \<Rightarrow> 64 word" where
  "attribute_sequence pm = (case pq_Attributes pm of Some a \<Rightarrow> pa_Sequence a | None \<Rightarrow> 0)"

definition bound_to :: "'w QueueDownstreamReceiver \<Rightarrow> PollRequest \<Rightarrow> string \<Rightarrow> QueueDownstreamMessage \<Rightarrow> bool" where
  "bound_to r q txn m = (qd_transaction_id m = txn \<and> qd_auto_ack m = plr_auto_ack q
     \<and> qd_stream m = Some (dr_stream r) \<and> qd_stream_mu m)"

lemma downstream_messages:
  "list_all (bound_to r q (do_TransactionId resp))
      (result_of (map_state (downstream_message rand64 q (dr_stream r) resp) pms) w)
   \<and> map qd_sequence (result_of (map_state (downstream_message rand64 q (dr_stream r) resp) pms) w)
      = map attribute_sequence pms
   \<and> run_state (map_state (QueueMessageFromProto rand64) pms) w =
      (map qd_message (result_of (map_state (downstream_message rand64 q (dr_stream r) resp) pms) w),
       world_of (map_state (downstream_message rand64 q (dr_stream r) resp) pms) w)"
  by (induction pms arbitrary: w)
    (simp_all add: downstream_message_def case_prod_unfold bound_to_def attribute_sequence_def
      QueueDownstreamMessage_new_def)

lemma Poll_success:
  assumes "run_state (Poll rand64 ops r q) w = (Inr p, w')"
  obtains resp w1 w2 w3 rid where "run_state (GenerateUUID rand64) w = (rid, w1)"
    and "run_state (dn_Write ops (dr_stream r) (poll_proto r q rid)) w1 = (True, w2)"
    and "run_state (dn_Read ops (dr_stream r)) w2 = (Some resp, w3)" and "\<not> do_IsError resp"
    and "run_state (map_state (QueueMessageFromProto rand64) (do_Messages resp)) w3 = (map qd_message (po_messages p), w')"
    and "map qd_sequence (po_messages p) = map attribute_sequence (do_Messages resp)"
    and "list_all (bound_to r q (do_TransactionId resp)) (po_messages p)"
    and "po_transaction_id p = do_TransactionId resp" "po_auto_ack p = plr_auto_ack q"
      "po_stream p = Some (dr_stream r)" "po_stream_mu p" "po_receiver p = None" "\<not> po_is_error p"
proof -
  obtain rid w1 where g: "run_state (GenerateUUID rand64) w = (rid, w1)" by fastforce
  obtain wr w2 where wr: "run_state (dn_Write ops (dr_stream r) (poll_proto r q rid)) w1 = (wr, w2)" by fastforce
  obtain rd w3 where rd: "run_state (dn_Read ops (dr_stream r)) w2 = (rd, w3)" by fastforce
  note wr' = wr [unfolded poll_proto_def]
  from assms g wr' have wrT: "wr"
    by (cases wr) (auto simp: Poll_def Let_def split: if_splits)
  from assms g wr' wrT rd obtain resp where resp: "rd = Some resp"
    by (cases rd) (auto simp: Poll_def Let_def split: if_splits)
  let ?ms = "map_state (downstream_message rand64 q (dr_stream r) resp) (do_Messages resp)"
  obtain ms w4 where ms: "run_state ?ms w3 = (ms, w4)" by fastforce
  have ne: "\<not> do_IsError resp"
    using assms g wr' wrT rd resp by (auto simp: Poll_def Let_def split: if_splits)
  have p: "po_messages p = ms" "w' = w4" "po_transaction_id p = do_TransactionId resp"
    "po_auto_ack p = plr_auto_ack q" "po_stream p = Some (dr_stream r)" "po_stream_mu p"
    "po_receiver p = None" "\<not> po_is_error p"
    using assms g wr' wrT rd resp ne ms
    by (auto simp: Poll_def Let_def PollResponse_new_def split: if_splits)
  show ?thesis
    using that [OF g wr [unfolded wrT [THEN eqTrueI]] rd [unfolded resp] ne] downstream_messages [of r q resp rand64 "do_Messages resp" w3] ms p
    by (simp add: eqTrueI)
qed


text \<open>Once the receiver of a poll is destroyed, none of its messages can be settled any more: each
  of the six operations reports an error and writes nothing.\<close>

theorem destroyed_receiver_blocks_settlement:
  assumes poll: "run_state (Poll rand64 ops r q) w = (Inr p, w')" and m: "m \<in> set (po_messages p)"
    and gone: "run_state (Receiver_destroy rand64 ops (r\<lparr>dr_closed := was_closed\<rparr>) live) u = (live', u')"
  shows "(\<exists>s. \<not> ok s \<and> run_state (Message_Ack rand ops live' m) v = (s, v))
    \<and> (\<exists>s. \<not> ok s \<and> run_state (Message_Nack rand ops live' m) v = (s, v))
    \<and> (\<exists>s. \<not> ok s \<and> run_state (Message_ReQueue rand ops live' m ch) v = (s, v))
    \<and> (\<exists>s. \<not> ok s \<and> run_state (Poll_AckAll rand ops live' p) v = (s, v))
    \<and> (\<exists>s. \<not> ok s \<and> run_state (Poll_NackAll rand ops live' p) v = (s, v))
    \<and> (\<exists>s. \<not> ok s \<and> run_state (Poll_ReQueueAll rand ops live' p ch) v = (s, v))"
proof -
  from poll have b: "bound_to r q (po_transaction_id p) m" and p: "po_stream p = Some (dr_stream r)"
    by (elim Poll_success, use m in \<open>auto simp: list_all_iff\<close>)+
  have dead: "dr_stream r \<notin> live'" using gone by (auto simp: Receiver_destroy_def case_prod_unfold)
  then have mt: "message_target live' m = None" and pt: "poll_target live' p = None"
    using b p by (simp_all add: message_target_def poll_target_def bound_to_def)
  have ne: "po_messages p \<noteq> []" using m by auto
  show ?thesis
    using ack.impossible_fails [where m = m and live = live' and ops = ops and w = v] 
      nack.impossible_fails [where m = m and live = live' and ops = ops and w = v]
      requeue.impossible_fails [where m = "(m, ch)" and live = live' and ops = ops and w = v] ack_all.impossible_fails [OF ne pt]
      nack_all.impossible_fails [OF ne pt] requeue_all.impossible_fails [where m = "(p, ch)" and live = live' and ops = ops and w = v] ne mt pt
    by (simp split: if_splits)
qed

text \<open>C32. \<open>PollQueue\<close> never leaks its private receiver: on success the response owns it and its stream
  stays open for settlement; on failure it has been destroyed and no new stream is left open.\<close>

theorem PollQueue_ownership:
  "case result_of (PollQueue rand64 ops c q live) w of
      (Inr p, live') \<Rightarrow> \<exists>r. po_receiver p = Some r \<and> \<not> dr_closed r \<and> po_stream p = Some (dr_stream r)
        \<and> live' = insert (dr_stream r) live
    | (Inl s, live') \<Rightarrow> live' \<subseteq> live"
proof -
  obtain ro live1 w1 where new: "run_state (NewQueueDownstreamReceiver c live) w = ((ro, live1), w1)"
    by (metis prod.exhaust)
  show ?thesis
  proof (cases ro)
    case (Inl e)
    then have "live1 = live"
      using new by (auto simp: NewQueueDownstreamReceiver_def Let_def case_prod_unfold split: if_splits sum.splits)
    then show ?thesis using new Inl by (auto simp: PollQueue_def)
  next
    case (Inr r)
    then have r: "live1 = insert (dr_stream r) live" "\<not> dr_closed r"
      using new by (auto simp: NewQueueDownstreamReceiver_def Let_def case_prod_unfold split: if_splits sum.splits)
    obtain pr w2 where pr: "run_state (Poll rand64 ops r q) w1 = (pr, w2)" by fastforce
    show ?thesis
    proof (cases pr)
      case (Inl e)
      then show ?thesis using new Inr pr r
        by (auto simp: PollQueue_def Receiver_destroy_def case_prod_unfold)
    next
      case (Inr p)
      then have "po_stream p = Some (dr_stream r)" using pr by (auto elim: Poll_success)
      then show ?thesis using new \<open>ro = Inr r\<close> pr Inr r by (auto simp: PollQueue_def)
    qed
  qed
qed

text \<open>What the broker delivers is what was sent plus the attributes it adds.\<close>

interpretation delivered_codec: wire_codec
    "\<lambda>(m, a). (QueueMessageToProto m cid PbQueueMessage_default)\<lparr>pq_Attributes := Some a\<rparr>"
    "QueueMessageFromProto rand64" "\<lambda>(m, a). QueueMessage_sendable m"
    "\<lambda>(m, a). (queue_view cid m)\<lparr>qm_attributes := attributes_from_proto a QueueMessageAttributes_default\<rparr>"
proof unfold_locales
  fix ma :: "QueueMessage \<times> PbQueueMessageAttributes" and w :: 'a
  assume ma: "case ma of (m, a) \<Rightarrow> QueueMessage_sendable m"
  obtain m a where d: "ma = (m, a)" by (cases ma)
  let ?p = "QueueMessageToProto m cid PbQueueMessage_default"
  have "run_state (QueueMessageFromProto rand64 (?p\<lparr>pq_Attributes := Some a\<rparr>)) w =
      ((queue_view cid m)\<lparr>qm_attributes := attributes_from_proto a QueueMessageAttributes_default\<rparr>, w)"
    using ma by (auto simp: d QueueMessageFromProto_def QueueMessageToProto_def policy_from_proto_def
        to_int32_range queue_view_def QueueMessage_sendable_def QueueMessage_valid_def plain_valid_def
        QueueMessage_Build_def setter_defs pb_defaults sdk_defaults Let_def)
  then show "run_state (QueueMessageFromProto rand64 (case ma of (m, a) \<Rightarrow>
        (QueueMessageToProto m cid PbQueueMessage_default)\<lparr>pq_Attributes := Some a\<rparr>)) w =
      (case ma of (m, a) \<Rightarrow>
        (queue_view cid m)\<lparr>qm_attributes := attributes_from_proto a QueueMessageAttributes_default\<rparr>, w)"
    by (simp add: d)
qed

text \<open>A poll returns what was sent: when the broker answers with messages that clients sent,
  complemented by its attributes, the poll yields these messages in order with those attributes,
  and the handle of each carries the sequence number of its attributes.\<close>

theorem poll_returns_sent_messages:
  assumes "\<not> dr_closed r" "channel_wf (plr_channel q)"
    and "run_state (GenerateUUID rand64) w = (rid, w1)"
    and "run_state (dn_Write ops (dr_stream r) (poll_proto r q rid)) w1 = (True, w2)"
    and "run_state (dn_Read ops (dr_stream r)) w2 = (Some resp, w3)" and "\<not> do_IsError resp"
    and "do_Messages resp =
      map (\<lambda>(m, a). (QueueMessageToProto m cid PbQueueMessage_default)\<lparr>pq_Attributes := Some a\<rparr>) sent"
    and "list_all (\<lambda>(m, a). QueueMessage_sendable m) sent"
  shows "\<exists>p. run_state (Poll rand64 ops r q) w = (Inr p, w3)
    \<and> map qd_message (po_messages p) = map (\<lambda>(m, a). (queue_view cid m)
        \<lparr>qm_attributes := attributes_from_proto a QueueMessageAttributes_default\<rparr>) sent
    \<and> map qd_sequence (po_messages p) = map (\<lambda>(m, a). pa_Sequence a) sent
    \<and> po_transaction_id p = do_TransactionId resp"
proof -
  let ?ms = "map_state (downstream_message rand64 q (dr_stream r) resp) (do_Messages resp)"
  obtain ms w4 where ms: "run_state ?ms w3 = (ms, w4)" by fastforce
  have dec: "map qd_message ms = map (\<lambda>(m, a). (queue_view cid m)
        \<lparr>qm_attributes := attributes_from_proto a QueueMessageAttributes_default\<rparr>) sent" "w4 = w3"
    "map qd_sequence ms = map (\<lambda>(m, a). pa_Sequence a) sent"
    using downstream_messages [of r q resp rand64 "do_Messages resp" w3] ms assms(7)
      delivered_codec.batch [OF assms(8), of rand64 cid w3]
    by (auto simp: attribute_sequence_def)
  show ?thesis
    using assms(1-6) dec ms
    by (simp add: Poll_def Let_def status_simps poll_proto_def PollResponse_new_def)
qed

section \<open>A concrete stream\<close>

text \<open>A stream that logs what is written and answers every read with the same response.\<close>

datatype stream_event = Written nat PbQueuesDownstreamRequest | Half_closed nat

definition sample_attributes :: PbQueueMessageAttributes where
  "sample_attributes = PbQueueMessageAttributes_default\<lparr>pa_Sequence := 42\<rparr>"

definition sample_answer :: PbQueuesDownstreamResponse where
  "sample_answer = PbQueuesDownstreamResponse_default\<lparr>do_TransactionId := ''t-1'', do_RequestTypeData := Get,
     do_Messages := [(QueueMessageToProto sample_message ''p'' PbQueueMessage_default)\<lparr>pq_Attributes := Some sample_attributes\<rparr>]\<rparr>"

definition log_ops :: "stream_event list downstream_ops" where
  "log_ops = \<lparr>dn_Write = \<lambda>h q. State (\<lambda>w. (True, w @ [Written h q])),
     dn_Read = \<lambda>h. ret (Some sample_answer), dn_WritesDone = \<lambda>h. State (\<lambda>w. (True, w @ [Half_closed h]))\<rparr>"

definition sample_receiver :: "stream_event list QueueDownstreamReceiver" where
  "sample_receiver = \<lparr>dr_ctx = ClientContext_new, dr_stream = 7, dr_on_error = None,
     dr_opts = ClientOptions_default, dr_closed = False\<rparr>"

definition sample_poll :: PollRequest where
  "sample_poll = PollRequest_default\<lparr>plr_channel := ''orders''\<rparr>"

definition zero_id :: string where
  "zero_id = result_of (GenerateUUID (ret 0)) ([] :: stream_event list)"

lemma zero_uuid: "run_state (GenerateUUID (ret 0)) w = (zero_id, w)" for w :: "stream_event list"
  by (simp add: zero_id_def GenerateUUID_def)

theorem poll_returns_sent_messages_witness:
  "\<exists>p. run_state (Poll (ret 0) log_ops sample_receiver sample_poll) [] =
      (Inr p, [Written 7 (poll_proto sample_receiver sample_poll zero_id)])
    \<and> map qd_message (po_messages p) = [sample_message\<lparr>qm_client_id := ''p'',
        qm_attributes := QueueMessageAttributes_default\<lparr>qa_sequence := 42\<rparr>\<rparr>]
    \<and> map qd_sequence (po_messages p) = [42] \<and> po_transaction_id p = ''t-1''"
proof -
  have v: "(queue_view ''p'' sample_message)\<lparr>qm_attributes := attributes_from_proto sample_attributes QueueMessageAttributes_default\<rparr>
      = sample_message\<lparr>qm_client_id := ''p'', qm_attributes := QueueMessageAttributes_default\<lparr>qa_sequence := 42\<rparr>\<rparr>"
    by (simp add: queue_view_def sample_message_def FirstNonEmpty_def sdk_defaults attributes_from_proto_def
        sample_attributes_def pb_defaults)
  have h: "\<not> dr_closed sample_receiver" "channel_wf (plr_channel sample_poll)" "dr_stream sample_receiver = 7"
    by (simp_all add: sample_receiver_def sample_poll_def PollRequest_default_def channel_wf_def is_ascii_space_def)
  show ?thesis
    using poll_returns_sent_messages [of sample_receiver sample_poll "ret 0" "[]" zero_id "[]" log_ops
        "[Written 7 (poll_proto sample_receiver sample_poll zero_id)]" sample_answer
        "[Written 7 (poll_proto sample_receiver sample_poll zero_id)]" "''p''" "[(sample_message, sample_attributes)]"]
      v sample_sendable h
    by (simp add: zero_uuid log_ops_def sample_answer_def PbQueuesDownstreamResponse_default_def
        sample_attributes_def)
qed

definition polled_message :: QueueDownstreamMessage where
  "polled_message = \<lparr>qd_message = sample_message\<lparr>qm_client_id := ''p'',
       qm_attributes := QueueMessageAttributes_default\<lparr>qa_sequence := 42\<rparr>\<rparr>,
     qd_transaction_id = ''t-1'', qd_sequence = 42, qd_auto_ack = False, qd_stream = Some 7, qd_stream_mu = True\<rparr>"

definition poll_result :: "stream_event list PollResponse" where
  "poll_result = PollResponse_new\<lparr>po_transaction_id := ''t-1'', po_stream := Some 7, po_stream_mu := True,
     po_messages := [polled_message]\<rparr>"

lemma sample_poll_run:
  "run_state (Poll (ret 0) log_ops sample_receiver sample_poll) [] =
     (Inr poll_result, [Written 7 (poll_proto sample_receiver sample_poll zero_id)])"
proof -
  have v: "(queue_view ''p'' sample_message)\<lparr>qm_attributes := attributes_from_proto sample_attributes QueueMessageAttributes_default\<rparr>
      = qd_message polled_message"
    by (simp add: queue_view_def sample_message_def FirstNonEmpty_def sdk_defaults attributes_from_proto_def
        sample_attributes_def pb_defaults polled_message_def)
  have dec: "run_state (QueueMessageFromProto (ret 0)
      ((QueueMessageToProto sample_message ''p'' PbQueueMessage_default)\<lparr>pq_Attributes := Some sample_attributes\<rparr>)) w
      = (qd_message polled_message, w)" for w :: "stream_event list"
    using delivered_codec.decode_encode [of "(sample_message, sample_attributes)" "ret 0" "''p''" w] v sample_sendable
    by simp
  have h: "\<not> dr_closed sample_receiver" "ok (ValidateChannel (plr_channel sample_poll) op)"
      "dr_stream sample_receiver = 7" "\<not> plr_auto_ack sample_poll" "pa_Sequence sample_attributes = 42" for op
    by (simp_all add: sample_attributes_def sample_receiver_def sample_poll_def PollRequest_default_def status_simps
        channel_wf_def is_ascii_space_def)
  show ?thesis
    by (simp add: Poll_def Let_def h zero_uuid log_ops_def sample_answer_def downstream_message_def dec
        PbQueuesDownstreamResponse_default_def poll_proto_def poll_result_def polled_message_def
        QueueDownstreamMessage_new_def PollResponse_new_def)
qed


theorem destroyed_receiver_blocks_settlement_witness:
  "\<exists>s. \<not> ok s \<and> run_state (Message_Ack (ret 0) log_ops {} polled_message) [] = (s, [])"
proof -
  have m: "polled_message \<in> set (po_messages poll_result)" by (simp add: poll_result_def)
  have "fst (run_state (Receiver_destroy (ret 0) log_ops (sample_receiver\<lparr>dr_closed := False\<rparr>) {7}) []) = {}"
    by (simp add: Receiver_destroy_def case_prod_unfold sample_receiver_def)
  then obtain u' where d: "run_state (Receiver_destroy (ret 0) log_ops (sample_receiver\<lparr>dr_closed := False\<rparr>) {7}) [] = ({}, u')"
    by (metis prod.collapse)
  show ?thesis
    using destroyed_receiver_blocks_settlement [OF sample_poll_run m d, of "ret 0" "[]"] by blast
qed

section \<open>What the receiver does not do\<close>

text \<open>The error callback of the receiver is stored but never used: polling and closing do not depend
  on it.\<close>

lemma receiver_on_error_unused:
  "Poll rand64 ops (Receiver_SetOnError cb r) q = Poll rand64 ops r q
   \<and> world_of (Receiver_Close rand64 ops (Receiver_SetOnError cb r)) w = world_of (Receiver_Close rand64 ops r) w"
  by (simp add: Poll_def Receiver_Close_def Receiver_SetOnError_def case_prod_unfold Let_def cong del: if_weak_cong)

text \<open>Closing the receiver half-closes the stream but does not stop settlement: as long as the closed
  receiver exists, acknowledging still writes to the half-closed stream.\<close>

lemma ack_after_close_writes:
  "snd (run_state (do { _ \<leftarrow> Receiver_Close (ret 0) log_ops sample_receiver; Message_Ack (ret 0) log_ops {7} polled_message }) []) =
     [Written 7 (PbQueuesDownstreamRequest_default\<lparr>dq_RequestID := zero_id, dq_RequestTypeData := CloseByClient\<rparr>),
      Half_closed 7, Written 7 (settle_one AckRange [] polled_message zero_id)]"
  by (simp add: Receiver_Close_def sample_receiver_def zero_uuid log_ops_def Message_Ack_def SendSettle_def
      polled_message_def settle_one_def to_int64_uint [symmetric] PbQueuesDownstreamRequest_default_def)

end
