(* ===== verification/Subscriptions.thy ===== *)
theory Subscriptions
  imports Client_Messaging Backoff_Policy
begin

text \<open>
  Subscriptions: the start options (src/subscription_option.cc), the subscription handle
  (src/internal/subscription_impl.h and the Subscription methods of src/client_events.cc), the four
  subscribe operations and the reader thread each of them starts (src/client_events.cc,
  client_events_store.cc, client_commands.cc, client_queries.cc).

  The reader thread runs beside the user's threads, which may cancel the subscription at any time,
  so it is a machine: \<open>reader_pc\<close> names the points between two accesses to shared state,
  \<open>reader_step\<close> is one step of the thread, and \<open>reader_system\<close> interleaves these steps with
  \<^verbatim>\<open>Cancel\<close>, with changes of the transport (which the client may close) and of the world. The four
  threads have the same code up to the message type, the RPC and two texts; these are the fields of
  \<open>reader_loop\<close>. A call's context is identified by the handle of the stream it belongs to.
\<close>

section \<open>Start options\<close>

record SubscriptionOption =
  opt_type :: nat
  opt_value :: int

definition StartFromNewEvents :: SubscriptionOption where
  "StartFromNewEvents = \<lparr>opt_type = 1, opt_value = 0\<rparr>"

definition StartFromFirstEvent :: SubscriptionOption where
  "StartFromFirstEvent = \<lparr>opt_type = 2, opt_value = 0\<rparr>"

definition StartFromLastEvent :: SubscriptionOption where
  "StartFromLastEvent = \<lparr>opt_type = 3, opt_value = 0\<rparr>"

definition StartFromSequence :: "64 word \<Rightarrow> SubscriptionOption" where
  "StartFromSequence sequence = \<lparr>opt_type = 4, opt_value = to_int64 (uint sequence)\<rparr>"

text \<open>The time point is given in nanoseconds since the epoch, the resolution of the system clock.\<close>

definition StartFromTime :: "int \<Rightarrow> SubscriptionOption" where
  "StartFromTime nanos = \<lparr>opt_type = 5, opt_value = nanos\<rparr>"

definition StartFromTimeDelta :: "int \<Rightarrow> SubscriptionOption" where
  "StartFromTimeDelta seconds = \<lparr>opt_type = 6, opt_value = seconds\<rparr>"

text \<open>\<^verbatim>\<open>static_cast\<close> from \<^verbatim>\<open>int\<close> to the protobuf enum, for the numbers the enum declares.\<close>

definition events_store_type :: "nat \<Rightarrow> EventsStoreType" where
  "events_store_type n =
     (if n < 7
      then [EventsStoreTypeUndefined, StartNewOnly, StartFromFirst, StartFromLast, StartAtSequence,
        StartAtTime, StartAtTimeDelta] ! n
      else EventsStoreTypeUndefined)"

section \<open>The subscription handle\<close>

record 'w Subscription =
  sb_id :: string
  sb_ctx :: nat
  sb_done :: bool
  sb_subscribe_proto :: PbSubscribe
  sb_transport :: "'w GrpcTransport"

definition Cancel :: "(nat \<Rightarrow> ('w, unit) state) \<Rightarrow> 'w Subscription \<Rightarrow> ('w, 'w Subscription) state" where
  "Cancel try_cancel sub =
     (let sub1 = sub\<lparr>sb_done := True\<rparr>
      in do { _ \<leftarrow> try_cancel (sb_ctx sub1); ret sub1 })"

definition Subscription_IsDone :: "'w Subscription \<Rightarrow> bool" where
  "Subscription_IsDone sub = sb_done sub"

definition Subscription_Id :: "'w Subscription \<Rightarrow> string" where
  "Subscription_Id sub = sb_id sub"

section \<open>The reader thread\<close>

record ('w, 'p) reader_loop =
  rl_Read :: "nat \<Rightarrow> ('w, 'p option) state"
  rl_Finish :: "nat \<Rightarrow> ('w, grpc_status) state"
  rl_handle :: "'p \<Rightarrow> ('w, unit) state"
  rl_subscribe :: "'w GrpcTransport \<Rightarrow> PbSubscribe \<Rightarrow> ClientContext \<Rightarrow> ('w, (nat \<times> ClientContext) StatusOr) state"
  rl_sleep_for :: "millis \<Rightarrow> ('w, unit) state"
  rl_on_error :: "'w error_callback option"
  rl_ended :: string
  rl_op :: string

datatype reader_pc = Outer_test | Reading | Finishing | Intent_test | Retry_test | Sleeping
  | Wake_test | Resubscribing | Exit_test | Reporting | Exited

record 'w reader_cfg =
  rc_pc :: reader_pc
  rc_sub :: "'w Subscription"
  rc_reader :: nat
  rc_last_status :: grpc_status
  rc_backoff :: millis
  rc_world :: 'w

fun reader_step :: "('w, 'p) reader_loop \<Rightarrow> 'w reader_cfg \<Rightarrow> 'w reader_cfg" where
  "reader_step l c =
     (case rc_pc c of
        Outer_test \<Rightarrow> c\<lparr>rc_pc := (if sb_done (rc_sub c) then Exit_test else Reading)\<rparr>
      | Reading \<Rightarrow>
          (case run_state (rl_Read l (rc_reader c)) (rc_world c) of
             (Some proto, w) \<Rightarrow> c\<lparr>rc_world := world_of (rl_handle l proto) w\<rparr>
           | (None, w) \<Rightarrow> c\<lparr>rc_pc := Finishing, rc_world := w\<rparr>)
      | Finishing \<Rightarrow>
          (case run_state (rl_Finish l (rc_reader c)) (rc_world c) of
             (st, w) \<Rightarrow> c\<lparr>rc_pc := Intent_test, rc_last_status := st, rc_world := w\<rparr>)
      | Intent_test \<Rightarrow>
          (if sb_done (rc_sub c) then c\<lparr>rc_pc := Exit_test\<rparr>
           else c\<lparr>rc_pc := Retry_test, rc_backoff := 1000\<rparr>)
      | Retry_test \<Rightarrow> c\<lparr>rc_pc := (if sb_done (rc_sub c) then Exit_test else Sleeping)\<rparr>
      | Sleeping \<Rightarrow> c\<lparr>rc_pc := Wake_test, rc_world := world_of (rl_sleep_for l (rc_backoff c)) (rc_world c)\<rparr>
      | Wake_test \<Rightarrow> c\<lparr>rc_pc := (if sb_done (rc_sub c) then Exit_test else Resubscribing)\<rparr>
      | Resubscribing \<Rightarrow>
          (case run_state (rl_subscribe l (sb_transport (rc_sub c)) (sb_subscribe_proto (rc_sub c)) ClientContext_new)
                  (rc_world c) of
             (Inr (h, ctx), w) \<Rightarrow>
               c\<lparr>rc_pc := Outer_test, rc_sub := (rc_sub c)\<lparr>sb_ctx := h\<rparr>, rc_reader := h, rc_world := w\<rparr>
           | (Inl _, w) \<Rightarrow> c\<lparr>rc_pc := Retry_test, rc_backoff := min (rc_backoff c * 2) 30000, rc_world := w\<rparr>)
      | Exit_test \<Rightarrow>
          (if \<not> sb_done (rc_sub c)
           then c\<lparr>rc_pc := Reporting, rc_sub := (rc_sub c)\<lparr>sb_done := True\<rparr>\<rparr>
           else c\<lparr>rc_pc := Exited\<rparr>)
      | Reporting \<Rightarrow>
          c\<lparr>rc_pc := Exited,
            rc_world := world_of (SafeInvoke_null
              (case rl_on_error l of
                 Some on_error \<Rightarrow> on_error (Status5 kTransient (rl_ended l @ error_message (rc_last_status c)) (rl_op l) [] [])
               | None \<Rightarrow> ret None) (rl_op l @ ''::OnError'')) (rc_world c)\<rparr>
      | Exited \<Rightarrow> c)"

declare reader_step.simps [simp del]

definition reader_start :: "'w Subscription \<Rightarrow> nat \<Rightarrow> 'w \<Rightarrow> 'w reader_cfg" where
  "reader_start sub reader w =
     \<lparr>rc_pc = Outer_test, rc_sub = sub, rc_reader = reader, rc_last_status = grpc_status_OK,
      rc_backoff = 0, rc_world = w\<rparr>"

section \<open>The four threads\<close>

definition invoke_user :: "('r \<Rightarrow> 'w callback) option \<Rightarrow> 'w error_callback option \<Rightarrow> string \<Rightarrow> 'r \<Rightarrow> ('w, unit) state" where
  "invoke_user on_item on_error op item =
     SafeInvoke (case on_item of Some f \<Rightarrow> f item | None \<Rightarrow> ret None) on_error op"

definition events_reader :: "(nat \<Rightarrow> ('w, PbEventReceive option) state) \<Rightarrow> (nat \<Rightarrow> ('w, grpc_status) state)
    \<Rightarrow> (millis \<Rightarrow> ('w, unit) state) \<Rightarrow> (EventReceive \<Rightarrow> 'w callback) option \<Rightarrow> 'w error_callback option
    \<Rightarrow> ('w, PbEventReceive) reader_loop" where
  "events_reader read finish sleep on_event on_error =
     \<lparr>rl_Read = read, rl_Finish = finish,
      rl_handle = (\<lambda>proto_event. invoke_user on_event on_error ''SubscribeToEvents::OnEvent''
        (EventReceive_default\<lparr>er_id := per_EventID proto_event, er_channel := per_Channel proto_event,
           er_metadata := per_Metadata proto_event, er_body := per_Body proto_event,
           er_timestamp := per_Timestamp proto_event, er_sequence := per_Sequence proto_event,
           er_tags := Map.empty ++ per_Tags proto_event\<rparr>)),
      rl_subscribe = GrpcTransport_SubscribeToEvents, rl_sleep_for = sleep, rl_on_error = on_error,
      rl_ended = ''event subscription stream ended: '', rl_op = ''SubscribeToEvents''\<rparr>"

definition events_store_reader :: "(nat \<Rightarrow> ('w, PbEventReceive option) state) \<Rightarrow> (nat \<Rightarrow> ('w, grpc_status) state)
    \<Rightarrow> (millis \<Rightarrow> ('w, unit) state) \<Rightarrow> (EventStoreReceive \<Rightarrow> 'w callback) option \<Rightarrow> 'w error_callback option
    \<Rightarrow> ('w, PbEventReceive) reader_loop" where
  "events_store_reader read finish sleep on_event on_error =
     \<lparr>rl_Read = read, rl_Finish = finish,
      rl_handle = (\<lambda>proto_event. invoke_user on_event on_error ''SubscribeToEventsStore::OnEvent''
        (EventStoreReceive_default\<lparr>eer_id := per_EventID proto_event, eer_sequence := per_Sequence proto_event,
           eer_timestamp := per_Timestamp proto_event, eer_channel := per_Channel proto_event,
           eer_metadata := per_Metadata proto_event, eer_body := per_Body proto_event,
           eer_tags := Map.empty ++ per_Tags proto_event\<rparr>)),
      rl_subscribe = GrpcTransport_SubscribeToEvents, rl_sleep_for = sleep, rl_on_error = on_error,
      rl_ended = ''events store subscription stream ended: '', rl_op = ''SubscribeToEventsStore''\<rparr>"

definition commands_reader :: "(nat \<Rightarrow> ('w, PbRequest option) state) \<Rightarrow> (nat \<Rightarrow> ('w, grpc_status) state)
    \<Rightarrow> (millis \<Rightarrow> ('w, unit) state) \<Rightarrow> (CommandReceive \<Rightarrow> 'w callback) option \<Rightarrow> 'w error_callback option
    \<Rightarrow> ('w, PbRequest) reader_loop" where
  "commands_reader read finish sleep on_command on_error =
     \<lparr>rl_Read = read, rl_Finish = finish,
      rl_handle = (\<lambda>proto_request.
        if rq_RequestTypeData proto_request \<noteq> RequestTypeCommand then ret ()
        else invoke_user on_command on_error ''SubscribeToCommands::OnCommand''
          (CommandReceive_default\<lparr>cv_id := rq_RequestID proto_request, cv_client_id := rq_ClientID proto_request,
             cv_channel := rq_Channel proto_request, cv_metadata := rq_Metadata proto_request,
             cv_body := rq_Body proto_request, cv_response_to := rq_ReplyChannel proto_request,
             cv_timeout := 1000 * rq_Timeout proto_request, cv_tags := Map.empty ++ rq_Tags proto_request\<rparr>)),
      rl_subscribe = GrpcTransport_SubscribeToRequests, rl_sleep_for = sleep, rl_on_error = on_error,
      rl_ended = ''commands subscription stream ended: '', rl_op = ''SubscribeToCommands''\<rparr>"

definition queries_reader :: "(nat \<Rightarrow> ('w, PbRequest option) state) \<Rightarrow> (nat \<Rightarrow> ('w, grpc_status) state)
    \<Rightarrow> (millis \<Rightarrow> ('w, unit) state) \<Rightarrow> (QueryReceive \<Rightarrow> 'w callback) option \<Rightarrow> 'w error_callback option
    \<Rightarrow> ('w, PbRequest) reader_loop" where
  "queries_reader read finish sleep on_query on_error =
     \<lparr>rl_Read = read, rl_Finish = finish,
      rl_handle = (\<lambda>proto_request.
        if rq_RequestTypeData proto_request \<noteq> RequestTypeQuery then ret ()
        else invoke_user on_query on_error ''SubscribeToQueries::OnQuery''
          (QueryReceive_default\<lparr>qv_id := rq_RequestID proto_request, qv_channel := rq_Channel proto_request,
             qv_client_id := rq_ClientID proto_request, qv_metadata := rq_Metadata proto_request,
             qv_body := rq_Body proto_request, qv_response_to := rq_ReplyChannel proto_request,
             qv_timeout := 1000 * rq_Timeout proto_request, qv_cache_key := rq_CacheKey proto_request,
             qv_cache_ttl := 1000 * rq_CacheTTL proto_request, qv_tags := Map.empty ++ rq_Tags proto_request\<rparr>)),
      rl_subscribe = GrpcTransport_SubscribeToRequests, rl_sleep_for = sleep, rl_on_error = on_error,
      rl_ended = ''queries subscription stream ended: '', rl_op = ''SubscribeToQueries''\<rparr>"

section \<open>Subscribing\<close>

text \<open>Each operation returns the handle and the stream its reader thread starts on.\<close>

definition Client_SubscribeToEvents :: "('w, 64 word) state \<Rightarrow> 'w Client \<Rightarrow> string \<times> string
    \<Rightarrow> ('w, ('w Subscription \<times> nat) StatusOr) state" where
  "Client_SubscribeToEvents rand64 c = (\<lambda>(channel, group).
     let s = CheckClosed c
      in if \<not> ok s then ret (Inl s)
      else let ch = effective_channel c channel;
               s1 = ValidateChannel ch ''SubscribeToEvents''
      in if \<not> ok s1 then ret (Inl s1)
      else let sub = PbSubscribe_default\<lparr>ps_SubscribeTypeData := Events,
                 ps_ClientID := co_client_id (cl_opts c), ps_Channel := ch, ps_Group := group\<rparr>
      in do {
        reader_or \<leftarrow> GrpcTransport_SubscribeToEvents (cl_transport c) sub ClientContext_new;
        (case reader_or of
           Inl e \<Rightarrow> ret (Inl e)
         | Inr (h, ctx) \<Rightarrow> do {
             sid \<leftarrow> GenerateUUID rand64;
             ret (Inr (\<lparr>sb_id = sid, sb_ctx = h, sb_done = False, sb_subscribe_proto = sub,
               sb_transport = cl_transport c\<rparr>, h))
           })
      })"

definition Client_SubscribeToEventsStore :: "('w, 64 word) state \<Rightarrow> 'w Client
    \<Rightarrow> string \<times> string \<times> SubscriptionOption \<Rightarrow> ('w, ('w Subscription \<times> nat) StatusOr) state" where
  "Client_SubscribeToEventsStore rand64 c = (\<lambda>(channel, group, start_option).
     let s = CheckClosed c
      in if \<not> ok s then ret (Inl s)
      else let ch = effective_channel c channel;
               s1 = ValidateChannel ch ''SubscribeToEventsStore''
      in if \<not> ok s1 then ret (Inl s1)
      else let sub = PbSubscribe_default\<lparr>ps_SubscribeTypeData := EventsStore,
                 ps_ClientID := co_client_id (cl_opts c), ps_Channel := ch, ps_Group := group,
                 ps_EventsStoreTypeData := events_store_type (opt_type start_option),
                 ps_EventsStoreTypeValue := opt_value start_option\<rparr>
      in do {
        reader_or \<leftarrow> GrpcTransport_SubscribeToEvents (cl_transport c) sub ClientContext_new;
        (case reader_or of
           Inl e \<Rightarrow> ret (Inl e)
         | Inr (h, ctx) \<Rightarrow> do {
             sid \<leftarrow> GenerateUUID rand64;
             ret (Inr (\<lparr>sb_id = sid, sb_ctx = h, sb_done = False, sb_subscribe_proto = sub,
               sb_transport = cl_transport c\<rparr>, h))
           })
      })"

definition Client_SubscribeToCommands :: "('w, 64 word) state \<Rightarrow> 'w Client \<Rightarrow> string \<times> string
    \<Rightarrow> ('w, ('w Subscription \<times> nat) StatusOr) state" where
  "Client_SubscribeToCommands rand64 c = (\<lambda>(channel, group).
     let s = CheckClosed c
      in if \<not> ok s then ret (Inl s)
      else let ch = effective_channel c channel;
               s1 = ValidateChannel ch ''SubscribeToCommands''
      in if \<not> ok s1 then ret (Inl s1)
      else let sub = PbSubscribe_default\<lparr>ps_SubscribeTypeData := Commands,
                 ps_ClientID := co_client_id (cl_opts c), ps_Channel := ch, ps_Group := group\<rparr>
      in do {
        reader_or \<leftarrow> GrpcTransport_SubscribeToRequests (cl_transport c) sub ClientContext_new;
        (case reader_or of
           Inl e \<Rightarrow> ret (Inl e)
         | Inr (h, ctx) \<Rightarrow> do {
             sid \<leftarrow> GenerateUUID rand64;
             ret (Inr (\<lparr>sb_id = sid, sb_ctx = h, sb_done = False, sb_subscribe_proto = sub,
               sb_transport = cl_transport c\<rparr>, h))
           })
      })"

definition Client_SubscribeToQueries :: "('w, 64 word) state \<Rightarrow> 'w Client \<Rightarrow> string \<times> string
    \<Rightarrow> ('w, ('w Subscription \<times> nat) StatusOr) state" where
  "Client_SubscribeToQueries rand64 c = (\<lambda>(channel, group).
     let s = CheckClosed c
      in if \<not> ok s then ret (Inl s)
      else let ch = effective_channel c channel;
               s1 = ValidateChannel ch ''SubscribeToQueries''
      in if \<not> ok s1 then ret (Inl s1)
      else let sub = PbSubscribe_default\<lparr>ps_SubscribeTypeData := Queries,
                 ps_ClientID := co_client_id (cl_opts c), ps_Channel := ch, ps_Group := group\<rparr>
      in do {
        reader_or \<leftarrow> GrpcTransport_SubscribeToRequests (cl_transport c) sub ClientContext_new;
        (case reader_or of
           Inl e \<Rightarrow> ret (Inl e)
         | Inr (h, ctx) \<Rightarrow> do {
             sid \<leftarrow> GenerateUUID rand64;
             ret (Inr (\<lparr>sb_id = sid, sb_ctx = h, sb_done = False, sb_subscribe_proto = sub,
               sb_transport = cl_transport c\<rparr>, h))
           })
      })"

section \<open>Opening a subscription\<close>

lemmas subscribe_defs = Client_SubscribeToEvents_def Client_SubscribeToEventsStore_def
  Client_SubscribeToCommands_def Client_SubscribeToQueries_def CheckClosed_def

interpretation op_subscribe_events: checked_operation "Client_SubscribeToEvents rand64" Inl
    "\<lambda>c q. channel_wf (effective_channel c (fst q))"
  by unfold_locales (auto simp: subscribe_defs status_simps Let_def validation_error case_prod_unfold)

interpretation op_subscribe_store: checked_operation "Client_SubscribeToEventsStore rand64" Inl
    "\<lambda>c q. channel_wf (effective_channel c (fst q))"
  by unfold_locales (auto simp: subscribe_defs status_simps Let_def validation_error case_prod_unfold)

interpretation op_subscribe_commands: checked_operation "Client_SubscribeToCommands rand64" Inl
    "\<lambda>c q. channel_wf (effective_channel c (fst q))"
  by unfold_locales (auto simp: subscribe_defs status_simps Let_def validation_error case_prod_unfold)

interpretation op_subscribe_queries: checked_operation "Client_SubscribeToQueries rand64" Inl
    "\<lambda>c q. channel_wf (effective_channel c (fst q))"
  by unfold_locales (auto simp: subscribe_defs status_simps Let_def validation_error case_prod_unfold)

section \<open>The thread among other threads\<close>

inductive reader_system :: "('w, 'p) reader_loop \<Rightarrow> (nat \<Rightarrow> ('w, unit) state) \<Rightarrow> 'w reader_cfg \<Rightarrow> 'w reader_cfg \<Rightarrow> bool"
  for l try_cancel where
  thread: "reader_system l try_cancel c (reader_step l c)"
| cancel: "run_state (Cancel try_cancel (rc_sub c)) (rc_world c) = (sub, w)
    \<Longrightarrow> reader_system l try_cancel c (c\<lparr>rc_sub := sub, rc_world := w\<rparr>)"
| transport: "reader_system l try_cancel c (c\<lparr>rc_sub := (rc_sub c)\<lparr>sb_transport := t\<rparr>\<rparr>)"
| world: "reader_system l try_cancel c (c\<lparr>rc_world := w\<rparr>)"

inductive_cases reader_systemE: "reader_system l try_cancel c c'"

text \<open>The waits between attempts to subscribe again.\<close>

definition resubscribe_delay :: "nat \<Rightarrow> millis" where
  "resubscribe_delay n = min (1000 * 2 ^ n) 30000"

interpretation resubscribe_backoff: backoff_schedule "\<lambda>_ :: unit. True" "\<lambda>_. resubscribe_delay" "\<lambda>_. 30000"
  by unfold_locales (auto simp: resubscribe_delay_def min_le_iff_disj)

lemma resubscribe_delay_simps:
  "resubscribe_delay 0 = 1000" "min (resubscribe_delay n * 2) 30000 = resubscribe_delay (Suc n)"
  by (simp_all add: resubscribe_delay_def)

definition retrying :: "reader_pc \<Rightarrow> bool" where
  "retrying pc = (pc = Retry_test \<or> pc = Sleeping \<or> pc = Wake_test \<or> pc = Resubscribing)"

definition leaving :: "reader_pc \<Rightarrow> bool" where
  "leaving pc = (pc = Exit_test \<or> pc = Exited)"

definition reader_inv :: "'w reader_cfg \<Rightarrow> bool" where
  "reader_inv c \<longleftrightarrow> rc_pc c \<noteq> Reporting \<and> (leaving (rc_pc c) \<longrightarrow> sb_done (rc_sub c))
     \<and> (retrying (rc_pc c) \<longrightarrow> (\<exists>n. rc_backoff c = resubscribe_delay n))"

lemmas reader_pc_simps = retrying_def leaving_def

lemma reader_inv_step: "reader_inv c \<Longrightarrow> reader_inv (reader_step l c)"
  by (cases "rc_pc c")
    (auto simp: reader_inv_def reader_step.simps reader_pc_simps resubscribe_delay_simps
      intro: exI [of _ 0] split: option.splits sum.splits prod.splits)

lemma Cancel_sub: "result_of (Cancel try_cancel sub) w = sub\<lparr>sb_done := True\<rparr>"
  by (simp add: Cancel_def case_prod_unfold Let_def)

lemma reader_inv_system:
  assumes "reader_system l try_cancel c c'" "reader_inv c"
  shows "reader_inv c'"
  using assms
proof (cases rule: reader_system.cases)
  case (cancel sub w)
  then have "sub = (rc_sub c)\<lparr>sb_done := True\<rparr>"
    using Cancel_sub [of try_cancel "rc_sub c" "rc_world c"] by simp
  then show ?thesis using cancel assms(2) by (simp add: reader_inv_def)
qed (auto simp: reader_inv_step, simp_all add: reader_inv_def)

lemma reader_inv_reachable:
  "(reader_system l try_cancel)\<^sup>*\<^sup>* (reader_start sub h w) c \<Longrightarrow> reader_inv c"
proof (induction rule: rtranclp_induct)
  case base
  then show ?case by (simp add: reader_inv_def reader_start_def reader_pc_simps)
next
  case (step y z)
  then show ?case using reader_inv_system by blast
qed

text \<open>C23. A reader thread only ends after the subscription has been cancelled, and therefore never
  reports that its stream ended: in every interleaving with cancellation and with changes of the
  transport or the world, the code that calls the user's error handler for an ended stream is
  unreachable (a broken stream is retried for ever, even when the client has been closed).\<close>

theorem reader_ends_only_when_cancelled:
  assumes "(reader_system l try_cancel)\<^sup>*\<^sup>* (reader_start sub h w) c"
  shows "rc_pc c \<noteq> Reporting \<and> (rc_pc c = Exited \<longrightarrow> Subscription_IsDone (rc_sub c))"
  using reader_inv_reachable [OF assms] by (simp add: reader_inv_def reader_pc_simps Subscription_IsDone_def)

text \<open>Between two attempts the thread waits one second at first, twice as long after every failed
  attempt and never more than thirty seconds, whatever reconnect policy the client has.\<close>

theorem resubscribe_waits_bounded:
  assumes "(reader_system l try_cancel)\<^sup>*\<^sup>* (reader_start sub h w) c" "rc_pc c = Sleeping"
  shows "1000 \<le> rc_backoff c \<and> rc_backoff c \<le> 30000 \<and> (\<exists>n. rc_backoff c = min (1000 * 2 ^ n) 30000)"
proof -
  obtain n where n: "rc_backoff c = resubscribe_delay n"
    using reader_inv_reachable [OF assms(1)] assms(2) by (auto simp: reader_inv_def reader_pc_simps)
  then show ?thesis
    using resubscribe_backoff.delay_mono [of 0 n] by (auto simp: resubscribe_delay_def)
qed

text \<open>C24. Cancelling ends the reader thread (so that joining it in the destructor returns): once the
  subscription is cancelled and reads of the cancelled call fail, the thread exits within four of
  its own steps, wherever it stands.\<close>

theorem cancelled_reader_exits:
  assumes "sb_done (rc_sub c)" "\<And>w. result_of (rl_Read l (rc_reader c)) w = None"
  shows "rc_pc ((reader_step l ^^ 4) c) = Exited"
proof -
  have e: "\<And>d. rc_pc d = Exited \<Longrightarrow> reader_step l d = d" by (simp add: reader_step.simps)
  show ?thesis
    using assms
    by (cases "rc_pc c"; cases "result_of (rl_subscribe l (sb_transport (rc_sub c)) (sb_subscribe_proto (rc_sub c)) ClientContext_new) (rc_world c)")
      (auto simp: numeral_eq_Suc e reader_step.simps case_prod_unfold)
qed

section \<open>Delivery\<close>

text \<open>
  What the thread relies on of its stream: the messages that are still to come form a list, reading
  takes the first one and fails when there is none, and handling a message takes none away.
\<close>

locale message_source =
  fixes l :: "('w, 'p) reader_loop" and h :: nat
    and inbox :: "'w \<Rightarrow> 'p list" and pop :: "'w \<Rightarrow> 'w"
  assumes read: "run_state (rl_Read l h) w = (case inbox w of [] \<Rightarrow> (None, w) | p # ps \<Rightarrow> (Some p, pop w))"
    and pop: "inbox (pop w) = tl (inbox w)"
    and handle: "inbox (world_of (rl_handle l p) w) = inbox w"
begin

abbreviation handle_next :: "'p \<Rightarrow> 'w \<Rightarrow> 'w" where
  "handle_next p w \<equiv> world_of (rl_handle l p) (pop w)"

lemma step_reading: "inbox (rc_world c) = p # ps \<Longrightarrow> rc_pc c = Reading \<Longrightarrow> rc_reader c = h
    \<Longrightarrow> reader_step l c = c\<lparr>rc_world := handle_next p (rc_world c)\<rparr>"
  by (simp add: reader_step.simps read)

lemma inbox_handle_next: "inbox (handle_next p w) = tl (inbox w)"
  by (simp add: handle pop)

lemma reads_all:
  assumes "rc_pc c = Reading" "rc_reader c = h"
  shows "(reader_step l ^^ length (inbox (rc_world c))) c =
      c\<lparr>rc_world := fold handle_next (inbox (rc_world c)) (rc_world c)\<rparr>
    \<and> inbox (fold handle_next (inbox (rc_world c)) (rc_world c)) = []"
  using assms
proof (induction "inbox (rc_world c)" arbitrary: c)
  case Nil
  then show ?case by simp
next
  case (Cons p ps)
  let ?d = "c\<lparr>rc_world := handle_next p (rc_world c)\<rparr>"
  have d: "inbox (rc_world ?d) = ps" "rc_pc ?d = Reading" "rc_reader ?d = h"
    using Cons.hyps(2) Cons.prems by (simp_all add: handle pop Cons.hyps(2) [symmetric])
  have s: "reader_step l c = ?d" using Cons.hyps(2) Cons.prems step_reading [of c p ps] by simp
  show ?case
    using Cons.hyps(1) [OF d(1) [symmetric] d(2,3)] s d(1)
    unfolding Cons.hyps(2) [symmetric] by (simp add: funpow_swap1)
qed

end

lemma reader_handles:
  "rl_handle (events_reader rd fin slp ev er) p =
     invoke_user ev er ''SubscribeToEvents::OnEvent'' (EventReceiveFromProto p)"
  "rl_handle (events_store_reader rd fin slp es er) p =
     invoke_user es er ''SubscribeToEventsStore::OnEvent'' (EventStoreReceiveFromProto p)"
  "rl_handle (commands_reader rdr fin slp cmd er) r =
     (if rq_RequestTypeData r \<noteq> RequestTypeCommand then ret ()
      else invoke_user cmd er ''SubscribeToCommands::OnCommand'' (CommandReceiveFromProto r))"
  "rl_handle (queries_reader rdr fin slp qry er) r =
     (if rq_RequestTypeData r \<noteq> RequestTypeQuery then ret ()
      else invoke_user qry er ''SubscribeToQueries::OnQuery'' (QueryReceiveFromProto r))"
  by (simp_all add: events_reader_def events_store_reader_def commands_reader_def queries_reader_def
      EventReceiveFromProto_def EventStoreReceiveFromProto_def CommandReceiveFromProto_def
      QueryReceiveFromProto_def CopyTags_def sdk_defaults)

text \<open>A subscriber's world: what the stream still holds and what its callback has recorded. The
  callback may throw after recording.\<close>

type_synonym ('p, 'r) subscriber_world = "'p list \<times> 'r list"

definition pop_read :: "nat \<Rightarrow> (('p, 'r) subscriber_world, 'p option) state" where
  "pop_read h = State (\<lambda>(ps, seen). case ps of [] \<Rightarrow> (None, ([], seen)) | p # ps' \<Rightarrow> (Some p, (ps', seen)))"

definition record_item :: "('r \<Rightarrow> exn option) \<Rightarrow> 'r \<Rightarrow> ('p, 'r) subscriber_world callback" where
  "record_item throws item = State (\<lambda>(ps, seen). (throws item, (ps, seen @ [item])))"

lemma record_invoke:
  "world_of (invoke_user (Some (record_item throws)) None op item) w = (fst w, snd w @ [item])"
  by (simp add: invoke_user_def SafeInvoke_def record_item_def case_prod_unfold split: option.split)

definition drop_first :: "('p, 'r) subscriber_world \<Rightarrow> ('p, 'r) subscriber_world" where
  "drop_first w = (tl (fst w), snd w)"

lemma pop_read_run: "run_state (pop_read h) w = (case fst w of [] \<Rightarrow> (None, w) | p # ps \<Rightarrow> (Some p, drop_first w))"
  by (cases w) (auto simp: pop_read_def drop_first_def split: list.splits)

lemma fold_recorded:
  assumes "\<And>p w. f p w = (tl (fst w), snd w @ g p)"
  shows "fold f ps (ps, seen) = ([], seen @ concat (map g ps))"
  using assms by (induction ps arbitrary: seen) auto

interpretation events_source: message_source "events_reader pop_read fin slp (Some (record_item throws)) None" h fst drop_first
  by unfold_locales (simp_all add: events_reader_def pop_read_run drop_first_def record_invoke)

interpretation store_source: message_source "events_store_reader pop_read fin slp (Some (record_item throws)) None" h fst drop_first
  by unfold_locales (simp_all add: events_store_reader_def pop_read_run drop_first_def record_invoke)

interpretation commands_source: message_source "commands_reader pop_read fin slp (Some (record_item throws)) None" h fst drop_first
  by unfold_locales (simp_all add: commands_reader_def pop_read_run drop_first_def record_invoke)

interpretation queries_source: message_source "queries_reader pop_read fin slp (Some (record_item throws)) None" h fst drop_first
  by unfold_locales (simp_all add: queries_reader_def pop_read_run drop_first_def record_invoke)

text \<open>C9. A subscriber gets every message of its stream exactly once and in order, converted as the
  converters of the transport layer do, even when its callback throws; command and query
  subscribers skip requests of the other kind.\<close>

theorem subscriptions_deliver_in_order:
  assumes "rc_pc c = Reading" "rc_world c = (ps, seen)" "rc_pc d = Reading" "rc_world d = (ps, seen')"
    "rc_pc e = Reading" "rc_world e = (rs, seen1)" "rc_pc f = Reading" "rc_world f = (rs, seen2)"
  shows "(reader_step (events_reader pop_read fin slp (Some (record_item throws)) None) ^^ length ps) c
      = c\<lparr>rc_world := ([], seen @ map EventReceiveFromProto ps)\<rparr>
    \<and> (reader_step (events_store_reader pop_read fin' slp' (Some (record_item throws')) None) ^^ length ps) d
      = d\<lparr>rc_world := ([], seen' @ map EventStoreReceiveFromProto ps)\<rparr>
    \<and> (reader_step (commands_reader pop_read fin1 slp1 (Some (record_item throws1)) None) ^^ length rs) e
      = e\<lparr>rc_world := ([], seen1 @ map CommandReceiveFromProto (filter (\<lambda>r. rq_RequestTypeData r = RequestTypeCommand) rs))\<rparr>
    \<and> (reader_step (queries_reader pop_read fin2 slp2 (Some (record_item throws2)) None) ^^ length rs) f
      = f\<lparr>rc_world := ([], seen2 @ map QueryReceiveFromProto (filter (\<lambda>r. rq_RequestTypeData r = RequestTypeQuery) rs))\<rparr>"
proof (intro conjI)
  have m: "concat (map (\<lambda>p. if P p then [q p] else []) xs) = map q (filter P xs)" for P xs and q :: "'x \<Rightarrow> 'y"
    by (induction xs) auto
  show "(reader_step (events_reader pop_read fin slp (Some (record_item throws)) None) ^^ length ps) c
      = c\<lparr>rc_world := ([], seen @ map EventReceiveFromProto ps)\<rparr>"
    using events_source.reads_all [OF assms(1) refl, of fin slp throws] assms(2)
      fold_recorded [of _ "\<lambda>p. [EventReceiveFromProto p]" ps seen]
    by (simp add: reader_handles record_invoke drop_first_def)
  show "(reader_step (events_store_reader pop_read fin' slp' (Some (record_item throws')) None) ^^ length ps) d
      = d\<lparr>rc_world := ([], seen' @ map EventStoreReceiveFromProto ps)\<rparr>"
    using store_source.reads_all [OF assms(3) refl, of fin' slp' throws'] assms(4)
      fold_recorded [of _ "\<lambda>p. [EventStoreReceiveFromProto p]" ps seen']
    by (simp add: reader_handles record_invoke drop_first_def)
  show "(reader_step (commands_reader pop_read fin1 slp1 (Some (record_item throws1)) None) ^^ length rs) e
      = e\<lparr>rc_world := ([], seen1 @ map CommandReceiveFromProto (filter (\<lambda>r. rq_RequestTypeData r = RequestTypeCommand) rs))\<rparr>"
    using commands_source.reads_all [OF assms(5) refl, of fin1 slp1 throws1] assms(6)
      fold_recorded [of _ "\<lambda>p. if rq_RequestTypeData p = RequestTypeCommand then [CommandReceiveFromProto p] else []" rs seen1]
    by (simp add: reader_handles record_invoke drop_first_def m)
  show "(reader_step (queries_reader pop_read fin2 slp2 (Some (record_item throws2)) None) ^^ length rs) f
      = f\<lparr>rc_world := ([], seen2 @ map QueryReceiveFromProto (filter (\<lambda>r. rq_RequestTypeData r = RequestTypeQuery) rs))\<rparr>"
    using queries_source.reads_all [OF assms(7) refl, of fin2 slp2 throws2] assms(8)
      fold_recorded [of _ "\<lambda>p. if rq_RequestTypeData p = RequestTypeQuery then [QueryReceiveFromProto p] else []" rs seen2]
    by (simp add: reader_handles record_invoke drop_first_def m)
qed

section \<open>Concrete runs\<close>

definition sample_subscription :: "'w GrpcTransport \<Rightarrow> 'w Subscription" where
  "sample_subscription t = \<lparr>sb_id = ''s-1'', sb_ctx = 1, sb_done = False,
     sb_subscribe_proto = PbSubscribe_default\<lparr>ps_SubscribeTypeData := Events, ps_Channel := ''news''\<rparr>, sb_transport = t\<rparr>"

definition quiet_reader :: "(nat, PbEventReceive) reader_loop" where
  "quiet_reader = events_reader (\<lambda>_. ret None) (\<lambda>_. ret grpc_status_OK) (\<lambda>ms. State (\<lambda>n. ((), n + nat ms))) None None"

theorem reader_ends_only_when_cancelled_witness:
  "rc_pc ((reader_step quiet_reader ^^ 5) (reader_start (sample_subscription sample_transport) 1 0)) \<noteq> Reporting"
proof -
  have r: "(reader_system quiet_reader (\<lambda>_. ret ()))\<^sup>*\<^sup>* c ((reader_step quiet_reader ^^ n) c)" for n c
    by (induction n) (auto intro: rtranclp.rtrancl_into_rtrancl reader_system.thread)
  show ?thesis
    using reader_ends_only_when_cancelled [OF r [of "reader_start (sample_subscription sample_transport) 1 0" 5]] by simp
qed

definition cancelled_run :: "nat reader_cfg" where
  "cancelled_run = (reader_start (result_of (Cancel (\<lambda>_. ret ()) (sample_subscription sample_transport)) 0) 1 0)\<lparr>rc_pc := Reading\<rparr>"

theorem cancelled_reader_exits_witness:
  "rc_pc ((reader_step quiet_reader ^^ 4) cancelled_run) = Exited"
  by (rule cancelled_reader_exits)
    (simp_all add: cancelled_run_def Cancel_sub reader_start_def quiet_reader_def events_reader_def)

definition inert_transport :: "'w GrpcTransport" where
  "inert_transport = \<lparr>gt_channel = 1,
     gt_stub = \<lparr>stub_Ping = \<lambda>_. ret (grpc_status_OK, PbPingResult_default),
      stub_SendEvent = \<lambda>_ _. ret (grpc_status_OK, PbResult_default),
      stub_SendEventsStream = \<lambda>_. ret None,
      stub_SubscribeToEvents = \<lambda>_ _. ret None,
      stub_SendRequest = \<lambda>_ _. ret (grpc_status_OK, PbResponse_default),
      stub_SendResponse = \<lambda>_ _. ret grpc_status_OK,
      stub_SubscribeToRequests = \<lambda>_ _. ret None,
      stub_SendQueueMessage = \<lambda>_ _. ret (grpc_status_OK, PbSendQueueMessageResult_default),
      stub_SendQueueMessagesBatch = \<lambda>_ _. ret (grpc_status_OK, PbQueueMessagesBatchResponse_default),
      stub_ReceiveQueueMessages = \<lambda>_ _. ret (grpc_status_OK, PbReceiveQueueMessagesResponse_default),
      stub_AckAllQueueMessages = \<lambda>_ _. ret (grpc_status_OK, PbAckAllQueueMessagesResponse_default),
      stub_QueuesUpstream = \<lambda>_. ret None,
      stub_QueuesDownstream = \<lambda>_. ret None\<rparr>,
     gt_opts = ClientOptions_default, gt_closed = False, gt_close_once = False, gt_state_machine = None\<rparr>"

definition reading_cfg :: "'p list \<Rightarrow> ('p, 'r) subscriber_world reader_cfg" where
  "reading_cfg ps = (reader_start (sample_subscription inert_transport) 1 (ps, []))\<lparr>rc_pc := Reading\<rparr>"

theorem subscriptions_deliver_in_order_witness:
  "rc_world ((reader_step (events_reader pop_read (\<lambda>_. ret grpc_status_OK) (\<lambda>_. ret ()) (Some (record_item (\<lambda>_. Some UnknownException))) None) ^^ 2)
      (reading_cfg [PbEventReceive_default, PbEventReceive_default\<lparr>per_Body := ''x''\<rparr>]))
    = ([], [EventReceive_default, EventReceive_default\<lparr>er_body := ''x''\<rparr>])"
proof -
  let ?ps = "[PbEventReceive_default, PbEventReceive_default\<lparr>per_Body := ''x''\<rparr>]"
  have g: "rc_pc (reading_cfg ps) = Reading" "rc_world (reading_cfg ps) = (ps, [])"
    for ps :: "'p list"
    by (simp_all add: reading_cfg_def reader_start_def)
  have "(reader_step (events_reader pop_read (\<lambda>_. ret grpc_status_OK) (\<lambda>_. ret ()) (Some (record_item (\<lambda>_. Some UnknownException))) None) ^^ length ?ps)
      (reading_cfg ?ps) = (reading_cfg ?ps)\<lparr>rc_world := ([], [] @ map EventReceiveFromProto ?ps)\<rparr>"
    using subscriptions_deliver_in_order [OF g(1) g(2) g(1) g(2) g(1) g(2) g(1) g(2)] by blast
  then show ?thesis
    by (simp add: numeral_eq_Suc EventReceiveFromProto_def pb_defaults sdk_defaults)
qed

end
