(* ===== verification/Stream_Handles.thy ===== *)
theory Stream_Handles
  imports Client_Queues
begin

text \<open>
  The three publishing streams: EventStreamHandle and EventStoreStreamHandle
  (src/internal/stream_handle_impl.h, src/client_events.cc, src/client_events_store.cc) and
  QueueUpstreamHandle (src/internal/queue_stream_impl.h, src/client_queues_stream.cc).

  The three classes have the same members up to the result type and the same life cycle; their
  common state is \<open>StreamHandle\<close>. The gRPC stream is a parameter (\<open>stream_ops\<close>). Each handle has a
  reader thread of its own, so the life cycle is a system of interleaved steps (\<open>handle_step\<close>): the
  write lock, the reader's position and whether its thread has been joined are explicit.
  A handle is only made by the client, which never stores a null stream.
\<close>

section \<open>Handles\<close>

record ('w, 'r) StreamHandle =
  sh_stream :: nat
  sh_on_result :: "('r \<Rightarrow> 'w callback) option"
  sh_on_error :: "'w error_callback option"
  sh_done :: bool
  sh_opts :: "'w ClientOptions"

record ('w, 'q, 'a) stream_ops =
  so_Write :: "nat \<Rightarrow> 'q \<Rightarrow> ('w, bool) state"
  so_Read :: "nat \<Rightarrow> ('w, 'a option) state"
  so_Finish :: "nat \<Rightarrow> ('w, grpc_status) state"
  so_WritesDone :: "nat \<Rightarrow> ('w, bool) state"

record QueueUpstreamResult =
  uur_ref_request_id :: string
  uur_results :: "QueueSendResult list"
  uur_is_error :: bool
  uur_error :: string

definition IsDone :: "('w, 'r) StreamHandle \<Rightarrow> bool" where
  "IsDone h = sh_done h"

definition SetOnResult :: "('r \<Rightarrow> 'w callback) option \<Rightarrow> ('w, 'r) StreamHandle \<Rightarrow> ('w, 'r) StreamHandle" where
  "SetOnResult cb h = h\<lparr>sh_on_result := cb\<rparr>"

definition SetOnError :: "'w error_callback option \<Rightarrow> ('w, 'r) StreamHandle \<Rightarrow> ('w, 'r) StreamHandle" where
  "SetOnError cb h = h\<lparr>sh_on_error := cb\<rparr>"

section \<open>Sending\<close>

text \<open>The message is converted before the write lock is taken; \<open>write_checked\<close> is what happens under
  the lock.\<close>

definition write_checked :: "('w, 'q, 'a) stream_ops \<Rightarrow> ('w, 'r) StreamHandle \<Rightarrow> 'q \<Rightarrow> Status \<Rightarrow> Status
    \<Rightarrow> ('w, Status) state" where
  "write_checked ops h proto closed_error write_error =
     (if sh_done h then ret closed_error
      else do {
        written \<leftarrow> so_Write ops (sh_stream h) proto;
        (if \<not> written then ret write_error else ret Status_ok)
      })"

definition EventStreamHandle_Send :: "('w, 64 word) state \<Rightarrow> ('w, PbEvent, 'a) stream_ops \<Rightarrow> ('w, 'r) StreamHandle
    \<Rightarrow> Event \<Rightarrow> ('w, Status) state" where
  "EventStreamHandle_Send rand64 ops h event = do {
     eid \<leftarrow> fresh_id rand64 (ev_id event);
     write_checked ops h
       (PbEvent_default\<lparr>pe_EventID := eid,
          pe_ClientID := (if ev_client_id event = [] then co_client_id (sh_opts h) else ev_client_id event),
          pe_Channel := ev_channel event, pe_Metadata := ev_metadata event, pe_Body := ev_body event,
          pe_Store := False, pe_Tags := Map.empty ++ ev_tags event\<rparr>)
       (Status5 kFatal ''event stream is closed'' ''EventStreamHandle::Send'' (ev_channel event) [])
       (Status5 kTransient ''failed to write to event stream'' ''EventStreamHandle::Send'' (ev_channel event) [])
   }"

definition EventStoreStreamHandle_Send :: "('w, 64 word) state \<Rightarrow> ('w, PbEvent, 'a) stream_ops
    \<Rightarrow> ('w, 'r) StreamHandle \<Rightarrow> EventStore \<Rightarrow> ('w, Status) state" where
  "EventStoreStreamHandle_Send rand64 ops h event = do {
     eid \<leftarrow> fresh_id rand64 (es_id event);
     write_checked ops h
       (PbEvent_default\<lparr>pe_EventID := eid,
          pe_ClientID := (if es_client_id event = [] then co_client_id (sh_opts h) else es_client_id event),
          pe_Channel := es_channel event, pe_Metadata := es_metadata event, pe_Body := es_body event,
          pe_Store := True, pe_Tags := Map.empty ++ es_tags event\<rparr>)
       (Status5 kFatal ''event store stream is closed'' ''EventStoreStreamHandle::Send'' (es_channel event) [])
       (Status5 kTransient ''failed to write to event store stream'' ''EventStoreStreamHandle::Send''
          (es_channel event) [])
   }"

definition QueueUpstreamHandle_Send :: "('w, 64 word) state \<Rightarrow> ('w, PbQueuesUpstreamRequest, 'a) stream_ops
    \<Rightarrow> ('w, 'r) StreamHandle \<Rightarrow> string \<Rightarrow> QueueMessage list \<Rightarrow> ('w, Status) state" where
  "QueueUpstreamHandle_Send rand64 ops h request_id messages = do {
     rid \<leftarrow> fresh_id rand64 request_id;
     write_checked ops h
       (QueueUpstreamRequestToProto rid messages (co_client_id (sh_opts h)) PbQueuesUpstreamRequest_default)
       (Status5 kFatal ''upstream stream is closed'' ''QueueUpstreamHandle::Send'' [] [])
       (Status5 kTransient ''failed to write to upstream stream'' ''QueueUpstreamHandle::Send'' [] [])
   }"

section \<open>The reader threads\<close>

text \<open>What each reader does with one response, and the name it reports a failed stream under.\<close>

definition EventStream_on_read :: "('w, 'r) StreamHandle \<Rightarrow> PbResult \<Rightarrow> ('w, unit) state" where
  "EventStream_on_read h r = ret ()"

definition EventStoreStream_on_read :: "('w, EventStoreResult) StreamHandle \<Rightarrow> PbResult \<Rightarrow> ('w, unit) state" where
  "EventStoreStream_on_read h r =
     (let store_result = \<lparr>ers_id = rs_EventID r, ers_sent = rs_Sent r, ers_error = rs_Error r\<rparr>
      in (case sh_on_result h of
            Some on_result \<Rightarrow> SafeInvoke (on_result store_result) (sh_on_error h) ''EventStoreStreamHandle::OnResult''
          | None \<Rightarrow> ret ()))"

definition QueueUpstream_on_read :: "('w, QueueUpstreamResult) StreamHandle \<Rightarrow> PbQueuesUpstreamResponse
    \<Rightarrow> ('w, unit) state" where
  "QueueUpstream_on_read h r =
     (case sh_on_result h of
        Some on_result \<Rightarrow>
          (let data = QueueUpstreamResponseFromProto r;
               result = \<lparr>uur_ref_request_id = ud_ref_request_id data, uur_results = ud_results data,
                 uur_is_error = ud_is_error data, uur_error = ud_error data\<rparr>
           in SafeInvoke (on_result result) (sh_on_error h) ''QueueUpstreamHandle::OnResult'')
      | None \<Rightarrow> ret ())"

definition report_finish :: "('w, 'r) StreamHandle \<Rightarrow> string \<Rightarrow> grpc_status \<Rightarrow> ('w, unit) state" where
  "report_finish h op st =
     (if \<not> grpc_ok st then
        (case sh_on_error h of
           Some on_error \<Rightarrow> SafeInvoke_null (on_error (FromGrpcStatus st op [] [])) op
         | None \<Rightarrow> ret ())
      else ret ())"

datatype reader_at = At_read | At_store_done | At_finish | At_exit

text \<open>One step of the reader thread: a read with its callback, the store to \<^verbatim>\<open>done\<close>, the final status
  with its callback.\<close>

fun handle_reader_step :: "('w, 'q, 'a) stream_ops \<Rightarrow> (('w, 'r) StreamHandle \<Rightarrow> 'a \<Rightarrow> ('w, unit) state) \<Rightarrow> string
    \<Rightarrow> reader_at \<Rightarrow> ('w, 'r) StreamHandle \<Rightarrow> ('w, reader_at \<times> ('w, 'r) StreamHandle) state" where
  "handle_reader_step ops on_read op At_read h = do {
     r \<leftarrow> so_Read ops (sh_stream h);
     (case r of
        Some response \<Rightarrow> do { _ \<leftarrow> on_read h response; ret (At_read, h) }
      | None \<Rightarrow> ret (At_store_done, h))
   }"
| "handle_reader_step ops on_read op At_store_done h = ret (At_finish, h\<lparr>sh_done := True\<rparr>)"
| "handle_reader_step ops on_read op At_finish h = do {
     st \<leftarrow> so_Finish ops (sh_stream h);
     _ \<leftarrow> report_finish h op st;
     ret (At_exit, h)
   }"
| "handle_reader_step ops on_read op At_exit h = ret (At_exit, h)"

section \<open>Closing\<close>

text \<open>The critical section of \<^verbatim>\<open>Close\<close>: it tells whether the caller goes on to join the reader.\<close>

definition Close_section :: "('w, 'q, 'a) stream_ops \<Rightarrow> ('w, 'r) StreamHandle
    \<Rightarrow> ('w, bool \<times> ('w, 'r) StreamHandle) state" where
  "Close_section ops h =
     (if sh_done h then ret (False, h)
      else do {
        _ \<leftarrow> so_WritesDone ops (sh_stream h);
        ret (True, h\<lparr>sh_done := True\<rparr>)
      })"

section \<open>Opening the streams\<close>

definition Client_SendEventStream :: "'w Client \<Rightarrow> 'w error_callback option \<Rightarrow> ('w, ('w, unit) StreamHandle StatusOr) state" where
  "Client_SendEventStream c on_error =
     (let s = CheckClosed c
      in if \<not> ok s then ret (Inl s)
      else do {
        stream_or \<leftarrow> OpenEventStream (cl_transport c);
        ret (case stream_or of
           Inl e \<Rightarrow> Inl e
         | Inr (h, ctx) \<Rightarrow> Inr \<lparr>sh_stream = h, sh_on_result = None, sh_on_error = on_error, sh_done = False,
             sh_opts = cl_opts c\<rparr>)
      })"

definition Client_SendEventStoreStream :: "'w Client
    \<Rightarrow> (EventStoreResult \<Rightarrow> 'w callback) option \<times> 'w error_callback option
    \<Rightarrow> ('w, ('w, EventStoreResult) StreamHandle StatusOr) state" where
  "Client_SendEventStoreStream c = (\<lambda>(on_result, on_error).
     let s = CheckClosed c
      in if \<not> ok s then ret (Inl s)
      else do {
        stream_or \<leftarrow> OpenEventStream (cl_transport c);
        ret (case stream_or of
           Inl e \<Rightarrow> Inl e
         | Inr (h, ctx) \<Rightarrow> Inr \<lparr>sh_stream = h, sh_on_result = on_result, sh_on_error = on_error, sh_done = False,
             sh_opts = cl_opts c\<rparr>)
      })"

definition Client_QueueUpstream :: "'w Client
    \<Rightarrow> (QueueUpstreamResult \<Rightarrow> 'w callback) option \<times> 'w error_callback option
    \<Rightarrow> ('w, ('w, QueueUpstreamResult) StreamHandle StatusOr) state" where
  "Client_QueueUpstream c = (\<lambda>(on_result, on_error).
     let s = CheckClosed c
      in if \<not> ok s then ret (Inl s)
      else do {
        stream_or \<leftarrow> OpenQueueUpstream (cl_transport c);
        ret (case stream_or of
           Inl e \<Rightarrow> Inl e
         | Inr (h, ctx) \<Rightarrow> Inr \<lparr>sh_stream = h, sh_on_result = on_result, sh_on_error = on_error, sh_done = False,
             sh_opts = cl_opts c\<rparr>)
      })"

interpretation op_event_stream: checked_operation Client_SendEventStream Inl "\<lambda>_ _. True"
  by unfold_locales (auto simp: Client_SendEventStream_def CheckClosed_def)

interpretation op_event_store_stream: checked_operation Client_SendEventStoreStream Inl "\<lambda>_ _. True"
  by unfold_locales (auto simp: Client_SendEventStoreStream_def CheckClosed_def case_prod_unfold)

interpretation op_queue_upstream: checked_operation Client_QueueUpstream Inl "\<lambda>_ _. True"
  by unfold_locales (auto simp: Client_QueueUpstream_def CheckClosed_def case_prod_unfold)

section \<open>A handle among threads\<close>

text \<open>
  \<open>hs_lock\<close> is the message whose write is pending under the write lock (the handle was open when the
  lock was taken), \<open>hs_joining\<close> tells that some \<^verbatim>\<open>Close\<close> or \<^verbatim>\<open>Wait\<close> is blocked in the join,
  \<open>hs_joined\<close> that the reader thread has been joined, and \<open>hs_trace\<close> what was done to the stream.
\<close>

datatype 'q handle_event = Did_write 'q | Did_writes_done | Did_finish

record ('w, 'q, 'r) handle_sys =
  hs_handle :: "('w, 'r) StreamHandle"
  hs_reader :: reader_at
  hs_lock :: "'q option"
  hs_joining :: bool
  hs_joined :: bool
  hs_trace :: "'q handle_event list"
  hs_world :: 'w

definition handle_start :: "('w, 'r) StreamHandle \<Rightarrow> 'w \<Rightarrow> ('w, 'q, 'r) handle_sys" where
  "handle_start h w = \<lparr>hs_handle = h, hs_reader = At_read, hs_lock = None, hs_joining = False,
     hs_joined = False, hs_trace = [], hs_world = w\<rparr>"

inductive handle_step :: "('w, 'q, 'a) stream_ops \<Rightarrow> (('w, 'r) StreamHandle \<Rightarrow> 'a \<Rightarrow> ('w, unit) state) \<Rightarrow> string
    \<Rightarrow> ('w, 'q, 'r) handle_sys \<Rightarrow> ('w, 'q, 'r) handle_sys \<Rightarrow> bool"
  for ops on_read op where
  send_lock: "hs_lock s = None \<Longrightarrow> \<not> sh_done (hs_handle s)
    \<Longrightarrow> handle_step ops on_read op s (s\<lparr>hs_lock := Some q\<rparr>)"
| send_write: "hs_lock s = Some q \<Longrightarrow> run_state (so_Write ops (sh_stream (hs_handle s)) q) (hs_world s) = (b, w)
    \<Longrightarrow> handle_step ops on_read op s (s\<lparr>hs_lock := None, hs_trace := hs_trace s @ [Did_write q], hs_world := w\<rparr>)"
| close_first: "hs_lock s = None \<Longrightarrow> run_state (Close_section ops (hs_handle s)) (hs_world s) = ((True, h), w)
    \<Longrightarrow> handle_step ops on_read op s (s\<lparr>hs_handle := h, hs_joining := True,
          hs_trace := hs_trace s @ [Did_writes_done], hs_world := w\<rparr>)"
| close_again: "hs_lock s = None \<Longrightarrow> run_state (Close_section ops (hs_handle s)) (hs_world s) = ((False, h), w)
    \<Longrightarrow> handle_step ops on_read op s (s\<lparr>hs_handle := h, hs_world := w\<rparr>)"
| wait: "handle_step ops on_read op s (s\<lparr>hs_joining := True\<rparr>)"
| join: "hs_joining s \<Longrightarrow> hs_reader s = At_exit \<Longrightarrow> handle_step ops on_read op s (s\<lparr>hs_joined := True\<rparr>)"
| set_callbacks: "handle_step ops on_read op s (s\<lparr>hs_handle := SetOnError e (SetOnResult r (hs_handle s))\<rparr>)"
| reader: "run_state (handle_reader_step ops on_read op (hs_reader s) (hs_handle s)) (hs_world s) = ((pos, h), w)
    \<Longrightarrow> handle_step ops on_read op s (s\<lparr>hs_reader := pos, hs_handle := h, hs_world := w,
          hs_trace := (if hs_reader s = At_finish then hs_trace s @ [Did_finish] else hs_trace s)\<rparr>)"
| world: "handle_step ops on_read op s (s\<lparr>hs_world := w\<rparr>)"

inductive_cases handle_stepE: "handle_step ops on_read op s s'"

definition handle_inv :: "('w, 'q, 'r) handle_sys \<Rightarrow> bool" where
  "handle_inv s \<longleftrightarrow>
     (\<exists>qs. filter (\<lambda>e. e \<noteq> Did_finish) (hs_trace s) =
        map Did_write qs @ (if Did_writes_done \<in> set (hs_trace s) then [Did_writes_done] else []))
     \<and> (Did_writes_done \<in> set (hs_trace s) \<longrightarrow> sh_done (hs_handle s) \<and> hs_lock s = None)
     \<and> count_list (hs_trace s) Did_finish = (if hs_reader s = At_exit then 1 else 0)
     \<and> (hs_reader s = At_finish \<or> hs_reader s = At_exit \<longrightarrow> sh_done (hs_handle s))
     \<and> (hs_joined s \<longrightarrow> hs_reader s = At_exit)"

lemma Close_section_first:
  assumes "run_state (Close_section ops h) w = ((True, h'), w')"
  shows "\<not> sh_done h" "h' = h\<lparr>sh_done := True\<rparr>"
  using assms by (auto simp: Close_section_def case_prod_unfold split: if_splits)

lemma Close_section_again:
  assumes "run_state (Close_section ops h) w = ((False, h'), w')"
  shows "sh_done h" "h' = h" "w' = w"
  using assms by (auto simp: Close_section_def case_prod_unfold split: if_splits)

lemma reader_step_done:
  assumes "run_state (handle_reader_step ops on_read op pos h) w = ((pos', h'), w')"
  shows "(h' = h \<or> h' = h\<lparr>sh_done := True\<rparr>) \<and> (pos' = At_finish \<longrightarrow> sh_done h')
    \<and> (pos' = At_exit \<longleftrightarrow> pos = At_finish \<or> pos = At_exit) \<and> (pos = At_finish \<or> pos = At_exit \<longrightarrow> h' = h)"
  using assms by (cases pos) (auto simp: case_prod_unfold split: option.splits)

lemma handle_inv_step:
  assumes "handle_step ops on_read op s s'" "handle_inv s"
  shows "handle_inv s'"
  using assms(1)
proof (cases rule: handle_step.cases)
  case (send_write q b w)
  then have "Did_writes_done \<notin> set (hs_trace s)" using assms(2) by (auto simp: handle_inv_def)
  then obtain qs where "filter (\<lambda>e. e \<noteq> Did_finish) (hs_trace s) = map Did_write qs"
    using assms(2) by (auto simp: handle_inv_def)
  then have "filter (\<lambda>e. e \<noteq> Did_finish) (hs_trace s @ [Did_write q]) = map Did_write (qs @ [q])" by simp
  then show ?thesis
    using assms(2) send_write \<open>Did_writes_done \<notin> set (hs_trace s)\<close>
    unfolding handle_inv_def by (auto simp del: filter_append intro: exI [of _ "qs @ [q]"])
next
  case (close_first h w)
  note c = Close_section_first [OF close_first(3)]
  then have "Did_writes_done \<notin> set (hs_trace s)" using assms(2) by (auto simp: handle_inv_def)
  then show ?thesis using assms(2) close_first c by (auto simp: handle_inv_def)
next
  case (close_again h w)
  then show ?thesis using assms(2) Close_section_again [OF close_again(3)] by (simp add: handle_inv_def)
next
  case (set_callbacks e r)
  then show ?thesis using assms(2) by (simp add: handle_inv_def SetOnError_def SetOnResult_def)
next
  case (reader pos h w)
  then show ?thesis
    using assms(2) reader_step_done [OF reader(2)] by (auto simp: handle_inv_def)
qed (use assms(2) in \<open>auto simp: handle_inv_def\<close>)

lemma handle_inv_reachable:
  "(handle_step ops on_read op)\<^sup>*\<^sup>* (handle_start h w) s \<Longrightarrow> \<not> sh_done h \<Longrightarrow> handle_inv s"
proof (induction rule: rtranclp_induct)
  case base
  then show ?case by (simp add: handle_inv_def handle_start_def)
next
  case (step y z)
  then show ?case using handle_inv_step by blast
qed


section \<open>Destroying a handle\<close>

text \<open>The destructor calls \<^verbatim>\<open>Close\<close>, which joins the reader only when it was the first to set \<^verbatim>\<open>done\<close>;
  then the members are destroyed, and destroying a \<^verbatim>\<open>std::thread\<close> that has not been joined calls
  \<^verbatim>\<open>std::terminate\<close>.\<close>

datatype destroy_result = Destroyed | Terminate_called

definition handle_destructor :: "('w, 'q, 'a) stream_ops \<Rightarrow> ('w, 'r) StreamHandle \<Rightarrow> bool
    \<Rightarrow> ('w, destroy_result) state" where
  "handle_destructor ops h joined = do {
     c \<leftarrow> Close_section ops h;
     ret (if fst c \<or> joined then Destroyed else Terminate_called)
   }"

lemma handle_destructor_result:
  "result_of (handle_destructor ops h joined) w = (if sh_done h \<and> \<not> joined then Terminate_called else Destroyed)"
  by (simp add: handle_destructor_def Close_section_def case_prod_unfold)

text \<open>C36. A handle whose stream the server ended kills the process: when the reader thread finishes by
  itself, it marks the handle as done, so the \<^verbatim>\<open>Close\<close> in the destructor returns without joining
  the thread, and destroying the handle calls \<^verbatim>\<open>std::terminate\<close>. A handle that is still open, or
  whose reader some \<^verbatim>\<open>Close\<close> or \<^verbatim>\<open>Wait\<close> has joined, is destroyed safely.\<close>

theorem ended_stream_destructor_terminates:
  assumes "\<not> sh_done h" "run_state (so_Read ops (sh_stream h)) w = (None, w1)"
  shows "(\<exists>s. (handle_step ops on_read op)\<^sup>*\<^sup>* (handle_start h w) s \<and> hs_reader s = At_exit
      \<and> \<not> hs_joining s \<and> result_of (handle_destructor ops (hs_handle s) (hs_joined s)) v = Terminate_called)
    \<and> result_of (handle_destructor ops h j) v = Destroyed
    \<and> result_of (handle_destructor ops g True) v = Destroyed"
proof -
  let ?s0 = "handle_start h w" and ?s1 = "(handle_start h w)\<lparr>hs_reader := At_store_done, hs_world := w1\<rparr>"
  let ?s2 = "?s1\<lparr>hs_reader := At_finish, hs_handle := h\<lparr>sh_done := True\<rparr>\<rparr>"
  obtain st w2 where fin: "run_state (so_Finish ops (sh_stream h)) w1 = (st, w2)" by fastforce
  obtain w3 where rep: "run_state (report_finish (h\<lparr>sh_done := True\<rparr>) op st) w2 = ((), w3)" by (metis unit.exhaust prod.exhaust)
  let ?s3 = "?s2\<lparr>hs_reader := At_exit, hs_world := w3, hs_trace := hs_trace ?s2 @ [Did_finish]\<rparr>"
  have t1: "handle_step ops on_read op ?s0 ?s1"
    using handle_step.reader [of ops on_read op ?s0 At_store_done h w1] assms(2) by (simp add: handle_start_def)
  have t2: "handle_step ops on_read op ?s1 ?s2"
    using handle_step.reader [of ops on_read op ?s1 At_finish "h\<lparr>sh_done := True\<rparr>" w1] by (simp add: handle_start_def)
  have t3: "handle_step ops on_read op ?s2 ?s3"
    using handle_step.reader [of ops on_read op ?s2 At_exit "h\<lparr>sh_done := True\<rparr>" w3] fin rep
    by (simp add: handle_start_def)
  have "(handle_step ops on_read op)\<^sup>*\<^sup>* ?s0 ?s3"
    using t1 t2 t3 by (meson converse_rtranclp_into_rtranclp rtranclp.rtrancl_refl)
  then have "\<exists>s. (handle_step ops on_read op)\<^sup>*\<^sup>* (handle_start h w) s \<and> hs_reader s = At_exit
      \<and> \<not> hs_joining s \<and> result_of (handle_destructor ops (hs_handle s) (hs_joined s)) v = Terminate_called"
    by (intro exI [of _ ?s3]) (simp add: handle_destructor_result handle_start_def)
  then show ?thesis using assms(1) by (simp add: handle_destructor_result)
qed

section \<open>What is sent and what is delivered\<close>

text \<open>The publishing streams write the same wire messages as the converters of the transport layer
  produce, and only while the handle is open: a done handle refuses with \<open>kFatal\<close> (drawing at most an
  id), a write the stream refuses is reported as \<open>kTransient\<close>.\<close>

theorem stream_sends_match_converters:
  assumes "ev_id e \<noteq> []" "es_id es \<noteq> []" "rid \<noteq> []"
  shows "run_state (EventStreamHandle_Send rand64 ops h e) w =
      run_state (write_checked ops h (EventToProto e (co_client_id (sh_opts h)) PbEvent_default)
        (Status5 kFatal ''event stream is closed'' ''EventStreamHandle::Send'' (ev_channel e) [])
        (Status5 kTransient ''failed to write to event stream'' ''EventStreamHandle::Send'' (ev_channel e) [])) w
    \<and> run_state (EventStoreStreamHandle_Send rand64 ops h es) w =
      run_state (write_checked ops h (EventStoreToProto es (co_client_id (sh_opts h)) PbEvent_default)
        (Status5 kFatal ''event store stream is closed'' ''EventStoreStreamHandle::Send'' (es_channel es) [])
        (Status5 kTransient ''failed to write to event store stream'' ''EventStoreStreamHandle::Send'' (es_channel es) [])) w
    \<and> (list_all QueueMessage_sendable ms \<and> \<not> sh_done h \<longrightarrow>
        (\<exists>q. run_state (QueueUpstreamHandle_Send rand64 ups h rid ms) w =
            (let (b, w') = run_state (so_Write ups (sh_stream h) q) w in
             (if b then Status_ok else Status5 kTransient ''failed to write to upstream stream'' ''QueueUpstreamHandle::Send'' [] [], w'))
          \<and> uq_RequestID q = rid
          \<and> run_state (map_state (QueueMessageFromProto rand) (uq_Messages q)) v = (map (queue_view (co_client_id (sh_opts h))) ms, v)))
    \<and> (sh_done h \<longrightarrow> (\<exists>s. code s = kFatal \<and> run_state (QueueUpstreamHandle_Send rand64 ups h rid ms) w = (s, w)))"
proof -
  let ?q = "QueueUpstreamRequestToProto rid ms (co_client_id (sh_opts h)) PbQueuesUpstreamRequest_default"
  have dec: "run_state (map_state (QueueMessageFromProto rand) (uq_Messages ?q)) v = (map (queue_view (co_client_id (sh_opts h))) ms, v)"
    if "list_all QueueMessage_sendable ms"
    using queue_codec.batch [OF that, of rand "co_client_id (sh_opts h)" v]
    by (simp add: QueueUpstreamRequestToProto_def PbQueuesUpstreamRequest_default_def)
  have rid: "uq_RequestID ?q = rid" by (simp add: QueueUpstreamRequestToProto_def)
  show ?thesis
    using assms dec rid
    by (auto simp: EventStreamHandle_Send_def EventStoreStreamHandle_Send_def QueueUpstreamHandle_Send_def
        EventToProto_def EventStoreToProto_def SetTags_def FirstNonEmpty_def write_checked_def Let_def
        case_prod_unfold pb_defaults Status5_def intro!: exI [of _ ?q])
qed

section \<open>Concrete instances\<close>

definition mute_ops :: "(nat, 'q, PbResult) stream_ops" where
  "mute_ops = \<lparr>so_Write = \<lambda>_ _. State (\<lambda>n. (True, Suc n)), so_Read = \<lambda>_. ret None,
     so_Finish = \<lambda>_. ret grpc_status_OK, so_WritesDone = \<lambda>_. ret True\<rparr>"

definition sample_handle :: "(nat, unit) StreamHandle" where
  "sample_handle = \<lparr>sh_stream = 1, sh_on_result = None, sh_on_error = None, sh_done = False,
     sh_opts = ClientOptions_default\<lparr>co_client_id := ''me''\<rparr>\<rparr>"

definition one_write :: "(nat, PbEvent, unit) handle_sys" where
  "one_write = (handle_start sample_handle 0)\<lparr>hs_trace := [Did_write PbEvent_default], hs_world := 1\<rparr>"


theorem ended_stream_destructor_terminates_witness:
  "\<exists>s. (handle_step (mute_ops :: (nat, PbEvent, PbResult) stream_ops) EventStream_on_read ''op'')\<^sup>*\<^sup>* (handle_start sample_handle 0) s
     \<and> hs_reader s = At_exit \<and> \<not> hs_joining s
     \<and> result_of (handle_destructor (mute_ops :: (nat, PbEvent, PbResult) stream_ops) (hs_handle s) (hs_joined s)) 0 = Terminate_called"
proof -
  have h: "\<not> sh_done sample_handle" by (simp add: sample_handle_def)
  have r: "run_state (so_Read (mute_ops :: (nat, PbEvent, PbResult) stream_ops) (sh_stream sample_handle)) 0 = (None, 0)"
    by (simp add: mute_ops_def)
  show ?thesis using ended_stream_destructor_terminates [OF h r, of EventStream_on_read "''op''" 0] by blast
qed

theorem stream_sends_match_converters_witness:
  "run_state (EventStreamHandle_Send (ret 0) mute_ops sample_handle (Event_default\<lparr>ev_id := ''e'', ev_channel := ''c''\<rparr>)) 4
     = (Status_ok, 5)"
proof -
  have h: "ev_id (Event_default\<lparr>ev_id := ''e'', ev_channel := ''c''\<rparr>) \<noteq> []"
    "es_id (EventStore_default\<lparr>es_id := ''e''\<rparr>) \<noteq> []" "''r'' \<noteq> []" by simp_all
  note t = stream_sends_match_converters [OF h, of "ret 0" mute_ops sample_handle 4 "[]" mute_ops "ret 0" "0 :: nat"]
  show ?thesis
    by (subst t [THEN conjunct1]) (simp add: write_checked_def mute_ops_def sample_handle_def)
qed

end
