(* ===== verification/Queue_Broker.thy ===== *)
theory Queue_Broker
  imports Subscriptions Client_Queues "HOL-Library.Sublist"
begin

text \<open>
  The simple queue operations against a broker.  The broker is not part of the program; what the
  README promises of its queues (messages are stored until they are consumed, in order) is the
  hypothesis \<open>queue_broker\<close> on the stub, for messages without a delivery policy.  The abstract
  specification \<open>queue_step\<close> is a set of first-in-first-out queues; the theorems show that whatever
  clients do through the SDK is what these queues would do.
\<close>

section \<open>The broker\<close>

type_synonym 'p queues = "string \<Rightarrow> 'p list"

definition enqueue :: "('p \<Rightarrow> string) \<Rightarrow> 'p list \<Rightarrow> 'p queues \<Rightarrow> 'p queues" where
  "enqueue channel ps q = (\<lambda>ch. q ch @ filter (\<lambda>p. channel p = ch) ps)"

definition immediate :: "PbQueueMessage \<Rightarrow> bool" where
  "immediate p =
     (case pq_Policy p of
        None \<Rightarrow> True
      | Some pol \<Rightarrow> pp_ExpirationSeconds pol = 0 \<and> pp_DelaySeconds pol = 0 \<and> pp_MaxReceiveCount pol = 0)"

definition content :: "PbQueueMessage \<Rightarrow> PbQueueMessage" where
  "content p = p\<lparr>pq_Attributes := None\<rparr>"

text \<open>
  A call that succeeds has the effect it reports; after a call that fails (a deadline, a lost
  connection) the effect may or may not have happened.  The broker adds attributes to the messages it
  hands out.
\<close>

definition send_law :: "'w Stub \<Rightarrow> ('w \<Rightarrow> PbQueueMessage queues) \<Rightarrow> bool" where
  "send_law stub queue \<longleftrightarrow>
     (\<forall>ctx p w st r w'. run_state (stub_SendQueueMessage stub ctx p) w = ((st, r), w') \<longrightarrow> immediate p \<longrightarrow>
        (if grpc_ok st \<and> \<not> sq_IsError r then queue w' = enqueue pq_Channel [p] (queue w)
         else queue w' \<in> {queue w, enqueue pq_Channel [p] (queue w)}))"

definition batch_law :: "'w Stub \<Rightarrow> ('w \<Rightarrow> PbQueueMessage queues) \<Rightarrow> bool" where
  "batch_law stub queue \<longleftrightarrow>
     (\<forall>ctx b w st r w'. run_state (stub_SendQueueMessagesBatch stub ctx b) w = ((st, r), w') \<longrightarrow>
        list_all immediate (bq_Messages b) \<longrightarrow>
        (if grpc_ok st
         then length (bp_Results r) = length (bq_Messages b)
           \<and> queue w' = enqueue pq_Channel
               (map fst (filter (\<lambda>(p, res). \<not> sq_IsError res) (zip (bq_Messages b) (bp_Results r)))) (queue w)
         else \<exists>ps. subseq ps (bq_Messages b) \<and> queue w' = enqueue pq_Channel ps (queue w)))"

definition receive_law :: "'w Stub \<Rightarrow> ('w \<Rightarrow> PbQueueMessage queues) \<Rightarrow> bool" where
  "receive_law stub queue \<longleftrightarrow>
     (\<forall>ctx q w st r w'. run_state (stub_ReceiveQueueMessages stub ctx q) w = ((st, r), w') \<longrightarrow>
        (let ch = rr_Channel q; n = nat (rr_MaxNumberOfMessages q)
         in if grpc_ok st \<and> \<not> ro_IsError r
            then map content (ro_Messages r) = map content (take n (queue w ch))
              \<and> queue w' = (if rr_IsPeak q then queue w else (queue w)(ch := drop n (queue w ch)))
            else \<exists>k. queue w' = (queue w)(ch := drop k (queue w ch))))"

definition ack_all_law :: "'w Stub \<Rightarrow> ('w \<Rightarrow> PbQueueMessage queues) \<Rightarrow> bool" where
  "ack_all_law stub queue \<longleftrightarrow>
     (\<forall>ctx q w st r w'. run_state (stub_AckAllQueueMessages stub ctx q) w = ((st, r), w') \<longrightarrow>
        (let ch = aq_Channel q
         in if grpc_ok st \<and> \<not> ao_IsError r
            then ao_AffectedMessages r = of_nat (length (queue w ch)) \<and> queue w' = (queue w)(ch := [])
            else queue w' \<in> {queue w, (queue w)(ch := [])}))"

definition queue_broker :: "'w Stub \<Rightarrow> ('w \<Rightarrow> PbQueueMessage queues) \<Rightarrow> ('w, 64 word) state \<Rightarrow> bool" where
  "queue_broker stub queue rand64 \<longleftrightarrow>
     send_law stub queue \<and> batch_law stub queue \<and> receive_law stub queue \<and> ack_all_law stub queue
     \<and> (\<forall>w. queue (world_of rand64 w) = queue w)"

section \<open>Clients\<close>

datatype queue_call = Put QueueMessage | Put_all "QueueMessage list" | Take ReceiveQueueMessagesRequest
  | Ack_all AckAllQueueMessagesRequest

datatype queue_answer = Stored "bool list" | Taken "QueueMessage list" | Dropped "64 word" | Failed

definition without_attributes :: "QueueMessage \<Rightarrow> QueueMessage" where
  "without_attributes m = m\<lparr>qm_attributes := QueueMessageAttributes_default\<rparr>"

text \<open>A call of the SDK, and what its caller sees of the result.\<close>

fun queue_call_run :: "('w, 64 word) state \<Rightarrow> 'w Client \<Rightarrow> queue_call \<Rightarrow> ('w, queue_answer) state" where
  "queue_call_run rand64 c (Put m) = do {
     r \<leftarrow> Client_SendQueueMessage c m;
     ret (case r of Inr _ \<Rightarrow> Stored [True] | Inl _ \<Rightarrow> Failed)
   }"
| "queue_call_run rand64 c (Put_all ms) = do {
     r \<leftarrow> Client_SendQueueMessages rand64 c ms;
     ret (case r of Inr results \<Rightarrow> Stored (map (\<lambda>s. \<not> qs_is_error s) results) | Inl _ \<Rightarrow> Failed)
   }"
| "queue_call_run rand64 c (Take q) = do {
     r \<leftarrow> Client_ReceiveQueueMessages rand64 c q;
     ret (case r of Inr resp \<Rightarrow> Taken (map without_attributes (rmo_messages resp)) | Inl _ \<Rightarrow> Failed)
   }"
| "queue_call_run rand64 c (Ack_all q) = do {
     r \<leftarrow> Client_AckAllQueueMessages rand64 c q;
     ret (case r of Inr resp \<Rightarrow> Dropped (ako_affected_messages resp) | Inl _ \<Rightarrow> Failed)
   }"

definition immediate_message :: "QueueMessage \<Rightarrow> bool" where
  "immediate_message m = (QueueMessage_sendable m \<and> qp_expiration_seconds (qm_policy m) = 0
     \<and> qp_delay_seconds (qm_policy m) = 0 \<and> qp_max_receive_count (qm_policy m) = 0)"

fun immediate_call :: "queue_call \<Rightarrow> bool" where
  "immediate_call (Put m) = immediate_message m"
| "immediate_call (Put_all ms) = list_all immediate_message ms"
| "immediate_call _ = True"

text \<open>A client of this broker: open, and authenticated by a fixed token if at all.\<close>

definition broker_client :: "'w Stub \<Rightarrow> 'w Client \<Rightarrow> bool" where
  "broker_client stub c = (\<not> cl_closed c \<and> \<not> gt_closed (cl_transport c) \<and> gt_stub (cl_transport c) = stub
     \<and> co_credential_provider (gt_opts (cl_transport c)) = None)"

fun run_script :: "('w, 64 word) state \<Rightarrow> ('w Client \<times> queue_call) list \<Rightarrow> ('w, queue_answer list) state" where
  "run_script rand64 [] = ret []"
| "run_script rand64 ((c, call) # script) = do {
     a \<leftarrow> queue_call_run rand64 c call;
     as \<leftarrow> run_script rand64 script;
     ret (a # as)
   }"

section \<open>The abstract queues\<close>

inductive queue_step :: "'w Client \<Rightarrow> QueueMessage queues \<Rightarrow> queue_call \<Rightarrow> queue_answer \<Rightarrow> QueueMessage queues \<Rightarrow> bool"
  for c :: "'w Client" where
  put: "queue_step c q (Put m) (Stored [True]) (enqueue qm_channel [queue_view (co_client_id (cl_opts c)) m] q)"
| put_refused: "queue_step c q (Put m) Failed q"
| put_unknown: "queue_step c q (Put m) Failed (enqueue qm_channel [queue_view (co_client_id (cl_opts c)) m] q)"
| put_all: "length accepted = length ms
    \<Longrightarrow> queue_step c q (Put_all ms) (Stored accepted)
      (enqueue qm_channel (map (queue_view (co_client_id (cl_opts c)) \<circ> fst) (filter snd (zip ms accepted))) q)"
| put_all_failed: "subseq stored ms
    \<Longrightarrow> queue_step c q (Put_all ms) Failed (enqueue qm_channel (map (queue_view (co_client_id (cl_opts c))) stored) q)"
| taken: "ch = effective_channel c (rmq_channel rq) \<Longrightarrow> n = nat (rmq_max_number_of_messages rq)
    \<Longrightarrow> queue_step c q (Take rq) (Taken (take n (q ch)))
      (if rmq_is_peek rq then q else q(ch := drop n (q ch)))"
| take_failed: "ch = effective_channel c (rmq_channel rq) \<Longrightarrow> queue_step c q (Take rq) Failed (q(ch := drop k (q ch)))"
| dropped: "ch = effective_channel c (akq_channel aq)
    \<Longrightarrow> queue_step c q (Ack_all aq) (Dropped (of_nat (length (q ch)))) (q(ch := []))"
| drop_refused: "queue_step c q (Ack_all aq) Failed q"
| drop_unknown: "queue_step c q (Ack_all aq) Failed (q(effective_channel c (akq_channel aq) := []))"

inductive queue_run :: "QueueMessage queues \<Rightarrow> ('w Client \<times> queue_call) list \<Rightarrow> queue_answer list \<Rightarrow> QueueMessage queues \<Rightarrow> bool" where
  run_nil: "queue_run q [] [] q"
| run_cons: "queue_step c q call a q' \<Longrightarrow> queue_run q' script as q'' \<Longrightarrow> queue_run q ((c, call) # script) (a # as) q''"

inductive_cases queue_runE: "queue_run q ((c, call) # script) as q'"
inductive_cases queue_run_nilE: "queue_run q [] as q'"
inductive_simps queue_step_stored: "queue_step c q call (Stored accepted) q'"
inductive_simps queue_step_taken: "queue_step c q call (Taken ms) q'"


section \<open>Refinement\<close>

context guarded_rpc
begin

text \<open>An open transport without a credential provider runs the RPC at once.\<close>

lemma without_provider:
  assumes "\<not> gt_closed t" "co_credential_provider (gt_opts t) = None"
  obtains ctx where "run_state (call t q) w =
    (let (p, w') = run_state (rpc (gt_stub t) ctx q) w in (finish q ctx p, w'))"
proof -
  have "result_of (token t) w = Inr (co_auth_token (gt_opts t))" "world_of (token t) w = w"
    using assms(2) by (simp_all add: token_of_def)
  then show thesis using that authorized [OF assms(1)] by (simp add: Let_def)
qed

end

lemma enqueue_simps [simp]:
  "enqueue f [] q = q" "enqueue f [x] q = q(f x := q (f x) @ [x])"
  by (auto simp: enqueue_def)

definition encodes :: "PbQueueMessage \<Rightarrow> QueueMessage \<Rightarrow> bool" where
  "encodes p v \<longleftrightarrow> (\<exists>m cid. QueueMessage_sendable m \<and> content p = QueueMessageToProto m cid PbQueueMessage_default
     \<and> v = queue_view cid m)"

definition queue_rel :: "PbQueueMessage queues \<Rightarrow> QueueMessage queues \<Rightarrow> bool" where
  "queue_rel Q S \<longleftrightarrow> (\<forall>ch. list_all2 encodes (Q ch) (S ch))"

lemma content_content [simp]: "content (content p) = content p"
  by (simp add: content_def)

lemma encodes_content: "encodes (content p) v = encodes p v"
  by (simp add: encodes_def)

lemma content_encoded: "content (QueueMessageToProto m cid PbQueueMessage_default) = QueueMessageToProto m cid PbQueueMessage_default"
  by (simp add: content_def QueueMessageToProto_def PbQueueMessage_default_def Let_def)

lemma encodes_sent: "QueueMessage_sendable m \<Longrightarrow> encodes (QueueMessageToProto m cid PbQueueMessage_default) (queue_view cid m)"
  unfolding encodes_def by (intro exI [of _ m] exI [of _ cid]) (simp add: content_encoded)

lemma encoded_fields [simp]:
  "pq_Channel (QueueMessageToProto m cid p) = qm_channel m" "qm_channel (queue_view cid m) = qm_channel m"
  by (simp_all add: QueueMessageToProto_def queue_view_def Let_def)

lemma encodes_channel: "encodes p v \<Longrightarrow> pq_Channel p = qm_channel v"
proof -
  have "pq_Channel (content p) = pq_Channel p" by (simp add: content_def)
  then show "encodes p v \<Longrightarrow> pq_Channel p = qm_channel v" by (auto simp: encodes_def)
qed

text \<open>Decoding what the broker hands out: the attributes it has added do not matter.\<close>

lemma decode_view:
  assumes "encodes p v"
  shows "\<exists>m. run_state (QueueMessageFromProto rand64 p) w = (m, w) \<and> without_attributes m = v"
proof -
  obtain m cid where m: "QueueMessage_sendable m" "content p = QueueMessageToProto m cid PbQueueMessage_default"
    "v = queue_view cid m" using assms by (auto simp: encodes_def)
  have d: "run_state (QueueMessageFromProto rand64 (content p)) w = (v, w)"
    using queue_codec.decode_encode [OF m(1)] m(2,3) by simp
  have n: "pq_MessageID p \<noteq> []" "pq_Channel p \<noteq> []" "pq_Body p \<noteq> [] \<or> pq_Metadata p \<noteq> []"
    using m(1) arg_cong [OF m(2), of pq_MessageID] arg_cong [OF m(2), of pq_Channel]
      arg_cong [OF m(2), of pq_Body] arg_cong [OF m(2), of pq_Metadata]
    by (auto simp: content_def QueueMessageToProto_def Let_def QueueMessage_sendable_def QueueMessage_valid_def plain_valid_def)
  show ?thesis
    using d n m(3)
    by (auto simp: QueueMessageFromProto_def content_def Let_def QueueMessage_Build_def setter_defs without_attributes_def
        queue_view_def sdk_defaults case_prod_unfold split: option.splits)
qed

lemma decode_views:
  "list_all2 encodes ps vs \<Longrightarrow> \<exists>ms. run_state (map_state (QueueMessageFromProto rand64) ps) w = (ms, w)
     \<and> map without_attributes ms = vs"
proof (induction ps vs rule: list_all2_induct)
  case (Cons p ps v vs)
  then show ?case using decode_view [OF Cons(1), of rand64 w] by force
qed simp

lemma queue_rel_take: "queue_rel Q S \<Longrightarrow> list_all2 encodes (take n (Q ch)) (take n (S ch))"
  by (simp add: queue_rel_def list_all2_takeI)

lemma queue_rel_drop: "queue_rel Q S \<Longrightarrow> queue_rel (Q(ch := drop n (Q ch))) (S(ch := drop n (S ch)))"
  by (simp add: queue_rel_def list_all2_dropI)

lemma queue_rel_clear: "queue_rel Q S \<Longrightarrow> queue_rel (Q(ch := [])) (S(ch := []))"
  by (simp add: queue_rel_def)

lemma queue_rel_enqueue:
  assumes "queue_rel Q S" "list_all2 encodes ps vs"
  shows "queue_rel (enqueue pq_Channel ps Q) (enqueue qm_channel vs S)"
proof -
  have "list_all2 encodes (filter (\<lambda>p. pq_Channel p = ch) ps) (filter (\<lambda>v. qm_channel v = ch) vs)" for ch
    using assms(2) by (induction ps vs rule: list_all2_induct) (auto dest: encodes_channel)
  then show ?thesis using assms(1) by (auto simp: queue_rel_def enqueue_def intro: list_all2_appendI)
qed

lemma content_list_encodes:
  "map content ps = map content qs \<Longrightarrow> list_all2 encodes qs vs \<Longrightarrow> list_all2 encodes ps vs"
  by (auto simp: list_all2_conv_all_nth list_eq_iff_nth_eq) (metis encodes_content)

lemma immediate_encoded: "immediate_message m \<Longrightarrow> immediate (QueueMessageToProto m cid PbQueueMessage_default)"
  by (simp add: immediate_message_def immediate_def QueueMessageToProto_def Let_def PbQueueMessage_default_def to_int32_id)

lemma immediate_sendable: "immediate_message m \<Longrightarrow> QueueMessage_sendable m"
  by (simp add: immediate_message_def)

lemma sendable_channel: "QueueMessage_sendable m \<Longrightarrow> effective_channel c (qm_channel m) = qm_channel m"
  by (auto simp: effective_channel_def QueueMessage_sendable_def QueueMessage_valid_def plain_valid_def)

lemma uuid_keeps_queues: "queue_broker stub queue rand64 \<Longrightarrow> queue (world_of (GenerateUUID rand64) w) = queue w"
  by (simp add: GenerateUUID_def case_prod_unfold queue_broker_def)

lemma fresh_id_keeps_queues: "queue_broker stub queue rand64 \<Longrightarrow> queue (world_of (fresh_id rand64 i) w) = queue w"
  by (simp add: fresh_id_def uuid_keeps_queues)

lemma put_step:
  assumes "queue_broker stub queue rand64" "broker_client stub c" "immediate_message m" "queue_rel (queue w) S"
    and run: "run_state (queue_call_run rand64 c (Put m)) w = (a, w')"
  shows "\<exists>S'. queue_step c S (Put m) a S' \<and> queue_rel (queue w') S'"
proof (cases "valid_message c m")
  case False
  then obtain s where "run_state (Client_SendQueueMessage c m) w = (Inl s, w)"
    using op_send_queue.refused [of c m w] by (auto simp: valid_message_def)
  then have "a = Failed" "w' = w" using run by auto
  then show ?thesis using assms(4) put_refused [of c S m] by auto
next
  case True
  let ?p = "QueueMessageToProto m (co_client_id (cl_opts c)) PbQueueMessage_default"
  note s = immediate_sendable [OF assms(3)]
  have p: "?p\<lparr>pq_Channel := qm_channel m\<rparr> = ?p"
    by (simp add: QueueMessageToProto_def PbQueueMessage_default_def Let_def)
  obtain ctx where t: "run_state (GrpcTransport_SendQueueMessage (cl_transport c) ?p) w =
      (let (r, w') = run_state (stub_SendQueueMessage stub ctx ?p) w
       in (reply_or ''GrpcTransport::SendQueueMessage'' (pq_Channel ?p) r, w'))"
    using rpc_send_queue.without_provider [of "cl_transport c" ?p w] assms(2) by (auto simp: broker_client_def)
  obtain st r v where st: "run_state (stub_SendQueueMessage stub ctx ?p) w = ((st, r), v)" by (metis prod.exhaust)
  have law: "if grpc_ok st \<and> \<not> sq_IsError r then queue v = enqueue pq_Channel [?p] (queue w)
      else queue v \<in> {queue w, enqueue pq_Channel [?p] (queue w)}"
    using assms(1) st immediate_encoded [OF assms(3)] unfolding queue_broker_def send_law_def by blast
  have res: "w' = v \<and> a = (if grpc_ok st \<and> \<not> sq_IsError r then Stored [True] else Failed)"
    using run t st True assms(2)
    by (auto simp: p Client_SendQueueMessage_def CheckClosed_def broker_client_def valid_message_def valid_send_def
        status_simps Let_def sendable_channel [OF s] QueueSendResultFromProto_def reply_or_def sdk_defaults split: if_splits)
  have rel: "queue_rel (enqueue pq_Channel [?p] (queue w)) (enqueue qm_channel [queue_view (co_client_id (cl_opts c)) m] S)"
    by (rule queue_rel_enqueue [OF assms(4)]) (simp add: encodes_sent [OF s])
  show ?thesis
    using law res rel assms(4) put [of c S m] put_refused [of c S m] put_unknown [of c S m]
    by (auto simp del: enqueue_simps split: if_splits)
qed

lemma encodes_all: "list_all QueueMessage_sendable ms \<Longrightarrow>
    list_all2 encodes (map (\<lambda>m. QueueMessageToProto m cid PbQueueMessage_default) ms) (map (queue_view cid) ms)"
  by (induction ms) (auto simp: encodes_sent)

lemma filter_zip_map: "map fst (filter (\<lambda>(p, r). P r) (zip (map f xs) rs)) = map (f \<circ> fst) (filter snd (zip xs (map P rs)))"
  by (induction xs rs rule: list_induct2') auto

lemma in_filter_zip: "list_all Q xs \<Longrightarrow> list_all Q (map fst (filter snd (zip xs bs)))"
  by (induction xs bs rule: list_induct2') auto

lemma subseq_map_split: "subseq ps (map f xs) \<Longrightarrow> \<exists>ys. subseq ys xs \<and> ps = map f ys"
proof (induction xs arbitrary: ps)
  case (Cons x xs)
  show ?case
  proof (cases ps)
    case Nil
    then show ?thesis by (intro exI [of _ "[]"]) simp
  next
    case (Cons a l)
    show ?thesis
    proof (cases "a = f x")
      case True
      then have "subseq l (map f xs)" using Cons Cons.prems by simp
      from Cons.IH [OF this] obtain ys where "subseq ys xs" "l = map f ys" by blast
      then show ?thesis using Cons True by (intro exI [of _ "x # ys"]) simp
    next
      case False
      then have "subseq ps (map f xs)" using Cons Cons.prems by simp
      from Cons.IH [OF this] show ?thesis using subseq_Cons' by (metis list_emb_Cons)
    qed
  qed
qed (auto dest: list_emb_Nil2)

lemma subseq_list_all: "subseq ys xs \<Longrightarrow> list_all P xs \<Longrightarrow> list_all P ys"
  by (induction rule: list_emb.induct) auto

lemma put_all_step:
  assumes "queue_broker stub queue rand64" "broker_client stub c" "list_all immediate_message ms" "queue_rel (queue w) S"
    and run: "run_state (queue_call_run rand64 c (Put_all ms)) w = (a, w')"
  shows "\<exists>S'. queue_step c S (Put_all ms) a S' \<and> queue_rel (queue w') S'"
proof -
  let ?cid = "co_client_id (cl_opts c)"
  let ?f = "\<lambda>m. QueueMessageToProto m ?cid PbQueueMessage_default"
  have s: "list_all QueueMessage_sendable ms" using assms(3) by (auto simp: list_all_iff immediate_sendable)
  have c: "\<not> cl_closed c" using assms(2) by (simp add: broker_client_def)
  have none: "\<exists>S'. queue_step c S (Put_all ms) Failed S' \<and> queue_rel (queue w) S'"
    using put_all_failed [of "[]" ms c S] assms(4) by auto
  show ?thesis
  proof (cases "ms \<noteq> [] \<and> list_all (valid_message c) ms")
    case False
    have "\<exists>e u. run_state (Client_SendQueueMessages rand64 c ms) w = (Inl e, u) \<and> queue u = queue w"
    proof (cases "ms = []")
      case True
      then show ?thesis using c by (simp add: Client_SendQueueMessages_def CheckClosed_def)
    next
      case False
      with \<open>\<not> (ms \<noteq> [] \<and> list_all (valid_message c) ms)\<close> show ?thesis
        using batch_all_or_nothing [OF c, of ms rand64 w] uuid_keeps_queues [OF assms(1)] by auto
    qed
    then show ?thesis using run none by auto
  next
    case True
    define u where "u = world_of (GenerateUUID rand64) w"
    define b where "b = \<lparr>bq_BatchID = result_of (GenerateUUID rand64) w, bq_Messages = map ?f ms\<rparr>"
    have e: "map (batch_entry c) ms = map ?f ms"
      using s by (auto simp: batch_entry_def list_all_iff sendable_channel)
    obtain ctx where t: "run_state (GrpcTransport_SendQueueMessagesBatch (cl_transport c) b) u =
        (let (r, w') = run_state (stub_SendQueueMessagesBatch stub ctx b) u
         in (reply_or ''GrpcTransport::SendQueueMessagesBatch'' [] r, w'))"
      using rpc_send_batch.without_provider [of "cl_transport c" b u] assms(2) by (auto simp: broker_client_def)
    obtain st r v where st: "run_state (stub_SendQueueMessagesBatch stub ctx b) u = ((st, r), v)" by (metis prod.exhaust)
    have q: "queue u = queue w" unfolding u_def by (rule uuid_keeps_queues [OF assms(1)])
    have im: "list_all immediate (bq_Messages b)"
      using assms(3) by (auto simp: b_def list_all_iff immediate_encoded)
    have law: "if grpc_ok st then length (bp_Results r) = length (bq_Messages b)
           \<and> queue v = enqueue pq_Channel (map fst (filter (\<lambda>(p, res). \<not> sq_IsError res) (zip (bq_Messages b) (bp_Results r)))) (queue w)
         else \<exists>ps. subseq ps (bq_Messages b) \<and> queue v = enqueue pq_Channel ps (queue w)"
      using assms(1) st im unfolding queue_broker_def batch_law_def q [symmetric] by blast
    have res: "w' = v \<and> a = (if grpc_ok st then Stored (map (\<lambda>res. \<not> sq_IsError res) (bp_Results r)) else Failed)"
      using run t st True batch_all_or_nothing [OF c, of ms rand64 w] e
      by (auto simp: u_def b_def case_prod_unfold reply_or_def QueueSendResultFromProto_def sdk_defaults comp_def split: if_splits)
    show ?thesis
    proof (cases "grpc_ok st")
      case True
      define acc where "acc = map (\<lambda>res. \<not> sq_IsError res) (bp_Results r)"
      have l: "length acc = length ms" using law True by (simp add: acc_def b_def)
      have "queue v = enqueue pq_Channel (map ?f (map fst (filter snd (zip ms acc)))) (queue w)"
        using law True filter_zip_map [of "\<lambda>res. \<not> sq_IsError res" ?f ms "bp_Results r"] by (simp add: b_def acc_def)
      then have "queue_rel (queue v) (enqueue qm_channel (map (queue_view ?cid) (map fst (filter snd (zip ms acc)))) S)"
        using queue_rel_enqueue [OF assms(4) encodes_all [OF in_filter_zip [OF s]]] by metis
      then show ?thesis
        using put_all [OF l, of c S] res True by (auto simp: acc_def)
    next
      case False
      then obtain ps where ps: "subseq ps (map ?f ms)" "queue v = enqueue pq_Channel ps (queue w)"
        using law by (auto simp: b_def)
      from subseq_map_split [OF ps(1)] obtain ys where ys: "subseq ys ms" "ps = map ?f ys" by blast
      have "queue_rel (queue v) (enqueue qm_channel (map (queue_view ?cid) ys) S)"
        unfolding ps(2) ys(2) by (rule queue_rel_enqueue [OF assms(4) encodes_all [OF subseq_list_all [OF ys(1) s]]])
      then show ?thesis using put_all_failed [OF ys(1), of c S] res False by auto
    qed
  qed
qed

lemma take_step:
  assumes "queue_broker stub queue rand64" "broker_client stub c" "queue_rel (queue w) S"
    and run: "run_state (queue_call_run rand64 c (Take rq)) w = (a, w')"
  shows "\<exists>S'. queue_step c S (Take rq) a S' \<and> queue_rel (queue w') S'"
proof -
  define ch where "ch = effective_channel c (rmq_channel rq)"
  have c: "\<not> cl_closed c" using assms(2) by (simp add: broker_client_def)
  show ?thesis
  proof (cases "channel_wf ch")
    case False
    then obtain s where "run_state (Client_ReceiveQueueMessages rand64 c rq) w = (Inl s, w)"
      using op_receive.refused [of c rq rand64 w] by (auto simp: ch_def)
    then have "a = Failed" "w' = w" using run by auto
    then show ?thesis using assms(3) take_failed [OF refl, of c S rq 0] by auto
  next
    case True
    define u where "u = world_of (fresh_id rand64 (rmq_request_id rq)) w"
    define p where "p = PbReceiveQueueMessagesRequest_default\<lparr>rr_RequestID := result_of (fresh_id rand64 (rmq_request_id rq)) w,
        rr_ClientID := effective_client_id c (rmq_client_id rq), rr_Channel := ch,
        rr_MaxNumberOfMessages := rmq_max_number_of_messages rq,
        rr_WaitTimeSeconds := rmq_wait_time_seconds rq, rr_IsPeak := rmq_is_peek rq\<rparr>"
    have p_fields: "rr_Channel p = ch" "rr_MaxNumberOfMessages p = rmq_max_number_of_messages rq"
      "rr_IsPeak p = rmq_is_peek rq" by (simp_all add: p_def)
    obtain ctx where t: "run_state (GrpcTransport_ReceiveQueueMessages (cl_transport c) p) u =
        (let (r, w') = run_state (stub_ReceiveQueueMessages stub ctx p) u
         in (reply_or ''GrpcTransport::ReceiveQueueMessages'' (rr_Channel p) r, w'))"
      using rpc_receive.without_provider [of "cl_transport c" p u] assms(2) by (auto simp: broker_client_def)
    obtain st r v where st: "run_state (stub_ReceiveQueueMessages stub ctx p) u = ((st, r), v)" by (metis prod.exhaust)
    have q: "queue u = queue w" unfolding u_def by (rule fresh_id_keeps_queues [OF assms(1)])
    let ?n = "nat (rmq_max_number_of_messages rq)"
    have law: "if grpc_ok st \<and> \<not> ro_IsError r
        then map content (ro_Messages r) = map content (take ?n (queue w ch))
          \<and> queue v = (if rmq_is_peek rq then queue w else (queue w)(ch := drop ?n (queue w ch)))
        else \<exists>k. queue v = (queue w)(ch := drop k (queue w ch))"
    proof -
      have "receive_law stub queue" using assms(1) by (simp add: queue_broker_def)
      from this [unfolded receive_law_def, rule_format, OF st] show ?thesis
        unfolding Let_def q p_fields .
    qed
    show ?thesis
    proof (cases "grpc_ok st \<and> \<not> ro_IsError r")
      case True
      have "list_all2 encodes (ro_Messages r) (take ?n (S ch))"
        using law True queue_rel_take [OF assms(3)] by (auto intro: content_list_encodes)
      from decode_views [OF this, of rand64 v] obtain ms
        where ms: "run_state (map_state (QueueMessageFromProto rand64) (ro_Messages r)) v = (ms, v)"
          "map without_attributes ms = take ?n (S ch)" by blast
      have "a = Taken (take ?n (S ch))" "w' = v"
        using run t st True ms \<open>channel_wf ch\<close> c
        by (auto simp: Client_ReceiveQueueMessages_def CheckClosed_def status_simps Let_def case_prod_unfold
            ch_def [symmetric] p_def [symmetric] u_def [symmetric] reply_or_def ReceiveQueueMessagesResponse_default_def)
      moreover have "queue_rel (queue v) (if rmq_is_peek rq then S else S(ch := drop ?n (S ch)))"
        using law True assms(3) queue_rel_drop [OF assms(3)] by auto
      ultimately show ?thesis using taken [OF ch_def refl, of S] by blast
    next
      case False
      then obtain k where k: "queue v = (queue w)(ch := drop k (queue w ch))" using law by auto
      have "a = Failed" "w' = v"
        using run t st False \<open>channel_wf ch\<close> c
        by (auto simp: Client_ReceiveQueueMessages_def CheckClosed_def status_simps Let_def case_prod_unfold
            ch_def [symmetric] p_def [symmetric] u_def [symmetric] reply_or_def split: if_splits)
      then show ?thesis using k queue_rel_drop [OF assms(3)] take_failed [OF ch_def, of S k] by auto
    qed
  qed
qed

lemma ack_all_step:
  assumes "queue_broker stub queue rand64" "broker_client stub c" "queue_rel (queue w) S"
    and run: "run_state (queue_call_run rand64 c (Ack_all aq)) w = (a, w')"
  shows "\<exists>S'. queue_step c S (Ack_all aq) a S' \<and> queue_rel (queue w') S'"
proof -
  define ch where "ch = effective_channel c (akq_channel aq)"
  have c: "\<not> cl_closed c" using assms(2) by (simp add: broker_client_def)
  show ?thesis
  proof (cases "channel_wf ch")
    case False
    then obtain s where "run_state (Client_AckAllQueueMessages rand64 c aq) w = (Inl s, w)"
      using op_ack_all.refused [of c aq rand64 w] by (auto simp: ch_def)
    then have "a = Failed" "w' = w" using run by auto
    then show ?thesis using assms(3) drop_refused [of c S aq] by auto
  next
    case True
    define u where "u = world_of (fresh_id rand64 (akq_request_id aq)) w"
    define p where "p = PbAckAllQueueMessagesRequest_default\<lparr>aq_RequestID := result_of (fresh_id rand64 (akq_request_id aq)) w,
        aq_ClientID := effective_client_id c (akq_client_id aq), aq_Channel := ch,
        aq_WaitTimeSeconds := akq_wait_time_seconds aq\<rparr>"
    have p_field: "aq_Channel p = ch" by (simp add: p_def)
    obtain ctx where t: "run_state (GrpcTransport_AckAllQueueMessages (cl_transport c) p) u =
        (let (r, w') = run_state (stub_AckAllQueueMessages stub ctx p) u
         in (reply_or ''GrpcTransport::AckAllQueueMessages'' (aq_Channel p) r, w'))"
      using rpc_ack_all.without_provider [of "cl_transport c" p u] assms(2) by (auto simp: broker_client_def)
    obtain st r v where st: "run_state (stub_AckAllQueueMessages stub ctx p) u = ((st, r), v)" by (metis prod.exhaust)
    have q: "queue u = queue w" unfolding u_def by (rule fresh_id_keeps_queues [OF assms(1)])
    have law: "if grpc_ok st \<and> \<not> ao_IsError r
        then ao_AffectedMessages r = of_nat (length (queue w ch)) \<and> queue v = (queue w)(ch := [])
        else queue v \<in> {queue w, (queue w)(ch := [])}"
    proof -
      have "ack_all_law stub queue" using assms(1) by (simp add: queue_broker_def)
      from this [unfolded ack_all_law_def, rule_format, OF st] show ?thesis
        unfolding Let_def q p_field .
    qed
    have len: "length (queue w ch) = length (S ch)"
      using assms(3) by (auto simp: queue_rel_def dest: list_all2_lengthD)
    have res: "w' = v \<and> a = (if grpc_ok st \<and> \<not> ao_IsError r then Dropped (ao_AffectedMessages r) else Failed)"
      using run t st True c
      by (auto simp: Client_AckAllQueueMessages_def CheckClosed_def status_simps Let_def case_prod_unfold
          ch_def [symmetric] p_def [symmetric] u_def [symmetric] reply_or_def AckAllQueueMessagesResponse_default_def split: if_splits)
    show ?thesis
      using law res len assms(3) queue_rel_clear [OF assms(3), of ch] dropped [OF ch_def, of S]
        drop_refused [of c S aq] drop_unknown [of c S aq]
      by (auto simp: ch_def [symmetric] split: if_splits)
  qed
qed

lemma call_refines:
  assumes "queue_broker stub queue rand64" "broker_client stub c" "immediate_call call" "queue_rel (queue w) S"
    and "run_state (queue_call_run rand64 c call) w = (a, w')"
  shows "\<exists>S'. queue_step c S call a S' \<and> queue_rel (queue w') S'"
  using assms put_step [OF assms(1,2)] put_all_step [OF assms(1,2)] take_step [OF assms(1,2)] ack_all_step [OF assms(1,2)]
  by (cases call) auto

lemma script_refines:
  assumes "queue_broker stub queue rand64"
    and "list_all (\<lambda>(c, call). broker_client stub c \<and> immediate_call call) script"
    and "queue w = (\<lambda>_. [])"
    and "run_state (run_script rand64 script) w = (answers, w')"
  shows "\<exists>S. queue_run (\<lambda>_. []) script answers S \<and> queue_rel (queue w') S"
proof -
  have "\<exists>S'. queue_run S script as S' \<and> queue_rel (queue w') S'"
    if "queue_rel (queue w) S" "run_state (run_script rand64 script) w = (as, w')" for w S as
    using assms(2) that
  proof (induction script arbitrary: w S as)
    case Nil
    then show ?case by (auto intro: run_nil)
  next
    case (Cons x script)
    obtain c call where x: "x = (c, call)" by (cases x)
    obtain a u where a: "run_state (queue_call_run rand64 c call) w = (a, u)" by (metis prod.exhaust)
    define bs where "bs = result_of (run_script rand64 script) u"
    have bs: "run_state (run_script rand64 script) u = (bs, w')" "as = a # bs"
      using Cons.prems(3) a by (auto simp: x case_prod_unfold bs_def)
    obtain S1 where S1: "queue_step c S call a S1" "queue_rel (queue u) S1"
      using call_refines [OF assms(1) _ _ Cons.prems(2) a] Cons.prems(1) by (auto simp: x)
    obtain S2 where "queue_run S1 script bs S2" "queue_rel (queue w') S2"
      using Cons.IH [OF _ S1(2) bs(1)] Cons.prems(1) by auto
    then show ?case using run_cons [OF S1(1)] by (auto simp: x bs(2))
  qed
  moreover have "queue_rel (queue w) (\<lambda>_. [])" using assms(3) by (simp add: queue_rel_def)
  ultimately show ?thesis using assms(4) by blast
qed


section \<open>Exactly once, in order\<close>

fun stored_on :: "string \<Rightarrow> ('w Client \<times> queue_call) list \<Rightarrow> queue_answer list \<Rightarrow> QueueMessage list" where
  "stored_on ch ((c, Put m) # script) (Stored acc # as) =
     filter (\<lambda>v. qm_channel v = ch) [queue_view (co_client_id (cl_opts c)) m] @ stored_on ch script as"
| "stored_on ch ((c, Put_all ms) # script) (Stored acc # as) =
     filter (\<lambda>v. qm_channel v = ch) (map (queue_view (co_client_id (cl_opts c)) \<circ> fst) (filter snd (zip ms acc)))
       @ stored_on ch script as"
| "stored_on ch (_ # script) (_ # as) = stored_on ch script as"
| "stored_on ch _ _ = []"

fun taken_on :: "string \<Rightarrow> ('w Client \<times> queue_call) list \<Rightarrow> queue_answer list \<Rightarrow> QueueMessage list" where
  "taken_on ch ((c, Take rq) # script) (Taken ms # as) =
     (if effective_channel c (rmq_channel rq) = ch \<and> \<not> rmq_is_peek rq then ms else []) @ taken_on ch script as"
| "taken_on ch (_ # script) (_ # as) = taken_on ch script as"
| "taken_on ch _ _ = []"

definition puts_and_takes :: "('w Client \<times> queue_call) list \<Rightarrow> bool" where
  "puts_and_takes script = list_all (\<lambda>(c, call). case call of Ack_all _ \<Rightarrow> False | _ \<Rightarrow> True) script"

lemma stored_on_Cons: "stored_on ch ((c, call) # script) (a # as) = stored_on ch [(c, call)] [a] @ stored_on ch script as"
  by (cases call; cases a) auto

lemma taken_on_Cons: "taken_on ch ((c, call) # script) (a # as) = taken_on ch [(c, call)] [a] @ taken_on ch script as"
  by (cases call; cases a) auto

lemma queue_step_conserves:
  assumes "queue_step c q call a q'" "a \<noteq> Failed" "puts_and_takes [(c, call)]"
  shows "q ch @ stored_on ch [(c, call)] [a] = taken_on ch [(c, call)] [a] @ q' ch"
  using assms by cases (auto simp: puts_and_takes_def enqueue_def)

lemma queue_run_conserves:
  "queue_run q script as q' \<Longrightarrow> puts_and_takes script \<Longrightarrow> Failed \<notin> set as
    \<Longrightarrow> q ch @ stored_on ch script as = taken_on ch script as @ q' ch"
proof (induction rule: queue_run.induct)
  case (run_cons c q call a q' script as q'')
  then have "q' ch @ stored_on ch script as = taken_on ch script as @ q'' ch"
    and "q ch @ stored_on ch [(c, call)] [a] = taken_on ch [(c, call)] [a] @ q' ch"
    using queue_step_conserves [OF run_cons(1), of ch] by (auto simp: puts_and_takes_def)
  then show ?case by (subst stored_on_Cons, subst taken_on_Cons) (metis append_assoc)
qed simp


section \<open>A concrete broker\<close>

type_synonym fifo_world = "PbQueueMessage queues"

definition stamp :: "nat \<Rightarrow> PbQueueMessage \<Rightarrow> PbQueueMessage" where
  "stamp i p = p\<lparr>pq_Attributes := Some (PbQueueMessageAttributes_default\<lparr>pa_Sequence := of_nat i\<rparr>)\<rparr>"

definition fifo_stub :: "fifo_world Stub" where
  "fifo_stub = gt_stub inert_transport
     \<lparr>stub_SendQueueMessage := \<lambda>_ p. State (\<lambda>q. ((grpc_status_OK, PbSendQueueMessageResult_default), enqueue pq_Channel [p] q)),
      stub_SendQueueMessagesBatch := \<lambda>_ b. State (\<lambda>q. ((grpc_status_OK, PbQueueMessagesBatchResponse_default
         \<lparr>bp_Results := map (\<lambda>_. PbSendQueueMessageResult_default) (bq_Messages b)\<rparr>), enqueue pq_Channel (bq_Messages b) q)),
      stub_ReceiveQueueMessages := \<lambda>_ r. State (\<lambda>q. let ch = rr_Channel r; n = nat (rr_MaxNumberOfMessages r) in
         ((grpc_status_OK, PbReceiveQueueMessagesResponse_default\<lparr>ro_Messages := map (stamp 7) (take n (q ch))\<rparr>),
          if rr_IsPeak r then q else q(ch := drop n (q ch)))),
      stub_AckAllQueueMessages := \<lambda>_ r. State (\<lambda>q. ((grpc_status_OK, PbAckAllQueueMessagesResponse_default
         \<lparr>ao_AffectedMessages := of_nat (length (q (aq_Channel r)))\<rparr>), q(aq_Channel r := [])))\<rparr>"

lemma fifo_broker: "queue_broker fifo_stub id (ret 0)"
proof -
  have z: "map fst (filter (\<lambda>(p, res). \<not> sq_IsError res) (zip ps (map (\<lambda>_. PbSendQueueMessageResult_default) ps))) = ps"
    for ps :: "PbQueueMessage list"
    by (induction ps) (auto simp: PbSendQueueMessageResult_default_def)
  have "content (stamp i p) = content p" for i p by (simp add: content_def stamp_def)
  then have s: "map (content \<circ> stamp i) ps = map content ps" for i ps by simp
  have e: "\<not> sq_IsError PbSendQueueMessageResult_default" by (simp add: PbSendQueueMessageResult_default_def)
  show ?thesis
    by (auto simp: queue_broker_def send_law_def batch_law_def receive_law_def ack_all_law_def fifo_stub_def Let_def z s e
        PbReceiveQueueMessagesResponse_default_def PbAckAllQueueMessagesResponse_default_def
        PbQueueMessagesBatchResponse_default_def split: if_splits)
qed

definition fifo_client :: "string \<Rightarrow> fifo_world Client" where
  "fifo_client cid = \<lparr>cl_transport = inert_transport\<lparr>gt_stub := fifo_stub\<rparr>,
     cl_opts = ClientOptions_default\<lparr>co_client_id := cid\<rparr>, cl_closed = False, cl_close_once = False, cl_active_contexts = []\<rparr>"

definition order :: "string \<Rightarrow> QueueMessage" where
  "order i = QueueMessage_default\<lparr>qm_id := i, qm_channel := ''orders'', qm_body := ''x''\<rparr>"

definition take_orders :: ReceiveQueueMessagesRequest where
  "take_orders = ReceiveQueueMessagesRequest_default\<lparr>rmq_request_id := ''r'', rmq_channel := ''orders'',
     rmq_max_number_of_messages := 2\<rparr>"

definition sample_script :: "(fifo_world Client \<times> queue_call) list" where
  "sample_script = [(fifo_client ''a'', Put (order ''1'')), (fifo_client ''b'', Put (order ''2'')),
     (fifo_client ''a'', Put (order ''3'')), (fifo_client ''c'', Take take_orders)]"

lemma fifo_client_simps:
  "\<not> cl_closed (fifo_client cid)" "co_client_id (cl_opts (fifo_client cid)) = cid"
  "\<not> gt_closed (cl_transport (fifo_client cid))" "gt_stub (cl_transport (fifo_client cid)) = fifo_stub"
  "gt_opts (cl_transport (fifo_client cid)) = ClientOptions_default"
  "effective_channel (fifo_client cid) ''orders'' = ''orders''"
  by (simp_all add: fifo_client_def inert_transport_def effective_channel_def)

lemma order_simps: "qm_channel (order i) = ''orders''" "qm_body (order i) = ''x''"
    "QueueMessageToProto (order i) cid PbQueueMessage_default\<lparr>pq_Channel := ''orders''\<rparr>
      = QueueMessageToProto (order i) cid PbQueueMessage_default"
    "i \<noteq> [] \<Longrightarrow> QueueMessage_sendable (order i)"
  by (simp_all add: order_def QueueMessageToProto_def Let_def QueueMessage_sendable_def QueueMessage_valid_def plain_valid_def
      int32_range_def sdk_defaults)

lemma orders_wf: "channel_sendable ''orders''" "channel_wf ''orders''"
  by (simp_all add: channel_sendable_def channel_wf_def is_ascii_space_def)

lemmas fifo_run = fifo_client_simps order_simps orders_wf CheckClosed_def status_simps Let_def
  GrpcTransport_CheckClosed_def ApplyAuth_def InjectAuthToken_def ClientOptions_default_def

lemma put_order:
  "run_state (queue_call_run (ret 0) (fifo_client cid) (Put (order i))) q
    = (Stored [True], enqueue pq_Channel [QueueMessageToProto (order i) cid PbQueueMessage_default] q)"
  by (simp add: fifo_run Client_SendQueueMessage_def GrpcTransport_SendQueueMessage_def fifo_stub_def
      QueueSendResultFromProto_def PbSendQueueMessageResult_default_def sdk_defaults)

lemma encodes_stamp: "encodes (stamp i p) v = encodes p v"
  by (simp add: encodes_def content_def stamp_def)

lemma take_two:
  assumes "list_all2 encodes (take 2 (q ''orders'')) vs"
  shows "run_state (queue_call_run (ret 0) (fifo_client cid) (Take take_orders)) q
    = (Taken vs, q(''orders'' := drop 2 (q ''orders'')))"
proof -
  have "list_all2 encodes (map (stamp 7) (take 2 (q ''orders''))) vs"
    using assms by (simp add: list_all2_map1 encodes_stamp)
  from decode_views [OF this, of "ret 0" "q(''orders'' := drop 2 (q ''orders''))"] show ?thesis
    by (auto simp: fifo_run Client_ReceiveQueueMessages_def GrpcTransport_ReceiveQueueMessages_def fifo_stub_def take_orders_def
        PbReceiveQueueMessagesResponse_default_def sdk_defaults)
qed

lemma sample_run:
  "run_state (run_script (ret 0) sample_script) (\<lambda>_. [])
    = ([Stored [True], Stored [True], Stored [True], Taken [queue_view ''a'' (order ''1''), queue_view ''b'' (order ''2'')]],
       (\<lambda>_. [])(''orders'' := [QueueMessageToProto (order ''3'') ''a'' PbQueueMessage_default]))"
proof -
  let ?p = "\<lambda>i cid. QueueMessageToProto (order i) cid PbQueueMessage_default"
  have "list_all2 encodes [?p ''1'' ''a'', ?p ''2'' ''b''] [queue_view ''a'' (order ''1''), queue_view ''b'' (order ''2'')]"
    by (simp add: encodes_sent order_simps)
  then show ?thesis
    using take_two [of "(\<lambda>_. [])(''orders'' := [?p ''1'' ''a'', ?p ''2'' ''b'', ?p ''3'' ''a''])"
        "[queue_view ''a'' (order ''1''), queue_view ''b'' (order ''2'')]" "''c''"]
    by (simp add: sample_script_def put_order order_simps del: queue_call_run.simps)
qed


end
