(* ===== verification/Event_Broker.thy ===== *)
theory Event_Broker
  imports Queue_Broker
begin

text \<open>
  Publishing and subscribing against a broker: events and stored events sent by any clients, received
  by the reader thread of a subscription, in every interleaving of the publishers with the reader.
  What the README promises of the broker (it passes what it accepts to the subscribers of the channel,
  with a sequence number and a time stamp of its own) is the hypothesis \<open>event_broker\<close> on the stub.
\<close>

section \<open>The broker\<close>

definition carries :: "PbEventReceive \<Rightarrow> PbEvent \<Rightarrow> bool" where
  "carries d p = (per_EventID d = pe_EventID p \<and> per_Channel d = pe_Channel p \<and> per_Metadata d = pe_Metadata p
     \<and> per_Body d = pe_Body p \<and> per_Tags d = pe_Tags p)"

text \<open>\<open>inbox\<close> is what a subscriber's stream holds, \<open>seen\<close> what its callback has recorded.  A publication that
  fails may or may not have reached the stream.\<close>

definition event_broker :: "'w Stub \<Rightarrow> string \<Rightarrow> bool \<Rightarrow> ('w \<Rightarrow> PbEventReceive list) \<Rightarrow> ('w \<Rightarrow> 'r list)
    \<Rightarrow> ('w, 64 word) state \<Rightarrow> bool" where
  "event_broker stub ch stored inbox seen rand64 \<longleftrightarrow>
     (\<forall>ctx p w st r w'. run_state (stub_SendEvent stub ctx p) w = ((st, r), w') \<longrightarrow>
        seen w' = seen w
        \<and> (inbox w' = inbox w \<or> pe_Channel p = ch \<and> pe_Store p = stored \<and> (\<exists>d. carries d p \<and> inbox w' = inbox w @ [d]))
        \<and> (grpc_ok st \<and> rs_Error r = [] \<and> pe_Channel p = ch \<and> pe_Store p = stored \<longrightarrow> inbox w' \<noteq> inbox w))
     \<and> (\<forall>w. inbox (world_of rand64 w) = inbox w \<and> seen (world_of rand64 w) = seen w)"

text \<open>Reading takes the first message of the stream; the user's callback records what it is given, and may
  throw.\<close>

definition subscriber_env :: "(nat \<Rightarrow> ('w, PbEventReceive option) state) \<Rightarrow> ('r \<Rightarrow> 'w callback)
    \<Rightarrow> ('w \<Rightarrow> PbEventReceive list) \<Rightarrow> ('w \<Rightarrow> 'w) \<Rightarrow> ('w \<Rightarrow> 'r list) \<Rightarrow> bool" where
  "subscriber_env read on_event inbox pop seen \<longleftrightarrow>
     (\<forall>h w. run_state (read h) w = (case inbox w of [] \<Rightarrow> (None, w) | p # ps \<Rightarrow> (Some p, pop w)))
     \<and> (\<forall>w. inbox (pop w) = tl (inbox w) \<and> seen (pop w) = seen w)
     \<and> (\<forall>r w. inbox (world_of (on_event r) w) = inbox w \<and> seen (world_of (on_event r) w) = seen w @ [r])"

section \<open>Publishers and a subscriber\<close>

definition event_publish :: "('w, 64 word) state \<Rightarrow> 'w Client \<Rightarrow> Event \<Rightarrow> ('w, bool) state" where
  "event_publish rand64 c e = do { s \<leftarrow> Client_SendEvent rand64 c e; ret (ok s) }"

definition event_store_publish :: "('w, 64 word) state \<Rightarrow> 'w Client \<Rightarrow> EventStore \<Rightarrow> ('w, bool) state" where
  "event_store_publish rand64 c e = do { r \<leftarrow> Client_SendEventStore rand64 c e; ret (case r of Inr _ \<Rightarrow> True | Inl _ \<Rightarrow> False) }"

text \<open>The reader thread \<open>l\<close> of one subscription beside the publishing threads of other clients; \<open>pubs\<close> has
  every publication with what its caller was told.  A read on an empty stream blocks.\<close>

inductive pubsub :: "('w \<Rightarrow> PbEventReceive list) \<Rightarrow> ('w, PbEventReceive) reader_loop \<Rightarrow> ('w Client \<Rightarrow> 'e \<Rightarrow> ('w, bool) state)
    \<Rightarrow> ('w Client \<Rightarrow> bool) \<Rightarrow> ('e \<Rightarrow> bool) \<Rightarrow> 'w reader_cfg \<Rightarrow> ('e \<times> bool) list \<Rightarrow> 'w reader_cfg \<Rightarrow> bool"
  for inbox l publish client sendable c0 where
  begin_reading: "pubsub inbox l publish client sendable c0 [] c0"
| publish: "pubsub inbox l publish client sendable c0 pubs c \<Longrightarrow> client a \<Longrightarrow> sendable e
    \<Longrightarrow> run_state (publish a e) (rc_world c) = (accepted, w)
    \<Longrightarrow> pubsub inbox l publish client sendable c0 (pubs @ [(e, accepted)]) (c\<lparr>rc_world := w\<rparr>)"
| deliver: "pubsub inbox l publish client sendable c0 pubs c \<Longrightarrow> inbox (rc_world c) \<noteq> []
    \<Longrightarrow> pubsub inbox l publish client sendable c0 pubs (reader_step l c)"

definition built_event :: "Event \<Rightarrow> bool" where
  "built_event e = (ev_id e \<noteq> [] \<and> Event_valid e)"

definition built_event_store :: "EventStore \<Rightarrow> bool" where
  "built_event_store e = (es_id e \<noteq> [] \<and> EventStore_valid e)"

definition event_view :: "Event \<Rightarrow> EventReceive" where
  "event_view e = EventReceive_default\<lparr>er_id := ev_id e, er_channel := ev_channel e, er_metadata := ev_metadata e,
     er_body := ev_body e, er_tags := ev_tags e\<rparr>"

definition event_store_view :: "EventStore \<Rightarrow> EventStoreReceive" where
  "event_store_view e = EventStoreReceive_default\<lparr>eer_id := es_id e, eer_channel := es_channel e, eer_metadata := es_metadata e,
     eer_body := es_body e, eer_tags := es_tags e\<rparr>"

text \<open>What the broker adds: sequence number and time stamp.\<close>

definition unstamped :: "EventReceive \<Rightarrow> EventReceive" where
  "unstamped r = r\<lparr>er_timestamp := 0, er_sequence := 0\<rparr>"

definition unstamped_store :: "EventStoreReceive \<Rightarrow> EventStoreReceive" where
  "unstamped_store r = r\<lparr>eer_timestamp := 0, eer_sequence := 0\<rparr>"

section \<open>Delivery\<close>

lemma subseq_snoc_right: "subseq xs ys \<Longrightarrow> subseq xs (ys @ [y])"
  by (rule subseq_rev_drop_many)

text \<open>The invariant, for any kind of event: \<open>step\<close> is what one publication may do to the stream.\<close>

lemma pubsub_invariant:
  assumes "pubsub inbox l publish client sendable c0 pubs c"
    and publish: "\<And>a e w b w'. client a \<Longrightarrow> sendable e \<Longrightarrow> run_state (publish a e) w = (b, w') \<Longrightarrow>
      seen w' = seen w \<and> (inbox w' = inbox w \<or> on e \<and> (\<exists>d. plain (decode d) = view e \<and> inbox w' = inbox w @ [d]))
      \<and> (b \<and> on e \<longrightarrow> inbox w' \<noteq> inbox w)"
    and source: "\<And>h. message_source l h inbox pop"
    and handle: "\<And>p w. seen (world_of (rl_handle l p) (pop w)) = seen w @ [decode p]"
    and "rc_pc c0 = Reading" "inbox (rc_world c0) = []" "seen (rc_world c0) = []"
  shows "rc_pc c = Reading \<and> (\<exists>es. subseq (filter on (map fst (filter snd pubs))) es \<and> subseq es (filter on (map fst pubs))
    \<and> map plain (seen (rc_world c)) @ map (\<lambda>p. plain (decode p)) (inbox (rc_world c)) = map view es)"
  using assms(1)
proof (induction rule: pubsub.induct)
  case begin_reading
  then show ?case using assms(5-7) by simp
next
  case (publish pubs c a e accepted w)
  then obtain es where es: "subseq (filter on (map fst (filter snd pubs))) es" "subseq es (filter on (map fst pubs))"
    "map plain (seen (rc_world c)) @ map (\<lambda>p. plain (decode p)) (inbox (rc_world c)) = map view es" by blast
  note p = assms(2) [OF publish(2,3,4)]
  have pc: "rc_pc c = Reading" using publish.IH by blast
  show ?case
  proof (cases "inbox w = inbox (rc_world c)")
    case True
    then have "\<not> (accepted \<and> on e)" using p by blast
    then show ?thesis
      using pc es p True by (intro conjI exI [of _ es]) (auto intro: subseq_snoc_right)
  next
    case False
    then obtain d where d: "on e" "plain (decode d) = view e" "inbox w = inbox (rc_world c) @ [d]" using p by blast
    then show ?thesis
      using pc es p by (intro conjI exI [of _ "es @ [e]"]) (auto intro: list_emb_append_mono subseq_snoc_right simp flip: append_assoc)
  qed
next
  case (deliver pubs c)
  then obtain p ps where ps: "inbox (rc_world c) = p # ps" by (cases "inbox (rc_world c)") auto
  have r: "reader_step l c = c\<lparr>rc_world := world_of (rl_handle l p) (pop (rc_world c))\<rparr>"
    using message_source.step_reading [OF source ps _ refl] deliver.IH by simp
  have "inbox (world_of (rl_handle l p) (pop (rc_world c))) = ps"
    using message_source.inbox_handle_next [OF source] ps by simp
  then show ?case using deliver.IH ps by (simp add: r handle)
qed

lemma carried_event:
  assumes "carries d (EventToProto e cid PbEvent_default)"
  shows "unstamped (EventReceiveFromProto d) = event_view e"
  using assms by (simp add: carries_def EventToProto_def unstamped_def EventReceiveFromProto_def event_view_def
      CopyTags_def SetTags_def sdk_defaults pb_defaults)

lemma carried_event_store:
  assumes "carries d (EventStoreToProto e cid PbEvent_default)"
  shows "unstamped_store (EventStoreReceiveFromProto d) = event_store_view e"
  using assms by (simp add: carries_def EventStoreToProto_def unstamped_store_def EventStoreReceiveFromProto_def event_store_view_def
      CopyTags_def SetTags_def sdk_defaults pb_defaults)

text \<open>One RPC of a publication, seen from the stream.\<close>

lemma broker_effect:
  assumes "event_broker stub ch stored inbox seen rand64" "run_state (stub_SendEvent stub ctx p) w = ((st, r), w')"
  shows "seen w' = seen w \<and> (inbox w' = inbox w \<or> pe_Channel p = ch \<and> pe_Store p = stored \<and> (\<exists>d. carries d p \<and> inbox w' = inbox w @ [d]))
    \<and> (grpc_ok st \<and> rs_Error r = [] \<and> pe_Channel p = ch \<and> pe_Store p = stored \<longrightarrow> inbox w' \<noteq> inbox w)"
  using assms unfolding event_broker_def by blast

lemma event_publish_effect:
  assumes "event_broker stub ch False inbox seen rand64" "broker_client stub a" "built_event e"
    and "run_state (event_publish rand64 a e) w = (b, w')"
  shows "seen w' = seen w
    \<and> (inbox w' = inbox w \<or> ev_channel e = ch \<and> (\<exists>d. unstamped (EventReceiveFromProto d) = event_view e \<and> inbox w' = inbox w @ [d]))
    \<and> (b \<and> ev_channel e = ch \<longrightarrow> inbox w' \<noteq> inbox w)"
proof -
  have cl: "\<not> cl_closed a" using assms(2) by (simp add: broker_client_def)
  have ch: "effective_channel a (ev_channel e) = ev_channel e" "ev_id e \<noteq> []"
    using assms(3) by (auto simp: built_event_def effective_channel_def Event_valid_def plain_valid_def)
  show ?thesis
  proof (cases "valid_send a (ev_channel e) (ev_body e) (ev_metadata e)")
    case False
    then have "\<not> b" "w' = w"
      using op_send_event.refused [of a e rand64 w] assms(4) by (auto simp: event_publish_def)
    then show ?thesis by simp
  next
    case True
    let ?p = "EventToProto e (co_client_id (cl_opts a)) PbEvent_default"
    have e: "e\<lparr>ev_id := ev_id e, ev_channel := ev_channel e\<rparr> = e" by simp
    have send: "Client_SendEvent rand64 a e = GrpcTransport_SendEvent (cl_transport a) ?p"
      using send_event_matches_converter [OF cl, of e rand64 undefined] True ch by (simp add: e)
    obtain ctx where t: "run_state (GrpcTransport_SendEvent (cl_transport a) ?p) w =
        (let (r, w') = run_state (stub_SendEvent stub ctx ?p) w
         in (if grpc_ok (fst r) then FromServerError (rs_Error (snd r)) ''GrpcTransport::SendEvent'' (pe_Channel ?p)
             else FromGrpcStatus (fst r) ''GrpcTransport::SendEvent'' (pe_Channel ?p) [], w'))"
      using rpc_send_event.without_provider [of "cl_transport a" ?p w] assms(2) by (auto simp: broker_client_def)
    obtain st r v where st: "run_state (stub_SendEvent stub ctx ?p) w = ((st, r), v)" by (metis prod.exhaust)
    have f: "pe_Channel ?p = ev_channel e" "\<not> pe_Store ?p" by (simp_all add: EventToProto_def)
    have "w' = v" "b \<longrightarrow> grpc_ok st \<and> rs_Error r = []"
      using assms(4) send t st by (auto simp: event_publish_def FromServerError_def split: if_splits)
    then show ?thesis
      using broker_effect [OF assms(1) st] carried_event [of _ e "co_client_id (cl_opts a)"] f by metis
  qed
qed

lemma event_store_publish_effect:
  assumes "event_broker stub ch True inbox seen rand64" "broker_client stub a" "built_event_store e"
    and "run_state (event_store_publish rand64 a e) w = (b, w')"
  shows "seen w' = seen w
    \<and> (inbox w' = inbox w \<or> es_channel e = ch
        \<and> (\<exists>d. unstamped_store (EventStoreReceiveFromProto d) = event_store_view e \<and> inbox w' = inbox w @ [d]))
    \<and> (b \<and> es_channel e = ch \<longrightarrow> inbox w' \<noteq> inbox w)"
proof -
  have cl: "\<not> cl_closed a" using assms(2) by (simp add: broker_client_def)
  have ch: "effective_channel a (es_channel e) = es_channel e" "es_id e \<noteq> []"
    using assms(3) by (auto simp: built_event_store_def effective_channel_def EventStore_valid_def plain_valid_def)
  show ?thesis
  proof (cases "valid_send a (es_channel e) (es_body e) (es_metadata e)")
    case False
    then have "\<not> b" "w' = w"
      using op_send_event_store.refused [of a e rand64 w] assms(4) by (auto simp: event_store_publish_def)
    then show ?thesis by simp
  next
    case True
    let ?p = "EventStoreToProto e (co_client_id (cl_opts a)) PbEvent_default"
    have e: "e\<lparr>es_id := es_id e, es_channel := es_channel e\<rparr> = e" by simp
    have send: "Client_SendEventStore rand64 a e = GrpcTransport_SendEventStore (cl_transport a) ?p"
      using send_event_matches_converter [OF cl, of undefined rand64 e] True ch by (simp add: e)
    obtain ctx where t: "run_state (GrpcTransport_SendEventStore (cl_transport a) ?p) w =
        (let (r, w') = run_state (stub_SendEvent stub ctx ?p) w
         in (case reply_or ''GrpcTransport::SendEventStore'' (pe_Channel ?p) r of
               Inl s \<Rightarrow> Inl s
             | Inr r \<Rightarrow> (if rs_Error r \<noteq> [] then Inl (Status5 kFatal (rs_Error r) ''GrpcTransport::SendEventStore'' (pe_Channel ?p) [])
                 else Inr (EventStoreResultFromProto r)), w'))"
      using rpc_send_event_store.without_provider [of "cl_transport a" ?p w] assms(2) by (auto simp: broker_client_def)
    obtain st r v where st: "run_state (stub_SendEvent stub ctx ?p) w = ((st, r), v)" by (metis prod.exhaust)
    have f: "pe_Channel ?p = es_channel e" "pe_Store ?p" by (simp_all add: EventStoreToProto_def)
    have "w' = v" "b \<longrightarrow> grpc_ok st \<and> rs_Error r = []"
      using assms(4) send t st by (auto simp: event_store_publish_def reply_or_def split: if_splits)
    then show ?thesis
      using broker_effect [OF assms(1) st] carried_event_store [of _ e "co_client_id (cl_opts a)"] f by metis
  qed
qed

lemma recorded_source:
  assumes "subscriber_env rd on_event inbox pop seen"
  shows "message_source (events_reader rd fin slp (Some on_event) None) h inbox pop"
    "seen (world_of (rl_handle (events_reader rd fin slp (Some on_event) None) p) (pop w)) = seen w @ [EventReceiveFromProto p]"
  using assms
  by (unfold_locales, auto simp: subscriber_env_def reader_handles invoke_user_def SafeInvoke_def case_prod_unfold
      events_reader_def EventReceiveFromProto_def CopyTags_def sdk_defaults split: option.splits)

lemma recorded_store_source:
  assumes "subscriber_env rd on_event inbox pop seen"
  shows "message_source (events_store_reader rd fin slp (Some on_event) None) h inbox pop"
    "seen (world_of (rl_handle (events_store_reader rd fin slp (Some on_event) None) p) (pop w)) = seen w @ [EventStoreReceiveFromProto p]"
  using assms
  by (unfold_locales, auto simp: subscriber_env_def reader_handles invoke_user_def SafeInvoke_def case_prod_unfold
      events_store_reader_def EventStoreReceiveFromProto_def CopyTags_def sdk_defaults split: option.splits)


section \<open>A concrete broker\<close>

record event_world =
  ew_inbox :: "PbEventReceive list"
  ew_stored :: "PbEventReceive list"
  ew_seen :: "EventReceive list"
  ew_seen_stored :: "EventStoreReceive list"

definition delivered :: "PbEvent \<Rightarrow> PbEventReceive" where
  "delivered p = \<lparr>per_EventID = pe_EventID p, per_Channel = pe_Channel p, per_Metadata = pe_Metadata p, per_Body = pe_Body p,
     per_Timestamp = 1700000000, per_Sequence = 1, per_Tags = pe_Tags p\<rparr>"

definition news_stub :: "event_world Stub" where
  "news_stub = (gt_stub inert_transport)\<lparr>stub_SendEvent := \<lambda>_ p. State (\<lambda>w. ((grpc_status_OK, PbResult_default\<lparr>rs_Sent := True\<rparr>),
     if pe_Channel p \<noteq> ''news'' then w
     else if pe_Store p then w\<lparr>ew_stored := ew_stored w @ [delivered p]\<rparr> else w\<lparr>ew_inbox := ew_inbox w @ [delivered p]\<rparr>))\<rparr>"

definition news_read :: "nat \<Rightarrow> (event_world, PbEventReceive option) state" where
  "news_read h = State (\<lambda>w. case ew_inbox w of [] \<Rightarrow> (None, w) | p # ps \<Rightarrow> (Some p, w\<lparr>ew_inbox := ps\<rparr>))"

definition news_read_stored :: "nat \<Rightarrow> (event_world, PbEventReceive option) state" where
  "news_read_stored h = State (\<lambda>w. case ew_stored w of [] \<Rightarrow> (None, w) | p # ps \<Rightarrow> (Some p, w\<lparr>ew_stored := ps\<rparr>))"

definition record_event :: "EventReceive \<Rightarrow> event_world callback" where
  "record_event r = State (\<lambda>w. (Some UnknownException, w\<lparr>ew_seen := ew_seen w @ [r]\<rparr>))"

definition record_stored :: "EventStoreReceive \<Rightarrow> event_world callback" where
  "record_stored r = State (\<lambda>w. (None, w\<lparr>ew_seen_stored := ew_seen_stored w @ [r]\<rparr>))"

lemma news_brokers:
  "event_broker news_stub ''news'' False ew_inbox ew_seen (ret 0)"
  "event_broker news_stub ''news'' True ew_stored ew_seen_stored (ret 0)"
  by (auto simp: event_broker_def news_stub_def carries_def delivered_def)

lemma news_subscribers:
  "subscriber_env news_read record_event ew_inbox (\<lambda>w. w\<lparr>ew_inbox := tl (ew_inbox w)\<rparr>) ew_seen"
  "subscriber_env news_read_stored record_stored ew_stored (\<lambda>w. w\<lparr>ew_stored := tl (ew_stored w)\<rparr>) ew_seen_stored"
  by (auto simp: subscriber_env_def news_read_def news_read_stored_def record_event_def record_stored_def split: list.splits)

definition news_client :: "event_world Client" where
  "news_client = \<lparr>cl_transport = inert_transport\<lparr>gt_stub := news_stub\<rparr>, cl_opts = ClientOptions_default, cl_closed = False,
     cl_close_once = False, cl_active_contexts = []\<rparr>"

definition news_event :: Event where
  "news_event = Event_default\<lparr>ev_id := ''e-1'', ev_channel := ''news'', ev_body := ''x''\<rparr>"

definition news_start :: "event_world reader_cfg" where
  "news_start = (reader_start (sample_subscription inert_transport) 1
     \<lparr>ew_inbox = [], ew_stored = [], ew_seen = [], ew_seen_stored = []\<rparr>)\<lparr>rc_pc := Reading\<rparr>"

definition news_published :: "event_world reader_cfg" where
  "news_published = news_start\<lparr>rc_world := world_of (event_publish (ret 0) news_client news_event) (rc_world news_start)\<rparr>"

definition news_reader :: "(event_world, PbEventReceive) reader_loop" where
  "news_reader = events_reader news_read (\<lambda>_. ret grpc_status_OK) (\<lambda>_. ret ()) (Some record_event) None"

lemma news_publish: "run_state (event_publish (ret 0) news_client news_event) (rc_world news_start)
    = (True, \<lparr>ew_inbox = [delivered (EventToProto news_event [] PbEvent_default)], ew_stored = [], ew_seen = [], ew_seen_stored = []\<rparr>)"
  by (simp add: event_publish_def Client_SendEvent_def CheckClosed_def news_client_def news_event_def effective_channel_def
      effective_client_id_def status_simps channel_sendable_def channel_wf_def is_ascii_space_def Let_def inert_transport_def
      GrpcTransport_SendEvent_def GrpcTransport_CheckClosed_def ApplyAuth_def InjectAuthToken_def ClientOptions_default_def
      news_stub_def EventToProto_def FirstNonEmpty_def SetTags_def PbResult_default_def PbEvent_default_def news_start_def
      reader_start_def sdk_defaults)


end
