(* ===== verification/Burnin_Data.thy ===== *)
theory Burnin_Data
  imports Converters "HOL-Library.List_Lexorder" "HOL-Library.Char_ord"
begin

text \<open>
  Data shared by the burn-in application: \<^verbatim>\<open>std::map\<close> with string keys as an association list in
  ascending key order (\<^verbatim>\<open>std::string\<close> compares as unsigned bytes, which is the lexicographic order
  here), and JSON documents.  A document the program writes is a value of \<open>json\<close>; everything it reads
  back goes through \<open>json_api\<close>, the operations of the JSON library the source calls, which is a
  parameter.  \<open>json_documented\<close> collects what their documentation promises.
\<close>

named_theorems burnin_simps \<open>unfolding of burn-in configuration and report documents\<close>

section \<open>Ordered maps\<close>

type_synonym ('k, 'v) omap = "('k \<times> 'v) list"

definition om_inv :: "('k::linorder, 'v) omap \<Rightarrow> bool" where
  "om_inv m = sorted_wrt (<) (map fst m)"

fun om_put :: "'k::linorder \<Rightarrow> 'v \<Rightarrow> ('k, 'v) omap \<Rightarrow> ('k, 'v) omap" where
  "om_put k v [] = [(k, v)]"
| "om_put k v ((k', v') # m) =
     (if k = k' then (k, v) # m else if k < k' then (k, v) # (k', v') # m else (k', v') # om_put k v m)"

lemma om_put_keys: "fst ` set (om_put k v m) = insert k (fst ` set m)"
  by (induction k v m rule: om_put.induct) auto

lemma om_put_lookup: "map_of (om_put k v m) = (map_of m)(k \<mapsto> v)"
  by (induction k v m rule: om_put.induct) (auto simp: fun_eq_iff)

lemma om_inv_put: "om_inv m \<Longrightarrow> om_inv (om_put k v m)"
proof (induction k v m rule: om_put.induct)
  case (2 k v k' v' m)
  then show ?case using om_put_keys [of k v m] unfolding om_inv_def by (auto dest: less_trans)
qed (simp add: om_inv_def)

lemma om_inv_distinct: "om_inv m \<Longrightarrow> distinct (map fst m)"
  unfolding om_inv_def by (simp add: strict_sorted_iff)

lemma om_put_last: "(\<And>k'. k' \<in> fst ` set m \<Longrightarrow> k' < k) \<Longrightarrow> om_put k v m = m @ [(k, v)]"
proof (induction m)
  case (Cons e m)
  then have "fst e < k" by simp
  then have "\<not> k < fst e" "k \<noteq> fst e" by auto
  then show ?case using Cons by (cases e) auto
qed simp

lemma om_fold_sorted: "om_inv (m @ es) \<Longrightarrow> fold (\<lambda>(k, v). om_put k v) es m = m @ es"
proof (induction es arbitrary: m)
  case (Cons e es)
  obtain k v where e: "e = (k, v)" by (cases e)
  have "om_put k v m = m @ [(k, v)]"
    using Cons.prems e by (intro om_put_last) (auto simp: om_inv_def sorted_wrt_append)
  then show ?case using Cons e by simp
qed simp

lemma fold_om_put_skip:
  "k \<notin> fst ` set m \<Longrightarrow> (\<And>acc. f (k, v) acc = acc) \<Longrightarrow> fold f (om_put k v m) acc = fold f m acc"
  by (induction k v m arbitrary: acc rule: om_put.induct) auto

text \<open>What a client of an ordered map relies on; the pattern configurations and the pattern metrics
  are the two maps of the application.\<close>

locale std_map =
  fixes lookup :: "'m \<Rightarrow> string \<Rightarrow> 'v option"
    and put :: "string \<Rightarrow> 'v \<Rightarrow> 'm \<Rightarrow> 'm"
    and ordered :: "'m \<Rightarrow> bool"
  assumes lookup_put: "ordered m \<Longrightarrow> lookup (put k v m) k' = (if k' = k then Some v else lookup m k')"
    and ordered_put: "ordered m \<Longrightarrow> ordered (put k v m)"
begin

lemma fold_put_ordered: "ordered m \<Longrightarrow> ordered (fold (\<lambda>(k, v). put k v) es m)"
  by (induction es arbitrary: m) (auto simp: ordered_put)

lemma fold_put_lookup:
  "ordered m \<Longrightarrow> distinct (map fst es)
    \<Longrightarrow> lookup (fold (\<lambda>(k, v). put k v) es m) k = (case map_of es k of Some v \<Rightarrow> Some v | None \<Rightarrow> lookup m k)"
proof (induction es arbitrary: m)
  case (Cons e es)
  obtain a v where e: "e = (a, v)" by (cases e)
  have "map_of es a = None" using Cons.prems e by (simp add: map_of_eq_None_iff)
  then show ?case using Cons e by (auto simp: ordered_put lookup_put split: option.splits)
qed simp

lemma put_put: "ordered m \<Longrightarrow> lookup (put k v (put k u m)) k' = lookup (put k v m) k'"
  by (simp add: lookup_put ordered_put)

end

section \<open>JSON\<close>

datatype json = JNull | JBool bool | JInt int | JUint "64 word" | JReal real | JStr string
  | JArr "json list" | JObj "(string \<times> json) list"

record json_api =
  ja_parse :: "string \<Rightarrow> json_exn + json"
  ja_dump :: "json \<Rightarrow> string"
  ja_contains :: "json \<Rightarrow> string \<Rightarrow> bool"
  ja_is_object :: "json \<Rightarrow> bool"
  ja_is_string :: "json \<Rightarrow> bool"
  ja_at :: "json \<Rightarrow> string \<Rightarrow> json_exn + json"
  ja_get_int :: "json \<Rightarrow> json_exn + int"
  ja_get_bool :: "json \<Rightarrow> json_exn + bool"
  ja_get_string :: "json \<Rightarrow> json_exn + string"
  ja_items :: "json \<Rightarrow> json_exn + (string \<times> json) list"
  ja_value_u64 :: "json \<Rightarrow> string \<Rightarrow> 64 word \<Rightarrow> 64 word"
  ja_value_int :: "json \<Rightarrow> string \<Rightarrow> int \<Rightarrow> int"

text \<open>The documented behaviour: membership, checked access and conversion of values of the requested
  type, a type error on values of another type, iteration in key order, and \<^verbatim>\<open>value(key, default)\<close> on
  unsigned members.\<close>

definition int_range :: "int \<Rightarrow> bool" where
  "int_range i = (- 2147483648 \<le> i \<and> i \<le> 2147483647)"

definition json_documented :: "json_api \<Rightarrow> bool" where
  "json_documented J =
     ((\<forall>d k. ja_contains J d k = (case d of JObj kvs \<Rightarrow> map_of kvs k \<noteq> None | _ \<Rightarrow> False))
      \<and> (\<forall>d. ja_is_object J d = (case d of JObj _ \<Rightarrow> True | _ \<Rightarrow> False))
      \<and> (\<forall>d. ja_is_string J d = (case d of JStr _ \<Rightarrow> True | _ \<Rightarrow> False))
      \<and> (\<forall>kvs k v. map_of kvs k = Some v \<longrightarrow> ja_at J (JObj kvs) k = Inr v)
      \<and> (\<forall>i. int_range i \<longrightarrow> ja_get_int J (JInt i) = Inr i)
      \<and> (\<forall>s. \<exists>e. ja_get_int J (JStr s) = Inl e)
      \<and> (\<forall>b. ja_get_bool J (JBool b) = Inr b)
      \<and> (\<forall>s. ja_get_string J (JStr s) = Inr s)
      \<and> (\<forall>kvs. om_inv kvs \<longrightarrow> ja_items J (JObj kvs) = Inr kvs)
      \<and> (\<forall>kvs k n dflt. map_of kvs k = Some (JUint n) \<longrightarrow> ja_value_u64 J (JObj kvs) k dflt = n)
      \<and> (\<forall>kvs k dflt. map_of kvs k = None \<longrightarrow> ja_value_u64 J (JObj kvs) k dflt = dflt))"

lemma json_doc:
  assumes "json_documented J"
  shows "ja_contains J (JObj kvs) k = (map_of kvs k \<noteq> None)"
    and "ja_is_object J (JObj kvs) = True"
    and "map_of kvs k = Some v \<Longrightarrow> ja_at J (JObj kvs) k = Inr v"
    and "int_range i \<Longrightarrow> ja_get_int J (JInt i) = Inr i"
    and "\<exists>e. ja_get_int J (JStr s) = Inl e"
    and "ja_get_bool J (JBool b) = Inr b"
    and "ja_get_string J (JStr s) = Inr s"
    and "om_inv kvs \<Longrightarrow> ja_items J (JObj kvs) = Inr kvs"
    and "map_of kvs k = Some (JUint n) \<Longrightarrow> ja_value_u64 J (JObj kvs) k dflt = n"
    and "map_of kvs k = None \<Longrightarrow> ja_value_u64 J (JObj kvs) k dflt = dflt"
  using assms unfolding json_documented_def by simp_all

text \<open>A concrete library on documents, over a given parser: it shows that the documented behaviour
  can be had.\<close>

fun member_of :: "json \<Rightarrow> string \<Rightarrow> json option" where
  "member_of (JObj kvs) k = map_of kvs k"
| "member_of _ _ = None"

definition sample_json :: "(string \<Rightarrow> json_exn + json) \<Rightarrow> json_api" where
  "sample_json parse =
     \<lparr>ja_parse = parse, ja_dump = (\<lambda>_. []),
      ja_contains = (\<lambda>d k. member_of d k \<noteq> None),
      ja_is_object = (\<lambda>d. case d of JObj _ \<Rightarrow> True | _ \<Rightarrow> False),
      ja_is_string = (\<lambda>d. case d of JStr _ \<Rightarrow> True | _ \<Rightarrow> False),
      ja_at = (\<lambda>d k. case member_of d k of Some v \<Rightarrow> Inr v | None \<Rightarrow> Inl (JOtherError ''key not found'')),
      ja_get_int = (\<lambda>d. case d of JInt i \<Rightarrow> Inr i | _ \<Rightarrow> Inl (JTypeError ''type must be number'')),
      ja_get_bool = (\<lambda>d. case d of JBool b \<Rightarrow> Inr b | _ \<Rightarrow> Inl (JTypeError ''type must be boolean'')),
      ja_get_string = (\<lambda>d. case d of JStr s \<Rightarrow> Inr s | _ \<Rightarrow> Inl (JTypeError ''type must be string'')),
      ja_items = (\<lambda>d. case d of JObj kvs \<Rightarrow> Inr kvs | _ \<Rightarrow> Inl (JTypeError ''type must be object'')),
      ja_value_u64 = (\<lambda>d k dflt. case member_of d k of Some (JUint n) \<Rightarrow> n | _ \<Rightarrow> dflt),
      ja_value_int = (\<lambda>d k dflt. case member_of d k of Some (JInt n) \<Rightarrow> n | _ \<Rightarrow> dflt)\<rparr>"

lemma sample_json_documented: "json_documented (sample_json parse)"
  unfolding json_documented_def sample_json_def by (simp split: json.splits)

lemma ja_parse_sample [simp]: "ja_parse (sample_json parse) = parse"
  by (simp add: sample_json_def)

text \<open>A JSON object filled member by member, as \<^verbatim>\<open>result[name] = value\<close> does.\<close>

interpretation json_object: std_map "\<lambda>m :: (string, json) omap. map_of m" om_put om_inv
  by unfold_locales (simp_all add: om_put_lookup om_inv_put)

lemma om_inv_Nil [simp]: "om_inv []"
  by (simp add: om_inv_def)

lemma om_inv_map_values: "om_inv (map (\<lambda>(k, v). (k, f k v)) m) = om_inv m"
  by (simp add: om_inv_def comp_def case_prod_unfold)

lemma map_of_map_values: "map_of (map (\<lambda>(k, v). (k, f k v)) m) k = map_option (f k) (map_of m k)"
  by (induction m) auto

end
