(* ===== verification/Burnin_Config.thy ===== *)
theory Burnin_Config
  imports Burnin_Data Uuid_Gen
begin

text \<open>
  Configuration of the burn-in application (burnin/config/config.h, config.cc, defaults.h and the
  resolution of broker and port in burnin/main.cc).  JSON access goes through \<open>json_api\<close>, YAML through
  \<open>yaml_api\<close>.  Signed overflow of \<^verbatim>\<open>int\<close> is undefined behaviour in C++: reading a duration yields
  \<open>None\<close> then, and \<open>Overflow\<close> as a configuration error.
\<close>

section \<open>Durations\<close>

definition checked_int :: "int \<Rightarrow> int option" where
  "checked_int v = (if int_range v then Some v else None)"

fun parse_digits :: "int \<Rightarrow> string \<Rightarrow> (int \<times> string) option" where
  "parse_digits value [] = Some (value, [])"
| "parse_digits value (c # cs) =
     (if is_digit c
      then case checked_int (value * 10) of
          None \<Rightarrow> None
        | Some v10 \<Rightarrow> (case checked_int (v10 + int (digit_val c)) of
            None \<Rightarrow> None | Some v \<Rightarrow> parse_digits v cs)
      else Some (value, c # cs))"

definition ParseDurationToSeconds :: "string \<Rightarrow> int option" where
  "ParseDurationToSeconds s =
     (if s = [] then Some 0
      else case parse_digits 0 s of
          None \<Rightarrow> None
        | Some (value, []) \<Rightarrow> Some value
        | Some (value, c # _) \<Rightarrow>
            if c = CHR ''s'' then Some value
            else if c = CHR ''m'' then checked_int (value * 60)
            else if c = CHR ''h'' then checked_int (value * 3600)
            else if c = CHR ''d'' then checked_int (value * 86400)
            else Some value)"

section \<open>Configuration records\<close>

record PatternConfig =
  pc_enabled :: bool
  pc_channels :: int
  pc_producers_per_channel :: int
  pc_consumers_per_channel :: int
  pc_consumer_group :: bool
  pc_senders_per_channel :: int
  pc_responders_per_channel :: int
  pc_rate :: int

definition PatternConfig_default :: PatternConfig where
  "PatternConfig_default =
     \<lparr>pc_enabled = True, pc_channels = 1, pc_producers_per_channel = 1, pc_consumers_per_channel = 1,
      pc_consumer_group = False, pc_senders_per_channel = 1, pc_responders_per_channel = 1, pc_rate = 50\<rparr>"

record QueueConfig =
  qc_poll_max_messages :: int
  qc_poll_wait_timeout_seconds :: int
  qc_auto_ack :: bool

definition QueueConfig_default :: QueueConfig where
  "QueueConfig_default =
     \<lparr>qc_poll_max_messages = 10, qc_poll_wait_timeout_seconds = 5, qc_auto_ack = False\<rparr>"

record Config =
  cf_broker_address :: string
  cf_client_id_prefix :: string
  cf_duration_seconds :: int
  cf_warmup_seconds :: int
  cf_run_id :: string
  cf_payload_size :: int
  cf_patterns :: "(string, PatternConfig) omap"
  cf_queue :: QueueConfig
  cf_metrics_port :: int
  cf_warnings :: "string list"

definition Config_new :: Config where
  "Config_new =
     \<lparr>cf_broker_address = ''localhost:50000'', cf_client_id_prefix = ''cpp-burnin'',
      cf_duration_seconds = 900, cf_warmup_seconds = 10, cf_run_id = [], cf_payload_size = 256,
      cf_patterns = [], cf_queue = QueueConfig_default, cf_metrics_port = 0, cf_warnings = []\<rparr>"

text \<open>Constants of defaults.h.\<close>

definition kDefaultBrokerAddress :: string where
  "kDefaultBrokerAddress = ''localhost:50000''"

definition kChannelPrefix :: string where
  "kChannelPrefix = ''burnin.cpp.''"

definition kDefaultHttpPort :: int where
  "kDefaultHttpPort = 8888"

definition default_pattern :: "int \<Rightarrow> int \<Rightarrow> PatternConfig" where
  "default_pattern channels rate =
     \<lparr>pc_enabled = True, pc_channels = channels, pc_producers_per_channel = 1,
      pc_consumers_per_channel = 1, pc_consumer_group = False, pc_senders_per_channel = 1,
      pc_responders_per_channel = 1, pc_rate = rate\<rparr>"

definition set_pattern :: "string \<Rightarrow> PatternConfig \<Rightarrow> Config \<Rightarrow> Config" where
  "set_pattern name pc c = c\<lparr>cf_patterns := om_put name pc (cf_patterns c)\<rparr>"

definition SetDefaults :: "Config \<Rightarrow> Config" where
  "SetDefaults c =
     (let c = c\<lparr>cf_broker_address := kDefaultBrokerAddress, cf_client_id_prefix := ''cpp-burnin'',
               cf_duration_seconds := 900, cf_warmup_seconds := 10, cf_payload_size := 256\<rparr>;
          c = set_pattern ''events'' (default_pattern 1 100) c;
          c = set_pattern ''events_store'' (default_pattern 1 50) c;
          c = set_pattern ''queue_simple'' (default_pattern 1 50) c;
          c = set_pattern ''queue_stream'' (default_pattern 1 50) c;
          c = set_pattern ''commands'' (default_pattern 1 20) c;
          c = set_pattern ''queries'' (default_pattern 1 20) c
      in c\<lparr>cf_queue := (cf_queue c)\<lparr>qc_poll_max_messages := 10, qc_poll_wait_timeout_seconds := 5,
                                     qc_auto_ack := False\<rparr>\<rparr>)"

section \<open>Reading JSON\<close>

datatype config_error = Json_exception json_exn | Overflow

definition lift_json :: "json_exn + 'a \<Rightarrow> config_error + 'a" where
  "lift_json r = (case r of Inl e \<Rightarrow> Inl (Json_exception e) | Inr x \<Rightarrow> Inr x)"

definition cbind :: "config_error + 'a \<Rightarrow> ('a \<Rightarrow> config_error + 'b) \<Rightarrow> config_error + 'b" where
  "cbind r f = (case r of Inl e \<Rightarrow> Inl e | Inr x \<Rightarrow> f x)"

definition read_int :: "json_api \<Rightarrow> json \<Rightarrow> config_error + int" where
  "read_int J v = lift_json (ja_get_int J v)"

definition read_bool :: "json_api \<Rightarrow> json \<Rightarrow> config_error + bool" where
  "read_bool J v = lift_json (ja_get_bool J v)"

definition read_string :: "json_api \<Rightarrow> json \<Rightarrow> config_error + string" where
  "read_string J v = lift_json (ja_get_string J v)"

definition read_duration :: "json_api \<Rightarrow> json \<Rightarrow> config_error + int" where
  "read_duration J v = cbind (read_string J v) (\<lambda>s.
     case ParseDurationToSeconds s of None \<Rightarrow> Inl Overflow | Some n \<Rightarrow> Inr n)"

text \<open>\<^verbatim>\<open>if (j.contains(key)) j.at(key).get_to(field)\<close>\<close>

definition get_to :: "json_api \<Rightarrow> json \<Rightarrow> string \<Rightarrow> (json \<Rightarrow> config_error + 'a) \<Rightarrow> ('a \<Rightarrow> 'c \<Rightarrow> 'c) \<Rightarrow> 'c
    \<Rightarrow> config_error + 'c" where
  "get_to J j key conv upd c =
     (if ja_contains J j key
      then cbind (lift_json (ja_at J j key)) (\<lambda>v. cbind (conv v) (\<lambda>x. Inr (upd x c)))
      else Inr c)"

definition PatternConfig_from_json :: "json_api \<Rightarrow> json \<Rightarrow> PatternConfig \<Rightarrow> config_error + PatternConfig" where
  "PatternConfig_from_json J j p =
     cbind (get_to J j ''enabled'' (read_bool J) (\<lambda>x p. p\<lparr>pc_enabled := x\<rparr>) p) (\<lambda>p.
     cbind (get_to J j ''channels'' (read_int J) (\<lambda>x p. p\<lparr>pc_channels := x\<rparr>) p) (\<lambda>p.
     cbind (get_to J j ''producers_per_channel'' (read_int J) (\<lambda>x p. p\<lparr>pc_producers_per_channel := x\<rparr>) p) (\<lambda>p.
     cbind (get_to J j ''consumers_per_channel'' (read_int J) (\<lambda>x p. p\<lparr>pc_consumers_per_channel := x\<rparr>) p) (\<lambda>p.
     cbind (get_to J j ''consumer_group'' (read_bool J) (\<lambda>x p. p\<lparr>pc_consumer_group := x\<rparr>) p) (\<lambda>p.
     cbind (get_to J j ''senders_per_channel'' (read_int J) (\<lambda>x p. p\<lparr>pc_senders_per_channel := x\<rparr>) p) (\<lambda>p.
     cbind (get_to J j ''responders_per_channel'' (read_int J) (\<lambda>x p. p\<lparr>pc_responders_per_channel := x\<rparr>) p) (\<lambda>p.
     get_to J j ''rate'' (read_int J) (\<lambda>x p. p\<lparr>pc_rate := x\<rparr>) p)))))))"

definition QueueConfig_from_json :: "json_api \<Rightarrow> json \<Rightarrow> QueueConfig \<Rightarrow> config_error + QueueConfig" where
  "QueueConfig_from_json J j q =
     cbind (get_to J j ''poll_max_messages'' (read_int J) (\<lambda>x q. q\<lparr>qc_poll_max_messages := x\<rparr>) q) (\<lambda>q.
     cbind (get_to J j ''poll_wait_timeout_seconds'' (read_int J) (\<lambda>x q. q\<lparr>qc_poll_wait_timeout_seconds := x\<rparr>) q) (\<lambda>q.
     get_to J j ''auto_ack'' (read_bool J) (\<lambda>x q. q\<lparr>qc_auto_ack := x\<rparr>) q))"

text \<open>Converting to \<^verbatim>\<open>std::map<std::string, PatternConfig>\<close> builds a fresh map, each value read into a
  default constructed \<^verbatim>\<open>PatternConfig\<close>.\<close>

fun read_entries :: "json_api \<Rightarrow> (string \<times> json) list \<Rightarrow> (string, PatternConfig) omap
    \<Rightarrow> config_error + (string, PatternConfig) omap" where
  "read_entries J [] m = Inr m"
| "read_entries J ((k, v) # es) m =
     cbind (PatternConfig_from_json J v PatternConfig_default) (\<lambda>pc. read_entries J es (om_put k pc m))"

definition read_patterns :: "json_api \<Rightarrow> json \<Rightarrow> config_error + (string, PatternConfig) omap" where
  "read_patterns J v = cbind (lift_json (ja_items J v)) (\<lambda>es. read_entries J es [])"

text \<open>\<^verbatim>\<open>if (j.contains(outer) && j[outer].is_object() && j[outer].contains(inner))\<close>\<close>

definition get_nested :: "json_api \<Rightarrow> json \<Rightarrow> string \<Rightarrow> string \<Rightarrow> (json \<Rightarrow> config_error + 'a)
    \<Rightarrow> ('a \<Rightarrow> Config \<Rightarrow> Config) \<Rightarrow> Config \<Rightarrow> config_error + Config" where
  "get_nested J j outer inner conv upd c =
     (if ja_contains J j outer
      then cbind (lift_json (ja_at J j outer)) (\<lambda>o'.
        if ja_is_object J o' \<and> ja_contains J o' inner
        then cbind (lift_json (ja_at J o' inner)) (\<lambda>v. cbind (conv v) (\<lambda>x. Inr (upd x c)))
        else Inr c)
      else Inr c)"

definition get_duration :: "json_api \<Rightarrow> json \<Rightarrow> Config \<Rightarrow> config_error + Config" where
  "get_duration J j c =
     (if ja_contains J j ''duration''
      then cbind (lift_json (ja_at J j ''duration'')) (\<lambda>v.
        if ja_is_string J v then cbind (read_duration J v) (\<lambda>n. Inr (c\<lparr>cf_duration_seconds := n\<rparr>))
        else Inr c)
      else Inr c)"

definition Config_from_json :: "json_api \<Rightarrow> json \<Rightarrow> Config \<Rightarrow> config_error + Config" where
  "Config_from_json J j c0 =
     (let c = SetDefaults c0 in
      cbind (get_nested J j ''broker'' ''address'' (read_string J) (\<lambda>x c. c\<lparr>cf_broker_address := x\<rparr>) c) (\<lambda>c.
      cbind (get_to J j ''broker_address'' (read_string J) (\<lambda>x c. c\<lparr>cf_broker_address := x\<rparr>) c) (\<lambda>c.
      cbind (get_to J j ''client_id_prefix'' (read_string J) (\<lambda>x c. c\<lparr>cf_client_id_prefix := x\<rparr>) c) (\<lambda>c.
      cbind (get_duration J j c) (\<lambda>c.
      cbind (get_to J j ''duration_seconds'' (read_int J) (\<lambda>x c. c\<lparr>cf_duration_seconds := x\<rparr>) c) (\<lambda>c.
      cbind (get_nested J j ''warmup'' ''warmup_duration'' (read_duration J) (\<lambda>x c. c\<lparr>cf_warmup_seconds := x\<rparr>) c) (\<lambda>c.
      cbind (get_to J j ''warmup_seconds'' (read_int J) (\<lambda>x c. c\<lparr>cf_warmup_seconds := x\<rparr>) c) (\<lambda>c.
      cbind (get_nested J j ''message'' ''size_bytes'' (read_int J) (\<lambda>x c. c\<lparr>cf_payload_size := x\<rparr>) c) (\<lambda>c.
      cbind (get_to J j ''payload_size'' (read_int J) (\<lambda>x c. c\<lparr>cf_payload_size := x\<rparr>) c) (\<lambda>c.
      cbind (get_to J j ''run_id'' (read_string J) (\<lambda>x c. c\<lparr>cf_run_id := x\<rparr>) c) (\<lambda>c.
      cbind (get_to J j ''patterns'' (read_patterns J) (\<lambda>x c. c\<lparr>cf_patterns := x\<rparr>) c) (\<lambda>c.
      get_to J j ''queue'' (\<lambda>v. QueueConfig_from_json J v (cf_queue c)) (\<lambda>x c. c\<lparr>cf_queue := x\<rparr>) c))))))))))))"

definition what :: "json_exn \<Rightarrow> string" where
  "what e = (case e of JParseError s \<Rightarrow> s | JTypeError s \<Rightarrow> s | JOtherError s \<Rightarrow> s)"

definition FromJson :: "json_api \<Rightarrow> string \<Rightarrow> Config option" where
  "FromJson J json_str =
     (let cfg = SetDefaults Config_new in
      if json_str = [] then Some cfg
      else case cbind (lift_json (ja_parse J json_str)) (\<lambda>j. Config_from_json J j Config_new) of
          Inr parsed \<Rightarrow> Some parsed
        | Inl (Json_exception e) \<Rightarrow>
            Some (cfg\<lparr>cf_warnings := cf_warnings cfg @ [''JSON parse warning: '' @ what e]\<rparr>)
        | Inl Overflow \<Rightarrow> None)"

section \<open>Writing JSON\<close>

definition PatternConfig_to_json :: "PatternConfig \<Rightarrow> json" where
  "PatternConfig_to_json p = JObj
     [(''enabled'', JBool (pc_enabled p)), (''channels'', JInt (pc_channels p)),
      (''producers_per_channel'', JInt (pc_producers_per_channel p)),
      (''consumers_per_channel'', JInt (pc_consumers_per_channel p)),
      (''consumer_group'', JBool (pc_consumer_group p)),
      (''senders_per_channel'', JInt (pc_senders_per_channel p)),
      (''responders_per_channel'', JInt (pc_responders_per_channel p)), (''rate'', JInt (pc_rate p))]"

definition QueueConfig_to_json :: "QueueConfig \<Rightarrow> json" where
  "QueueConfig_to_json q = JObj
     [(''poll_max_messages'', JInt (qc_poll_max_messages q)),
      (''poll_wait_timeout_seconds'', JInt (qc_poll_wait_timeout_seconds q)),
      (''auto_ack'', JBool (qc_auto_ack q))]"

definition Config_to_json :: "Config \<Rightarrow> json" where
  "Config_to_json c = JObj
     [(''broker_address'', JStr (cf_broker_address c)), (''client_id_prefix'', JStr (cf_client_id_prefix c)),
      (''duration_seconds'', JInt (cf_duration_seconds c)), (''warmup_seconds'', JInt (cf_warmup_seconds c)),
      (''run_id'', JStr (cf_run_id c)), (''payload_size'', JInt (cf_payload_size c)),
      (''patterns'', JObj (map (\<lambda>(n, p). (n, PatternConfig_to_json p)) (cf_patterns c))),
      (''queue'', QueueConfig_to_json (cf_queue c))]"

definition ToJson :: "Config \<Rightarrow> json" where
  "ToJson c = Config_to_json c"

definition GenerateRunId :: "('w, 32 word) state \<Rightarrow> ('w, string) state" where
  "GenerateRunId rand32 = do { n \<leftarrow> rand32; ret (take 8 (hex_pad 8 (unat n))) }"

section \<open>Startup: YAML file, environment and arguments\<close>

text \<open>The YAML library: loading a file, \<^verbatim>\<open>node[key]\<close> (\<open>None\<close> for an undefined node) and conversions, each of
  which may raise a \<^verbatim>\<open>YAML::Exception\<close> with a message.\<close>

record 'y yaml_api =
  y_load :: "string \<Rightarrow> string + 'y"
  y_find :: "'y \<Rightarrow> string \<Rightarrow> string + 'y option"
  y_int :: "'y \<Rightarrow> string + int"
  y_string :: "'y \<Rightarrow> string + string"

definition y_path :: "'y yaml_api \<Rightarrow> 'y \<Rightarrow> string \<Rightarrow> string \<Rightarrow> string + 'y option" where
  "y_path Y node outer inner =
     (case y_find Y node outer of
        Inl e \<Rightarrow> Inl e
      | Inr None \<Rightarrow> Inr None
      | Inr (Some n) \<Rightarrow> y_find Y n inner)"

text \<open>The body of the try block: the configuration reached, and the exception if one was raised.\<close>

definition yaml_set :: "'y yaml_api \<Rightarrow> 'y \<Rightarrow> string \<Rightarrow> string \<Rightarrow> ('y \<Rightarrow> string + 'a) \<Rightarrow> ('a \<Rightarrow> Config \<Rightarrow> Config)
    \<Rightarrow> Config \<Rightarrow> Config \<times> string option" where
  "yaml_set Y node outer inner conv upd cfg =
     (case y_path Y node outer inner of
        Inl e \<Rightarrow> (cfg, Some e)
      | Inr None \<Rightarrow> (cfg, None)
      | Inr (Some n) \<Rightarrow> (case conv n of Inl e \<Rightarrow> (cfg, Some e) | Inr x \<Rightarrow> (upd x cfg, None)))"

definition LoadFromYaml :: "'y yaml_api \<Rightarrow> string \<Rightarrow> string list \<Rightarrow> Config \<times> string list" where
  "LoadFromYaml Y path warnings =
     (let (cfg, exc) =
        (case y_load Y path of
           Inl e \<Rightarrow> (Config_new, Some e)
         | Inr node \<Rightarrow>
             (let (cfg, exc) = yaml_set Y node ''metrics'' ''port'' (y_int Y) (\<lambda>x c. c\<lparr>cf_metrics_port := x\<rparr>) Config_new
              in if exc \<noteq> None then (cfg, exc)
                 else yaml_set Y node ''broker'' ''address'' (y_string Y) (\<lambda>x c. c\<lparr>cf_broker_address := x\<rparr>) cfg))
      in (cfg, case exc of
                 None \<Rightarrow> warnings
               | Some e \<Rightarrow> warnings @ [''[config] YAML load failed for '' @ [CHR 0x27] @ path @ [CHR 0x27] @ '': '' @ e
                                         @ [CHR '' '', CHR 0xE2, CHR 0x80, CHR 0x94] @ '' falling back to defaults'']))"

definition GetEnv :: "(string \<rightharpoonup> string) \<Rightarrow> string \<Rightarrow> string \<Rightarrow> string" where
  "GetEnv env name default_value =
     (case env name of Some v \<Rightarrow> if v \<noteq> [] then v else default_value | None \<Rightarrow> default_value)"

definition GetEnvInt :: "(string \<rightharpoonup> string) \<Rightarrow> string \<Rightarrow> int \<Rightarrow> int" where
  "GetEnvInt env name default_value =
     (case env name of
        Some v \<Rightarrow> if v \<noteq> [] then (case stoi v of Inr n \<Rightarrow> n | Inl _ \<Rightarrow> default_value) else default_value
      | None \<Rightarrow> default_value)"

fun config_path_arg :: "string list \<Rightarrow> string \<Rightarrow> string" where
  "config_path_arg (a # b # rest) config_path =
     (if a = ''--config'' \<or> a = ''-config'' then config_path_arg rest b
      else config_path_arg (b # rest) config_path)"
| "config_path_arg _ config_path = config_path"

definition resolve_startup :: "'y yaml_api \<Rightarrow> (string \<rightharpoonup> string) \<Rightarrow> string list \<Rightarrow> string \<times> int" where
  "resolve_startup Y env args =
     (let config_path = config_path_arg args [];
          broker_address = GetEnv env ''KUBEMQ_BROKER_ADDRESS'' [];
          http_port = 0;
          (broker_address, http_port) =
            (if config_path \<noteq> [] then
               (let yaml_cfg = fst (LoadFromYaml Y config_path [])
                in (if broker_address = [] \<and> cf_broker_address yaml_cfg \<noteq> [] then cf_broker_address yaml_cfg
                    else broker_address,
                    if cf_metrics_port yaml_cfg > 0 then cf_metrics_port yaml_cfg else http_port))
             else (broker_address, http_port));
          broker_address = (if broker_address = [] then kDefaultBrokerAddress else broker_address);
          http_port = (if http_port \<le> 0 then GetEnvInt env ''PORT'' kDefaultHttpPort else http_port)
      in (broker_address, http_port))"

section \<open>Durations are exact\<close>

definition digits_from :: "nat \<Rightarrow> string \<Rightarrow> nat" where
  "digits_from v ds = foldl (\<lambda>acc c. 10 * acc + digit_val c) v ds"

lemma digits_from_ge: "v \<le> digits_from v ds"
proof (induction ds arbitrary: v)
  case (Cons c ds)
  have "v \<le> 10 * v + digit_val c" by simp
  also have "\<dots> \<le> digits_from v (c # ds)" using Cons.IH by (simp add: digits_from_def)
  finally show ?case .
qed (simp add: digits_from_def)

lemma parse_digits_exact:
  assumes "\<forall>c \<in> set ds. is_digit c" "rest = [] \<or> \<not> is_digit (hd rest)" "v \<le> 2147483647"
  shows "parse_digits (int v) (ds @ rest) =
           (if digits_from v ds \<le> 2147483647 then Some (int (digits_from v ds), rest) else None)"
  using assms
proof (induction ds arbitrary: v)
  case Nil
  then show ?case by (cases rest) (auto simp: digits_from_def)
next
  case (Cons c ds)
  let ?v = "10 * v + digit_val c"
  have step: "digits_from v (c # ds) = digits_from ?v ds" by (simp add: digits_from_def)
  show ?case
  proof (cases "?v \<le> 2147483647")
    case True
    then have "parse_digits (int v) ((c # ds) @ rest) = parse_digits (int ?v) (ds @ rest)"
      using Cons.prems(1) by (simp add: checked_int_def int_range_def algebra_simps)
    then show ?thesis using Cons.IH [OF _ Cons.prems(2) True] Cons.prems(1) step by simp
  next
    case False
    then have "parse_digits (int v) ((c # ds) @ rest) = None"
      using Cons.prems(1) by (auto simp: checked_int_def int_range_def)
    moreover have "\<not> digits_from v (c # ds) \<le> 2147483647"
      using digits_from_ge [of ?v ds] False step by linarith
    ultimately show ?thesis by simp
  qed
qed

definition unit_seconds :: "char \<Rightarrow> nat" where
  "unit_seconds u =
     (if u = CHR ''m'' then 60 else if u = CHR ''h'' then 3600 else if u = CHR ''d'' then 86400 else 1)"

text \<open>A duration of digits followed by a unit is read as that many seconds, minutes, hours or days,
  whatever follows the unit letter, exactly when the number of seconds fits an \<^verbatim>\<open>int\<close>; otherwise the
  computation overflows.\<close>

theorem ParseDurationToSeconds_exact:
  assumes "\<forall>c \<in> set ds. is_digit c" "\<not> is_digit u"
  shows "ParseDurationToSeconds (ds @ u # rest) =
           (if digits_val ds * unit_seconds u \<le> 2147483647 then Some (int (digits_val ds * unit_seconds u)) else None)"
proof -
  have p: "parse_digits 0 (ds @ u # rest) = (if digits_val ds \<le> 2147483647 then Some (int (digits_val ds), u # rest) else None)"
    using parse_digits_exact [OF assms(1), of "u # rest" 0] assms(2) by (simp add: digits_from_def digits_val_def)
  have "digits_val ds \<le> digits_val ds * unit_seconds u" by (simp add: unit_seconds_def)
  then show ?thesis
    unfolding ParseDurationToSeconds_def p
    by (auto simp: unit_seconds_def checked_int_def int_range_def)
qed

theorem ParseDurationToSeconds_exact_witness: "ParseDurationToSeconds ''500ms'' = Some 30000"
  using ParseDurationToSeconds_exact [of "''500''" "CHR ''m''" "''s''"]
  by (simp add: is_digit_def unit_seconds_def digits_val_def digit_val_def)

section \<open>Reading back what was written\<close>

interpretation config_map: std_map "\<lambda>m :: (string, PatternConfig) omap. map_of m" om_put om_inv
  by unfold_locales (simp_all add: om_put_lookup om_inv_put)

lemma bind_simps [simp]:
  "lift_json (Inr x) = Inr x" "lift_json (Inl e) = Inl (Json_exception e)"
  "cbind (Inr x) f = f x" "cbind (Inl err) f = Inl err"
  by (simp_all add: lift_json_def cbind_def)

lemma get_to_present:
  assumes "json_documented J" "map_of kvs key = Some v" "conv v = Inr x"
  shows "get_to J (JObj kvs) key conv upd c = Inr (upd x c)"
  using assms json_doc(1) [OF assms(1), of kvs key] json_doc(3) [OF assms(1,2)] by (simp add: get_to_def)

lemma get_absent:
  assumes "json_documented J" "map_of kvs key = None"
  shows "get_to J (JObj kvs) key conv upd c = Inr c"
    and "get_nested J (JObj kvs) key inner conv' upd' d = Inr d"
  using assms json_doc(1) [OF assms(1), of kvs key] by (simp_all add: get_to_def get_nested_def)

lemma get_duration_absent:
  "json_documented J \<Longrightarrow> map_of kvs ''duration'' = None \<Longrightarrow> get_duration J (JObj kvs) c = Inr c"
  using json_doc(1) [of J kvs "''duration''"] by (simp add: get_duration_def)

lemma read_documented:
  assumes "json_documented J"
  shows "int_range i \<Longrightarrow> read_int J (JInt i) = Inr i" "read_bool J (JBool b) = Inr b" "read_string J (JStr s) = Inr s"
  using json_doc [OF assms] by (simp_all add: read_int_def read_bool_def read_string_def)

lemmas reads = get_to_present get_absent get_duration_absent read_documented

definition pattern_ok :: "PatternConfig \<Rightarrow> bool" where
  "pattern_ok p = list_all int_range [pc_channels p, pc_producers_per_channel p, pc_consumers_per_channel p,
     pc_senders_per_channel p, pc_responders_per_channel p, pc_rate p]"

definition config_ok :: "Config \<Rightarrow> bool" where
  "config_ok c =
     (list_all int_range [cf_duration_seconds c, cf_warmup_seconds c, cf_payload_size c,
        qc_poll_max_messages (cf_queue c), qc_poll_wait_timeout_seconds (cf_queue c)]
      \<and> om_inv (cf_patterns c) \<and> list_all (pattern_ok \<circ> snd) (cf_patterns c))"

lemma pattern_roundtrip:
  assumes "json_documented J" "pattern_ok p"
  shows "PatternConfig_from_json J (PatternConfig_to_json p) q = Inr p"
  using assms(2) unfolding PatternConfig_from_json_def PatternConfig_to_json_def pattern_ok_def
  by (simp add: reads [OF assms(1)])

lemma queue_roundtrip:
  assumes "json_documented J" "int_range (qc_poll_max_messages q)" "int_range (qc_poll_wait_timeout_seconds q)"
  shows "QueueConfig_from_json J (QueueConfig_to_json q) r = Inr q"
  using assms(2,3) unfolding QueueConfig_from_json_def QueueConfig_to_json_def
  by (simp add: reads [OF assms(1)])

lemma entries_roundtrip:
  assumes "json_documented J" "list_all (pattern_ok \<circ> snd) ps" "om_inv (m @ ps)"
  shows "read_entries J (map (\<lambda>(n, p). (n, PatternConfig_to_json p)) ps) m = Inr (m @ ps)"
  using assms(2,3)
proof (induction ps arbitrary: m)
  case (Cons e ps)
  obtain n p where e: "e = (n, p)" by (cases e)
  have "om_put n p m = m @ [(n, p)]"
    using Cons.prems(2) e by (intro om_put_last) (auto simp: om_inv_def sorted_wrt_append)
  then show ?case using Cons e pattern_roundtrip [OF assms(1)] by simp
qed simp

lemma patterns_roundtrip:
  assumes "json_documented J" "config_ok c"
  shows "read_patterns J (JObj (map (\<lambda>(n, p). (n, PatternConfig_to_json p)) (cf_patterns c))) = Inr (cf_patterns c)"
proof -
  have "om_inv (map (\<lambda>(n, p). (n, PatternConfig_to_json p)) (cf_patterns c))"
    using assms(2) by (simp add: config_ok_def om_inv_map_values [of "\<lambda>_. PatternConfig_to_json"])
  then show ?thesis
    using entries_roundtrip [OF assms(1), of "cf_patterns c" "[]"] assms(2) json_doc(8) [OF assms(1)]
    by (simp add: read_patterns_def config_ok_def)
qed

text \<open>C27. A configuration that is written as JSON and read back is the same configuration (the port and the
  warnings, which are not written, at their initial values): the engine reports through
  \<^verbatim>\<open>GET /run/config\<close> what \<^verbatim>\<open>POST /run/start\<close> accepts.\<close>

theorem Config_json_roundtrip:
  assumes "json_documented J" "config_ok c" "s \<noteq> []" "ja_parse J s = Inr (ToJson c)"
  shows "FromJson J s = Some (c\<lparr>cf_metrics_port := 0, cf_warnings := []\<rparr>)"
proof -
  have "Config_from_json J (Config_to_json c) Config_new = Inr (c\<lparr>cf_metrics_port := 0, cf_warnings := []\<rparr>)"
    using assms(2) patterns_roundtrip [OF assms(1,2)]
    unfolding Config_from_json_def Config_to_json_def config_ok_def
    by (simp add: reads [OF assms(1)] queue_roundtrip [OF assms(1)] SetDefaults_def set_pattern_def Config_new_def Let_def)
  then show ?thesis using assms(3,4) by (simp add: FromJson_def ToJson_def Let_def)
qed

definition sample_config :: Config where
  "sample_config = (SetDefaults Config_new)\<lparr>cf_run_id := ''0badcafe''\<rparr>"

lemma sample_config_ok: "config_ok sample_config"
  by (simp add: sample_config_def config_ok_def SetDefaults_def set_pattern_def Config_new_def Let_def
      default_pattern_def pattern_ok_def int_range_def om_inv_def)

theorem Config_json_roundtrip_witness:
  "FromJson (sample_json (\<lambda>_. Inr (ToJson sample_config))) ''{}'' = Some sample_config"
  using Config_json_roundtrip [OF sample_json_documented sample_config_ok, of "''{}''" "\<lambda>_. Inr (ToJson sample_config)"]
  by (simp add: sample_config_def SetDefaults_def set_pattern_def Config_new_def Let_def)

section \<open>Bad input\<close>

definition keeps_warnings :: "string list \<Rightarrow> config_error + Config \<Rightarrow> bool" where
  "keeps_warnings ws r = (case r of Inl _ \<Rightarrow> True | Inr c \<Rightarrow> cf_warnings c = ws)"

lemma keeps_cbind:
  "keeps_warnings ws r \<Longrightarrow> (\<And>d. cf_warnings d = ws \<Longrightarrow> keeps_warnings ws (g d)) \<Longrightarrow> keeps_warnings ws (cbind r g)"
  by (cases r) (simp_all add: keeps_warnings_def)

lemma keeps_get:
  assumes "cf_warnings c = ws" "\<And>x d. cf_warnings (upd x d) = cf_warnings d"
  shows "keeps_warnings ws (get_to J j key conv upd c)"
    and "keeps_warnings ws (get_nested J j key inner conv' upd c)"
  using assms by (auto simp: keeps_warnings_def get_to_def get_nested_def cbind_def lift_json_def split: if_splits sum.splits)

lemma keeps_get_duration: "cf_warnings c = ws \<Longrightarrow> keeps_warnings ws (get_duration J j c)"
  by (auto simp: keeps_warnings_def get_duration_def cbind_def lift_json_def split: if_splits sum.splits)

lemma SetDefaults_warnings [simp]: "cf_warnings (SetDefaults c) = cf_warnings c"
  by (simp add: SetDefaults_def set_pattern_def Let_def)

lemma Config_from_json_warnings: "keeps_warnings (cf_warnings c0) (Config_from_json J j c0)"
  unfolding Config_from_json_def Let_def by (intro keeps_cbind keeps_get keeps_get_duration) simp_all


text \<open>A text with some patterns only replaces the default map: the others are gone, and members that are
  left out take the defaults of the struct, not those of the pattern.\<close>

lemma partial_patterns_replace_defaults:
  assumes "json_documented J" "s \<noteq> []" "ja_parse J s = Inr (JObj [(''patterns'', JObj [(''events'', JObj [])])])"
  shows "\<exists>c. FromJson J s = Some c \<and> cf_patterns c = [(''events'', PatternConfig_default)]"
proof -
  have "read_patterns J (JObj [(''events'', JObj [])]) = Inr [(''events'', PatternConfig_default)]"
    using json_doc(8) [OF assms(1), of "[(''events'', JObj [])]"]
    by (simp add: read_patterns_def om_inv_def PatternConfig_from_json_def reads [OF assms(1)])
  then show ?thesis
    using assms(2,3) by (simp add: FromJson_def Let_def Config_from_json_def reads [OF assms(1)])
qed

section \<open>Startup\<close>

text \<open>The broker address is the environment variable, else the one of the YAML file, else the default; the
  port is a positive port of the YAML file, else a number in \<^verbatim>\<open>PORT\<close>, else 8888.  A broken YAML file never
  stops the application.\<close>

theorem resolve_startup_priority:
  "resolve_startup Y env args =
     (let yaml = (if config_path_arg args [] = [] then None else Some (fst (LoadFromYaml Y (config_path_arg args []) [])));
          env_broker = GetEnv env ''KUBEMQ_BROKER_ADDRESS'' []
      in (if env_broker \<noteq> [] then env_broker
          else case yaml of
              Some c \<Rightarrow> if cf_broker_address c \<noteq> [] then cf_broker_address c else ''localhost:50000''
            | None \<Rightarrow> ''localhost:50000'',
          case yaml of
              Some c \<Rightarrow> if 0 < cf_metrics_port c then cf_metrics_port c else GetEnvInt env ''PORT'' 8888
            | None \<Rightarrow> GetEnvInt env ''PORT'' 8888))"
  by (simp add: resolve_startup_def Let_def kDefaultBrokerAddress_def kDefaultHttpPort_def)

text \<open>A file whose port is readable and whose broker address is not: the warning speaks of falling back to
  defaults, but the port of the file is kept.\<close>

theorem LoadFromYaml_keeps_port:
  assumes "y_load Y path = Inr node" "y_path Y node ''metrics'' ''port'' = Inr (Some p)" "y_int Y p = Inr port"
    and "y_path Y node ''broker'' ''address'' = Inr (Some b)" "y_string Y b = Inl e"
  shows "cf_metrics_port (fst (LoadFromYaml Y path ws)) = port \<and> length (snd (LoadFromYaml Y path ws)) = Suc (length ws)"
  using assms by (simp add: LoadFromYaml_def yaml_set_def Let_def)

datatype sample_yaml = YMap "(string \<times> sample_yaml) list" | YInt int | YStr string

fun yaml_member :: "sample_yaml \<Rightarrow> string \<Rightarrow> string + sample_yaml option" where
  "yaml_member (YMap kvs) k = Inr (map_of kvs k)"
| "yaml_member _ _ = Inl ''operator[] call on a scalar''"

definition sample_yaml_api :: "sample_yaml \<Rightarrow> sample_yaml yaml_api" where
  "sample_yaml_api node =
     \<lparr>y_load = (\<lambda>_. Inr node), y_find = yaml_member,
      y_int = (\<lambda>n. case n of YInt i \<Rightarrow> Inr i | _ \<Rightarrow> Inl ''bad conversion''),
      y_string = (\<lambda>n. case n of YStr s \<Rightarrow> Inr s | _ \<Rightarrow> Inl ''bad conversion'')\<rparr>"

theorem LoadFromYaml_keeps_port_witness:
  "cf_metrics_port (fst (LoadFromYaml (sample_yaml_api (YMap [(''metrics'', YMap [(''port'', YInt 9000)]),
      (''broker'', YMap [(''address'', YMap [])])])) ''burnin.yaml'' [])) = 9000"
  using LoadFromYaml_keeps_port [of "sample_yaml_api (YMap [(''metrics'', YMap [(''port'', YInt 9000)]),
      (''broker'', YMap [(''address'', YMap [])])])" "''burnin.yaml''"]
  by (simp add: sample_yaml_api_def y_path_def)

text \<open>A generated run id is eight lower-case hexadecimal characters.\<close>

lemma GenerateRunId_format:
  "length (result_of (GenerateRunId rand32) w) = 8 \<and> list_all is_hex (result_of (GenerateRunId rand32) w)"
  using group_lengths(1) hex_pad_hex by (auto simp: GenerateRunId_def case_prod_unfold list_all_iff dest: in_set_takeD)

end
