(* ===== verification/Burnin_Metrics.thy ===== *)
theory Burnin_Metrics
  imports Burnin_Data "HOL-Library.Multiset"
begin

text \<open>
  Metrics of the burn-in application (burnin/engine/metrics.h and metrics.cc): the CRC-32 with its
  lookup table, the counters of a pattern and their aggregation. A byte of a \<^verbatim>\<open>std::string\<close> is a
  character; \<^verbatim>\<open>unsigned char\<close> values are its code. Counters are \<^verbatim>\<open>uint64_t\<close> and wrap around.
\<close>

unbundle bit_operations_syntax

section \<open>CRC-32\<close>

definition crc_bit :: "32 word \<Rightarrow> 32 word" where
  "crc_bit crc = (if crc AND 1 \<noteq> 0 then drop_bit 1 crc XOR 0xEDB88320 else drop_bit 1 crc)"

definition crc32_entry :: "nat \<Rightarrow> 32 word" where
  "crc32_entry i = (crc_bit ^^ 8) (of_nat i)"

definition InitCrc32Table :: "32 word list" where
  "InitCrc32Table = map crc32_entry [0..<256]"

definition crc32_step :: "32 word \<Rightarrow> char \<Rightarrow> 32 word" where
  "crc32_step crc c = InitCrc32Table ! unat ((crc XOR of_char c) AND 0xFF) XOR drop_bit 8 crc"

definition Crc32 :: "string \<Rightarrow> 32 word" where
  "Crc32 data = fold (\<lambda>c crc. crc32_step crc c) data 0xFFFFFFFF XOR 0xFFFFFFFF"

text \<open>The reference: the division is done bit by bit, without a table.\<close>

definition crc_byte_ref :: "32 word \<Rightarrow> char \<Rightarrow> 32 word" where
  "crc_byte_ref crc c = (crc_bit ^^ 8) (crc XOR of_char c)"

definition crc32_ref :: "string \<Rightarrow> 32 word" where
  "crc32_ref data = NOT (fold (\<lambda>c crc. crc_byte_ref crc c) data (NOT 0))"

section \<open>Counters of a pattern\<close>

record PatternMetrics =
  pm_sent :: "64 word"
  pm_received :: "64 word"
  pm_errors :: "64 word"
  pm_lost :: "64 word"
  pm_duplicated :: "64 word"
  pm_corrupted :: "64 word"
  pm_out_of_order :: "64 word"
  pm_bytes_sent :: "64 word"
  pm_bytes_received :: "64 word"
  pm_rpc_success :: "64 word"
  pm_rpc_timeout :: "64 word"
  pm_rpc_error :: "64 word"
  pm_reconnections :: "64 word"

definition PatternMetrics_zero :: PatternMetrics where
  "PatternMetrics_zero =
     \<lparr>pm_sent = 0, pm_received = 0, pm_errors = 0, pm_lost = 0, pm_duplicated = 0, pm_corrupted = 0,
      pm_out_of_order = 0, pm_bytes_sent = 0, pm_bytes_received = 0, pm_rpc_success = 0,
      pm_rpc_timeout = 0, pm_rpc_error = 0, pm_reconnections = 0\<rparr>"

definition PatternMetrics_Snapshot :: "PatternMetrics \<Rightarrow> json" where
  "PatternMetrics_Snapshot m = JObj
     [(''sent'', JUint (pm_sent m)), (''received'', JUint (pm_received m)), (''errors'', JUint (pm_errors m)),
      (''lost'', JUint (pm_lost m)), (''duplicated'', JUint (pm_duplicated m)),
      (''corrupted'', JUint (pm_corrupted m)), (''out_of_order'', JUint (pm_out_of_order m)),
      (''bytes_sent'', JUint (pm_bytes_sent m)), (''bytes_received'', JUint (pm_bytes_received m)),
      (''rpc_success'', JUint (pm_rpc_success m)), (''rpc_timeout'', JUint (pm_rpc_timeout m)),
      (''rpc_error'', JUint (pm_rpc_error m)), (''reconnections'', JUint (pm_reconnections m))]"

definition PatternMetrics_Reset :: "PatternMetrics \<Rightarrow> PatternMetrics" where
  "PatternMetrics_Reset m =
     m\<lparr>pm_sent := 0, pm_received := 0, pm_errors := 0, pm_lost := 0, pm_duplicated := 0,
       pm_corrupted := 0, pm_out_of_order := 0, pm_bytes_sent := 0, pm_bytes_received := 0,
       pm_rpc_success := 0, pm_rpc_timeout := 0, pm_rpc_error := 0, pm_reconnections := 0\<rparr>"

text \<open>The counters by name, and \<^verbatim>\<open>fetch_add\<close> on one of them.  What a thread does to the metrics is the
  list of its \<^verbatim>\<open>fetch_add\<close> calls, in order.\<close>

datatype counter = C_sent | C_received | C_errors | C_lost | C_duplicated
  | C_corrupted | C_out_of_order | C_bytes_sent | C_bytes_received | C_rpc_success
  | C_rpc_timeout | C_rpc_error | C_reconnections

primrec load :: "counter \<Rightarrow> PatternMetrics \<Rightarrow> 64 word" where
  "load C_sent = pm_sent"
| "load C_received = pm_received"
| "load C_errors = pm_errors"
| "load C_lost = pm_lost"
| "load C_duplicated = pm_duplicated"
| "load C_corrupted = pm_corrupted"
| "load C_out_of_order = pm_out_of_order"
| "load C_bytes_sent = pm_bytes_sent"
| "load C_bytes_received = pm_bytes_received"
| "load C_rpc_success = pm_rpc_success"
| "load C_rpc_timeout = pm_rpc_timeout"
| "load C_rpc_error = pm_rpc_error"
| "load C_reconnections = pm_reconnections"

primrec fetch_add :: "counter \<Rightarrow> 64 word \<Rightarrow> PatternMetrics \<Rightarrow> PatternMetrics" where
  "fetch_add C_sent k = pm_sent_update (\<lambda>v. v + k)"
| "fetch_add C_received k = pm_received_update (\<lambda>v. v + k)"
| "fetch_add C_errors k = pm_errors_update (\<lambda>v. v + k)"
| "fetch_add C_lost k = pm_lost_update (\<lambda>v. v + k)"
| "fetch_add C_duplicated k = pm_duplicated_update (\<lambda>v. v + k)"
| "fetch_add C_corrupted k = pm_corrupted_update (\<lambda>v. v + k)"
| "fetch_add C_out_of_order k = pm_out_of_order_update (\<lambda>v. v + k)"
| "fetch_add C_bytes_sent k = pm_bytes_sent_update (\<lambda>v. v + k)"
| "fetch_add C_bytes_received k = pm_bytes_received_update (\<lambda>v. v + k)"
| "fetch_add C_rpc_success k = pm_rpc_success_update (\<lambda>v. v + k)"
| "fetch_add C_rpc_timeout k = pm_rpc_timeout_update (\<lambda>v. v + k)"
| "fetch_add C_rpc_error k = pm_rpc_error_update (\<lambda>v. v + k)"
| "fetch_add C_reconnections k = pm_reconnections_update (\<lambda>v. v + k)"

type_synonym fetch_adds = "(counter \<times> 64 word) list"

definition apply_adds :: "fetch_adds \<Rightarrow> PatternMetrics \<Rightarrow> PatternMetrics" where
  "apply_adds adds m = fold (\<lambda>(c, k). fetch_add c k) adds m"

section \<open>All patterns\<close>

text \<open>Time points of the steady clock are integers counting nanoseconds; a default constructed one is 0.
  Every operation holds the mutex throughout, so each is one atomic function. \<^verbatim>\<open>GetPattern\<close> returns a
  reference into the map, which stays valid because nothing erases entries: an update through it is
  \<open>update_pattern\<close>.\<close>

record AggregateMetrics =
  am_patterns :: "(string, PatternMetrics) omap"
  am_start_time :: int
  am_stop_time :: int
  am_running :: bool

definition AggregateMetrics_new :: AggregateMetrics where
  "AggregateMetrics_new = \<lparr>am_patterns = [], am_start_time = 0, am_stop_time = 0, am_running = False\<rparr>"

definition GetPattern :: "string \<Rightarrow> AggregateMetrics \<Rightarrow> AggregateMetrics" where
  "GetPattern name am =
     (case map_of (am_patterns am) name of
        Some _ \<Rightarrow> am
      | None \<Rightarrow> am\<lparr>am_patterns := om_put name PatternMetrics_zero (am_patterns am)\<rparr>)"

definition update_pattern :: "string \<Rightarrow> (PatternMetrics \<Rightarrow> PatternMetrics) \<Rightarrow> AggregateMetrics \<Rightarrow> AggregateMetrics" where
  "update_pattern name f am =
     (case map_of (am_patterns am) name of
        Some m \<Rightarrow> am\<lparr>am_patterns := om_put name (f m) (am_patterns am)\<rparr>
      | None \<Rightarrow> am)"

definition Aggregate_Reset :: "AggregateMetrics \<Rightarrow> AggregateMetrics" where
  "Aggregate_Reset am = am\<lparr>am_patterns := map (\<lambda>(n, m). (n, PatternMetrics_Reset m)) (am_patterns am)\<rparr>"

definition MarkStart :: "int \<Rightarrow> AggregateMetrics \<Rightarrow> AggregateMetrics" where
  "MarkStart now am = am\<lparr>am_start_time := now, am_running := True\<rparr>"

definition MarkStop :: "int \<Rightarrow> AggregateMetrics \<Rightarrow> AggregateMetrics" where
  "MarkStop now am = am\<lparr>am_stop_time := now, am_running := False\<rparr>"

definition ElapsedSeconds :: "int \<Rightarrow> AggregateMetrics \<Rightarrow> real" where
  "ElapsedSeconds now am =
     (let end_time = (if am_running am then now else am_stop_time am);
          duration = trunc_div (end_time - am_start_time am) 1000000
      in real_of_int duration / 1000)"

definition total_of :: "(PatternMetrics \<Rightarrow> 64 word) \<Rightarrow> AggregateMetrics \<Rightarrow> 64 word" where
  "total_of f am = fold (\<lambda>(_, m) total. total + f m) (am_patterns am) 0"

definition Aggregate_Snapshot :: "int \<Rightarrow> AggregateMetrics \<Rightarrow> json" where
  "Aggregate_Snapshot now am =
     (let result = fold (\<lambda>(name, m). om_put name (PatternMetrics_Snapshot m)) (am_patterns am) [];
          total_sent = total_of pm_sent am;
          total_received = total_of pm_received am;
          total_errors = total_of pm_errors am
      in JObj (om_put ''_totals''
           (JObj [(''sent'', JUint total_sent), (''received'', JUint total_received),
                  (''errors'', JUint total_errors), (''elapsed_seconds'', JReal (ElapsedSeconds now am))])
           result))"

section \<open>The checksum is the bitwise CRC\<close>

lemma bit_one_and: "(x AND 1 \<noteq> 0) = bit x 0" for x :: "32 word"
  by (simp add: bit_0 and_one_eq odd_iff_mod_2_eq_one)

lemma bit_crc_poly: "bit (0xEDB88320 :: 32 word) 31"
  by (simp add: bit_numeral_rec)

lemma crc_bit_xor: "crc_bit (x XOR y) = crc_bit x XOR crc_bit y"
proof (rule bit_eqI)
  fix n
  show "bit (crc_bit (x XOR y)) n = bit (crc_bit x XOR crc_bit y) n"
    unfolding crc_bit_def bit_one_and by (auto simp: bit_xor_iff bit_drop_bit_eq)
qed

lemma crc_bits_xor: "(crc_bit ^^ n) (x XOR y) = (crc_bit ^^ n) x XOR (crc_bit ^^ n) y"
  by (induction n) (simp_all add: crc_bit_xor)

lemma crc_bit_even: "\<not> bit x 0 \<Longrightarrow> crc_bit x = drop_bit 1 x"
  by (simp add: crc_bit_def bit_one_and)

lemma crc_bits_shift:
  assumes "\<And>i. i < n \<Longrightarrow> \<not> bit x i"
  shows "(crc_bit ^^ n) x = drop_bit n x"
  using assms
proof (induction n)
  case (Suc n)
  then have "(crc_bit ^^ n) x = drop_bit n x" by simp
  then have "(crc_bit ^^ Suc n) x = crc_bit (drop_bit n x)" by simp
  moreover have "\<not> bit (drop_bit n x) 0" using Suc.prems [of n] by (simp add: bit_drop_bit_eq)
  ultimately show ?case by (simp add: crc_bit_even)
qed simp

lemma and_FF: "x AND 0xFF = take_bit 8 x" for x :: "32 word"
proof -
  have "(0xFF :: 32 word) = mask 8" by (simp add: mask_eq_exp_minus_1)
  then show ?thesis by (simp only: take_bit_eq_mask)
qed

lemma low_byte_split: "x = take_bit 8 x XOR push_bit 8 (drop_bit 8 x)" for x :: "32 word"
  by (rule bit_eqI) (auto simp: bit_take_bit_iff bit_xor_iff bit_push_bit_iff bit_drop_bit_eq)

lemma bit_of_char_word: "bit (of_char c :: 32 word) i \<Longrightarrow> i < 8"
proof (rule ccontr)
  assume b: "bit (of_char c :: 32 word) i" and "\<not> i < 8"
  then have "(2 :: nat) ^ 8 \<le> 2 ^ i" by (intro power_increasing) simp_all
  then have "(256 :: nat) \<le> 2 ^ i" by simp
  then have "(of_char c :: nat) < 2 ^ i" using nat_of_char_less_256 [of c] less_le_trans by blast
  then have "\<not> bit (of_char c :: nat) i" by (simp add: bit_iff_odd)
  moreover have "bit (of_nat (of_char c) :: 32 word) i" using b by (simp only: of_nat_of_char)
  ultimately show False unfolding bit_of_nat_iff by blast
qed

lemma drop_bit_char: "drop_bit 8 (of_char c :: 32 word) = 0"
  by (rule bit_eqI) (auto simp: bit_drop_bit_eq dest: bit_of_char_word)

lemma table_lookup: "InitCrc32Table ! unat (take_bit 8 x) = (crc_bit ^^ 8) (take_bit 8 x)" for x :: "32 word"
proof -
  have "unat (take_bit 8 x) < 256"
    using take_bit_nat_less_exp [of 8 "unat x"] by (simp add: unsigned_take_bit_eq)
  then show ?thesis by (simp add: InitCrc32Table_def crc32_entry_def)
qed

lemma drop_push_drop: "drop_bit 8 (push_bit 8 (drop_bit 8 x)) = drop_bit 8 x" for x :: "32 word"
  by (rule bit_eqI) (auto simp: bit_drop_bit_eq bit_push_bit_iff dest: bit_imp_le_length)

lemma crc32_step_ref: "crc32_step crc c = crc_byte_ref crc c"
proof -
  let ?x = "crc XOR of_char c"
  have "drop_bit 8 ?x = drop_bit 8 crc" by (simp add: drop_bit_xor drop_bit_char)
  moreover have "(crc_bit ^^ 8) ?x = (crc_bit ^^ 8) (take_bit 8 ?x) XOR (crc_bit ^^ 8) (push_bit 8 (drop_bit 8 ?x))"
    by (subst low_byte_split [of ?x]) (rule crc_bits_xor)
  moreover have "(crc_bit ^^ 8) (push_bit 8 (drop_bit 8 ?x)) = drop_bit 8 (push_bit 8 (drop_bit 8 ?x))"
    by (rule crc_bits_shift) (auto simp: bit_push_bit_iff bit_xor_iff)
  moreover have "drop_bit 8 (push_bit 8 (drop_bit 8 ?x)) = drop_bit 8 ?x"
    by (rule drop_push_drop)
  ultimately show ?thesis
    unfolding crc32_step_def crc_byte_ref_def and_FF table_lookup by simp
qed

lemma xor_cancel: "x XOR z = y XOR z \<Longrightarrow> x = y" "z XOR x = z XOR y \<Longrightarrow> x = y" for x y z :: "32 word"
proof -
  have "x = y" if "\<And>n. bit (x XOR z) n = bit (y XOR z) n"
    using that by (intro bit_eqI) (auto simp: bit_xor_iff)
  then show "x XOR z = y XOR z \<Longrightarrow> x = y" "z XOR x = z XOR y \<Longrightarrow> x = y"
    by (simp_all add: xor.commute)
qed

lemma crc_bit_zero: "crc_bit z = 0 \<Longrightarrow> z = 0"
proof (rule bit_eqI)
  fix n
  assume z: "crc_bit z = 0"
  have even: "\<not> bit z 0"
  proof
    assume "bit z 0"
    then have "drop_bit 1 z = 0xEDB88320"
      using z xor_cancel(1) [of "drop_bit 1 z" "0xEDB88320" "0xEDB88320"] by (simp add: crc_bit_def bit_one_and)
    then have "bit (drop_bit 1 z) 31" using bit_crc_poly by simp
    then show False by (simp add: bit_drop_bit_eq) (use bit_imp_le_length in fastforce)
  qed
  then have "drop_bit 1 z = 0" using z by (simp add: crc_bit_even)
  then have "bit (drop_bit 1 z) m = bit 0 m" for m by simp
  then have "bit z (Suc m) = False" for m by (simp only: bit_drop_bit_eq comp_apply plus_1_eq_Suc bit_0_eq bot_apply bot_bool_def)
  with even show "bit z n = bit 0 n" by (cases n) auto
qed

lemma xor_zero_eq: "x XOR y = 0 \<Longrightarrow> x = y" for x y :: "32 word"
  using xor_cancel(1) [of x y y] by simp

lemma crc_bits_inj: "(crc_bit ^^ n) x = (crc_bit ^^ n) y \<Longrightarrow> x = y"
proof (induction n)
  case (Suc n)
  then have "crc_bit ((crc_bit ^^ n) x XOR (crc_bit ^^ n) y) = 0" by (simp add: crc_bit_xor)
  then show ?case using Suc.IH crc_bit_zero xor_zero_eq by blast
qed simp

lemma crc_byte_inj: "crc_byte_ref a c = crc_byte_ref b d \<Longrightarrow> a XOR of_char c = b XOR of_char d"
  unfolding crc_byte_ref_def by (rule crc_bits_inj)

lemma crc_fold_inj: "fold (\<lambda>c crc. crc_byte_ref crc c) ys a = fold (\<lambda>c crc. crc_byte_ref crc c) ys b \<Longrightarrow> a = b"
proof (induction ys arbitrary: a b)
  case (Cons y ys)
  have "crc_byte_ref a y = crc_byte_ref b y"
    by (rule Cons.IH) (use Cons.prems in \<open>simp only: fold_Cons comp_apply\<close>)
  then show ?case by (rule xor_cancel(1) [OF crc_byte_inj])
qed simp

lemma of_char_word_inj: "(of_char c :: 32 word) = of_char d \<Longrightarrow> c = d"
proof -
  assume "(of_char c :: 32 word) = of_char d"
  then have "(of_nat (of_char c) :: 32 word) = of_nat (of_char d)" by (simp only: of_nat_of_char)
  then have "(of_char c :: nat) mod 2 ^ 32 = of_char d mod 2 ^ 32" by (simp add: word_of_nat_eq_iff take_bit_eq_mod)
  moreover have "(of_char x :: nat) < 2 ^ 32" for x
    by (rule less_trans [OF nat_of_char_less_256]) simp
  ultimately show "c = d" by simp
qed


text \<open>C26. The checksum detects every corruption of a single byte: replacing one byte of a body by a
  different one always changes the checksum, wherever the byte stands.\<close>

theorem Crc32_detects_byte_change:
  assumes "a \<noteq> b"
  shows "Crc32 (xs @ a # ys) \<noteq> Crc32 (xs @ b # ys)"
proof
  assume eq: "Crc32 (xs @ a # ys) = Crc32 (xs @ b # ys)"
  let ?s = "fold (\<lambda>c crc. crc_byte_ref crc c)"
  have "?s (xs @ a # ys) 0xFFFFFFFF = ?s (xs @ b # ys) 0xFFFFFFFF"
    using eq unfolding Crc32_def crc32_step_ref by (rule xor_cancel(1))
  then have "crc_byte_ref (?s xs 0xFFFFFFFF) a = crc_byte_ref (?s xs 0xFFFFFFFF) b"
    using crc_fold_inj [of ys] by simp
  then have "(of_char a :: 32 word) = of_char b"
    by (intro xor_cancel(2) [OF crc_byte_inj])
  then show False using of_char_word_inj assms by blast
qed

theorem Crc32_detects_byte_change_witness: "Crc32 ''events-1'' \<noteq> Crc32 ''events-7''"
  using Crc32_detects_byte_change [of "CHR ''1''" "CHR ''7''" "''events-''" "[]"] by simp

section \<open>Aggregation\<close>

interpretation metrics_map: std_map "\<lambda>m :: (string, PatternMetrics) omap. map_of m" om_put om_inv
  by unfold_locales (simp_all add: om_put_lookup om_inv_put)

definition metrics_inv :: "AggregateMetrics \<Rightarrow> bool" where
  "metrics_inv am = (om_inv (am_patterns am) \<and> ''_totals'' \<notin> fst ` set (am_patterns am))"

lemma metrics_inv_new [simp]: "metrics_inv AggregateMetrics_new"
  by (simp add: metrics_inv_def AggregateMetrics_new_def om_inv_def)

lemma metrics_inv_GetPattern: "metrics_inv am \<Longrightarrow> name \<noteq> ''_totals'' \<Longrightarrow> metrics_inv (GetPattern name am)"
  by (auto simp: metrics_inv_def GetPattern_def om_inv_put om_put_keys split: option.split)

lemma metrics_inv_update: "metrics_inv am \<Longrightarrow> metrics_inv (update_pattern name f am)"
  by (auto simp: metrics_inv_def update_pattern_def om_inv_put om_put_keys rev_image_eqI split: option.split
      dest: map_of_SomeD)

lemma reset_keys: "map fst (am_patterns (Aggregate_Reset am)) = map fst (am_patterns am)"
  by (simp add: Aggregate_Reset_def case_prod_unfold comp_def)

lemma metrics_inv_Reset: "metrics_inv am \<Longrightarrow> metrics_inv (Aggregate_Reset am)"
  using reset_keys [of am] unfolding metrics_inv_def om_inv_def set_map [symmetric] by simp

lemma PatternMetrics_Reset_zero: "PatternMetrics_Reset m = PatternMetrics_zero"
  by (simp add: PatternMetrics_Reset_def PatternMetrics_zero_def)

lemma fold_add_eq: "fold (\<lambda>(_, m) total. total + f m) ms a = a + sum_list (map (f \<circ> snd) ms)" for a :: "64 word"
  by (induction ms arbitrary: a) (auto simp: add.assoc)

lemma total_of_sum: "total_of f am = sum_list (map (f \<circ> snd) (am_patterns am))"
  by (simp add: total_of_def fold_add_eq)

lemma unat_sum_list: "unat (sum_list ws) = sum_list (map unat ws) mod 2 ^ 64" for ws :: "64 word list"
  by (induction ws) (simp_all add: unat_word_ariths mod_simps)

lemma snapshot_members:
  assumes "metrics_inv am"
  shows "\<exists>kvs. Aggregate_Snapshot now am = JObj kvs \<and> om_inv kvs
           \<and> (\<forall>name. name \<noteq> ''_totals'' \<longrightarrow> map_of kvs name = map_option PatternMetrics_Snapshot (map_of (am_patterns am) name))"
proof -
  let ?es = "map (\<lambda>(n, m). (n, PatternMetrics_Snapshot m)) (am_patterns am)"
  let ?o = "fold (\<lambda>(k, v). om_put k v) ?es []"
  have o: "om_inv (am_patterns am)" and t: "map_of (am_patterns am) ''_totals'' = None"
    using assms by (simp_all add: metrics_inv_def map_of_eq_None_iff)
  have f: "fold (\<lambda>(name, m). om_put name (PatternMetrics_Snapshot m)) (am_patterns am) [] = ?o"
    by (simp add: fold_map comp_def case_prod_unfold)
  have "om_inv ?es" using o by (simp add: om_inv_map_values [of "\<lambda>_. PatternMetrics_Snapshot"])
  then have d: "distinct (map fst ?es)" by (rule om_inv_distinct)
  have l: "map_of ?o name = map_option PatternMetrics_Snapshot (map_of (am_patterns am) name)" for name
    unfolding json_object.fold_put_lookup [OF om_inv_Nil d]
    by (simp add: map_of_map_values [of "\<lambda>_. PatternMetrics_Snapshot"] split: option.splits)
  have i: "om_inv ?o" by (rule json_object.fold_put_ordered) simp
  show ?thesis
    unfolding Aggregate_Snapshot_def f using l t i by (simp add: Let_def om_inv_put om_put_lookup)
qed

lemma totals_member:
  "map_of (case Aggregate_Snapshot now am of JObj kvs \<Rightarrow> kvs) ''_totals'' =
     Some (JObj [(''sent'', JUint (total_of pm_sent am)), (''received'', JUint (total_of pm_received am)),
                 (''errors'', JUint (total_of pm_errors am)), (''elapsed_seconds'', JReal (ElapsedSeconds now am))])"
  by (simp add: Aggregate_Snapshot_def Let_def om_put_lookup)

lemma elapsed_stopped:
  assumes "am_start_time am \<le> t1"
  shows "trunc_to_int (ElapsedSeconds now (MarkStop t1 am)) = (t1 - am_start_time am) div 1000000000"
proof -
  have "\<lfloor>real_of_int x / 1000\<rfloor> = x div 1000" for x
    using floor_divide_of_int_eq [where 'a = real, of x 1000] by simp
  moreover have "0 \<le> real_of_int ((t1 - am_start_time am) div 1000000) / 1000"
    using assms by (simp add: pos_imp_zdiv_nonneg_iff)
  ultimately show ?thesis
    using assms by (simp add: ElapsedSeconds_def MarkStop_def trunc_div_pos trunc_to_int_def
        zdiv_zmult2_eq [symmetric])
qed

lemma update_pattern_times [simp]:
  "am_start_time (update_pattern n f am) = am_start_time am" "am_start_time (Aggregate_Reset am) = am_start_time am"
  by (simp_all add: update_pattern_def Aggregate_Reset_def split: option.split)

text \<open>A snapshot of all patterns lists every pattern with its own counters next to the totals, and the
  totals are the sums of the counters of the patterns, modulo \<open>2\<^sup>6\<^sup>4\<close>.\<close>

theorem Aggregate_Snapshot_spec:
  assumes "metrics_inv am"
  shows "\<exists>kvs sent received errors.
           Aggregate_Snapshot now am = JObj kvs \<and> om_inv kvs
           \<and> (\<forall>name. name \<noteq> ''_totals'' \<longrightarrow>
                map_of kvs name = map_option PatternMetrics_Snapshot (map_of (am_patterns am) name))
           \<and> map_of kvs ''_totals'' =
               Some (JObj [(''sent'', JUint sent), (''received'', JUint received), (''errors'', JUint errors),
                           (''elapsed_seconds'', JReal (ElapsedSeconds now am))])
           \<and> unat sent = (\<Sum>(_, m) \<leftarrow> am_patterns am. unat (pm_sent m)) mod 2 ^ 64
           \<and> unat received = (\<Sum>(_, m) \<leftarrow> am_patterns am. unat (pm_received m)) mod 2 ^ 64
           \<and> unat errors = (\<Sum>(_, m) \<leftarrow> am_patterns am. unat (pm_errors m)) mod 2 ^ 64"
proof -
  obtain kvs where kvs: "Aggregate_Snapshot now am = JObj kvs" "om_inv kvs"
      "\<forall>name. name \<noteq> ''_totals'' \<longrightarrow> map_of kvs name = map_option PatternMetrics_Snapshot (map_of (am_patterns am) name)"
    using snapshot_members [OF assms] by blast
  moreover have "unat (total_of f am) = (\<Sum>(_, m) \<leftarrow> am_patterns am. unat (f m)) mod 2 ^ 64" for f
    by (simp add: total_of_sum unat_sum_list comp_def case_prod_unfold)
  moreover have "map_of kvs ''_totals'' = Some (JObj [(''sent'', JUint (total_of pm_sent am)),
      (''received'', JUint (total_of pm_received am)), (''errors'', JUint (total_of pm_errors am)),
      (''elapsed_seconds'', JReal (ElapsedSeconds now am))])"
    using totals_member [of now am] kvs(1) by simp
  ultimately show ?thesis by blast
qed

definition sample_metrics :: AggregateMetrics where
  "sample_metrics =
     update_pattern ''events'' (\<lambda>m. m\<lparr>pm_sent := - 1\<rparr>)
       (update_pattern ''queries'' (\<lambda>m. m\<lparr>pm_sent := 3\<rparr>)
         (GetPattern ''events'' (GetPattern ''queries'' AggregateMetrics_new)))"

lemma sample_metrics_inv: "metrics_inv sample_metrics"
  unfolding sample_metrics_def by (intro metrics_inv_update metrics_inv_GetPattern) simp_all

theorem Aggregate_Snapshot_spec_witness:
  "\<exists>kvs. Aggregate_Snapshot 0 sample_metrics = JObj kvs \<and> map_of kvs ''commands'' = None"
  using Aggregate_Snapshot_spec [OF sample_metrics_inv, of 0]
  by (auto simp: sample_metrics_def GetPattern_def update_pattern_def AggregateMetrics_new_def)

section \<open>Counting is independent of the interleaving\<close>

lemma load_fetch_add: "load c' (fetch_add c k m) = (if c' = c then load c' m + k else load c' m)"
  by (cases c; cases c') simp_all

lemma metrics_eqI:
  assumes "\<And>c. load c m = load c m'"
  shows "m = (m' :: PatternMetrics)"
  using assms [of C_sent] assms [of C_received] assms [of C_errors] assms [of C_lost] assms [of C_duplicated] assms [of C_corrupted] assms [of C_out_of_order] assms [of C_bytes_sent] assms [of C_bytes_received] assms [of C_rpc_success] assms [of C_rpc_timeout] assms [of C_rpc_error] assms [of C_reconnections]
  by (intro PatternMetrics.equality) simp_all

definition added :: "counter \<Rightarrow> fetch_adds \<Rightarrow> 64 word" where
  "added c adds = sum_list (map snd (filter (\<lambda>a. fst a = c) adds))"

lemma added_simps [simp]:
  "added c [] = 0" "added c ((c', k) # adds) = (if c' = c then k + added c adds else added c adds)"
  "added c (xs @ ys) = added c xs + added c ys"
  by (simp_all add: added_def)

lemma load_apply_adds: "load c (apply_adds adds m) = load c m + added c adds"
  unfolding apply_adds_def
  by (induction adds arbitrary: m) (auto simp: load_fetch_add)

lemma added_mset: "mset xs = mset ys \<Longrightarrow> added c xs = added c ys"
proof -
  assume "mset xs = mset ys"
  then have "mset (map snd (filter (\<lambda>a. fst a = c) xs)) = mset (map snd (filter (\<lambda>a. fst a = c) ys))"
    by simp
  then show ?thesis unfolding added_def by (simp only: sum_mset_sum_list [symmetric])
qed

text \<open>However the threads of a worker interleave their increments, the counters end up the same: each
  holds its initial value plus everything added to it, modulo \<open>2\<^sup>6\<^sup>4\<close>.  No increment is lost.\<close>

theorem counters_interleaving_independent:
  assumes "zs \<in> shuffles xs ys"
  shows "apply_adds zs m = apply_adds ys (apply_adds xs m)
         \<and> (\<forall>c. load c (apply_adds zs m) = load c m + added c xs + added c ys)"
proof -
  have "mset zs = mset (xs @ ys)" using mset_shuffles [OF assms] by simp
  then have "added c zs = added c (xs @ ys)" for c by (rule added_mset)
  then have l: "load c (apply_adds zs m) = load c m + added c xs + added c ys" for c
    by (simp only: load_apply_adds added_simps add.assoc)
  moreover have "apply_adds zs m = apply_adds ys (apply_adds xs m)"
    by (rule metrics_eqI) (unfold l, simp only: load_apply_adds)
  ultimately show ?thesis by blast
qed

theorem counters_interleaving_independent_witness:
  "apply_adds [(C_sent, 1), (C_received, 1), (C_bytes_sent, 8)] PatternMetrics_zero
     = apply_adds [(C_received, 1)] (apply_adds [(C_sent, 1), (C_bytes_sent, 8)] PatternMetrics_zero)"
  using counters_interleaving_independent
    [of "[(C_sent, 1), (C_received, 1), (C_bytes_sent, 8)]" "[(C_sent, 1), (C_bytes_sent, 8)]" "[(C_received, 1)]"
        PatternMetrics_zero]
  by (simp add: Cons_in_shuffles_iff)

end
