(* ===== verification/Burnin_Workers.thy ===== *)
theory Burnin_Workers
  imports Burnin_Config Burnin_Metrics Client_Queues Queue_Stream Subscriptions Stream_Handles
begin

text \<open>
  The six pattern workers of the burn-in application (burnin/worker/).  Each runs a producing and a
  consuming loop in threads of their own; the loops are built from the client operations of the
  other theories.  What a loop does to the shared counters is returned as the list of its
  \<^verbatim>\<open>fetch_add\<close> calls (\<open>counters_interleaving_independent\<close> makes the interleaving immaterial).  The
  loops end when the atomic flag \<^verbatim>\<open>running_\<close> is cleared by another thread: reading it is an action on
  the world, and the loops carry fuel, with a flag that says whether they ended by themselves.
  Time points count nanoseconds.  Console output is not modelled.
\<close>

section \<open>Environment and worker\<close>

record 'w burnin_env =
  be_grpc :: "'w grpc_env"
  be_fs :: filesystem
  be_rand64 :: "('w, 64 word) state"
  be_contexts :: "'w context_ops"
  be_running :: "('w, bool) state"
  be_store_running :: "bool \<Rightarrow> ('w, unit) state"
  be_now :: "('w, int) state"
  be_sleep_until :: "int \<Rightarrow> ('w, unit) state"
  be_sleep_ms :: "int \<Rightarrow> ('w, unit) state"
  be_try_cancel :: "nat \<Rightarrow> ('w, unit) state"
  be_spawn :: "bool \<Rightarrow> ('w, unit) state"
  be_join :: "bool \<Rightarrow> ('w, 'w Client option) state"

record Worker =
  wk_broker_address :: string
  wk_client_id_prefix :: string
  wk_channel :: string
  wk_rate :: int
  wk_queue_config :: QueueConfig

definition worker_options :: "Worker \<Rightarrow> string \<Rightarrow> 'w ClientOptions" where
  "worker_options wk suffix =
     set_client_id (wk_client_id_prefix wk @ suffix) (set_address (wk_broker_address wk) ClientOptions_default)"

definition create_client :: "'w burnin_env \<Rightarrow> Worker \<Rightarrow> string \<Rightarrow> ('w, 'w Client StatusOr) state" where
  "create_client E wk suffix =
     Client_Create (be_grpc E) (be_fs E) (be_rand64 E) (be_contexts E) (worker_options wk suffix)"

section \<open>Pacing\<close>

text \<open>\<^verbatim>\<open>std::chrono::microseconds(1000000 / std::max(rate_, 1))\<close>, in nanoseconds.\<close>

definition send_interval :: "int \<Rightarrow> int" where
  "send_interval rate = 1000 * trunc_div 1000000 (max rate 1)"

definition pace :: "'w burnin_env \<Rightarrow> int \<Rightarrow> int \<Rightarrow> ('w, int) state" where
  "pace E interval next_send =
     (let next_send = next_send + interval in do {
        now \<leftarrow> be_now E;
        (if now < next_send then do { _ \<leftarrow> be_sleep_until E next_send; ret next_send }
         else be_now E)
      })"

fun paced_loop :: "'w burnin_env \<Rightarrow> int \<Rightarrow> (64 word \<Rightarrow> ('w, fetch_adds) state) \<Rightarrow> nat \<Rightarrow> 64 word \<Rightarrow> int
    \<Rightarrow> ('w, fetch_adds \<times> bool) state" where
  "paced_loop E interval body 0 seq next_send = ret ([], False)"
| "paced_loop E interval body (Suc fuel) seq next_send = do {
     running \<leftarrow> be_running E;
     (if \<not> running then ret ([], True)
      else do {
        let seq = seq + 1;
        adds \<leftarrow> body seq;
        next_send \<leftarrow> pace E interval next_send;
        (rest, ended) \<leftarrow> paced_loop E interval body fuel seq next_send;
        ret (adds @ rest, ended)
      })
   }"

text \<open>The frame of every producing thread: connect, then send at the configured rate.  The client stays
  in the worker's member.\<close>

definition run_producer :: "'w burnin_env \<Rightarrow> nat \<Rightarrow> Worker \<Rightarrow> string \<Rightarrow> ('w Client \<Rightarrow> 64 word \<Rightarrow> ('w, fetch_adds) state)
    \<Rightarrow> ('w, fetch_adds \<times> bool \<times> 'w Client option) state" where
  "run_producer E fuel wk suffix body = do {
     client_or \<leftarrow> create_client E wk suffix;
     (case client_or of
        Inl _ \<Rightarrow> ret ([(C_errors, 1)], True, None)
      | Inr client \<Rightarrow> do {
          next_send \<leftarrow> be_now E;
          (adds, ended) \<leftarrow> paced_loop E (send_interval (wk_rate wk)) (body client) fuel 0 next_send;
          ret (adds, ended, Some client)
        })
   }"

definition error_unless_stopping :: "'w burnin_env \<Rightarrow> fetch_adds \<Rightarrow> ('w, fetch_adds) state" where
  "error_unless_stopping E adds = do {
     running \<leftarrow> be_running E;
     ret (if running then (C_errors, 1) # adds else [])
   }"

definition seq_text :: "64 word \<Rightarrow> string" where
  "seq_text seq = nat_to_string (unat seq)"

definition size_of :: "string \<Rightarrow> 64 word" where
  "size_of body = of_nat (length body)"

section \<open>Producing one message\<close>

definition events_send :: "'w burnin_env \<Rightarrow> Worker \<Rightarrow> 'w Client \<Rightarrow> 64 word \<Rightarrow> ('w, fetch_adds) state" where
  "events_send E wk c seq =
     (let body = ''events-'' @ seq_text seq in do {
        status \<leftarrow> PublishEvent (be_rand64 E) c (wk_channel wk) body [] Map.empty;
        (if ok status then ret [(C_sent, 1), (C_bytes_sent, size_of body)]
         else error_unless_stopping E [])
      })"

definition events_store_send :: "'w burnin_env \<Rightarrow> Worker \<Rightarrow> 'w Client \<Rightarrow> 64 word \<Rightarrow> ('w, fetch_adds) state" where
  "events_store_send E wk c seq =
     (let body = ''events_store-'' @ seq_text seq in do {
        result_or \<leftarrow> PublishEventStore (be_rand64 E) c (wk_channel wk) body [] Map.empty;
        (case result_or of
           Inr result \<Rightarrow> if ers_sent result then ret [(C_sent, 1), (C_bytes_sent, size_of body)]
                          else error_unless_stopping E []
         | Inl _ \<Rightarrow> error_unless_stopping E [])
      })"

definition queue_simple_send :: "'w burnin_env \<Rightarrow> Worker \<Rightarrow> 'w Client \<Rightarrow> 64 word \<Rightarrow> ('w, fetch_adds) state" where
  "queue_simple_send E wk c seq =
     (let body = ''queue_simple-'' @ seq_text seq in do {
        result_or \<leftarrow> SendQueueMessageSimple (be_rand64 E) c (wk_channel wk) body 0 0;
        (case result_or of
           Inr result \<Rightarrow> if \<not> qs_is_error result then ret [(C_sent, 1), (C_bytes_sent, size_of body)]
                          else error_unless_stopping E []
         | Inl _ \<Rightarrow> error_unless_stopping E [])
      })"

definition rpc_failure :: "'w burnin_env \<Rightarrow> Status \<Rightarrow> ('w, fetch_adds) state" where
  "rpc_failure E s = error_unless_stopping E [(if code s = kTimeout then C_rpc_timeout else C_rpc_error, 1)]"

definition commands_send :: "'w burnin_env \<Rightarrow> Worker \<Rightarrow> 'w Client \<Rightarrow> 64 word \<Rightarrow> ('w, fetch_adds) state" where
  "commands_send E wk c seq =
     (let body = ''command-'' @ seq_text seq in do {
        resp_or \<leftarrow> SendCommandSimple (be_rand64 E) c (wk_channel wk) body 5000;
        (case resp_or of
           Inr resp \<Rightarrow> ret ([(C_sent, 1), (C_bytes_sent, size_of body), (C_rpc_success, 1)]
             @ (if co_executed resp then [(C_received, 1)] else []))
         | Inl s \<Rightarrow> rpc_failure E s)
      })"

definition queries_send :: "'w burnin_env \<Rightarrow> Worker \<Rightarrow> 'w Client \<Rightarrow> 64 word \<Rightarrow> ('w, fetch_adds) state" where
  "queries_send E wk c seq =
     (let body = ''query-'' @ seq_text seq in do {
        resp_or \<leftarrow> SendQuerySimple (be_rand64 E) c (wk_channel wk) body 5000;
        (case resp_or of
           Inr resp \<Rightarrow> ret ([(C_sent, 1), (C_bytes_sent, size_of body), (C_rpc_success, 1)]
             @ (if qo_executed resp then [(C_received, 1), (C_bytes_received, size_of (qo_body resp))] else []))
         | Inl s \<Rightarrow> rpc_failure E s)
      })"

text \<open>The stream worker counts what it sends in the result callback of the upstream handle;
  \<open>handle\<close> reads the current state of the handle, which its reader thread may change.\<close>

definition queue_stream_on_result :: "QueueUpstreamResult \<Rightarrow> fetch_adds" where
  "queue_stream_on_result result =
     (if \<not> uur_is_error result
      then map (\<lambda>r. (if \<not> qs_is_error r then C_sent else C_errors, 1)) (uur_results result)
      else [(C_errors, 1)])"

definition on_subscription_error :: "Status \<Rightarrow> fetch_adds" where
  "on_subscription_error err = [(C_errors, 1)]"

text \<open>The callbacks run in reader threads, where the counters are reached through the world: \<open>tally\<close>
  performs the \<^verbatim>\<open>fetch_add\<close> calls of a callback.\<close>

definition count_errors :: "(fetch_adds \<Rightarrow> ('w, unit) state) \<Rightarrow> 'w error_callback" where
  "count_errors tally err = do { _ \<leftarrow> tally (on_subscription_error err); ret None }"

definition install_callbacks :: "(fetch_adds \<Rightarrow> ('w, unit) state) \<Rightarrow> ('w, QueueUpstreamResult) StreamHandle
    \<Rightarrow> ('w, QueueUpstreamResult) StreamHandle" where
  "install_callbacks tally upstream =
     SetOnError (Some (count_errors tally))
       (SetOnResult (Some (\<lambda>result. do { _ \<leftarrow> tally (queue_stream_on_result result); ret None })) upstream)"

definition queue_stream_send :: "'w burnin_env \<Rightarrow> ('w, PbQueuesUpstreamRequest, 'a) stream_ops
    \<Rightarrow> ('w, ('w, QueueUpstreamResult) StreamHandle) state \<Rightarrow> Worker \<Rightarrow> 64 word \<Rightarrow> ('w, fetch_adds) state" where
  "queue_stream_send E ops handle wk seq =
     (let body = ''queue_stream-'' @ seq_text seq in do {
        msg_or \<leftarrow> QueueMessage_Build (be_rand64 E)
          (QueueMessage_SetBody body (QueueMessage_SetChannel (wk_channel wk) QueueMessage_default));
        (case msg_or of
           Inl _ \<Rightarrow> ret []
         | Inr msg \<Rightarrow> do {
             h \<leftarrow> handle;
             status \<leftarrow> QueueUpstreamHandle_Send (be_rand64 E) ops h (''burnin-'' @ seq_text seq) [msg];
             (if ok status then ret [(C_bytes_sent, size_of body)]
              else do {
                failure \<leftarrow> error_unless_stopping E [];
                ret ((C_bytes_sent, size_of body) # failure)
              })
           })
      })"

section \<open>The producing threads\<close>

definition EventsWorker_ProducerLoop :: "'w burnin_env \<Rightarrow> nat \<Rightarrow> Worker \<Rightarrow> ('w, fetch_adds \<times> bool \<times> 'w Client option) state" where
  "EventsWorker_ProducerLoop E fuel wk = run_producer E fuel wk ''-events-producer'' (events_send E wk)"

definition EventsStoreWorker_ProducerLoop :: "'w burnin_env \<Rightarrow> nat \<Rightarrow> Worker
    \<Rightarrow> ('w, fetch_adds \<times> bool \<times> 'w Client option) state" where
  "EventsStoreWorker_ProducerLoop E fuel wk = run_producer E fuel wk ''-es-producer'' (events_store_send E wk)"

definition QueueSimpleWorker_ProducerLoop :: "'w burnin_env \<Rightarrow> nat \<Rightarrow> Worker
    \<Rightarrow> ('w, fetch_adds \<times> bool \<times> 'w Client option) state" where
  "QueueSimpleWorker_ProducerLoop E fuel wk = run_producer E fuel wk ''-qs-producer'' (queue_simple_send E wk)"

definition CommandsWorker_SenderLoop :: "'w burnin_env \<Rightarrow> nat \<Rightarrow> Worker
    \<Rightarrow> ('w, fetch_adds \<times> bool \<times> 'w Client option) state" where
  "CommandsWorker_SenderLoop E fuel wk = run_producer E fuel wk ''-cmd-sender'' (commands_send E wk)"

definition QueriesWorker_SenderLoop :: "'w burnin_env \<Rightarrow> nat \<Rightarrow> Worker
    \<Rightarrow> ('w, fetch_adds \<times> bool \<times> 'w Client option) state" where
  "QueriesWorker_SenderLoop E fuel wk = run_producer E fuel wk ''-qry-sender'' (queries_send E wk)"

definition QueueStreamWorker_ProducerLoop :: "'w burnin_env \<Rightarrow> ('w, PbQueuesUpstreamRequest, 'a) stream_ops
    \<Rightarrow> (fetch_adds \<Rightarrow> ('w, unit) state)
    \<Rightarrow> (('w, QueueUpstreamResult) StreamHandle \<Rightarrow> ('w, ('w, QueueUpstreamResult) StreamHandle) state)
    \<Rightarrow> nat \<Rightarrow> Worker \<Rightarrow> ('w, fetch_adds \<times> bool \<times> 'w Client option) state" where
  "QueueStreamWorker_ProducerLoop E ops tally watch fuel wk = do {
     client_or \<leftarrow> create_client E wk ''-qstream-producer'';
     (case client_or of
        Inl _ \<Rightarrow> ret ([(C_errors, 1)], True, None)
      | Inr client \<Rightarrow> do {
          upstream_or \<leftarrow> Client_QueueUpstream client (None, None);
          (case upstream_or of
             Inl _ \<Rightarrow> ret ([(C_errors, 1)], True, Some client)
           | Inr upstream \<Rightarrow> do {
               next_send \<leftarrow> be_now E;
               (adds, ended) \<leftarrow> paced_loop E (send_interval (wk_rate wk))
                 (queue_stream_send E ops (watch (install_callbacks tally upstream)) wk) fuel 0 next_send;
               ret (adds, ended, Some client)
             })
        })
   }"

section \<open>Consuming\<close>

definition EventsWorker_on_event :: "EventReceive \<Rightarrow> fetch_adds" where
  "EventsWorker_on_event event = [(C_received, 1), (C_bytes_received, size_of (er_body event))]"

definition EventsStoreWorker_on_event :: "EventStoreReceive \<Rightarrow> fetch_adds" where
  "EventsStoreWorker_on_event event = [(C_received, 1), (C_bytes_received, size_of (eer_body event))]"

definition CommandsWorker_on_command :: "Worker \<Rightarrow> 'w Client \<Rightarrow> CommandReceive \<Rightarrow> ('w, fetch_adds) state" where
  "CommandsWorker_on_command wk c cmd =
     (case CommandReply_Build (CommandReply_SetClientId (wk_client_id_prefix wk @ ''-cmd-responder'')
             (CommandReply_SetResponseTo (cv_response_to cmd)
               (CommandReply_SetRequestId (cv_id cmd) CommandReply_default))) of
        Inl _ \<Rightarrow> ret []
      | Inr reply \<Rightarrow> do {
          status \<leftarrow> Client_SendCommandResponse c reply;
          ret (if \<not> ok status then [(C_errors, 1)] else [])
        })"

definition QueriesWorker_on_query :: "Worker \<Rightarrow> 'w Client \<Rightarrow> QueryReceive \<Rightarrow> ('w, fetch_adds) state" where
  "QueriesWorker_on_query wk c query =
     (case QueryReply_Build (QueryReply_SetBody (''response-to-'' @ qv_body query)
             (QueryReply_SetClientId (wk_client_id_prefix wk @ ''-qry-responder'')
               (QueryReply_SetResponseTo (qv_response_to query)
                 (QueryReply_SetRequestId (qv_id query) QueryReply_default)))) of
        Inl _ \<Rightarrow> ret []
      | Inr reply \<Rightarrow> do {
          status \<leftarrow> Client_SendQueryResponse c reply;
          ret (if \<not> ok status then [(C_errors, 1)] else [])
        })"

fun wait_stopped :: "'w burnin_env \<Rightarrow> nat \<Rightarrow> ('w, bool) state" where
  "wait_stopped E 0 = ret False"
| "wait_stopped E (Suc fuel) = do {
     running \<leftarrow> be_running E;
     (if running then do { _ \<leftarrow> be_sleep_ms E 100; wait_stopped E fuel } else ret True)
   }"

text \<open>The frame of the four subscribing threads: connect, subscribe, wait until stopped, cancel.  The
  deliveries happen in the reader thread of the subscription.\<close>

definition run_subscriber :: "'w burnin_env \<Rightarrow> nat \<Rightarrow> Worker \<Rightarrow> string
    \<Rightarrow> ('w Client \<Rightarrow> ('w, ('w Subscription \<times> nat) StatusOr) state)
    \<Rightarrow> ('w, fetch_adds \<times> bool \<times> 'w Client option) state" where
  "run_subscriber E fuel wk suffix subscribe = do {
     client_or \<leftarrow> create_client E wk suffix;
     (case client_or of
        Inl _ \<Rightarrow> ret ([(C_errors, 1)], True, None)
      | Inr client \<Rightarrow> do {
          sub_or \<leftarrow> subscribe client;
          (case sub_or of
             Inl _ \<Rightarrow> ret ([(C_errors, 1)], True, Some client)
           | Inr (sub, stream) \<Rightarrow> do {
               ended \<leftarrow> wait_stopped E fuel;
               (if \<not> ended then ret ([], False, Some client)
                else do {
                  _ \<leftarrow> Cancel (be_try_cancel E) sub;
                  ret ([], True, Some client)
                })
             })
        })
   }"

definition EventsWorker_ConsumerLoop :: "'w burnin_env \<Rightarrow> nat \<Rightarrow> Worker
    \<Rightarrow> ('w, fetch_adds \<times> bool \<times> 'w Client option) state" where
  "EventsWorker_ConsumerLoop E fuel wk = run_subscriber E fuel wk ''-events-consumer''
     (\<lambda>c. Client_SubscribeToEvents (be_rand64 E) c (wk_channel wk, []))"

definition EventsStoreWorker_ConsumerLoop :: "'w burnin_env \<Rightarrow> nat \<Rightarrow> Worker
    \<Rightarrow> ('w, fetch_adds \<times> bool \<times> 'w Client option) state" where
  "EventsStoreWorker_ConsumerLoop E fuel wk = run_subscriber E fuel wk ''-es-consumer''
     (\<lambda>c. Client_SubscribeToEventsStore (be_rand64 E) c (wk_channel wk, [], StartFromNewEvents))"

definition CommandsWorker_ResponderLoop :: "'w burnin_env \<Rightarrow> nat \<Rightarrow> Worker
    \<Rightarrow> ('w, fetch_adds \<times> bool \<times> 'w Client option) state" where
  "CommandsWorker_ResponderLoop E fuel wk = run_subscriber E fuel wk ''-cmd-responder''
     (\<lambda>c. Client_SubscribeToCommands (be_rand64 E) c (wk_channel wk, []))"

definition QueriesWorker_ResponderLoop :: "'w burnin_env \<Rightarrow> nat \<Rightarrow> Worker
    \<Rightarrow> ('w, fetch_adds \<times> bool \<times> 'w Client option) state" where
  "QueriesWorker_ResponderLoop E fuel wk = run_subscriber E fuel wk ''-qry-responder''
     (\<lambda>c. Client_SubscribeToQueries (be_rand64 E) c (wk_channel wk, []))"

definition queue_simple_receive :: "'w burnin_env \<Rightarrow> Worker \<Rightarrow> 'w Client \<Rightarrow> ('w, fetch_adds) state" where
  "queue_simple_receive E wk c =
     (let req = ReceiveQueueMessagesRequest_default\<lparr>rmq_channel := wk_channel wk,
            rmq_max_number_of_messages := qc_poll_max_messages (wk_queue_config wk),
            rmq_wait_time_seconds := min (qc_poll_wait_timeout_seconds (wk_queue_config wk)) 2\<rparr>
      in do {
        resp_or \<leftarrow> Client_ReceiveQueueMessages (be_rand64 E) c req;
        ret (case resp_or of
           Inl _ \<Rightarrow> [(C_errors, 1)]
         | Inr resp \<Rightarrow>
             if \<not> rmo_is_error resp
             then (C_received, word_of_int (rmo_messages_received resp))
                  # map (\<lambda>msg. (C_bytes_received, size_of (qm_body msg))) (rmo_messages resp)
             else [])
      })"

definition queue_stream_poll :: "'w burnin_env \<Rightarrow> 'w downstream_ops \<Rightarrow> nat set \<Rightarrow> Worker
    \<Rightarrow> 'w QueueDownstreamReceiver \<Rightarrow> ('w, fetch_adds) state" where
  "queue_stream_poll E ops live wk receiver =
     (let poll_req = PollRequest_default\<lparr>plr_channel := wk_channel wk,
            plr_max_items := qc_poll_max_messages (wk_queue_config wk),
            plr_wait_timeout_seconds := min (qc_poll_wait_timeout_seconds (wk_queue_config wk)) 2,
            plr_auto_ack := qc_auto_ack (wk_queue_config wk)\<rparr>
      in do {
        poll_or \<leftarrow> Poll (be_rand64 E) ops receiver poll_req;
        (case poll_or of
           Inl _ \<Rightarrow> error_unless_stopping E []
         | Inr p \<Rightarrow>
             if po_is_error p then ret []
             else let counted = (C_received, of_nat (length (po_messages p)))
                        # map (\<lambda>d. (C_bytes_received, size_of (qm_body (qd_message d)))) (po_messages p)
                  in if \<not> qc_auto_ack (wk_queue_config wk) \<and> po_messages p \<noteq> []
                     then do {
                       ack_status \<leftarrow> Poll_AckAll (be_rand64 E) ops live p;
                       ret (counted @ (if \<not> ok ack_status then [(C_errors, 1)] else []))
                     }
                     else ret counted)
      })"

fun polling_loop :: "'w burnin_env \<Rightarrow> ('w, fetch_adds) state \<Rightarrow> nat \<Rightarrow> ('w, fetch_adds \<times> bool) state" where
  "polling_loop E body 0 = ret ([], False)"
| "polling_loop E body (Suc fuel) = do {
     running \<leftarrow> be_running E;
     (if \<not> running then ret ([], True)
      else do {
        adds \<leftarrow> body;
        (rest, ended) \<leftarrow> polling_loop E body fuel;
        ret (adds @ rest, ended)
      })
   }"

definition QueueSimpleWorker_ConsumerLoop :: "'w burnin_env \<Rightarrow> nat \<Rightarrow> Worker
    \<Rightarrow> ('w, fetch_adds \<times> bool \<times> 'w Client option) state" where
  "QueueSimpleWorker_ConsumerLoop E fuel wk = do {
     client_or \<leftarrow> create_client E wk ''-qs-consumer'';
     (case client_or of
        Inl _ \<Rightarrow> ret ([(C_errors, 1)], True, None)
      | Inr client \<Rightarrow> do {
          (adds, ended) \<leftarrow> polling_loop E (queue_simple_receive E wk client) fuel;
          ret (adds, ended, Some client)
        })
   }"

definition QueueStreamWorker_ConsumerLoop :: "'w burnin_env \<Rightarrow> 'w downstream_ops \<Rightarrow> nat set \<Rightarrow> nat \<Rightarrow> Worker
    \<Rightarrow> ('w, fetch_adds \<times> bool \<times> 'w Client option) state" where
  "QueueStreamWorker_ConsumerLoop E ops live fuel wk = do {
     client_or \<leftarrow> create_client E wk ''-qstream-consumer'';
     (case client_or of
        Inl _ \<Rightarrow> ret ([(C_errors, 1)], True, None)
      | Inr client \<Rightarrow> do {
          (receiver_or, live1) \<leftarrow> NewQueueDownstreamReceiver client live;
          (case receiver_or of
             Inl _ \<Rightarrow> ret ([(C_errors, 1)], True, Some client)
           | Inr receiver \<Rightarrow> do {
               (adds, ended) \<leftarrow> polling_loop E (queue_stream_poll E ops live1 wk receiver) fuel;
               ret (adds, ended, Some client)
             })
        })
   }"

section \<open>Starting and stopping\<close>

text \<open>The members a worker owns while it runs.  \<open>be_spawn b\<close> starts and \<open>be_join b\<close> joins the producing
  (\<open>True\<close>) or consuming (\<open>False\<close>) thread; joining yields the client the thread left in the member.\<close>

record 'w WorkerState =
  ws_producer_joinable :: bool
  ws_consumer_joinable :: bool
  ws_producer_client :: "'w Client option"
  ws_consumer_client :: "'w Client option"

definition WorkerState_new :: "'w WorkerState" where
  "WorkerState_new = \<lparr>ws_producer_joinable = False, ws_consumer_joinable = False,
     ws_producer_client = None, ws_consumer_client = None\<rparr>"

definition start_events :: "'w burnin_env \<Rightarrow> 'w WorkerState \<Rightarrow> ('w, 'w WorkerState) state" where
  "start_events E s = do {
     _ \<leftarrow> be_store_running E True;
     _ \<leftarrow> be_spawn E False;
     _ \<leftarrow> be_spawn E True;
     ret (s\<lparr>ws_consumer_joinable := True, ws_producer_joinable := True\<rparr>)
   }"

definition start_rpc :: "'w burnin_env \<Rightarrow> 'w WorkerState \<Rightarrow> ('w, 'w WorkerState) state" where
  "start_rpc E s = do {
     _ \<leftarrow> be_store_running E True;
     _ \<leftarrow> be_spawn E False;
     _ \<leftarrow> be_sleep_ms E 500;
     _ \<leftarrow> be_spawn E True;
     ret (s\<lparr>ws_consumer_joinable := True, ws_producer_joinable := True\<rparr>)
   }"

definition start_queue :: "'w burnin_env \<Rightarrow> 'w WorkerState \<Rightarrow> ('w, 'w WorkerState) state" where
  "start_queue E s = do {
     _ \<leftarrow> be_store_running E True;
     _ \<leftarrow> be_spawn E True;
     _ \<leftarrow> be_spawn E False;
     ret (s\<lparr>ws_producer_joinable := True, ws_consumer_joinable := True\<rparr>)
   }"

definition join_if :: "'w burnin_env \<Rightarrow> bool \<Rightarrow> bool \<Rightarrow> 'w Client option \<Rightarrow> ('w, 'w Client option) state" where
  "join_if E joinable producer client = (if joinable then be_join E producer else ret client)"

definition close_if :: "'w burnin_env \<Rightarrow> 'w Client option \<Rightarrow> ('w, unit) state" where
  "close_if E client =
     (case client of
        Some c \<Rightarrow> do { _ \<leftarrow> Client_Close (be_contexts E) c; ret () }
      | None \<Rightarrow> ret ())"

definition Worker_Stop :: "'w burnin_env \<Rightarrow> 'w WorkerState \<Rightarrow> ('w, 'w WorkerState) state" where
  "Worker_Stop E s = do {
     _ \<leftarrow> be_store_running E False;
     pc \<leftarrow> join_if E (ws_producer_joinable s) True (ws_producer_client s);
     cc \<leftarrow> join_if E (ws_consumer_joinable s) False (ws_consumer_client s);
     _ \<leftarrow> close_if E pc;
     _ \<leftarrow> close_if E cc;
     ret (s\<lparr>ws_producer_joinable := False, ws_consumer_joinable := False,
            ws_producer_client := None, ws_consumer_client := None\<rparr>)
   }"

text \<open>The stream worker closes its receiver first and leaves the upstream handle to a detached thread
  (\<open>detach\<close>), which destroys it and then closes the producing client.\<close>

record 'w StreamWorkerState = "'w WorkerState" +
  sws_upstream :: "('w, QueueUpstreamResult) StreamHandle option"
  sws_receiver :: "'w QueueDownstreamReceiver option"

record 'w stream_threads =
  stt_join_producer :: "('w, 'w Client option \<times> ('w, QueueUpstreamResult) StreamHandle option) state"
  stt_join_consumer :: "('w, 'w Client option \<times> 'w QueueDownstreamReceiver option) state"
  stt_detach :: "('w, QueueUpstreamResult) StreamHandle \<Rightarrow> 'w Client option \<Rightarrow> ('w, unit) state"

definition QueueStreamWorker_Stop :: "'w burnin_env \<Rightarrow> 'w stream_threads \<Rightarrow> 'w downstream_ops \<Rightarrow> nat set
    \<Rightarrow> 'w StreamWorkerState \<Rightarrow> ('w, 'w StreamWorkerState \<times> nat set) state" where
  "QueueStreamWorker_Stop E T ops live s = do {
     _ \<leftarrow> be_store_running E False;
     receiver \<leftarrow> (case sws_receiver s of
                    Some r \<Rightarrow> do { r' \<leftarrow> Receiver_Close (be_rand64 E) ops r; ret (Some r') }
                  | None \<Rightarrow> ret None);
     (pc, upstream) \<leftarrow> (if ws_producer_joinable s then stt_join_producer T
                       else ret (ws_producer_client s, sws_upstream s));
     (cc, receiver) \<leftarrow> (if ws_consumer_joinable s then stt_join_consumer T
                       else ret (ws_consumer_client s, receiver));
     _ \<leftarrow> (case upstream of
             Some h \<Rightarrow> stt_detach T h pc
           | None \<Rightarrow> close_if E pc);
     live' \<leftarrow> (case receiver of
                 Some r \<Rightarrow> Receiver_destroy (be_rand64 E) ops r live
               | None \<Rightarrow> ret live);
     _ \<leftarrow> close_if E cc;
     ret (s\<lparr>ws_producer_joinable := False, ws_consumer_joinable := False, ws_producer_client := None,
            ws_consumer_client := None, sws_upstream := None, sws_receiver := None\<rparr>, live')
   }"

section \<open>What a sending thread counts\<close>

definition touches_only :: "counter set \<Rightarrow> fetch_adds \<Rightarrow> bool" where
  "touches_only cs adds = list_all (\<lambda>a. fst a \<in> cs) adds"

lemma paced_loop_step:
  assumes "result_of (be_running E) w"
  obtains ns u where "result_of (paced_loop E i body (Suc fuel) seq t) w =
      (result_of (body (seq + 1)) (world_of (be_running E) w) @ fst (result_of (paced_loop E i body fuel (seq + 1) ns) u),
       snd (result_of (paced_loop E i body fuel (seq + 1) ns) u))"
  using assms that by (auto simp: pace_def case_prod_unfold Let_def split: if_splits)

lemma paced_loop_stopped: "\<not> result_of (be_running E) w \<Longrightarrow> result_of (paced_loop E i body (Suc fuel) seq t) w = ([], True)"
  by (simp add: case_prod_unfold)

text \<open>The contract of the five sending bodies: one attempt counts one message sent, with the size of its
  body, or one error, or (when it fails while the worker is being stopped) nothing.\<close>

definition sent_or_failed :: "string \<Rightarrow> fetch_adds \<Rightarrow> bool" where
  "sent_or_failed body adds =
     ((added C_sent adds = 1 \<and> added C_errors adds = 0 \<and> added C_bytes_sent adds = size_of body)
      \<or> (added C_sent adds = 0 \<and> added C_errors adds = 1 \<and> added C_bytes_sent adds = 0)
      \<or> adds = [])"

definition used_counters :: "counter set" where
  "used_counters = {C_sent, C_received, C_errors, C_bytes_sent, C_bytes_received, C_rpc_success, C_rpc_timeout, C_rpc_error}"

locale counted_sender =
  fixes send :: "'w burnin_env \<Rightarrow> Worker \<Rightarrow> 'w Client \<Rightarrow> 64 word \<Rightarrow> ('w, fetch_adds) state"
    and body_text :: "64 word \<Rightarrow> string"
  assumes counted: "sent_or_failed (body_text seq) (result_of (send E wk c seq) w)"
    and silent_only_when_stopping:
      "(\<And>v. result_of (be_running E) v) \<Longrightarrow> result_of (send E wk c seq) w \<noteq> []"
    and used: "touches_only used_counters (result_of (send E wk c seq) w)"
begin

lemma one_attempt:
  "\<exists>k \<le> 1. added C_sent (result_of (send E wk c q) v) + added C_errors (result_of (send E wk c q) v) = of_nat k
     \<and> ((\<forall>v. result_of (be_running E) v) \<longrightarrow> k = 1)"
proof (cases "result_of (send E wk c q) v = []")
  case True
  then show ?thesis using silent_only_when_stopping [of E wk c q v] by (intro exI [of _ 0]) auto
next
  case False
  then show ?thesis
    using counted [of q E wk c v] by (intro exI [of _ 1]) (auto simp: sent_or_failed_def)
qed

lemma attempts_counted:
  "\<exists>k \<le> fuel. added C_sent (fst (result_of (paced_loop E i (send E wk c) fuel seq t) w))
      + added C_errors (fst (result_of (paced_loop E i (send E wk c) fuel seq t) w)) = of_nat k
     \<and> ((\<forall>v. result_of (be_running E) v) \<longrightarrow> k = fuel)"
proof (induction fuel arbitrary: seq t w)
  case (Suc fuel)
  let ?running = "\<forall>v. result_of (be_running E) v"
  show ?case
  proof (cases "result_of (be_running E) w")
    case True
    let ?adds = "result_of (send E wk c (seq + 1)) (world_of (be_running E) w)"
    from paced_loop_step [OF True] obtain ns u
      where r: "fst (result_of (paced_loop E i (send E wk c) (Suc fuel) seq t) w)
          = ?adds @ fst (result_of (paced_loop E i (send E wk c) fuel (seq + 1) ns) u)"
      by (metis fst_conv)
    obtain a where a: "a \<le> 1" "?running \<longrightarrow> a = 1" "added C_sent ?adds + added C_errors ?adds = of_nat a"
      using one_attempt by blast
    obtain k where "k \<le> fuel" "?running \<longrightarrow> k = fuel"
        "added C_sent (fst (result_of (paced_loop E i (send E wk c) fuel (seq + 1) ns) u))
         + added C_errors (fst (result_of (paced_loop E i (send E wk c) fuel (seq + 1) ns) u)) = of_nat k"
      using Suc.IH by blast
    then show ?thesis
      unfolding r using a by (intro exI [of _ "a + k"]) (auto simp: ac_simps simp flip: a(3))
  next
    case False
    then show ?thesis by (intro exI [of _ 0]) (auto simp: case_prod_unfold)
  qed
qed simp

lemma loop_used: "touches_only used_counters (fst (result_of (paced_loop E i (send E wk c) fuel seq t) w))"
proof (induction fuel arbitrary: seq t w)
  case (Suc fuel)
  then show ?case using used [of E wk c] by (simp add: case_prod_unfold Let_def touches_only_def)
qed (simp add: touches_only_def)

end

lemmas send_defs = events_send_def events_store_send_def queue_simple_send_def commands_send_def queries_send_def
  error_unless_stopping_def rpc_failure_def Let_def case_prod_unfold

lemmas sent_defs = sent_or_failed_def touches_only_def used_counters_def

interpretation events_sender: counted_sender events_send "\<lambda>seq. ''events-'' @ seq_text seq"
  by unfold_locales (auto simp: send_defs sent_defs)

interpretation events_store_sender: counted_sender events_store_send "\<lambda>seq. ''events_store-'' @ seq_text seq"
  by unfold_locales (auto simp: send_defs sent_defs split: sum.splits)

interpretation queue_simple_sender: counted_sender queue_simple_send "\<lambda>seq. ''queue_simple-'' @ seq_text seq"
  by unfold_locales (auto simp: send_defs sent_defs split: sum.splits)

interpretation commands_sender: counted_sender commands_send "\<lambda>seq. ''command-'' @ seq_text seq"
  by unfold_locales (auto simp: send_defs sent_defs split: sum.splits)

interpretation queries_sender: counted_sender queries_send "\<lambda>seq. ''query-'' @ seq_text seq"
  by unfold_locales (auto simp: send_defs sent_defs split: sum.splits)

lemma add_pairs: "x + y = n \<Longrightarrow> (a + x) + (b + y) = a + b + n" for a b x y n :: "64 word"
  by (simp only: ac_simps)


section \<open>The rate is a limit\<close>

text \<open>The clock: reading it does not move it, nothing turns it back, and sleeping until a time point
  returns no earlier.\<close>

definition clock_ok :: "'w burnin_env \<Rightarrow> ('w \<Rightarrow> int) \<Rightarrow> (64 word \<Rightarrow> ('w, fetch_adds) state) \<Rightarrow> bool" where
  "clock_ok E clk body =
     ((\<forall>w. result_of (be_now E) w = clk w \<and> clk w \<le> clk (world_of (be_now E) w))
      \<and> (\<forall>w. clk w \<le> clk (world_of (be_running E) w))
      \<and> (\<forall>seq w. clk w \<le> clk (world_of (body seq) w))
      \<and> (\<forall>t w. clk w \<le> clk (world_of (be_sleep_until E t) w) \<and> t \<le> clk (world_of (be_sleep_until E t) w)))"

lemma send_interval_nonneg: "0 \<le> send_interval rate"
  by (simp add: send_interval_def trunc_div_def pos_imp_zdiv_nonneg_iff)

lemma paced_loop_time:
  assumes "clock_ok E clk body" "\<forall>v. result_of (be_running E) v" "t \<le> clk w" "0 \<le> i"
  shows "t + int n * i \<le> clk (world_of (paced_loop E i body n seq t) w)"
  using assms(3)
proof (induction n arbitrary: seq t w)
  case (Suc n)
  let ?w1 = "world_of (body (seq + 1)) (world_of (be_running E) w)"
  let ?w2 = "world_of (be_now E) ?w1"
  have c: "result_of (be_now E) v = clk v" "clk v \<le> clk (world_of (be_now E) v)"
      "clk v \<le> clk (world_of (be_running E) v)" "clk v \<le> clk (world_of (body q) v)"
      "s \<le> clk (world_of (be_sleep_until E s) v)" for v q s
    using assms(1) by (auto simp: clock_ok_def)
  show ?case
  proof (cases "clk ?w1 < t + i")
    case True
    have "t + i + int n * i \<le> clk (world_of (paced_loop E i body n (seq + 1) (t + i)) (world_of (be_sleep_until E (t + i)) ?w2))"
      by (rule Suc.IH) (rule c(5))
    then show ?thesis using True assms(2) by (simp add: pace_def case_prod_unfold Let_def c(1) algebra_simps)
  next
    case False
    have "clk ?w2 + int n * i \<le> clk (world_of (paced_loop E i body n (seq + 1) (clk ?w2)) (world_of (be_now E) ?w2))"
      by (rule Suc.IH) (rule c(2))
    moreover have "clk ?w1 \<le> clk ?w2" by (rule c(2))
    ultimately have "t + i + int n * i \<le> clk (world_of (paced_loop E i body n (seq + 1) (clk ?w2)) (world_of (be_now E) ?w2))"
      using False by linarith
    then show ?thesis using False assms(2) by (simp add: pace_def case_prod_unfold Let_def c(1) algebra_simps)
  qed
qed simp

text \<open>A worker never sends faster than its rate: \<open>n\<close> iterations take at least \<open>n\<close> intervals of one second
  divided by the rate (a rate below one counts as one, and the interval is cut to whole
  microseconds), no matter how the scheduler delays it: lost time is never caught up with a burst.\<close>

theorem send_rate_limited:
  assumes "clock_ok E clk body" "\<forall>v. result_of (be_running E) v" "t \<le> clk w"
  shows "t + int n * (1000 * (1000000 div max rate 1))
           \<le> clk (world_of (paced_loop E (send_interval rate) body n seq t) w)"
  using paced_loop_time [OF assms send_interval_nonneg] by (simp add: send_interval_def trunc_div_def)

section \<open>Counters nobody counts\<close>

definition unused_counters :: "counter set" where
  "unused_counters = {C_lost, C_duplicated, C_corrupted, C_out_of_order, C_reconnections}"

lemma added_unused: "touches_only used_counters adds \<Longrightarrow> c \<in> unused_counters \<Longrightarrow> added c adds = 0"
proof (induction adds)
  case (Cons a adds)
  then show ?case by (cases a) (auto simp: touches_only_def used_counters_def unused_counters_def)
qed simp

text \<open>Everything the threads and callbacks of a worker may do to the counters, in any order.\<close>

inductive worker_activity :: "'w burnin_env \<Rightarrow> fetch_adds \<Rightarrow> bool" for E :: "'w burnin_env" where
  wa_idle: "worker_activity E []"
| wa_connect_failed: "worker_activity E xs \<Longrightarrow> worker_activity E (xs @ [(C_errors, 1)])"
| wa_send: "worker_activity E xs \<Longrightarrow> send \<in> {events_send, events_store_send, queue_simple_send, commands_send, queries_send}
    \<Longrightarrow> worker_activity E (xs @ result_of (send E wk c seq) w)"
| wa_stream_send: "worker_activity E xs
    \<Longrightarrow> worker_activity E (xs @ result_of (queue_stream_send E (ops :: ('w, PbQueuesUpstreamRequest, PbQueuesUpstreamResponse) stream_ops) handle wk seq) w)"
| wa_stream_result: "worker_activity E xs \<Longrightarrow> worker_activity E (xs @ queue_stream_on_result r)"
| wa_event: "worker_activity E xs \<Longrightarrow> worker_activity E (xs @ EventsWorker_on_event ev)"
| wa_event_store: "worker_activity E xs \<Longrightarrow> worker_activity E (xs @ EventsStoreWorker_on_event es)"
| wa_command: "worker_activity E xs \<Longrightarrow> worker_activity E (xs @ result_of (CommandsWorker_on_command wk (c :: 'w Client) cmd) w)"
| wa_query: "worker_activity E xs \<Longrightarrow> worker_activity E (xs @ result_of (QueriesWorker_on_query wk (c :: 'w Client) qry) w)"
| wa_error: "worker_activity E xs \<Longrightarrow> worker_activity E (xs @ on_subscription_error err)"
| wa_receive: "worker_activity E xs \<Longrightarrow> worker_activity E (xs @ result_of (queue_simple_receive E wk c) w)"
| wa_poll: "worker_activity E xs \<Longrightarrow> worker_activity E (xs @ result_of (queue_stream_poll E dops live wk rcv) w)"

lemma touches_append [simp]: "touches_only cs (xs @ ys) = (touches_only cs xs \<and> touches_only cs ys)"
  by (simp add: touches_only_def)

lemma send_used: "send \<in> {events_send, events_store_send, queue_simple_send, commands_send, queries_send}
    \<Longrightarrow> touches_only used_counters (result_of (send E wk c seq) w)"
  by (elim insertE emptyE) (simp_all only: events_sender.used events_store_sender.used queue_simple_sender.used
      commands_sender.used queries_sender.used)

lemma consume_used:
  "touches_only used_counters (queue_stream_on_result r)"
  "touches_only used_counters (result_of (CommandsWorker_on_command wk c cmd) w)"
  "touches_only used_counters (result_of (QueriesWorker_on_query wk c qry) w)"
  "touches_only used_counters (result_of (queue_simple_receive E wk c) w)"
  by (auto simp: touches_only_def used_counters_def queue_stream_on_result_def CommandsWorker_on_command_def
      QueriesWorker_on_query_def queue_simple_receive_def list_all_iff case_prod_unfold Let_def split: sum.splits)

lemma stream_used:
  "touches_only used_counters (result_of (queue_stream_send E ops handle wk seq) w)"
  "touches_only used_counters (result_of (queue_stream_poll E dops live wk rcv) w)"
  by (auto simp: touches_only_def used_counters_def queue_stream_send_def queue_stream_poll_def
      error_unless_stopping_def list_all_iff case_prod_unfold Let_def split: sum.splits)

lemma activity_used: "worker_activity E adds \<Longrightarrow> touches_only used_counters adds"
  by (induction rule: worker_activity.induct)
    (auto simp: send_used consume_used stream_used EventsWorker_on_event_def EventsStoreWorker_on_event_def
      on_subscription_error_def touches_only_def [of _ "[_]"] touches_only_def [of _ "[_, _]"] touches_only_def [of _ "[]"]
      used_counters_def [symmetric], simp_all add: used_counters_def)

text \<open>The counters for lost, duplicated, corrupted and reordered messages and for reconnections never
  move: nothing a worker does, whatever the broker delivers, changes them.  A report therefore shows no
  loss, whatever was lost.\<close>

theorem integrity_counters_never_move:
  assumes "worker_activity E adds" "c \<in> {C_lost, C_duplicated, C_corrupted, C_out_of_order, C_reconnections}"
  shows "load c (apply_adds adds m) = load c m"
  using added_unused [OF activity_used [OF assms(1)], of c] assms(2)
  by (simp add: load_apply_adds unused_counters_def)

section \<open>Stopping\<close>

text \<open>Stopping a stopped worker does nothing but store \<open>running_ = false\<close> again: no thread is joined twice
  and no client is closed twice, so the destructor may run after \<^verbatim>\<open>Stop\<close>, or without \<^verbatim>\<open>Start\<close>.\<close>

theorem Worker_Stop_idempotent:
  "do { s1 \<leftarrow> Worker_Stop E s; Worker_Stop E s1 }
     = do { s1 \<leftarrow> Worker_Stop E s; _ \<leftarrow> be_store_running E False; ret s1 }
   \<and> Worker_Stop E WorkerState_new = do { _ \<leftarrow> be_store_running E False; ret WorkerState_new }"
  by (simp add: Worker_Stop_def join_if_def close_if_def WorkerState_new_def)

section \<open>A concrete environment\<close>

text \<open>The world is the clock; the worker is never stopped.\<close>

definition clock_env :: "nat burnin_env" where
  "clock_env =
     \<lparr>be_grpc = sample_env, be_fs = Map.empty, be_rand64 = ret 0, be_contexts = sample_contexts,
      be_running = ret True, be_store_running = (\<lambda>_. ret ()), be_now = State (\<lambda>w. (int w, w)),
      be_sleep_until = (\<lambda>t. State (\<lambda>w. ((), max w (nat t)))), be_sleep_ms = (\<lambda>_. ret ()),
      be_try_cancel = (\<lambda>_. ret ()), be_spawn = (\<lambda>_. ret ()), be_join = (\<lambda>_. ret None)\<rparr>"

definition sample_worker :: Worker where
  "sample_worker = \<lparr>wk_broker_address = ''localhost:50000'', wk_client_id_prefix = ''cpp-burnin'',
     wk_channel = ''burnin.cpp.0badcafe.events.0'', wk_rate = 100, wk_queue_config = QueueConfig_default\<rparr>"

lemma clock_env_ok: "clock_ok clock_env int (\<lambda>_. ret [])"
  by (auto simp: clock_ok_def clock_env_def)


theorem send_rate_limited_witness:
  "0 + int 5 * (1000 * (1000000 div max 100 1))
     \<le> int (world_of (paced_loop clock_env (send_interval 100) (\<lambda>_. ret []) 5 0 0) 0)"
  by (rule send_rate_limited [OF clock_env_ok]) (simp_all add: clock_env_def)

theorem integrity_counters_never_move_witness:
  "load C_lost (apply_adds [(C_errors, 1)] PatternMetrics_zero) = load C_lost PatternMetrics_zero"
  using integrity_counters_never_move [OF wa_connect_failed [OF wa_idle, of clock_env], of C_lost] by simp

end
