(* ===== verification/Burnin_Engine.thy ===== *)
theory Burnin_Engine
  imports Burnin_Workers
begin

text \<open>
  The engine of the burn-in application (burnin/engine/engine.h, engine.cc): its state, the
  operations behind the HTTP end points, the worker factory, the run thread and the documents it
  reports.  Operations are functions on the \<open>Engine\<close> record; \<^verbatim>\<open>StartRun\<close>, \<^verbatim>\<open>StopRun\<close> and the run thread
  are split into their critical sections.  Here a worker is what the factory gives it (the queue settings
  are read by the queue workers only); what its threads do is in \<^verbatim>\<open>Burnin_Workers\<close>, and reaches the engine
  as \<open>worker_progress\<close>, increments of the counters.  The wall clock
  (\<^verbatim>\<open>NowIso8601\<close>) is a parameter; the steady clock counts nanoseconds.  A C++ \<^verbatim>\<open>double\<close> is a real.
\<close>

section \<open>State\<close>

definition kStateIdle :: string where "kStateIdle = ''idle''"
definition kStateStarting :: string where "kStateStarting = ''starting''"
definition kStateRunning :: string where "kStateRunning = ''running''"
definition kStateStopping :: string where "kStateStopping = ''stopping''"
definition kStateStopped :: string where "kStateStopped = ''stopped''"
definition kStateError :: string where "kStateError = ''error''"

lemmas state_names = kStateIdle_def kStateStarting_def kStateRunning_def kStateStopping_def kStateStopped_def
  kStateError_def

datatype worker_kind = Events_worker | EventsStore_worker | QueueSimple_worker | QueueStream_worker
  | Commands_worker | Queries_worker

record Engine =
  en_state :: string
  en_broker_address :: string
  en_config :: Config
  en_run_id :: string
  en_run_started_at :: string
  en_run_error :: string
  en_stop_requested :: bool
  en_workers :: "(worker_kind \<times> Worker) list"
  en_metrics :: AggregateMetrics
  en_last_report :: json
  en_has_report :: bool

definition Engine_new :: "string \<Rightarrow> Engine" where
  "Engine_new broker_address =
     \<lparr>en_state = kStateIdle, en_broker_address = broker_address, en_config = Config_new, en_run_id = [],
      en_run_started_at = [], en_run_error = [], en_stop_requested = False, en_workers = [],
      en_metrics = AggregateMetrics_new, en_last_report = JNull, en_has_report = False\<rparr>"

definition SetState :: "string \<Rightarrow> Engine \<Rightarrow> Engine" where
  "SetState st e = e\<lparr>en_state := st\<rparr>"

section \<open>Starting and stopping a run\<close>

record StartResult =
  sr_run_id :: string
  sr_enabled_count :: nat
  sr_error :: string

definition may_start :: "string \<Rightarrow> bool" where
  "may_start st = (st = kStateIdle \<or> st = kStateStopped \<or> st = kStateError)"

definition StartRun_check :: "Engine \<Rightarrow> string option" where
  "StartRun_check e =
     (if \<not> may_start (en_state e) then Some (''cannot start: current state is '' @ en_state e) else None)"

definition StartRun_prepare :: "Config \<Rightarrow> string \<Rightarrow> string \<Rightarrow> Engine \<Rightarrow> Engine" where
  "StartRun_prepare config run_id started_at e =
     e\<lparr>en_config := config\<lparr>cf_run_id := run_id\<rparr>, en_run_id := run_id, en_run_started_at := started_at,
       en_run_error := [], en_stop_requested := False, en_has_report := False\<rparr>"

definition enabled_count :: "Config \<Rightarrow> nat" where
  "enabled_count c = length (filter (\<lambda>(_, pc). pc_enabled pc) (cf_patterns c))"

definition StartRun :: "('w, 32 word) state \<Rightarrow> ('w, string) state \<Rightarrow> Config \<Rightarrow> Engine
    \<Rightarrow> ('w, StartResult \<times> Engine) state" where
  "StartRun rand32 now_iso config e =
     (case StartRun_check e of
        Some err \<Rightarrow> ret (\<lparr>sr_run_id = [], sr_enabled_count = 0, sr_error = err\<rparr>, e)
      | None \<Rightarrow> do {
          let e = SetState kStateStarting e;
          run_id \<leftarrow> (if cf_run_id config = [] then GenerateRunId rand32 else ret (cf_run_id config));
          started_at \<leftarrow> now_iso;
          let e = StartRun_prepare config run_id started_at e;
          ret (\<lparr>sr_run_id = run_id, sr_enabled_count = enabled_count (en_config e), sr_error = []\<rparr>, e)
        })"

definition StopRun_lock :: "Engine \<Rightarrow> string + Engine" where
  "StopRun_lock e =
     (if en_state e \<noteq> kStateRunning \<and> en_state e \<noteq> kStateStarting
      then Inl (''cannot stop: current state is '' @ en_state e)
      else Inr (e\<lparr>en_state := kStateStopping\<rparr>))"

definition StopRun_store :: "Engine \<Rightarrow> Engine" where
  "StopRun_store e = e\<lparr>en_stop_requested := True\<rparr>"

definition StopRun :: "Engine \<Rightarrow> string \<times> Engine" where
  "StopRun e = (case StopRun_lock e of Inl err \<Rightarrow> (err, e) | Inr e' \<Rightarrow> ([], StopRun_store e'))"

section \<open>Workers\<close>

definition worker_kind_of :: "string \<Rightarrow> worker_kind option" where
  "worker_kind_of name =
     (if name = ''events'' then Some Events_worker
      else if name = ''events_store'' then Some EventsStore_worker
      else if name = ''queue_simple'' then Some QueueSimple_worker
      else if name = ''queue_stream'' then Some QueueStream_worker
      else if name = ''commands'' then Some Commands_worker
      else if name = ''queries'' then Some Queries_worker
      else None)"

definition channel_name :: "string \<Rightarrow> string \<Rightarrow> nat \<Rightarrow> string" where
  "channel_name run_id name ch = kChannelPrefix @ run_id @ ''.'' @ name @ ''.'' @ nat_to_string ch"

definition make_worker :: "Engine \<Rightarrow> string \<Rightarrow> PatternConfig \<Rightarrow> nat \<Rightarrow> (worker_kind \<times> Worker) list" where
  "make_worker e name pc ch =
     (case worker_kind_of name of
        Some k \<Rightarrow> [(k, \<lparr>wk_broker_address = en_broker_address e,
                        wk_client_id_prefix = cf_client_id_prefix (en_config e),
                        wk_channel = channel_name (en_run_id e) name ch, wk_rate = pc_rate pc,
                        wk_queue_config = cf_queue (en_config e)\<rparr>)]
      | None \<Rightarrow> [])"

definition pattern_workers :: "Engine \<Rightarrow> string \<times> PatternConfig \<Rightarrow> (worker_kind \<times> Worker) list" where
  "pattern_workers e = (\<lambda>(name, pc).
     if \<not> pc_enabled pc then []
     else concat (map (make_worker e name pc) [0..<nat (pc_channels pc)]))"

definition used_pattern :: "string \<times> PatternConfig \<Rightarrow> bool" where
  "used_pattern = (\<lambda>(name, pc). pc_enabled pc \<and> 0 < pc_channels pc \<and> worker_kind_of name \<noteq> None)"

text \<open>Each worker is built on a reference from \<^verbatim>\<open>metrics_.GetPattern(name)\<close>; asking again for a pattern
  that exists changes nothing, so one call per used pattern is what remains.\<close>

definition CreateWorkers :: "Engine \<Rightarrow> Engine" where
  "CreateWorkers e =
     e\<lparr>en_workers := concat (map (pattern_workers e) (cf_patterns (en_config e))),
       en_metrics := fold (\<lambda>p. GetPattern (fst p)) (filter used_pattern (cf_patterns (en_config e))) (en_metrics e)\<rparr>"

definition StopWorkers :: "Engine \<Rightarrow> Engine" where
  "StopWorkers e = e\<lparr>en_workers := []\<rparr>"

section \<open>The report\<close>

definition standard_patterns :: "string list" where
  "standard_patterns = [''events'', ''events_store'', ''queue_stream'', ''queue_simple'', ''commands'', ''queries'']"

definition is_rpc :: "string \<Rightarrow> bool" where
  "is_rpc name = (name = ''commands'' \<or> name = ''queries'')"

text \<open>\<^verbatim>\<open>snapshot.contains(name) ? snapshot[name].value(key, (uint64_t)0) : 0\<close>\<close>

definition counter_in :: "json_api \<Rightarrow> json \<Rightarrow> string \<Rightarrow> string \<Rightarrow> json" where
  "counter_in J snapshot name key =
     JUint (if ja_contains J snapshot name
            then (case ja_at J snapshot name of Inr d \<Rightarrow> ja_value_u64 J d key 0 | Inl _ \<Rightarrow> 0)
            else 0)"

definition no_latency :: json where
  "no_latency = JObj [(''p50_ms'', JInt 0), (''p95_ms'', JInt 0), (''p99_ms'', JInt 0), (''p999_ms'', JInt 0)]"

definition pattern_report :: "json_api \<Rightarrow> json \<Rightarrow> string \<Rightarrow> PatternConfig \<Rightarrow> json" where
  "pattern_report J snapshot name pc = JObj
     ([(''enabled'', JBool True), (''channels'', JInt (pc_channels pc)),
       (''sent'', counter_in J snapshot name ''sent''), (''errors'', counter_in J snapshot name ''errors''),
       (''reconnections'', JInt 0), (''target_rate'', JInt (pc_rate pc)), (''avg_rate'', JInt 0), (''peak_rate'', JInt 0),
       (''bytes_sent'', counter_in J snapshot name ''bytes_sent''),
       (''bytes_received'', counter_in J snapshot name ''bytes_received''), (''latency'', no_latency)]
      @ (if is_rpc name
         then [(''senders_per_channel'', JInt (pc_senders_per_channel pc)),
               (''responders_per_channel'', JInt (pc_responders_per_channel pc)),
               (''responses_success'', counter_in J snapshot name ''rpc_success''),
               (''responses_timeout'', counter_in J snapshot name ''rpc_timeout''),
               (''responses_error'', counter_in J snapshot name ''rpc_error''),
               (''senders'', JArr []), (''responders'', JArr [])]
         else [(''producers_per_channel'', JInt (pc_producers_per_channel pc)),
               (''consumers_per_channel'', JInt (pc_consumers_per_channel pc)),
               (''consumer_group'', JBool (pc_consumer_group pc)),
               (''received'', counter_in J snapshot name ''received''), (''lost'', counter_in J snapshot name ''lost''),
               (''duplicated'', counter_in J snapshot name ''duplicated''),
               (''corrupted'', counter_in J snapshot name ''corrupted''),
               (''out_of_order'', counter_in J snapshot name ''out_of_order''), (''loss_pct'', JInt 0),
               (''producers'', JArr []), (''consumers'', JArr [])]))"

definition report_patterns :: "json_api \<Rightarrow> json \<Rightarrow> Config \<Rightarrow> json" where
  "report_patterns J snapshot config = JObj
     (fold (\<lambda>name. om_put name
        (case map_of (cf_patterns config) name of
           Some pc \<Rightarrow> if pc_enabled pc then pattern_report J snapshot name pc else JObj [(''enabled'', JBool False)]
         | None \<Rightarrow> JObj [(''enabled'', JBool False)])) standard_patterns [])"

text \<open>The sum of one counter over the patterns of a snapshot, skipping the totals.\<close>

definition sum_items :: "json_api \<Rightarrow> json \<Rightarrow> string \<Rightarrow> 64 word" where
  "sum_items J snapshot key =
     (case ja_items J snapshot of
        Inl _ \<Rightarrow> 0
      | Inr items \<Rightarrow> fold (\<lambda>(name, d) total.
          if name = ''_totals'' \<or> \<not> ja_is_object J d then total else total + ja_value_u64 J d key 0) items 0)"

definition build_report :: "json_api \<Rightarrow> string \<Rightarrow> int \<Rightarrow> nat \<Rightarrow> Engine \<Rightarrow> json" where
  "build_report J ended_at now worker_count e =
     (let snapshot = Aggregate_Snapshot now (en_metrics e);
          total_errors = sum_items J snapshot ''errors''
      in JObj
        [(''run_id'', JStr (en_run_id e)), (''sdk'', JStr ''cpp''), (''sdk_version'', JStr ''1.0.0''),
         (''mode'', JStr ''soak''), (''broker_address'', JStr (en_broker_address e)),
         (''started_at'', JStr (en_run_started_at e)), (''ended_at'', JStr ended_at),
         (''duration_seconds'', JInt (trunc_to_int (ElapsedSeconds now (en_metrics e)))),
         (''all_patterns_enabled'', JBool (worker_count = 6)), (''warmup_active'', JBool False),
         (''patterns'', report_patterns J snapshot (en_config e)),
         (''resources'', JObj [(''peak_rss_mb'', JInt 0), (''baseline_rss_mb'', JInt 0),
            (''memory_growth_factor'', JReal 1), (''peak_workers'', JInt (int worker_count))]),
         (''verdict'', JObj [(''result'', JStr (if total_errors = 0 then ''PASSED'' else ''PASSED_WITH_WARNINGS'')),
            (''warnings'', JArr []), (''checks'', JObj [])])])"

section \<open>The run thread\<close>

text \<open>The sections of \<^verbatim>\<open>RunLoop\<close> between its waits: up to the first worker start, after the wait, and the
  report.\<close>

definition RunLoop_begin :: "int \<Rightarrow> Engine \<Rightarrow> Engine" where
  "RunLoop_begin now e =
     (let e = CreateWorkers e
      in SetState kStateRunning (e\<lparr>en_metrics := MarkStart now (Aggregate_Reset (en_metrics e))\<rparr>))"

definition RunLoop_finish :: "json_api \<Rightarrow> string \<Rightarrow> int \<Rightarrow> Engine \<Rightarrow> Engine" where
  "RunLoop_finish J ended_at now e =
     (let worker_count = length (en_workers e);
          e = StopWorkers e;
          e = e\<lparr>en_metrics := MarkStop now (en_metrics e)\<rparr>;
          e = e\<lparr>en_last_report := build_report J ended_at now worker_count e, en_has_report := True\<rparr>
      in SetState kStateStopped e)"

definition RunLoop_catch :: "string \<Rightarrow> Engine \<Rightarrow> Engine" where
  "RunLoop_catch msg e = SetState kStateError (e\<lparr>en_run_error := msg\<rparr>)"

text \<open>The wait: until a stop is requested or the duration is over, in naps of 500 ms.\<close>

fun RunLoop_wait :: "('w, bool) state \<Rightarrow> ('w, int) state \<Rightarrow> (int \<Rightarrow> ('w, unit) state) \<Rightarrow> int \<Rightarrow> int \<Rightarrow> nat
    \<Rightarrow> ('w, bool) state" where
  "RunLoop_wait stop now sleep_ms duration start 0 = ret False"
| "RunLoop_wait stop now sleep_ms duration start (Suc fuel) = do {
     stopped \<leftarrow> stop;
     (if stopped then ret True
      else do {
        t \<leftarrow> now;
        (if t - start \<ge> duration then ret True
         else do { _ \<leftarrow> sleep_ms 500; RunLoop_wait stop now sleep_ms duration start fuel })
      })
   }"

section \<open>Information\<close>

definition GetInfo :: "Engine \<Rightarrow> json" where
  "GetInfo e = JObj [(''sdk'', JStr ''kubemq-cpp''), (''version'', JStr ''1.0.0''),
     (''broker_address'', JStr (en_broker_address e)), (''state'', JStr (en_state e)), (''run_id'', JStr (en_run_id e))]"

definition GetBrokerStatus :: "'w burnin_env \<Rightarrow> Engine \<Rightarrow> ('w, json) state" where
  "GetBrokerStatus E e = do {
     client_or \<leftarrow> Client_Create (be_grpc E) (be_fs E) (be_rand64 E) (be_contexts E)
       (set_check_connection False (set_client_id ''burnin-ping'' (set_address (en_broker_address e) ClientOptions_default)));
     (case client_or of
        Inl s \<Rightarrow> ret (JObj [(''connected'', JBool False), (''error'', JStr (ToString s))])
      | Inr client \<Rightarrow> do {
          ping_or \<leftarrow> Client_Ping client;
          closed \<leftarrow> Client_Close (be_contexts E) client;
          ret (case fst closed of
             Inl _ \<Rightarrow> JObj [(''connected'', JBool False), (''error'', JStr ''unknown error'')]
           | Inr _ \<Rightarrow> (case ping_or of
               Inl s \<Rightarrow> JObj [(''connected'', JBool False), (''error'', JStr (ToString s))]
             | Inr info \<Rightarrow> JObj [(''connected'', JBool True), (''host'', JStr (si_host info)),
                 (''version'', JStr (si_version info)), (''uptime_seconds'', JInt (si_server_up_time_seconds info))]))
        })
   }"

definition idle_document :: json where
  "idle_document = JObj [(''run_id'', JNull), (''state'', JStr ''idle'')]"

definition remaining_seconds :: "int \<Rightarrow> Engine \<Rightarrow> real" where
  "remaining_seconds now e =
     (if 0 < cf_duration_seconds (en_config e)
      then max 0 (real_of_int (cf_duration_seconds (en_config e)) - ElapsedSeconds now (en_metrics e)) else 0)"

definition pattern_detail :: "json_api \<Rightarrow> json \<Rightarrow> string \<Rightarrow> string \<Rightarrow> PatternConfig \<Rightarrow> json" where
  "pattern_detail J snapshot st name pc =
     (if \<not> pc_enabled pc then JObj [(''enabled'', JBool False)]
      else JObj
        ([(''enabled'', JBool True), (''state'', JStr (if st = kStateRunning then ''running'' else st)),
          (''channels'', JInt (pc_channels pc)), (''sent'', counter_in J snapshot name ''sent''),
          (''errors'', counter_in J snapshot name ''errors''), (''reconnections'', JInt 0), (''target_rate'', JInt 0),
          (''actual_rate'', JInt 0), (''peak_rate'', JInt 0), (''bytes_sent'', counter_in J snapshot name ''bytes_sent''),
          (''bytes_received'', counter_in J snapshot name ''bytes_received''), (''latency'', no_latency)]
         @ (if is_rpc name
            then [(''responses_success'', counter_in J snapshot name ''rpc_success''),
                  (''responses_timeout'', counter_in J snapshot name ''rpc_timeout''),
                  (''responses_error'', counter_in J snapshot name ''rpc_error''),
                  (''senders'', JArr []), (''responders'', JArr [])]
            else [(''received'', counter_in J snapshot name ''received''), (''lost'', counter_in J snapshot name ''lost''),
                  (''duplicated'', counter_in J snapshot name ''duplicated''),
                  (''corrupted'', counter_in J snapshot name ''corrupted''),
                  (''out_of_order'', counter_in J snapshot name ''out_of_order''), (''loss_pct'', JInt 0),
                  (''producers'', JArr []), (''consumers'', JArr [])])))"

definition patterns_detail :: "json_api \<Rightarrow> json \<Rightarrow> Engine \<Rightarrow> (string, json) omap" where
  "patterns_detail J snapshot e =
     (let configured = fold (\<lambda>(name, pc). om_put name (pattern_detail J snapshot (en_state e) name pc))
        (cf_patterns (en_config e)) []
      in fold (\<lambda>name m. if map_of m name = None then om_put name (JObj [(''enabled'', JBool False)]) m else m)
           standard_patterns configured)"

definition GetRunFull :: "json_api \<Rightarrow> int \<Rightarrow> Engine \<Rightarrow> json" where
  "GetRunFull J now e =
     (if en_state e = kStateIdle then idle_document
      else let snapshot = Aggregate_Snapshot now (en_metrics e)
      in JObj
        [(''state'', JStr (en_state e)), (''run_id'', JStr (en_run_id e)), (''mode'', JStr ''soak''),
         (''started_at'', JStr (en_run_started_at e)),
         (''elapsed_seconds'', JInt (trunc_to_int (ElapsedSeconds now (en_metrics e)))),
         (''remaining_seconds'', JInt (trunc_to_int (remaining_seconds now e))),
         (''duration'', JStr (to_string (cf_duration_seconds (en_config e)) @ ''s'')), (''warmup_active'', JBool False),
         (''broker_address'', JStr (en_broker_address e)), (''patterns'', JObj (patterns_detail J snapshot e)),
         (''resources'', JObj [(''rss_mb'', JInt 0), (''baseline_rss_mb'', JInt 0), (''memory_growth_factor'', JReal 1),
            (''active_workers'', JInt (int (length (en_workers e))))])])"

definition pattern_states :: "json_api \<Rightarrow> json \<Rightarrow> Engine \<Rightarrow> (string, json) omap" where
  "pattern_states J snapshot e =
     (case ja_items J snapshot of
        Inl _ \<Rightarrow> []
      | Inr items \<Rightarrow> fold (\<lambda>(name, d) m.
          if name = ''_totals'' \<or> \<not> ja_is_object J d then m
          else om_put name (JObj
            [(''state'', JStr (if en_state e = kStateRunning then ''running'' else en_state e)),
             (''channels'', JInt (case map_of (cf_patterns (en_config e)) name of Some pc \<Rightarrow> pc_channels pc | None \<Rightarrow> 1))]) m)
          items [])"

definition GetRunStatus :: "json_api \<Rightarrow> int \<Rightarrow> Engine \<Rightarrow> json" where
  "GetRunStatus J now e =
     (if en_state e = kStateIdle then idle_document
      else let snapshot = Aggregate_Snapshot now (en_metrics e);
               totals = JObj (map (\<lambda>key. (key, JUint (sum_items J snapshot key)))
                 [''sent'', ''received'', ''errors'', ''lost'', ''duplicated'', ''corrupted'', ''out_of_order'', ''reconnections''])
      in JObj
        [(''state'', JStr (en_state e)), (''run_id'', JStr (en_run_id e)), (''started_at'', JStr (en_run_started_at e)),
         (''elapsed_seconds'', JInt (trunc_to_int (ElapsedSeconds now (en_metrics e)))),
         (''remaining_seconds'', JInt (trunc_to_int (remaining_seconds now e))), (''warmup_active'', JBool False),
         (''totals'', totals), (''pattern_states'', JObj (pattern_states J snapshot e))])"

definition GetRunConfig :: "Engine \<Rightarrow> json \<times> bool" where
  "GetRunConfig e = (if en_run_id e = [] then (JNull, False) else (ToJson (en_config e), True))"

definition GetRunReport :: "Engine \<Rightarrow> json \<times> bool" where
  "GetRunReport e = (if \<not> en_has_report e then (JNull, False) else (en_last_report e, True))"

definition CleanupChannels :: "Engine \<Rightarrow> json" where
  "CleanupChannels e =
     (if \<not> may_start (en_state e)
      then JObj [(''error'', JStr ''can only cleanup in idle/stopped/error state'')]
      else JObj [(''status'', JStr ''cleanup completed'')])"

section \<open>Every worker has a channel of its own\<close>

lemma split_at_last:
  fixes c :: char
  assumes "c \<notin> set a" "c \<notin> set b" "x @ c # a = y @ c # b"
  shows "x = y \<and> a = b"
proof -
  have "length x = length y"
    using rfind_append_last [OF assms(1), of x] rfind_append_last [OF assms(2), of y] assms(3) by simp
  then show ?thesis using assms(3) by simp
qed

lemma no_dot_in_digits: "CHR ''.'' \<notin> set (nat_to_string n)"
  using nat_to_string_digits [of n] by (auto simp: is_digit_def)

lemma nat_to_string_inj: "nat_to_string m = nat_to_string n \<Longrightarrow> m = n"
  by (drule arg_cong [of _ _ digits_val]) simp

lemma channel_name_inj: "channel_name r n i = channel_name r m j \<longleftrightarrow> n = m \<and> i = j"
proof
  assume "channel_name r n i = channel_name r m j"
  then have "n @ CHR ''.'' # nat_to_string i = m @ CHR ''.'' # nat_to_string j" by (simp add: channel_name_def)
  from split_at_last [OF no_dot_in_digits no_dot_in_digits this] show "n = m \<and> i = j"
    using nat_to_string_inj by blast
qed simp

lemma pattern_workers_channels:
  "map (wk_channel \<circ> snd) (pattern_workers e (name, pc)) =
     (if used_pattern (name, pc) then map (channel_name (en_run_id e) name) [0..<nat (pc_channels pc)] else [])"
  by (auto simp: pattern_workers_def used_pattern_def make_worker_def map_concat comp_def split: option.split)

lemma workers_channels:
  "map (wk_channel \<circ> snd) (en_workers (CreateWorkers e)) =
     concat (map (\<lambda>(name, pc). map (channel_name (en_run_id e) name) [0..<nat (pc_channels pc)])
       (filter used_pattern (cf_patterns (en_config e))))"
proof -
  have "concat (map (\<lambda>p. map (wk_channel \<circ> snd) (pattern_workers e p)) ps) =
      concat (map (\<lambda>(name, pc). map (channel_name (en_run_id e) name) [0..<nat (pc_channels pc)]) (filter used_pattern ps))" for ps
    by (induction ps) (simp_all only: list.map concat.simps filter.simps pattern_workers_channels split_paired_all split: if_split prod.split, simp_all)
  then show ?thesis by (simp add: CreateWorkers_def map_concat comp_def)
qed

lemma channels_distinct:
  "distinct (map fst ps) \<Longrightarrow>
     distinct (concat (map (\<lambda>(name, pc). map (channel_name r name) [0..<nat (pc_channels pc)]) ps))"
proof (induction ps)
  case (Cons p ps)
  obtain name pc where p: "p = (name, pc)" by (cases p)
  have "distinct (map (channel_name r name) [0..<nat (pc_channels pc)])"
    by (simp add: distinct_map inj_on_def channel_name_inj)
  moreover have "channel_name r name i \<noteq> channel_name r n j" if "(n, q) \<in> set ps" for n q i j
    using that Cons.prems p by (auto simp: channel_name_inj rev_image_eqI)
  ultimately show ?case using Cons p by fastforce
qed simp

definition planned_workers :: "Config \<Rightarrow> nat" where
  "planned_workers c = (\<Sum>(_, pc) \<leftarrow> filter used_pattern (cf_patterns c). nat (pc_channels pc))"

lemma length_workers: "length (en_workers (CreateWorkers e)) = planned_workers (en_config e)"
proof -
  have "length (en_workers (CreateWorkers e)) = length (map (wk_channel \<circ> snd) (en_workers (CreateWorkers e)))" by simp
  also have "\<dots> = planned_workers (en_config e)"
    unfolding workers_channels planned_workers_def by (simp add: length_concat comp_def case_prod_unfold)
  finally show ?thesis .
qed

text \<open>The worker factory builds one worker per channel of every enabled known pattern, and no two workers of
  a run share a channel.\<close>

theorem CreateWorkers_channels:
  assumes "om_inv (cf_patterns (en_config e))"
  shows "distinct (map (wk_channel \<circ> snd) (en_workers (CreateWorkers e)))
         \<and> length (en_workers (CreateWorkers e)) = planned_workers (en_config e)"
proof -
  have "distinct (map fst (filter used_pattern (cf_patterns (en_config e))))"
    using om_inv_distinct [OF assms] by (simp add: distinct_map_filter)
  then show ?thesis unfolding workers_channels using channels_distinct length_workers by blast
qed

definition default_engine :: Engine where
  "default_engine = (Engine_new ''localhost:50000'')\<lparr>en_config := sample_config, en_run_id := ''0badcafe''\<rparr>"

theorem CreateWorkers_channels_witness: "length (en_workers (CreateWorkers default_engine)) = 6"
proof -
  have "om_inv (cf_patterns (en_config default_engine))"
    using sample_config_ok by (simp add: default_engine_def config_ok_def)
  from CreateWorkers_channels [OF this] show ?thesis
    by (simp add: default_engine_def planned_workers_def sample_config_def SetDefaults_def set_pattern_def
        Config_new_def Let_def used_pattern_def worker_kind_of_def default_pattern_def)
qed

section \<open>Reading the snapshot back\<close>

lemma snapshot_fold:
  assumes "json_documented J" "metrics_inv am" "\<And>acc t. f (''_totals'', t) acc = acc"
  shows "\<exists>items. ja_items J (Aggregate_Snapshot now am) = Inr items
    \<and> fold f items acc = fold (\<lambda>(n, m). f (n, PatternMetrics_Snapshot m)) (am_patterns am) acc"
proof -
  let ?es = "map (\<lambda>(n, m). (n, PatternMetrics_Snapshot m)) (am_patterns am)"
  have o: "om_inv (am_patterns am)" and t: "''_totals'' \<notin> fst ` set (am_patterns am)"
    using assms(2) by (simp_all add: metrics_inv_def)
  have es: "om_inv ?es" using o by (simp add: om_inv_map_values [of "\<lambda>_. PatternMetrics_Snapshot"])
  have "fold (\<lambda>(name, m). om_put name (PatternMetrics_Snapshot m)) (am_patterns am) [] = ?es"
    using om_fold_sorted [of "[]" ?es] es by (simp add: fold_map comp_def case_prod_unfold)
  then obtain T where snap: "Aggregate_Snapshot now am = JObj (om_put ''_totals'' T ?es)"
    unfolding Aggregate_Snapshot_def Let_def by metis
  have "''_totals'' \<notin> fst ` set ?es" using t by force
  then have "fold f (om_put ''_totals'' T ?es) acc = fold f ?es acc"
    using assms(3) by (rule fold_om_put_skip)
  moreover have "ja_items J (JObj (om_put ''_totals'' T ?es)) = Inr (om_put ''_totals'' T ?es)"
    using json_doc(8) [OF assms(1) om_inv_put [OF es]] .
  ultimately show ?thesis unfolding snap by (simp add: fold_map comp_def case_prod_unfold)
qed

lemma snapshot_value:
  assumes "json_documented J"
  shows "ja_value_u64 J (PatternMetrics_Snapshot m) ''errors'' 0 = pm_errors m"
    and "ja_is_object J (PatternMetrics_Snapshot m)"
  using json_doc(2,9) [OF assms] by (simp_all add: PatternMetrics_Snapshot_def)

lemma sum_errors:
  assumes "json_documented J" "metrics_inv am"
  shows "sum_items J (Aggregate_Snapshot now am) ''errors'' = total_of pm_errors am"
proof -
  let ?f = "\<lambda>(name, d) total. if name = ''_totals'' \<or> \<not> ja_is_object J d then total else total + ja_value_u64 J d ''errors'' 0"
  obtain items where i: "ja_items J (Aggregate_Snapshot now am) = Inr items"
      "fold ?f items 0 = fold (\<lambda>(n, m). ?f (n, PatternMetrics_Snapshot m)) (am_patterns am) 0"
    using snapshot_fold [OF assms, of ?f now 0] by auto
  have "fold (\<lambda>(n, m). ?f (n, PatternMetrics_Snapshot m)) ms acc = fold (\<lambda>(_, m) total. total + pm_errors m) ms acc"
    if "''_totals'' \<notin> fst ` set ms" for ms acc
    using that by (induction ms arbitrary: acc) (auto simp: snapshot_value [OF assms(1)])
  then show ?thesis using i assms(2) by (simp add: sum_items_def total_of_def metrics_inv_def)
qed

section \<open>A run and its report\<close>

definition worker_progress :: "(string \<times> fetch_adds) list \<Rightarrow> Engine \<Rightarrow> Engine" where
  "worker_progress ps e = e\<lparr>en_metrics := fold (\<lambda>(n, adds). update_pattern n (apply_adds adds)) ps (en_metrics e)\<rparr>"

lemma progress_metrics:
  "am_start_time (fold (\<lambda>(n, adds). update_pattern n (apply_adds adds)) ps am) = am_start_time am"
  "metrics_inv am \<Longrightarrow> metrics_inv (fold (\<lambda>(n, adds). update_pattern n (apply_adds adds)) ps am)"
  by (induction ps arbitrary: am) (auto simp: metrics_inv_update)

lemma used_pattern_name: "used_pattern p \<Longrightarrow> fst p \<noteq> ''_totals''"
  by (cases p) (auto simp: used_pattern_def worker_kind_of_def)

lemma GetPatterns_inv:
  "metrics_inv am \<Longrightarrow> metrics_inv (fold (\<lambda>p. GetPattern (fst p)) (filter used_pattern ps) am)"
  by (induction ps arbitrary: am) (auto simp: metrics_inv_GetPattern used_pattern_name)

lemma begin_metrics_inv: "metrics_inv (en_metrics e) \<Longrightarrow> metrics_inv (en_metrics (RunLoop_begin now e))"
  using metrics_inv_Reset [OF GetPatterns_inv, of "en_metrics e" "cf_patterns (en_config e)"]
  by (simp add: RunLoop_begin_def CreateWorkers_def SetState_def MarkStart_def metrics_inv_def Let_def)

lemma begin_counters_zero: "(n, m) \<in> set (am_patterns (en_metrics (RunLoop_begin now e))) \<Longrightarrow> m = PatternMetrics_zero"
  by (auto simp: RunLoop_begin_def SetState_def MarkStart_def Aggregate_Reset_def PatternMetrics_Reset_zero Let_def)

lemmas engine_defs = RunLoop_begin_def RunLoop_finish_def StartRun_prepare_def SetState_def StopWorkers_def
  worker_progress_def Let_def

text \<open>C17. A run from its preparation to its report: whatever the workers counted in between, the run ends in state
  \<^verbatim>\<open>stopped\<close> with no worker left, and its report carries the id of the run, its length in whole
  seconds, and the verdict \<^verbatim>\<open>PASSED\<close> exactly when the errors of all patterns sum to zero (modulo
  \<open>2\<^sup>6\<^sup>4\<close>).  No run is ever reported as failed, and \<^verbatim>\<open>all_patterns_enabled\<close> says that there were six
  workers, not that all patterns were enabled.\<close>

theorem run_report_correct:
  assumes "json_documented J" "metrics_inv (en_metrics e)" "t0 \<le> t1"
  shows "let e1 = worker_progress ps (RunLoop_begin t0 (StartRun_prepare config run_id started e));
             e2 = RunLoop_finish J ended t1 e1
         in en_state e2 = kStateStopped \<and> en_workers e2 = []
            \<and> (\<exists>kvs. GetRunReport e2 = (JObj kvs, True)
                 \<and> map_of kvs ''run_id'' = Some (JStr run_id)
                 \<and> map_of kvs ''duration_seconds'' = Some (JInt ((t1 - t0) div 1000000000))
                 \<and> map_of kvs ''all_patterns_enabled'' = Some (JBool (planned_workers config = 6))
                 \<and> map_of kvs ''verdict'' = Some (JObj
                      [(''result'', JStr (if (\<Sum>(_, m) \<leftarrow> am_patterns (en_metrics e1). unat (pm_errors m)) mod 2 ^ 64 = 0
                                        then ''PASSED'' else ''PASSED_WITH_WARNINGS'')),
                       (''warnings'', JArr []), (''checks'', JObj [])]))"
proof -
  define e0 where "e0 = StartRun_prepare config run_id started e"
  define e1 where "e1 = worker_progress ps (RunLoop_begin t0 e0)"
  have inv: "metrics_inv (MarkStop t1 (en_metrics e1))"
    using progress_metrics(2) [OF begin_metrics_inv, of e0 ps t0] assms(2)
    by (simp add: e1_def e0_def worker_progress_def StartRun_prepare_def MarkStop_def metrics_inv_def)
  have start: "am_start_time (en_metrics e1) = t0"
    by (simp add: e1_def worker_progress_def progress_metrics(1) RunLoop_begin_def SetState_def MarkStart_def Let_def)
  have workers: "length (en_workers e1) = planned_workers config"
    using length_workers [of e0]
    by (simp add: e1_def e0_def engine_defs planned_workers_def)
  have run: "en_run_id e1 = run_id"
    by (simp add: e1_def e0_def engine_defs CreateWorkers_def)
  have errors: "sum_items J (Aggregate_Snapshot t1 (MarkStop t1 (en_metrics e1))) ''errors'' = 0
      \<longleftrightarrow> (\<Sum>(_, m) \<leftarrow> am_patterns (en_metrics e1). unat (pm_errors m)) mod 2 ^ 64 = 0"
    unfolding sum_errors [OF assms(1) inv]
    by (simp add: total_of_sum unat_sum_list MarkStop_def comp_def case_prod_unfold flip: unat_eq_0)
  have "trunc_to_int (ElapsedSeconds t1 (MarkStop t1 (en_metrics e1))) = (t1 - t0) div 1000000000"
    using elapsed_stopped [of "en_metrics e1" t1 t1] start assms(3) by simp
  then show ?thesis
    unfolding e1_def [unfolded e0_def, symmetric] Let_def
    using errors workers run
    by (simp add: RunLoop_finish_def SetState_def StopWorkers_def GetRunReport_def build_report_def Let_def)
qed

definition no_json :: json_api where
  "no_json = sample_json (\<lambda>_. Inl (JParseError ''parse error''))"

theorem run_report_correct_witness:
  "en_state (RunLoop_finish no_json [] 7000000000
     (worker_progress [(''events'', [(C_sent, 1)])]
       (RunLoop_begin 0 (StartRun_prepare sample_config ''0badcafe'' [] default_engine)))) = kStateStopped"
proof -
  have "metrics_inv (en_metrics default_engine)" by (simp add: default_engine_def Engine_new_def)
  then show ?thesis
    using run_report_correct [where J = no_json and e = default_engine and ?t0.0 = 0 and ?t1.0 = 7000000000
        and ps = "[(''events'', [(C_sent, 1)])]" and config = sample_config and run_id = "''0badcafe''"
        and started = "[]" and ended = "[]"]
    by (simp add: Let_def no_json_def sample_json_documented)
qed

section \<open>Status of a run\<close>

lemma snapshot_has_pattern:
  assumes "json_documented J" "metrics_inv am" "(name, m) \<in> set (am_patterns am)"
  shows "\<exists>kvs. Aggregate_Snapshot now am = JObj kvs \<and> om_inv kvs \<and> map_of kvs name = Some (PatternMetrics_Snapshot m)"
proof -
  have "name \<noteq> ''_totals''" using assms(2,3) by (auto simp: metrics_inv_def rev_image_eqI)
  moreover have "map_of (am_patterns am) name = Some m"
    using assms(2,3) by (simp add: metrics_inv_def om_inv_distinct)
  ultimately show ?thesis using snapshot_members [OF assms(2), of now] by auto
qed

lemma fold_put_found:
  assumes "distinct (map fst items)" "map_of items k = Some d" "\<not> P k d"
  shows "map_of (fold (\<lambda>(n, d) m. if P n d then m else om_put n (g n) m) items m0) k = Some (g k)"
  using assms(1,2)
proof (induction items arbitrary: m0)
  case (Cons it items)
  obtain n d' where it: "it = (n, d')" by (cases it)
  have keep: "map_of (fold (\<lambda>(n, d) m. if P n d then m else om_put n (g n) m) xs m1) k = map_of m1 k"
    if "k \<notin> fst ` set xs" for xs m1
    using that by (induction xs arbitrary: m1) (auto simp: om_put_lookup)
  show ?case
  proof (cases "n = k")
    case True
    then show ?thesis using Cons.prems it assms(3) keep [of items] by (auto simp: om_put_lookup)
  qed (use Cons it in auto)
qed simp

text \<open>The status end point reports every pattern that has ever been used as part of the current run: the
  metrics keep the patterns of earlier runs, and a pattern that the current configuration disables is
  still listed with the state of the run.\<close>

theorem status_lists_stale_patterns:
  assumes "json_documented J" "metrics_inv (en_metrics e)" "name \<in> fst ` set (am_patterns (en_metrics e))"
    and "en_state e = kStateRunning"
  shows "\<exists>channels. map_of (pattern_states J (Aggregate_Snapshot now (en_metrics e)) e) name
           = Some (JObj [(''state'', JStr ''running''), (''channels'', JInt channels)])"
proof -
  obtain m where "(name, m) \<in> set (am_patterns (en_metrics e))" using assms(3) by auto
  from snapshot_has_pattern [OF assms(1,2) this] obtain kvs where
    kvs: "Aggregate_Snapshot now (en_metrics e) = JObj kvs" "om_inv kvs" "map_of kvs name = Some (PatternMetrics_Snapshot m)"
    by blast
  have n: "name \<noteq> ''_totals''" using assms(2,3) unfolding metrics_inv_def by metis
  let ?g = "\<lambda>name. JObj [(''state'', JStr (if en_state e = kStateRunning then ''running'' else en_state e)),
    (''channels'', JInt (case map_of (cf_patterns (en_config e)) name of Some pc \<Rightarrow> pc_channels pc | None \<Rightarrow> 1))]"
  have "map_of (fold (\<lambda>(n, d) m. if n = ''_totals'' \<or> \<not> ja_is_object J d then m else om_put n (?g n) m) kvs []) name
      = Some (?g name)"
    using om_inv_distinct [OF kvs(2)] kvs(3) n snapshot_value(2) [OF assms(1)] by (intro fold_put_found) auto
  then show ?thesis
    using kvs(1) json_doc(8) [OF assms(1) kvs(2)] assms(4)
    by (simp add: pattern_states_def)
qed

definition stale_engine :: Engine where
  "stale_engine = default_engine\<lparr>en_state := kStateRunning, en_metrics := GetPattern ''events'' AggregateMetrics_new,
     en_config := sample_config\<lparr>cf_patterns := [(''events'', PatternConfig_default\<lparr>pc_enabled := False\<rparr>)]\<rparr>\<rparr>"

theorem status_lists_stale_patterns_witness:
  "planned_workers (en_config stale_engine) = 0
   \<and> map_of (pattern_states no_json (Aggregate_Snapshot 0 (en_metrics stale_engine)) stale_engine) ''events'' \<noteq> None"
proof -
  have "metrics_inv (en_metrics stale_engine)"
    by (simp add: stale_engine_def metrics_inv_GetPattern)
  moreover have "''events'' \<in> fst ` set (am_patterns (en_metrics stale_engine))"
    by (simp add: stale_engine_def GetPattern_def AggregateMetrics_new_def)
  ultimately have "map_of (pattern_states no_json (Aggregate_Snapshot 0 (en_metrics stale_engine)) stale_engine) ''events'' \<noteq> None"
    using status_lists_stale_patterns [where J = no_json and e = stale_engine and name = "''events''" and now = 0]
    by (auto simp: no_json_def sample_json_documented stale_engine_def)
  moreover have "planned_workers (en_config stale_engine) = 0"
    by (simp add: planned_workers_def stale_engine_def used_pattern_def)
  ultimately show ?thesis by blast
qed

section \<open>The run ends\<close>



end
