(* ===== verification/Burnin_Runs.thy ===== *)
theory Burnin_Runs
  imports Burnin_Engine
begin

text \<open>
  Interleavings of the engine (burnin/engine/engine.cc).  The HTTP server calls \<^verbatim>\<open>StartRun\<close> and \<^verbatim>\<open>StopRun\<close>
  from a pool of threads while the run thread executes \<^verbatim>\<open>RunLoop\<close>.  \<^verbatim>\<open>StartRun\<close> holds the mutex only while it
  looks at the state and while it stores it, so its sections (check, set, prepare, join and spawn)
  interleave with everything else; \<open>engine_step\<close> is one such section of one thread.  \<open>serial_step\<close> is the same
  system when the calls do not overlap.
\<close>

section \<open>The concurrent system\<close>

datatype http_call = Start_checked Config | Start_starting Config | Start_join | Stop_locked

datatype loop_pc = L_begin | L_wait | L_finish | L_done

datatype engine_event = Start_accepted | Stop_accepted | Run_began | Run_finished | Run_failed

record engine_sys =
  es_engine :: Engine
  es_calls :: "http_call list"
  es_loop :: "loop_pc option"
  es_log :: "engine_event list"

definition engine_init :: "string \<Rightarrow> engine_sys" where
  "engine_init broker = \<lparr>es_engine = Engine_new broker, es_calls = [], es_loop = None, es_log = []\<rparr>"

definition remove_call :: "nat \<Rightarrow> http_call list \<Rightarrow> http_call list" where
  "remove_call i cs = take i cs @ drop (Suc i) cs"

definition joinable_now :: "loop_pc option \<Rightarrow> bool" where
  "joinable_now l = (l = None \<or> l = Some L_done)"

inductive engine_step :: "json_api \<Rightarrow> engine_sys \<Rightarrow> engine_sys \<Rightarrow> bool" for J :: json_api where
  start_check: "StartRun_check (es_engine s) = None
    \<Longrightarrow> engine_step J s (s\<lparr>es_calls := es_calls s @ [Start_checked config], es_log := es_log s @ [Start_accepted]\<rparr>)"
| start_set: "i < length (es_calls s) \<Longrightarrow> es_calls s ! i = Start_checked config
    \<Longrightarrow> engine_step J s (s\<lparr>es_engine := SetState kStateStarting (es_engine s),
          es_calls := (es_calls s)[i := Start_starting config]\<rparr>)"
| start_prepare: "i < length (es_calls s) \<Longrightarrow> es_calls s ! i = Start_starting config
    \<Longrightarrow> run_id = (if cf_run_id config = [] then generated else cf_run_id config)
    \<Longrightarrow> engine_step J s (s\<lparr>es_engine := StartRun_prepare config run_id started (es_engine s),
          es_calls := (es_calls s)[i := Start_join]\<rparr>)"
| start_spawn: "i < length (es_calls s) \<Longrightarrow> es_calls s ! i = Start_join \<Longrightarrow> joinable_now (es_loop s)
    \<Longrightarrow> engine_step J s (s\<lparr>es_calls := remove_call i (es_calls s), es_loop := Some L_begin\<rparr>)"
| stop_lock: "StopRun_lock (es_engine s) = Inr e
    \<Longrightarrow> engine_step J s (s\<lparr>es_engine := e, es_calls := es_calls s @ [Stop_locked], es_log := es_log s @ [Stop_accepted]\<rparr>)"
| stop_store: "i < length (es_calls s) \<Longrightarrow> es_calls s ! i = Stop_locked
    \<Longrightarrow> engine_step J s (s\<lparr>es_engine := StopRun_store (es_engine s), es_calls := remove_call i (es_calls s)\<rparr>)"
| loop_begin: "es_loop s = Some L_begin
    \<Longrightarrow> engine_step J s (s\<lparr>es_engine := RunLoop_begin now (es_engine s), es_loop := Some L_wait, es_log := es_log s @ [Run_began]\<rparr>)"
| loop_progress: "es_loop s = Some L_wait
    \<Longrightarrow> engine_step J s (s\<lparr>es_engine := worker_progress ps (es_engine s)\<rparr>)"
| loop_stop: "es_loop s = Some L_wait \<Longrightarrow> en_stop_requested (es_engine s)
    \<Longrightarrow> engine_step J s (s\<lparr>es_loop := Some L_finish\<rparr>)"
| loop_timeout: "es_loop s = Some L_wait \<Longrightarrow> \<not> en_stop_requested (es_engine s)
    \<Longrightarrow> engine_step J s (s\<lparr>es_loop := Some L_finish\<rparr>)"
| loop_finish: "es_loop s = Some L_finish
    \<Longrightarrow> engine_step J s (s\<lparr>es_engine := RunLoop_finish J ended now (es_engine s), es_loop := Some L_done, es_log := es_log s @ [Run_finished]\<rparr>)"
| loop_throw: "es_loop s = Some pc \<Longrightarrow> pc \<noteq> L_done
    \<Longrightarrow> engine_step J s (s\<lparr>es_engine := RunLoop_catch msg (es_engine s), es_loop := Some L_done, es_log := es_log s @ [Run_failed]\<rparr>)"

section \<open>What overlapping calls can do\<close>

lemma step_then: "engine_step J s t \<Longrightarrow> (engine_step J)\<^sup>*\<^sup>* t u \<Longrightarrow> (engine_step J)\<^sup>*\<^sup>* s u"
  by (rule converse_rtranclp_into_rtranclp)

lemmas call_defs = engine_init_def Engine_new_def StartRun_check_def may_start_def SetState_def StopRun_lock_def
  StopRun_store_def StartRun_prepare_def remove_call_def joinable_now_def state_names

text \<open>C40. An accepted stop can be lost: \<^verbatim>\<open>StopRun\<close> may run between the two sections of a \<^verbatim>\<open>StartRun\<close> that is still
  preparing, which then clears the request.  The caller is told that the run is stopping, yet the run
  goes on in state \<^verbatim>\<open>running\<close> with no request pending and no call in progress.\<close>

theorem accepted_stop_can_be_lost:
  "\<exists>s. (engine_step J)\<^sup>*\<^sup>* (engine_init broker) s
     \<and> es_log s = [Start_accepted, Stop_accepted, Run_began]
     \<and> es_loop s = Some L_wait \<and> es_calls s = []
     \<and> en_state (es_engine s) = kStateRunning \<and> \<not> en_stop_requested (es_engine s)"
proof -
  define c where "c = SetDefaults Config_new"
  define s1 where "s1 = (engine_init broker)\<lparr>es_calls := [Start_checked c], es_log := [Start_accepted]\<rparr>"
  define s2 where "s2 = s1\<lparr>es_engine := SetState kStateStarting (es_engine s1), es_calls := [Start_starting c]\<rparr>"
  define s3 where "s3 = s2\<lparr>es_engine := (es_engine s2)\<lparr>en_state := kStateStopping\<rparr>,
    es_calls := [Start_starting c, Stop_locked], es_log := [Start_accepted, Stop_accepted]\<rparr>"
  define s4 where "s4 = s3\<lparr>es_engine := StopRun_store (es_engine s3), es_calls := [Start_starting c]\<rparr>"
  define s5 where "s5 = s4\<lparr>es_engine := StartRun_prepare c ''0badcafe'' [] (es_engine s4), es_calls := [Start_join]\<rparr>"
  define s6 where "s6 = s5\<lparr>es_calls := [], es_loop := Some L_begin\<rparr>"
  define s7 where "s7 = s6\<lparr>es_engine := RunLoop_begin 0 (es_engine s6), es_loop := Some L_wait,
    es_log := [Start_accepted, Stop_accepted, Run_began]\<rparr>"
  have c: "cf_run_id c = []" by (simp add: c_def SetDefaults_def set_pattern_def Config_new_def Let_def)
  have st1: "engine_step J (engine_init broker) s1"
    using start_check [of "engine_init broker" J c] by (simp add: s1_def call_defs)
  have st2: "engine_step J s1 s2"
    using start_set [of 0 s1 c J] by (simp add: s2_def s1_def)
  have st3: "engine_step J s2 s3"
    using stop_lock [of s2 "(es_engine s2)\<lparr>en_state := kStateStopping\<rparr>" J] by (simp add: s3_def s2_def s1_def call_defs)
  have st4: "engine_step J s3 s4"
    using stop_store [of 1 s3 J] by (simp add: s4_def s3_def remove_call_def)
  have st5: "engine_step J s4 s5"
    using start_prepare [of 0 s4 c "''0badcafe''" "''0badcafe''" J "[]"] c by (simp add: s5_def s4_def)
  have st6: "engine_step J s5 s6"
    using start_spawn [of 0 s5 J] by (simp add: s6_def s5_def s4_def s3_def s2_def s1_def call_defs)
  have st7: "engine_step J s6 s7"
    using loop_begin [of s6 J 0] by (simp add: s7_def s6_def s5_def s4_def s3_def)
  have "(engine_step J)\<^sup>*\<^sup>* (engine_init broker) s7"
    by (rule step_then [OF st1 step_then [OF st2 step_then [OF st3 step_then [OF st4 
      step_then [OF st5 step_then [OF st6 r_into_rtranclp [of "engine_step J", OF st7]]]]]]])
  moreover have "en_state (es_engine s7) = kStateRunning \<and> \<not> en_stop_requested (es_engine s7)"
    by (simp add: s7_def s6_def s5_def RunLoop_begin_def SetState_def CreateWorkers_def StartRun_prepare_def Let_def)
  ultimately show ?thesis by (intro exI [of _ s7]) (simp add: s7_def s6_def)
qed

definition report_run_id :: "json \<Rightarrow> json option" where
  "report_run_id report = (case report of JObj kvs \<Rightarrow> map_of kvs ''run_id'' | _ \<Rightarrow> None)"

lemma finish_fields [simp]:
  "en_state (RunLoop_finish J ended now e) = kStateStopped" "en_has_report (RunLoop_finish J ended now e)"
  "en_run_id (RunLoop_finish J ended now e) = en_run_id e"
  "report_run_id (en_last_report (RunLoop_finish J ended now e)) = Some (JStr (en_run_id e))"
  "en_stop_requested (RunLoop_finish J ended now e) = en_stop_requested e"
  by (simp_all add: engine_defs build_report_def report_run_id_def)

lemma begin_fields [simp]:
  "en_state (RunLoop_begin now e) = kStateRunning" "en_stop_requested (RunLoop_begin now e) = en_stop_requested e"
  "en_has_report (RunLoop_begin now e) = en_has_report e" "en_run_id (RunLoop_begin now e) = en_run_id e"
  "en_last_report (RunLoop_begin now e) = en_last_report e"
  by (simp_all add: engine_defs CreateWorkers_def)

lemma prepare_fields [simp]:
  "en_state (StartRun_prepare config r t e) = en_state e" "\<not> en_stop_requested (StartRun_prepare config r t e)"
  "\<not> en_has_report (StartRun_prepare config r t e)" "en_run_id (StartRun_prepare config r t e) = r"
  by (simp_all add: StartRun_prepare_def)

lemma other_fields [simp]:
  "en_state (SetState st e) = st" "en_state (RunLoop_catch msg e) = kStateError"
  "en_stop_requested (RunLoop_catch msg e) = en_stop_requested e" "en_has_report (RunLoop_catch msg e) = en_has_report e"
  "en_run_id (RunLoop_catch msg e) = en_run_id e" "en_last_report (RunLoop_catch msg e) = en_last_report e"
  "en_state (worker_progress ps e) = en_state e" "en_stop_requested (worker_progress ps e) = en_stop_requested e"
  "en_has_report (worker_progress ps e) = en_has_report e" "en_run_id (worker_progress ps e) = en_run_id e"
  "en_last_report (worker_progress ps e) = en_last_report e"
  by (simp_all add: SetState_def RunLoop_catch_def worker_progress_def)

text \<open>Two overlapping starts can both be accepted, because the state is examined and changed in two separate
  critical sections.  The second then prepares its run while the first one is running, and the report of
  the first run carries the id of the second, which has not begun.\<close>

theorem overlapping_starts_mix_runs:
  "\<exists>s. (engine_step J)\<^sup>*\<^sup>* (engine_init broker) s
     \<and> es_log s = [Start_accepted, Start_accepted, Run_began, Run_finished] \<and> es_calls s = [Start_join]
     \<and> en_has_report (es_engine s) \<and> report_run_id (en_last_report (es_engine s)) = Some (JStr ''second'')"
proof -
  define c d where "c = Config_new\<lparr>cf_run_id := ''first''\<rparr>" and "d = Config_new\<lparr>cf_run_id := ''second''\<rparr>"
  define s1 where "s1 = (engine_init broker)\<lparr>es_calls := [Start_checked c], es_log := [Start_accepted]\<rparr>"
  define s2 where "s2 = s1\<lparr>es_calls := [Start_checked c, Start_checked d], es_log := [Start_accepted, Start_accepted]\<rparr>"
  define s3 where "s3 = s2\<lparr>es_engine := SetState kStateStarting (es_engine s2), es_calls := [Start_starting c, Start_checked d]\<rparr>"
  define s4 where "s4 = s3\<lparr>es_engine := StartRun_prepare c ''first'' [] (es_engine s3), es_calls := [Start_join, Start_checked d]\<rparr>"
  define s5 where "s5 = s4\<lparr>es_calls := [Start_checked d], es_loop := Some L_begin\<rparr>"
  define s6 where "s6 = s5\<lparr>es_engine := RunLoop_begin 0 (es_engine s5), es_loop := Some L_wait,
    es_log := [Start_accepted, Start_accepted, Run_began]\<rparr>"
  define s7 where "s7 = s6\<lparr>es_engine := SetState kStateStarting (es_engine s6), es_calls := [Start_starting d]\<rparr>"
  define s8 where "s8 = s7\<lparr>es_engine := StartRun_prepare d ''second'' [] (es_engine s7), es_calls := [Start_join]\<rparr>"
  define s9 where "s9 = s8\<lparr>es_loop := Some L_finish\<rparr>"
  define t where "t = s9\<lparr>es_engine := RunLoop_finish J [] 1 (es_engine s9), es_loop := Some L_done,
    es_log := [Start_accepted, Start_accepted, Run_began, Run_finished]\<rparr>"
  have cd: "cf_run_id c = ''first''" "cf_run_id d = ''second''" by (simp_all add: c_def d_def)
  have st1: "engine_step J (engine_init broker) s1"
    using start_check [of "engine_init broker" J c] by (simp add: s1_def call_defs)
  have st2: "engine_step J s1 s2"
    using start_check [of s1 J d] by (simp add: s2_def s1_def call_defs)
  have st3: "engine_step J s2 s3" using start_set [of 0 s2 c J] by (simp add: s3_def s2_def)
  have st4: "engine_step J s3 s4"
    using start_prepare [of 0 s3 c "''first''" "[]" J "[]"] cd by (simp add: s4_def s3_def)
  have st5: "engine_step J s4 s5"
    using start_spawn [of 0 s4 J] by (simp add: s5_def s4_def s3_def s2_def s1_def call_defs)
  have st6: "engine_step J s5 s6" using loop_begin [of s5 J 0] by (simp add: s6_def s5_def s4_def s3_def s2_def)
  have st7: "engine_step J s6 s7" using start_set [of 0 s6 d J] by (simp add: s7_def s6_def s5_def)
  have st8: "engine_step J s7 s8"
    using start_prepare [of 0 s7 d "''second''" "[]" J "[]"] cd by (simp add: s8_def s7_def)
  have st9: "engine_step J s8 s9" using loop_timeout [of s8 J] by (simp add: s9_def s8_def s7_def s6_def)
  have st10: "engine_step J s9 t"
    using loop_finish [of s9 J "[]" 1] by (simp add: t_def s9_def s8_def s7_def s6_def)
  have "(engine_step J)\<^sup>*\<^sup>* (engine_init broker) t"
    by (rule step_then [OF st1 step_then [OF st2 step_then [OF st3 step_then [OF st4 
      step_then [OF st5 step_then [OF st6 step_then [OF st7 step_then [OF st8 step_then [OF st9 r_into_rtranclp [of "engine_step J", OF st10]]]]]]]]]])
  then show ?thesis by (intro exI [of _ t]) (simp add: t_def s9_def s8_def)
qed

section \<open>Calls that do not overlap\<close>

inductive serial_step :: "json_api \<Rightarrow> engine_sys \<Rightarrow> engine_sys \<Rightarrow> bool" for J :: json_api where
  serial_start: "es_calls s = [] \<Longrightarrow> StartRun_check (es_engine s) = None \<Longrightarrow> joinable_now (es_loop s)
    \<Longrightarrow> run_id = (if cf_run_id config = [] then generated else cf_run_id config)
    \<Longrightarrow> serial_step J s (s\<lparr>es_engine := StartRun_prepare config run_id started (SetState kStateStarting (es_engine s)),
          es_loop := Some L_begin, es_log := es_log s @ [Start_accepted]\<rparr>)"
| serial_stop: "es_calls s = [] \<Longrightarrow> StopRun (es_engine s) = ([], e)
    \<Longrightarrow> serial_step J s (s\<lparr>es_engine := e, es_log := es_log s @ [Stop_accepted]\<rparr>)"
| serial_loop: "engine_step J s t \<Longrightarrow> es_calls s = [] \<Longrightarrow> es_calls t = [] \<Longrightarrow> serial_step J s t"

definition stop_pending :: "engine_event list \<Rightarrow> bool" where
  "stop_pending evs = foldl (\<lambda>pending ev. case ev of Start_accepted \<Rightarrow> False | Stop_accepted \<Rightarrow> True | _ \<Rightarrow> pending) False evs"

lemma stop_pending_snoc [simp]:
  "stop_pending (evs @ [ev]) = (case ev of Start_accepted \<Rightarrow> False | Stop_accepted \<Rightarrow> True | _ \<Rightarrow> stop_pending evs)"
  by (cases ev) (simp_all add: stop_pending_def)

definition state_fits :: "loop_pc option \<Rightarrow> string \<Rightarrow> bool" where
  "state_fits l st =
     (case l of
        None \<Rightarrow> st = kStateIdle
      | Some L_begin \<Rightarrow> st = kStateStarting \<or> st = kStateStopping
      | Some L_wait \<Rightarrow> st = kStateRunning \<or> st = kStateStopping
      | Some L_finish \<Rightarrow> st = kStateRunning \<or> st = kStateStopping
      | Some L_done \<Rightarrow> st = kStateStopped \<or> st = kStateError)"

definition serial_inv :: "engine_sys \<Rightarrow> bool" where
  "serial_inv s =
     (es_calls s = [] \<and> state_fits (es_loop s) (en_state (es_engine s))
      \<and> (stop_pending (es_log s) \<longrightarrow> en_stop_requested (es_engine s))
      \<and> (en_state (es_engine s) = kStateStopped \<longrightarrow> en_has_report (es_engine s))
      \<and> (en_has_report (es_engine s) \<longrightarrow>
           report_run_id (en_last_report (es_engine s)) = Some (JStr (en_run_id (es_engine s)))))"

lemma StopRun_accepted: "StopRun e = ([], e') \<longleftrightarrow>
    (en_state e = kStateRunning \<or> en_state e = kStateStarting) \<and> e' = e\<lparr>en_state := kStateStopping, en_stop_requested := True\<rparr>"
  by (auto simp: StopRun_def StopRun_lock_def StopRun_store_def)

lemma engine_step_serial_inv:
  assumes "engine_step J s t" "es_calls s = []" "es_calls t = []" "serial_inv s"
  shows "serial_inv t"
  using assms by (cases rule: engine_step.cases) (auto simp: serial_inv_def state_fits_def state_names split: loop_pc.splits)

lemma serial_step_inv: "serial_step J s t \<Longrightarrow> serial_inv s \<Longrightarrow> serial_inv t"
proof (induction rule: serial_step.induct)
  case (serial_start s run_id config generated started)
  then show ?case by (simp add: serial_inv_def state_fits_def state_names)
next
  case (serial_stop s e)
  then show ?case
    by (auto simp: serial_inv_def state_fits_def StopRun_accepted state_names split: option.splits loop_pc.splits)
qed (rule engine_step_serial_inv)

lemma serial_init: "serial_inv (engine_init broker)"
  by (simp add: serial_inv_def engine_init_def Engine_new_def state_fits_def stop_pending_def state_names)

lemma serial_reachable: "(serial_step J)\<^sup>*\<^sup>* (engine_init broker) s \<Longrightarrow> serial_inv s"
  by (induction rule: rtranclp_induct) (auto simp: serial_init intro: serial_step_inv)

lemma may_start_joinable: "state_fits l st \<Longrightarrow> may_start st \<longleftrightarrow> joinable_now l"
  by (auto simp: state_fits_def may_start_def joinable_now_def state_names split: option.splits loop_pc.splits)

text \<open>C11. As long as calls do not overlap the engine keeps its promises: a start is possible exactly when no run
  thread is alive, an accepted stop stays requested until the next start, so the run thread sees it at
  its next test, and whoever sees the state \<^verbatim>\<open>stopped\<close> can fetch a report, which is the report of the
  current run id.\<close>

theorem serial_engine_correct:
  assumes "(serial_step J)\<^sup>*\<^sup>* (engine_init broker) s"
  shows "(StartRun_check (es_engine s) = None \<longleftrightarrow> joinable_now (es_loop s))
    \<and> (stop_pending (es_log s) \<longrightarrow> en_stop_requested (es_engine s))
    \<and> (en_state (es_engine s) = kStateStopped \<longrightarrow>
         (\<exists>report. GetRunReport (es_engine s) = (report, True)
            \<and> report_run_id report = Some (JStr (en_run_id (es_engine s)))))"
proof -
  have inv: "serial_inv s" by (rule serial_reachable [OF assms])
  then have "may_start (en_state (es_engine s)) \<longleftrightarrow> joinable_now (es_loop s)"
    by (simp add: serial_inv_def may_start_joinable)
  then show ?thesis using inv by (auto simp: serial_inv_def StartRun_check_def GetRunReport_def)
qed

text \<open>Serial executions are executions of the concurrent system.\<close>

lemma serial_is_concurrent:
  assumes "serial_step J s t"
  shows "(engine_step J)\<^sup>*\<^sup>* s t"
  using assms
proof cases
  case (serial_start run_id config generated started)
  let ?s1 = "s\<lparr>es_calls := [Start_checked config], es_log := es_log s @ [Start_accepted]\<rparr>"
  let ?s2 = "?s1\<lparr>es_engine := SetState kStateStarting (es_engine s), es_calls := [Start_starting config]\<rparr>"
  let ?s3 = "?s2\<lparr>es_engine := StartRun_prepare config run_id started (SetState kStateStarting (es_engine s)), es_calls := [Start_join]\<rparr>"
  have "engine_step J s ?s1" using start_check [of s J config] serial_start by simp
  moreover have "engine_step J ?s1 ?s2" using start_set [of 0 ?s1 config J] by simp
  moreover have "engine_step J ?s2 ?s3"
    using start_prepare [of 0 ?s2 config run_id generated J started] serial_start by simp
  moreover have "t = ?s3\<lparr>es_calls := remove_call 0 (es_calls ?s3), es_loop := Some L_begin\<rparr>"
    unfolding serial_start(1) by (rule engine_sys.equality) (simp_all add: remove_call_def serial_start)
  then have "engine_step J ?s3 t"
    using start_spawn [of 0 ?s3 J] serial_start by simp
  ultimately show ?thesis by (meson step_then rtranclp.rtrancl_refl)
next
  case (serial_stop e)
  let ?s1 = "s\<lparr>es_engine := (es_engine s)\<lparr>en_state := kStateStopping\<rparr>, es_calls := [Stop_locked], es_log := es_log s @ [Stop_accepted]\<rparr>"
  have "engine_step J s ?s1"
    using stop_lock [of s "(es_engine s)\<lparr>en_state := kStateStopping\<rparr>" J] serial_stop
    by (auto simp: StopRun_accepted StopRun_lock_def)
  moreover have "t = ?s1\<lparr>es_engine := StopRun_store (es_engine ?s1), es_calls := remove_call 0 (es_calls ?s1)\<rparr>"
    using serial_stop unfolding serial_stop(1)
    by (intro engine_sys.equality) (simp_all add: remove_call_def StopRun_accepted StopRun_store_def)
  then have "engine_step J ?s1 t"
    using stop_store [of 0 ?s1 J] by simp
  ultimately show ?thesis by (meson step_then rtranclp.rtrancl_refl)
qed auto

definition started_then_stopped :: engine_sys where
  "started_then_stopped =
     (let e = StartRun_prepare sample_config ''0badcafe'' [] (SetState kStateStarting (Engine_new ''localhost:50000''))
      in \<lparr>es_engine = snd (StopRun e), es_calls = [], es_loop = Some L_begin, es_log = [Start_accepted, Stop_accepted]\<rparr>)"

lemma started_then_stopped_reachable: "(serial_step no_json)\<^sup>*\<^sup>* (engine_init ''localhost:50000'') started_then_stopped"
proof -
  let ?s0 = "engine_init ''localhost:50000''"
  let ?s1 = "?s0\<lparr>es_engine := StartRun_prepare sample_config ''0badcafe'' [] (SetState kStateStarting (es_engine ?s0)),
    es_loop := Some L_begin, es_log := es_log ?s0 @ [Start_accepted]\<rparr>"
  have "serial_step no_json ?s0 ?s1"
    using serial_start [of ?s0 "''0badcafe''" sample_config "[]" no_json "[]"]
    by (simp add: call_defs sample_config_def)
  moreover have "serial_step no_json ?s1 started_then_stopped"
    using serial_stop [of ?s1 "snd (StopRun (es_engine ?s1))" no_json]
    by (simp add: started_then_stopped_def Let_def StopRun_accepted call_defs StopRun_def)
  ultimately show ?thesis by (meson converse_rtranclp_into_rtranclp rtranclp.rtrancl_refl)
qed

theorem serial_engine_correct_witness: "en_stop_requested (es_engine started_then_stopped)"
  using serial_engine_correct [OF started_then_stopped_reachable]
  by (simp add: started_then_stopped_def Let_def stop_pending_def)

end
