(* ===== verification/Burnin_Server.thy ===== *)
theory Burnin_Server
  imports Burnin_Runs
begin

text \<open>
  The HTTP interface of the burn-in application (burnin/server/handlers.cc, http_server.cc) and the shutdown
  sequence of burnin/main.cc.  A response is the record of what a handler sets on it; matching a
  request against the registered patterns is the HTTP library's, so the routes are a table.  Reading
  the body of \<^verbatim>\<open>POST /run/start\<close> may overflow an \<^verbatim>\<open>int\<close>, which is undefined: then the handler has no result.
\<close>

section \<open>Responses\<close>

record Response =
  res_status :: int
  res_headers :: "(string \<times> string) list"
  res_body :: string
  res_content_type :: string

definition Response_new :: Response where
  "Response_new = \<lparr>res_status = - 1, res_headers = [], res_body = [], res_content_type = []\<rparr>"

definition SetCorsHeaders :: "Response \<Rightarrow> Response" where
  "SetCorsHeaders res = res\<lparr>res_headers := res_headers res @
     [(''Access-Control-Allow-Origin'', ''*''), (''Access-Control-Allow-Methods'', ''GET, POST, OPTIONS''),
      (''Access-Control-Allow-Headers'', ''Content-Type'')]\<rparr>"

definition JsonResponse :: "json_api \<Rightarrow> int \<Rightarrow> json \<Rightarrow> Response \<Rightarrow> Response" where
  "JsonResponse J status_code body res =
     (SetCorsHeaders res)\<lparr>res_status := status_code, res_body := ja_dump J body, res_content_type := ''application/json''\<rparr>"

section \<open>Handlers\<close>

definition HandleHealth :: "json_api \<Rightarrow> Response \<Rightarrow> Response" where
  "HandleHealth J res = JsonResponse J 200 (JObj [(''status'', JStr ''alive'')]) res"

definition ready_document :: "string \<Rightarrow> json" where
  "ready_document st =
     (let ready = (st = kStateIdle \<or> st = kStateRunning \<or> st = kStateStopped)
      in JObj [(''status'', JStr (if ready then ''ready'' else ''not_ready'')), (''state'', JStr st)])"

definition HandleReady :: "json_api \<Rightarrow> Engine \<Rightarrow> Response \<Rightarrow> Response" where
  "HandleReady J e res = JsonResponse J 200 (ready_document (en_state e)) res"

definition state_lines :: "string \<Rightarrow> string" where
  "state_lines st =
     ''# HELP kubemq_burnin_state Current state of the burn-in engine'' @ [CHR 0x0A]
     @ ''# TYPE kubemq_burnin_state gauge'' @ [CHR 0x0A]
     @ ''kubemq_burnin_state{state='' @ [CHR 0x22] @ st @ [CHR 0x22] @ ''} 1'' @ [CHR 0x0A]"

definition counter_lines :: "string \<Rightarrow> string \<Rightarrow> int \<Rightarrow> string" where
  "counter_lines name help n =
     ''# HELP kubemq_burnin_'' @ name @ ''_total '' @ help @ [CHR 0x0A]
     @ ''# TYPE kubemq_burnin_'' @ name @ ''_total counter'' @ [CHR 0x0A]
     @ ''kubemq_burnin_'' @ name @ ''_total '' @ to_string n @ [CHR 0x0A]"

definition metrics_text :: "json_api \<Rightarrow> int \<Rightarrow> Engine \<Rightarrow> string" where
  "metrics_text J now e =
     (let snapshot = GetRunStatus J now e
      in state_lines (en_state e)
         @ (if ja_contains J snapshot ''metrics'' then
              (case ja_at J snapshot ''metrics'' of
                 Inl _ \<Rightarrow> []
               | Inr m \<Rightarrow>
                   if ja_contains J m ''_totals'' then
                     (case ja_at J m ''_totals'' of
                        Inl _ \<Rightarrow> []
                      | Inr totals \<Rightarrow>
                          counter_lines ''sent'' ''Total messages sent'' (ja_value_int J totals ''sent'' 0)
                          @ counter_lines ''received'' ''Total messages received'' (ja_value_int J totals ''received'' 0)
                          @ counter_lines ''errors'' ''Total errors'' (ja_value_int J totals ''errors'' 0))
                   else [])
            else []))"

definition HandleMetrics :: "json_api \<Rightarrow> int \<Rightarrow> Engine \<Rightarrow> Response \<Rightarrow> Response" where
  "HandleMetrics J now e res =
     (SetCorsHeaders res)\<lparr>res_status := 200, res_body := metrics_text J now e,
        res_content_type := ''text/plain; charset=utf-8''\<rparr>"

definition HandleInfo :: "json_api \<Rightarrow> Engine \<Rightarrow> Response \<Rightarrow> Response" where
  "HandleInfo J e res = JsonResponse J 200 (GetInfo e) res"

definition HandleBrokerStatus :: "json_api \<Rightarrow> 'w burnin_env \<Rightarrow> Engine \<Rightarrow> Response \<Rightarrow> ('w, Response) state" where
  "HandleBrokerStatus J E e res = do { d \<leftarrow> GetBrokerStatus E e; ret (JsonResponse J 200 d res) }"

definition HandleRunStart :: "json_api \<Rightarrow> ('w, 32 word) state \<Rightarrow> ('w, string) state \<Rightarrow> string \<Rightarrow> Engine \<Rightarrow> Response
    \<Rightarrow> ('w, (Response \<times> Engine) option) state" where
  "HandleRunStart J rand32 now_iso body e res =
     (case (if body \<noteq> [] then FromJson J body else Some (SetDefaults Config_new)) of
        None \<Rightarrow> ret None
      | Some config \<Rightarrow> do {
          (result, e') \<leftarrow> StartRun rand32 now_iso config e;
          ret (Some
            (if sr_error result \<noteq> [] then JsonResponse J 409 (JObj [(''error'', JStr (sr_error result))]) res
             else JsonResponse J 202 (JObj [(''run_id'', JStr (sr_run_id result)),
                    (''enabled_patterns'', JInt (int (sr_enabled_count result))), (''status'', JStr ''starting'')]) res, e'))
        })"

definition HandleRunStop :: "json_api \<Rightarrow> Engine \<Rightarrow> Response \<Rightarrow> Response \<times> Engine" where
  "HandleRunStop J e res =
     (let (error, e') = StopRun e
      in if error \<noteq> [] then (JsonResponse J 409 (JObj [(''error'', JStr error)]) res, e')
         else (JsonResponse J 202 (JObj [(''status'', JStr ''stopping'')]) res, e'))"

definition HandleRun :: "json_api \<Rightarrow> int \<Rightarrow> Engine \<Rightarrow> Response \<Rightarrow> Response" where
  "HandleRun J now e res = JsonResponse J 200 (GetRunFull J now e) res"

definition HandleRunStatus :: "json_api \<Rightarrow> int \<Rightarrow> Engine \<Rightarrow> Response \<Rightarrow> Response" where
  "HandleRunStatus J now e res = JsonResponse J 200 (GetRunStatus J now e) res"

definition HandleRunConfig :: "json_api \<Rightarrow> Engine \<Rightarrow> Response \<Rightarrow> Response" where
  "HandleRunConfig J e res =
     (let (config, found) = GetRunConfig e
      in if \<not> found then JsonResponse J 404 (JObj [(''error'', JStr ''no run configuration available'')]) res
         else JsonResponse J 200 config res)"

definition HandleRunReport :: "json_api \<Rightarrow> Engine \<Rightarrow> Response \<Rightarrow> Response" where
  "HandleRunReport J e res =
     (let (report, found) = GetRunReport e
      in if \<not> found then JsonResponse J 404 (JObj [(''error'', JStr ''no run report available'')]) res
         else JsonResponse J 200 report res)"

definition HandleCleanup :: "json_api \<Rightarrow> Engine \<Rightarrow> Response \<Rightarrow> Response" where
  "HandleCleanup J e res =
     (let result = CleanupChannels e
      in if ja_contains J result ''error'' then JsonResponse J 409 result res else JsonResponse J 200 result res)"

definition HandleLegacyStatus :: "json_api \<Rightarrow> int \<Rightarrow> Engine \<Rightarrow> Response \<Rightarrow> Response" where
  "HandleLegacyStatus J now e res = HandleRunStatus J now e res"

definition HandleLegacySummary :: "json_api \<Rightarrow> Engine \<Rightarrow> Response \<Rightarrow> Response" where
  "HandleLegacySummary J e res = HandleRunReport J e res"

section \<open>Routes and shutdown\<close>

datatype endpoint = Health | Ready | Metrics | Info | Broker_status | Run_start | Run_stop | Run_full | Run_status
  | Run_config | Run_report | Cleanup | Legacy_status | Legacy_summary

definition SetupRoutes :: "(string \<times> string \<times> endpoint) list" where
  "SetupRoutes =
     [(''GET'', ''/health'', Health), (''GET'', ''/ready'', Ready), (''GET'', ''/metrics'', Metrics),
      (''GET'', ''/info'', Info), (''GET'', ''/broker/status'', Broker_status),
      (''POST'', ''/run/start'', Run_start), (''POST'', ''/run/stop'', Run_stop), (''GET'', ''/run'', Run_full),
      (''GET'', ''/run/status'', Run_status), (''GET'', ''/run/config'', Run_config),
      (''GET'', ''/run/report'', Run_report), (''POST'', ''/cleanup'', Cleanup),
      (''GET'', ''/status'', Legacy_status), (''GET'', ''/summary'', Legacy_summary)]"

definition HandleOptions :: "Response \<Rightarrow> Response" where
  "HandleOptions res = (SetCorsHeaders res)\<lparr>res_status := 204\<rparr>"

definition main_shutdown :: "Engine \<Rightarrow> Engine" where
  "main_shutdown e =
     (if en_state e = kStateRunning \<or> en_state e = kStateStarting then snd (StopRun e) else e)"

definition Engine_destroy :: "loop_pc option \<Rightarrow> Engine \<Rightarrow> Engine" where
  "Engine_destroy run_thread e = (if run_thread \<noteq> None then e\<lparr>en_stop_requested := True\<rparr> else e)"

section \<open>What the end points answer\<close>

lemma JsonResponse_status [simp]: "res_status (JsonResponse J c d res) = c"
  by (simp add: JsonResponse_def)

text \<open>The Prometheus end point never exports a message counter: it looks for members that the status
  document does not have, so whatever was sent, its text is the state gauge alone.\<close>

theorem metrics_never_exported:
  assumes "json_documented J"
  shows "res_body (HandleMetrics J now e res) = state_lines (en_state e)"
proof -
  have "\<not> ja_contains J (GetRunStatus J now e) ''metrics''"
    by (simp add: GetRunStatus_def idle_document_def Let_def json_doc(1) [OF assms])
  then show ?thesis by (simp add: HandleMetrics_def metrics_text_def Let_def)
qed

theorem metrics_never_exported_witness:
  "res_body (HandleMetrics no_json 0 stale_engine Response_new) = state_lines ''running''"
  using metrics_never_exported [of no_json 0 stale_engine Response_new]
  by (simp add: no_json_def sample_json_documented stale_engine_def kStateRunning_def)

lemma StartRun_refused:
  "\<not> may_start (en_state e) \<Longrightarrow> run_state (StartRun rand32 now_iso config e) w
     = ((\<lparr>sr_run_id = [], sr_enabled_count = 0, sr_error = ''cannot start: current state is '' @ en_state e\<rparr>, e), w)"
  by (simp add: StartRun_def StartRun_check_def)

lemma StartRun_accepted:
  assumes "may_start (en_state e)"
  shows "sr_error (fst (result_of (StartRun rand32 now_iso config e) w)) = []
    \<and> en_state (snd (result_of (StartRun rand32 now_iso config e) w)) = kStateStarting
    \<and> cf_patterns (en_config (snd (result_of (StartRun rand32 now_iso config e) w))) = cf_patterns config
    \<and> cf_warnings (en_config (snd (result_of (StartRun rand32 now_iso config e) w))) = cf_warnings config"
  using assms by (simp add: StartRun_def StartRun_check_def StartRun_prepare_def SetState_def case_prod_unfold Let_def)

text \<open>\<^verbatim>\<open>POST /run/start\<close> answers 202 exactly when the state allows a start and 409 otherwise, in which case nothing
  changes; no body is answered with 400.  A body that is not JSON starts a run with the default
  configuration, and the only trace of the mistake is a warning that no end point shows.\<close>

theorem HandleRunStart_answers:
  assumes "body \<noteq> []" "FromJson J body = Some config"
  shows "\<exists>res' e'. result_of (HandleRunStart J rand32 now_iso body e res) w = Some (res', e')
    \<and> (if may_start (en_state e)
       then res_status res' = 202 \<and> en_state e' = kStateStarting \<and> cf_patterns (en_config e') = cf_patterns config
            \<and> (\<forall>err. ja_parse J body = Inl err \<longrightarrow>
                 cf_patterns (en_config e') = cf_patterns (SetDefaults Config_new) \<and> cf_warnings (en_config e') \<noteq> [])
       else res_status res' = 409 \<and> e' = e)"
proof (cases "may_start (en_state e)")
  case True
  have "cf_patterns config = cf_patterns (SetDefaults Config_new) \<and> cf_warnings config \<noteq> []" if "ja_parse J body = Inl err" for err
    using that assms by (auto simp: FromJson_def Let_def)
  then show ?thesis
    using True assms StartRun_accepted [OF True, of rand32 now_iso config w]
    by (auto simp: HandleRunStart_def case_prod_unfold)
next
  case False
  then show ?thesis using assms by (simp add: HandleRunStart_def StartRun_refused)
qed

theorem HandleRunStart_answers_witness:
  "\<exists>res' e'. result_of (HandleRunStart no_json (ret 0) (ret []) ''not json'' default_engine Response_new) () = Some (res', e')
     \<and> res_status res' = 202 \<and> cf_warnings (en_config e') \<noteq> []"
proof -
  have "\<exists>c. FromJson no_json ''not json'' = Some c" by (simp add: FromJson_def no_json_def Let_def)
  then obtain c where "FromJson no_json ''not json'' = Some c" ..
  moreover have "may_start (en_state default_engine)"
    by (simp add: default_engine_def Engine_new_def may_start_def)
  ultimately show ?thesis
    using HandleRunStart_answers [of "''not json''" no_json c "ret 0" "ret []" default_engine Response_new "()"]
    by (auto simp: no_json_def)
qed

text \<open>A request that is refused changes nothing, and the refusals are exactly those of the state: a stop is
  refused unless a run is starting or running, a clean-up unless no run is active, and report and
  configuration are missing exactly until there is one.\<close>

theorem refusals_match_state:
  assumes "json_documented J"
  shows "(let (r, e') = HandleRunStop J e res in
            if en_state e = kStateRunning \<or> en_state e = kStateStarting
            then res_status r = 202 \<and> en_state e' = kStateStopping \<and> en_stop_requested e'
            else res_status r = 409 \<and> e' = e)
    \<and> res_status (HandleCleanup J e res) = (if may_start (en_state e) then 200 else 409)
    \<and> res_status (HandleRunReport J e res) = (if en_has_report e then 200 else 404)
    \<and> res_status (HandleRunConfig J e res) = (if en_run_id e = [] then 404 else 200)"
  using json_doc(1) [OF assms]
  by (simp add: HandleRunStop_def StopRun_def StopRun_lock_def StopRun_store_def HandleCleanup_def CleanupChannels_def
      HandleRunReport_def GetRunReport_def HandleRunConfig_def GetRunConfig_def Let_def)

theorem refusals_match_state_witness: "res_status (HandleRunReport no_json default_engine Response_new) = 404"
  using refusals_match_state [of no_json default_engine Response_new]
  by (simp add: no_json_def sample_json_documented default_engine_def Engine_new_def)

lemma routes_distinct: "distinct (map (\<lambda>(verb, path, _). (verb, path)) SetupRoutes)"
  by (simp add: SetupRoutes_def)

end
