(* ===== verification/Burnin_Consumers.thy ===== *)
theory Burnin_Consumers
  imports Burnin_Workers Queue_Broker
begin

text \<open>
  The reader threads behind the consuming loops of the burn-in workers: the callbacks of
  burnin/worker/events.cc, events_store.cc, commands.cc and queries.cc installed in the readers of
  \<^verbatim>\<open>Subscriptions\<close>, and what they make of a whole stream.
\<close>

section \<open>The readers\<close>

definition EventsWorker_reader :: "(nat \<Rightarrow> ('w, PbEventReceive option) state) \<Rightarrow> (nat \<Rightarrow> ('w, grpc_status) state)
    \<Rightarrow> (millis \<Rightarrow> ('w, unit) state) \<Rightarrow> (fetch_adds \<Rightarrow> ('w, unit) state) \<Rightarrow> ('w, PbEventReceive) reader_loop" where
  "EventsWorker_reader read finish sleep tally =
     events_reader read finish sleep
       (Some (\<lambda>event. do { _ \<leftarrow> tally (EventsWorker_on_event event); ret None })) (Some (count_errors tally))"

definition EventsStoreWorker_reader :: "(nat \<Rightarrow> ('w, PbEventReceive option) state) \<Rightarrow> (nat \<Rightarrow> ('w, grpc_status) state)
    \<Rightarrow> (millis \<Rightarrow> ('w, unit) state) \<Rightarrow> (fetch_adds \<Rightarrow> ('w, unit) state) \<Rightarrow> ('w, PbEventReceive) reader_loop" where
  "EventsStoreWorker_reader read finish sleep tally =
     events_store_reader read finish sleep
       (Some (\<lambda>event. do { _ \<leftarrow> tally (EventsStoreWorker_on_event event); ret None })) (Some (count_errors tally))"

definition CommandsWorker_reader :: "Worker \<Rightarrow> 'w Client \<Rightarrow> (nat \<Rightarrow> ('w, PbRequest option) state)
    \<Rightarrow> (nat \<Rightarrow> ('w, grpc_status) state) \<Rightarrow> (millis \<Rightarrow> ('w, unit) state) \<Rightarrow> (fetch_adds \<Rightarrow> ('w, unit) state)
    \<Rightarrow> ('w, PbRequest) reader_loop" where
  "CommandsWorker_reader wk responder_client read finish sleep tally =
     commands_reader read finish sleep
       (Some (\<lambda>cmd. do { adds \<leftarrow> CommandsWorker_on_command wk responder_client cmd; _ \<leftarrow> tally adds; ret None }))
       (Some (count_errors tally))"

definition QueriesWorker_reader :: "Worker \<Rightarrow> 'w Client \<Rightarrow> (nat \<Rightarrow> ('w, PbRequest option) state)
    \<Rightarrow> (nat \<Rightarrow> ('w, grpc_status) state) \<Rightarrow> (millis \<Rightarrow> ('w, unit) state) \<Rightarrow> (fetch_adds \<Rightarrow> ('w, unit) state)
    \<Rightarrow> ('w, PbRequest) reader_loop" where
  "QueriesWorker_reader wk responder_client read finish sleep tally =
     queries_reader read finish sleep
       (Some (\<lambda>query. do { adds \<leftarrow> QueriesWorker_on_query wk responder_client query; _ \<leftarrow> tally adds; ret None }))
       (Some (count_errors tally))"

section \<open>What the readers rely on\<close>

text \<open>The messages still to come are \<open>inbox\<close>; reading takes the first one (\<open>pop\<close>) and touches nothing
  else; counting changes the counters \<open>pm\<close> only.\<close>

definition consumer_env :: "(nat \<Rightarrow> ('w, 'p option) state) \<Rightarrow> (fetch_adds \<Rightarrow> ('w, unit) state)
    \<Rightarrow> ('w \<Rightarrow> 'p list) \<Rightarrow> ('w \<Rightarrow> 'w) \<Rightarrow> ('w \<Rightarrow> PatternMetrics) \<Rightarrow> bool" where
  "consumer_env read tally inbox pop pm \<longleftrightarrow>
     (\<forall>h w. run_state (read h) w = (case inbox w of [] \<Rightarrow> (None, w) | p # ps \<Rightarrow> (Some p, pop w)))
     \<and> (\<forall>w. inbox (pop w) = tl (inbox w) \<and> pm (pop w) = pm w)
     \<and> (\<forall>adds w. inbox (world_of (tally adds) w) = inbox w \<and> pm (world_of (tally adds) w) = apply_adds adds (pm w))"

text \<open>Responses leave through the stub, which keeps them in order (\<open>answers\<close>), whatever status it
  reports.\<close>

definition responder_env :: "'w Stub \<Rightarrow> (fetch_adds \<Rightarrow> ('w, unit) state) \<Rightarrow> ('w \<Rightarrow> PbRequest list) \<Rightarrow> ('w \<Rightarrow> 'w)
    \<Rightarrow> ('w \<Rightarrow> PatternMetrics) \<Rightarrow> ('w \<Rightarrow> PbResponse list) \<Rightarrow> bool" where
  "responder_env stub tally inbox pop pm answers \<longleftrightarrow>
     (\<forall>ctx r w. let w' = world_of (stub_SendResponse stub ctx r) w
        in answers w' = answers w @ [r] \<and> inbox w' = inbox w \<and> pm w' = pm w)
     \<and> (\<forall>w. answers (pop w) = answers w) \<and> (\<forall>adds w. answers (world_of (tally adds) w) = answers w)"

section \<open>Counting deliveries\<close>

definition delivery_adds :: "PbEventReceive \<Rightarrow> fetch_adds" where
  "delivery_adds p = [(C_received, 1), (C_bytes_received, size_of (per_Body p))]"

lemma worker_handles:
  "world_of (rl_handle (EventsWorker_reader rd fin slp tally) p) w = world_of (tally (delivery_adds p)) w"
  "world_of (rl_handle (EventsStoreWorker_reader rd fin slp tally) p) w = world_of (tally (delivery_adds p)) w"
  by (simp_all add: EventsWorker_reader_def EventsStoreWorker_reader_def reader_handles invoke_user_def SafeInvoke_def case_prod_unfold
      EventsWorker_on_event_def EventsStoreWorker_on_event_def delivery_adds_def EventReceiveFromProto_def
      EventStoreReceiveFromProto_def)

lemma reader_reads [simp]:
  "rl_Read (EventsWorker_reader rd fin slp tally) = rd" "rl_Read (EventsStoreWorker_reader rd fin slp tally) = rd"
  "rl_Read (CommandsWorker_reader wk c rdr fin slp tally) = rdr" "rl_Read (QueriesWorker_reader wk c rdr fin slp tally) = rdr"
  by (simp_all add: EventsWorker_reader_def EventsStoreWorker_reader_def CommandsWorker_reader_def QueriesWorker_reader_def
      events_reader_def events_store_reader_def commands_reader_def queries_reader_def)

lemma counting_source:
  assumes "consumer_env rd tally inbox pop pm" "rl_Read l = rd"
    and "\<And>p w. world_of (rl_handle l p) w = world_of (tally (delivery_adds p)) w"
  shows "message_source l h inbox pop"
  using assms by unfold_locales (auto simp: consumer_env_def)

lemma fold_counts:
  assumes "consumer_env rd tally inbox pop pm"
  shows "pm (fold (\<lambda>p w. world_of (tally (f p)) (pop w)) ps w) = apply_adds (concat (map f ps)) (pm w)"
  using assms by (induction ps arbitrary: w) (auto simp: consumer_env_def apply_adds_def)

lemma added_deliveries:
  "added c (concat (map delivery_adds ps)) =
    (if c = C_received then of_nat (length ps)
     else if c = C_bytes_received then (\<Sum>p\<leftarrow>ps. size_of (per_Body p)) else 0)"
  by (induction ps) (auto simp: delivery_adds_def)

text \<open>C15. The events and events store workers tally every delivery of their stream, once, with the size of
  its body: when the reader has read the stream empty, \<^verbatim>\<open>received\<close> has grown by the number of messages,
  \<^verbatim>\<open>bytes_received\<close> by the sum of their sizes, and no other counter has moved (modulo \<open>2\<^sup>6\<^sup>4\<close>).\<close>

theorem subscribers_count_every_delivery:
  assumes "consumer_env rd tally inbox pop pm"
    and "l \<in> {EventsWorker_reader rd fin slp tally, EventsStoreWorker_reader rd fin slp tally}"
    and "rc_pc c = Reading"
  shows "let c' = (reader_step l ^^ length (inbox (rc_world c))) c; m = pm (rc_world c); m' = pm (rc_world c')
    in rc_pc c' = Reading \<and> inbox (rc_world c') = []
      \<and> load C_received m' = load C_received m + of_nat (length (inbox (rc_world c)))
      \<and> load C_bytes_received m' = load C_bytes_received m + (\<Sum>p\<leftarrow>inbox (rc_world c). size_of (per_Body p))
      \<and> (\<forall>k. k \<noteq> C_received \<longrightarrow> k \<noteq> C_bytes_received \<longrightarrow> load k m' = load k m)"
proof -
  let ?ps = "inbox (rc_world c)"
  have h: "world_of (rl_handle l p) w = world_of (tally (delivery_adds p)) w" for p w
    using assms(2) worker_handles by auto
  have "message_source l (rc_reader c) inbox pop"
    using counting_source [OF assms(1) _ h] assms(2) by auto
  from message_source.reads_all [OF this assms(3) refl]
  have r: "(reader_step l ^^ length ?ps) c = c\<lparr>rc_world := fold (\<lambda>p w. world_of (rl_handle l p) (pop w)) ?ps (rc_world c)\<rparr>"
    "inbox (fold (\<lambda>p w. world_of (rl_handle l p) (pop w)) ?ps (rc_world c)) = []" by auto
  then have "pm (fold (\<lambda>p w. world_of (rl_handle l p) (pop w)) ?ps (rc_world c)) = apply_adds (concat (map delivery_adds ?ps)) (pm (rc_world c))"
    unfolding h by (intro fold_counts [OF assms(1)])
  then show ?thesis using r assms(3) by (simp add: Let_def load_apply_adds added_deliveries del: load.simps)
qed

section \<open>Answering requests\<close>

definition answerable :: "RequestType \<Rightarrow> PbRequest \<Rightarrow> bool" where
  "answerable ty r = (rq_RequestTypeData r = ty \<and> rq_RequestID r \<noteq> [] \<and> rq_ReplyChannel r \<noteq> [])"

definition command_answer :: "Worker \<Rightarrow> PbRequest \<Rightarrow> PbResponse" where
  "command_answer wk r = PbResponse_default\<lparr>rp_ClientID := wk_client_id_prefix wk @ ''-cmd-responder'',
     rp_RequestID := rq_RequestID r, rp_ReplyChannel := rq_ReplyChannel r, rp_Executed := True\<rparr>"

definition query_answer :: "Worker \<Rightarrow> PbRequest \<Rightarrow> PbResponse" where
  "query_answer wk r = PbResponse_default\<lparr>rp_ClientID := wk_client_id_prefix wk @ ''-qry-responder'',
     rp_RequestID := rq_RequestID r, rp_ReplyChannel := rq_ReplyChannel r,
     rp_Body := ''response-to-'' @ rq_Body r, rp_Executed := True\<rparr>"

lemma send_response:
  assumes "broker_client stub c"
  obtains ctx where "world_of (GrpcTransport_SendResponse (cl_transport c) r) w = world_of (stub_SendResponse stub ctx r) w"
proof -
  obtain ctx where "run_state (GrpcTransport_SendResponse (cl_transport c) r) w =
      (let (p, w') = run_state (stub_SendResponse (gt_stub (cl_transport c)) ctx r) w
       in (FromGrpcStatus p ''GrpcTransport::SendResponse'' (rp_ReplyChannel r) [], w'))"
    using rpc_send_response.without_provider [of "cl_transport c" r w] assms by (auto simp: broker_client_def)
  then show thesis using assms that by (simp add: case_prod_unfold Let_def broker_client_def)
qed

text \<open>What handling one request does: at most one response, and an error counted at most when one was
  attempted.\<close>

definition answers_with :: "('p \<Rightarrow> PbResponse list) \<Rightarrow> ('w, 'p) reader_loop \<Rightarrow> ('w \<Rightarrow> 'p list)
    \<Rightarrow> ('w \<Rightarrow> PatternMetrics) \<Rightarrow> ('w \<Rightarrow> PbResponse list) \<Rightarrow> bool" where
  "answers_with f l inbox pm answers \<longleftrightarrow>
     (\<forall>r w. let w' = world_of (rl_handle l r) w
        in inbox w' = inbox w \<and> answers w' = answers w @ f r
          \<and> (\<exists>k \<le> length (f r). pm w' = apply_adds (replicate k (C_errors, 1)) (pm w)))"

lemma answers_withI:
  assumes env: "consumer_env rd tally inbox pop pm" "responder_env stub tally inbox pop pm answers" and c: "broker_client stub c"
    and answered: "\<And>r w. A r \<Longrightarrow> world_of (rl_handle l r) w =
      world_of (tally (if \<not> ok (result_of (GrpcTransport_SendResponse (cl_transport c) (f r)) w) then [(C_errors, 1)] else []))
        (world_of (GrpcTransport_SendResponse (cl_transport c) (f r)) w)"
    and ignored: "\<And>r w. \<not> A r \<Longrightarrow> world_of (rl_handle l r) w \<in> {w, world_of (tally []) w}"
  shows "answers_with (\<lambda>r. if A r then [f r] else []) l inbox pm answers"
  unfolding answers_with_def Let_def
proof (intro allI)
  fix r w
  have t: "inbox (world_of (tally adds) v) = inbox v" "pm (world_of (tally adds) v) = apply_adds adds (pm v)"
    "answers (world_of (tally adds) v) = answers v" for adds v
    using env by (auto simp: consumer_env_def responder_env_def)
  have st: "answers (world_of (stub_SendResponse stub ctx q) v) = answers v @ [q]"
    "inbox (world_of (stub_SendResponse stub ctx q) v) = inbox v" "pm (world_of (stub_SendResponse stub ctx q) v) = pm v" for ctx q v
    using env(2) by (auto simp: responder_env_def Let_def)
  obtain ctx where ctx: "world_of (GrpcTransport_SendResponse (cl_transport c) (f r)) w = world_of (stub_SendResponse stub ctx (f r)) w"
    using send_response [OF c] by blast
  let ?w' = "world_of (rl_handle l r) w"
  show "inbox ?w' = inbox w \<and> answers ?w' = answers w @ (if A r then [f r] else [])
      \<and> (\<exists>k\<le>length (if A r then [f r] else []). pm ?w' = apply_adds (replicate k (C_errors, 1)) (pm w))"
  proof (cases "A r")
    case True
    then show ?thesis
      using t st ctx answered [OF True, of w] by (auto simp: apply_adds_def intro: exI [of _ 0] exI [of _ "Suc 0"])
  next
    case False
    then show ?thesis using t ignored [OF False, of w] by (auto simp: apply_adds_def)
  qed
qed

lemmas handler_defs = answerable_def CommandsWorker_reader_def QueriesWorker_reader_def reader_handles invoke_user_def
  SafeInvoke_def case_prod_unfold CommandsWorker_on_command_def QueriesWorker_on_query_def CommandReply_Build_def
  QueryReply_Build_def setter_defs CommandReceiveFromProto_def QueryReceiveFromProto_def sdk_defaults

lemmas response_defs = Client_SendCommandResponse_def Client_SendQueryResponse_def CheckClosed_def command_answer_def
  query_answer_def effective_client_id_def PbResponse_default_def

lemma requests_handled:
  assumes env: "consumer_env rd tally inbox pop pm" "responder_env stub tally inbox pop pm answers" and c: "broker_client stub c"
  shows "answers_with (\<lambda>r. if answerable RequestTypeCommand r then [command_answer wk r] else [])
      (CommandsWorker_reader wk c rd fin slp tally) inbox pm answers"
    "answers_with (\<lambda>r. if answerable RequestTypeQuery r then [query_answer wk r] else [])
      (QueriesWorker_reader wk c rd fin slp tally) inbox pm answers"
proof -
  have cl: "\<not> cl_closed c" using c by (simp add: broker_client_def)
  show "answers_with (\<lambda>r. if answerable RequestTypeCommand r then [command_answer wk r] else [])
      (CommandsWorker_reader wk c rd fin slp tally) inbox pm answers"
    by (rule answers_withI [OF env c]) (auto simp: handler_defs response_defs cl)
  show "answers_with (\<lambda>r. if answerable RequestTypeQuery r then [query_answer wk r] else [])
      (QueriesWorker_reader wk c rd fin slp tally) inbox pm answers"
    by (rule answers_withI [OF env c]) (auto simp: handler_defs response_defs cl)
qed

lemma fold_answers:
  assumes "answers_with f l inbox pm answers" "\<forall>w. inbox (pop w) = tl (inbox w) \<and> pm (pop w) = pm w" "\<forall>w. answers (pop w) = answers w"
  shows "let w' = fold (\<lambda>p w. world_of (rl_handle l p) (pop w)) ps w
    in answers w' = answers w @ concat (map f ps)
      \<and> (\<exists>k \<le> length (concat (map f ps)). pm w' = apply_adds (replicate k (C_errors, 1)) (pm w))"
proof (induction ps arbitrary: w)
  case Nil
  then show ?case by (simp add: apply_adds_def)
next
  case (Cons p ps)
  let ?v = "world_of (rl_handle l p) (pop w)"
  obtain j where j: "j \<le> length (f p)" "pm ?v = apply_adds (replicate j (C_errors, 1)) (pm w)"
    and a: "answers ?v = answers w @ f p"
    using assms unfolding answers_with_def Let_def by metis
  obtain k where k: "k \<le> length (concat (map f ps))"
      "pm (fold (\<lambda>p w. world_of (rl_handle l p) (pop w)) ps ?v) = apply_adds (replicate k (C_errors, 1)) (pm ?v)"
    using Cons [of ?v] by (auto simp: Let_def)
  have "pm (fold (\<lambda>p w. world_of (rl_handle l p) (pop w)) ps ?v) = apply_adds (replicate (j + k) (C_errors, 1)) (pm w)"
    by (simp only: k(2) j(2)) (simp add: apply_adds_def replicate_add)
  then show ?case using Cons [of ?v] a j(1) k(1) by (auto simp: Let_def intro!: exI [of _ "j + k"])
qed

lemma concat_filter: "concat (map (\<lambda>x. if P x then [g x] else []) xs) = map g (filter P xs)"
  by (induction xs) auto

lemma added_errors: "added c (replicate k (C_errors, 1)) = (if c = C_errors then of_nat k else 0)"
  by (induction k) auto

lemma requests_answered:
  assumes env: "consumer_env rd tally inbox pop pm" "responder_env stub tally inbox pop pm answers"
    and l: "answers_with (\<lambda>r. if A r then [f r] else []) l inbox pm answers" "rl_Read l = rd" and "rc_pc c = Reading"
  shows "let c' = (reader_step l ^^ length (inbox (rc_world c))) c; m = pm (rc_world c); m' = pm (rc_world c');
      rs = filter A (inbox (rc_world c))
    in rc_pc c' = Reading \<and> inbox (rc_world c') = []
      \<and> answers (rc_world c') = answers (rc_world c) @ map f rs
      \<and> (\<exists>k \<le> length rs. load C_errors m' = load C_errors m + of_nat k)
      \<and> (\<forall>n. n \<noteq> C_errors \<longrightarrow> load n m' = load n m)"
proof -
  let ?ps = "inbox (rc_world c)"
  have "message_source l (rc_reader c) inbox pop"
    using env(1) l by unfold_locales (auto simp: consumer_env_def answers_with_def Let_def)
  from message_source.reads_all [OF this assms(5) refl]
  have r: "(reader_step l ^^ length ?ps) c = c\<lparr>rc_world := fold (\<lambda>p w. world_of (rl_handle l p) (pop w)) ?ps (rc_world c)\<rparr>"
    "inbox (fold (\<lambda>p w. world_of (rl_handle l p) (pop w)) ?ps (rc_world c)) = []" by auto
  have "\<forall>w. inbox (pop w) = tl (inbox w) \<and> pm (pop w) = pm w" "\<forall>w. answers (pop w) = answers w"
    using env by (auto simp: consumer_env_def responder_env_def)
  from fold_answers [OF l(1) this, of ?ps "rc_world c"] show ?thesis
    using r assms(5) by (auto simp: Let_def concat_filter load_apply_adds added_errors simp del: load.simps)
qed

text \<open>C14. The responding workers answer every request of their stream exactly once and in order: each
  command with an id and a reply channel gets one positive response to that channel under its own id, each
  such query one that carries its body behind \<^verbatim>\<open>response-to-\<close>; requests of the other kind or without an
  address get none.  The only counter that moves is \<^verbatim>\<open>errors\<close>, by at most one for each response.\<close>

theorem responders_answer_every_request:
  assumes "consumer_env rd tally inbox pop pm" "responder_env stub tally inbox pop pm answers"
    and "broker_client stub client" "rc_pc c = Reading"
    and "(l, ty, f) \<in> {(CommandsWorker_reader wk client rd fin slp tally, RequestTypeCommand, command_answer wk),
      (QueriesWorker_reader wk client rd fin slp tally, RequestTypeQuery, query_answer wk)}"
  shows "let c' = (reader_step l ^^ length (inbox (rc_world c))) c; m = pm (rc_world c); m' = pm (rc_world c');
      rs = filter (answerable ty) (inbox (rc_world c))
    in rc_pc c' = Reading \<and> inbox (rc_world c') = []
      \<and> answers (rc_world c') = answers (rc_world c) @ map f rs
      \<and> (\<exists>k \<le> length rs. load C_errors m' = load C_errors m + of_nat k)
      \<and> (\<forall>n. n \<noteq> C_errors \<longrightarrow> load n m' = load n m)"
  using requests_answered [OF assms(1,2) requests_handled(1) [OF assms(1-3), of wk fin slp] _ assms(4)]
    requests_answered [OF assms(1,2) requests_handled(2) [OF assms(1-3), of wk fin slp] _ assms(4)] assms(5) by auto

section \<open>A concrete consumer\<close>

record 'p consumer_world =
  cw_inbox :: "'p list"
  cw_metrics :: PatternMetrics
  cw_answers :: "PbResponse list"

definition cw_pop :: "'p consumer_world \<Rightarrow> 'p consumer_world" where
  "cw_pop w = w\<lparr>cw_inbox := tl (cw_inbox w)\<rparr>"

definition cw_read :: "nat \<Rightarrow> ('p consumer_world, 'p option) state" where
  "cw_read h = State (\<lambda>w. case cw_inbox w of [] \<Rightarrow> (None, w) | p # ps \<Rightarrow> (Some p, cw_pop w))"

definition cw_tally :: "fetch_adds \<Rightarrow> ('p consumer_world, unit) state" where
  "cw_tally adds = State (\<lambda>w. ((), w\<lparr>cw_metrics := apply_adds adds (cw_metrics w)\<rparr>))"

definition cw_stub :: "'p consumer_world Stub" where
  "cw_stub = (gt_stub inert_transport)\<lparr>stub_SendResponse := \<lambda>_ r. State (\<lambda>w. (grpc_status_OK, w\<lparr>cw_answers := cw_answers w @ [r]\<rparr>))\<rparr>"

lemma cw_consumer: "consumer_env cw_read cw_tally cw_inbox cw_pop cw_metrics"
  by (auto simp: consumer_env_def cw_read_def cw_tally_def cw_pop_def split: list.splits)

lemma cw_responder: "responder_env cw_stub cw_tally cw_inbox cw_pop cw_metrics cw_answers"
  by (auto simp: responder_env_def cw_stub_def cw_tally_def cw_pop_def)

definition cw_start :: "'p list \<Rightarrow> 'p consumer_world reader_cfg" where
  "cw_start ps = (reader_start (sample_subscription inert_transport) 1
     \<lparr>cw_inbox = ps, cw_metrics = PatternMetrics_zero, cw_answers = []\<rparr>)\<lparr>rc_pc := Reading\<rparr>"

definition cw_client :: "'p consumer_world Client" where
  "cw_client = \<lparr>cl_transport = inert_transport\<lparr>gt_stub := cw_stub\<rparr>, cl_opts = ClientOptions_default, cl_closed = False,
     cl_close_once = False, cl_active_contexts = []\<rparr>"

lemma cw_start_simps: "rc_pc (cw_start ps) = Reading" "cw_inbox (rc_world (cw_start ps)) = ps"
  "cw_metrics (rc_world (cw_start ps)) = PatternMetrics_zero" "cw_answers (rc_world (cw_start ps)) = []"
  by (simp_all add: cw_start_def reader_start_def)

theorem subscribers_count_every_delivery_witness:
  "load C_received (cw_metrics (rc_world ((reader_step (EventsWorker_reader cw_read (\<lambda>_. ret grpc_status_OK) (\<lambda>_. ret ()) cw_tally) ^^ 2)
     (cw_start [PbEventReceive_default, PbEventReceive_default\<lparr>per_Body := ''x''\<rparr>])))) = 2"
  using subscribers_count_every_delivery [OF cw_consumer, of "EventsWorker_reader cw_read (\<lambda>_. ret grpc_status_OK) (\<lambda>_. ret ()) cw_tally"
      "\<lambda>_. ret grpc_status_OK" "\<lambda>_. ret ()" "cw_start [PbEventReceive_default, PbEventReceive_default\<lparr>per_Body := ''x''\<rparr>]"]
  by (simp add: cw_start_simps Let_def PatternMetrics_zero_def numeral_2_eq_2)

definition sample_requests :: "PbRequest list" where
  "sample_requests = [PbRequest_default\<lparr>rq_RequestID := ''c-1'', rq_RequestTypeData := RequestTypeCommand, rq_ReplyChannel := ''_re''\<rparr>,
     PbRequest_default\<lparr>rq_RequestID := ''q-1'', rq_RequestTypeData := RequestTypeQuery, rq_ReplyChannel := ''_re''\<rparr>]"

theorem responders_answer_every_request_witness:
  "cw_answers (rc_world ((reader_step (CommandsWorker_reader sample_worker cw_client cw_read (\<lambda>_. ret grpc_status_OK) (\<lambda>_. ret ()) cw_tally) ^^ 2)
     (cw_start sample_requests))) = [PbResponse_default\<lparr>rp_ClientID := ''cpp-burnin-cmd-responder'', rp_RequestID := ''c-1'',
       rp_ReplyChannel := ''_re'', rp_Executed := True\<rparr>]"
proof -
  have c: "broker_client cw_stub cw_client"
    by (simp add: broker_client_def cw_client_def inert_transport_def ClientOptions_default_def)
  have f: "filter (answerable RequestTypeCommand) sample_requests = [hd sample_requests]" "length sample_requests = 2"
    by (simp_all add: sample_requests_def answerable_def PbRequest_default_def)
  show ?thesis
    using responders_answer_every_request [OF cw_consumer cw_responder c cw_start_simps(1) [of sample_requests] insertI1,
        where wk = sample_worker and fin = "\<lambda>_. ret grpc_status_OK" and slp = "\<lambda>_. ret ()"]
    by (simp add: cw_start_simps Let_def f command_answer_def sample_worker_def) (simp add: sample_requests_def)
qed

end
