(* ===== verification/Burnin_Rpc.thy ===== *)
theory Burnin_Rpc
  imports Burnin_Consumers
begin

text \<open>
  Commands and queries of the burn-in application end to end: the sending loop of one worker, the
  broker, and the responding reader of the same pattern.  Of the broker the README promises that a
  request blocks until a responder has processed it and returns the response; this is the hypothesis
  \<open>request_broker\<close>, with the responder's reader thread as the responder.
\<close>

definition request_broker :: "'w Stub \<Rightarrow> ('w, PbRequest) reader_loop \<Rightarrow> ('w \<Rightarrow> PbResponse list) \<Rightarrow> bool" where
  "request_broker stub l answers \<longleftrightarrow>
     (\<forall>ctx p w. \<exists>reply. reply \<noteq> [] \<and>
        (let w' = world_of (rl_handle l (p\<lparr>rq_ReplyChannel := reply\<rparr>)) w
         in answers w' \<noteq> answers w \<longrightarrow> run_state (stub_SendRequest stub ctx p) w = ((grpc_status_OK, last (answers w')), w')))"

text \<open>One request through the sender's transport, answered by \<open>f\<close>.\<close>

lemma request_answered:
  assumes "request_broker stub l answers" "broker_client stub c"
    and "answers_with (\<lambda>r. if answerable ty r then [f r] else []) l inbox pm answers"
    and "rq_RequestTypeData p = ty" "rq_RequestID p \<noteq> []"
  obtains reply w' where "run_state (GrpcTransport_SendRequest (cl_transport c) p) w = (Inr (f (p\<lparr>rq_ReplyChannel := reply\<rparr>)), w')"
proof -
  obtain ctx where t: "run_state (GrpcTransport_SendRequest (cl_transport c) p) w =
      (let (r, w') = run_state (stub_SendRequest stub ctx p) w
       in (reply_or ''GrpcTransport::SendRequest'' (rq_Channel p) r, w'))"
    using rpc_send_request.without_provider [of "cl_transport c" p w] assms(2) by (auto simp: broker_client_def)
  obtain reply where reply: "reply \<noteq> []"
    "let w' = world_of (rl_handle l (p\<lparr>rq_ReplyChannel := reply\<rparr>)) w
     in answers w' \<noteq> answers w \<longrightarrow> run_state (stub_SendRequest stub ctx p) w = ((grpc_status_OK, last (answers w')), w')"
    using assms(1) unfolding request_broker_def by blast
  let ?p = "p\<lparr>rq_ReplyChannel := reply\<rparr>"
  have "answerable ty ?p" using assms(4,5) reply(1) by (simp add: answerable_def)
  then have "answers (world_of (rl_handle l ?p) w) = answers w @ [f ?p]"
    using assms(3) by (simp add: answers_with_def Let_def)
  then have "run_state (stub_SendRequest stub ctx p) w = ((grpc_status_OK, f ?p), world_of (rl_handle l ?p) w)"
    using reply(2) by (simp add: Let_def)
  then show thesis using t that by (simp add: reply_or_def grpc_ok_def grpc_status_OK_def)
qed

section \<open>One attempt\<close>

lemma command_attempt:
  assumes "request_broker stub l answers" "broker_client stub c"
    and "answers_with (\<lambda>r. if answerable RequestTypeCommand r then [command_answer rwk r] else []) l inbox pm answers"
    and "channel_sendable (wk_channel wk)"
  shows "result_of (commands_send E wk c seq) w =
    [(C_sent, 1), (C_bytes_sent, size_of (''command-'' @ seq_text seq)), (C_rpc_success, 1), (C_received, 1)]"
proof -
  define u where "u = world_of (GenerateUUID (be_rand64 E)) w"
  define rid where "rid = result_of (GenerateUUID (be_rand64 E)) w"
  let ?m = "Command_default\<lparr>cm_id := rid, cm_channel := wk_channel wk, cm_body := ''command-'' @ seq_text seq, cm_timeout := 5000\<rparr>"
  have rid: "rid \<noteq> []" unfolding rid_def by (rule is_uuid_v4_nonempty [OF GenerateUUID_v4])
  have ch: "wk_channel wk \<noteq> []" using assms(4) by (auto simp: channel_sendable_def channel_wf_def)
  let ?b = "Command_SetTimeout 5000 (Command_SetBody (''command-'' @ seq_text seq) (Command_SetChannel (wk_channel wk) Command_default))"
  have v: "Command_valid ?b" "cm_id ?b = []"
    using ch by (simp_all add: Command_valid_def plain_valid_def setter_defs Command_default_def)
  have m: "?b\<lparr>cm_id := rid\<rparr> = ?m" by (simp add: setter_defs)
  have b: "run_state (Command_Build (be_rand64 E) ?b) w = (Inr ?m, u)"
    using command_builder.build_fresh [OF v, of "be_rand64 E" w] unfolding u_def rid_def [symmetric] m .
  let ?p = "PbRequest_default\<lparr>rq_RequestID := rid, rq_RequestTypeData := RequestTypeCommand,
    rq_ClientID := co_client_id (cl_opts c), rq_Channel := wk_channel wk, rq_Body := ''command-'' @ seq_text seq,
    rq_Timeout := 5000, rq_Tags := Map.empty\<rparr>"
  obtain reply w' where t: "run_state (GrpcTransport_SendRequest (cl_transport c) ?p) u
      = (Inr (command_answer rwk (?p\<lparr>rq_ReplyChannel := reply\<rparr>)), w')"
    using request_answered [OF assms(1-3), of ?p u] rid by auto
  have cl: "\<not> cl_closed c" using assms(2) by (simp add: broker_client_def)
  have t32: "to_int32 5000 = 5000" by (simp add: to_int32_id)
  show ?thesis
    using b t cl ch rid assms(4)
    by (simp add: Let_def commands_send_def SendCommandSimple_def Client_SendCommand_def CheckClosed_def effective_channel_def
        effective_client_id_def status_simps sdk_defaults t32 command_answer_def PbRequest_default_def PbResponse_default_def)
qed

lemma query_attempt:
  assumes "request_broker stub l answers" "broker_client stub c"
    and "answers_with (\<lambda>r. if answerable RequestTypeQuery r then [query_answer rwk r] else []) l inbox pm answers"
    and "channel_sendable (wk_channel wk)"
  shows "result_of (queries_send E wk c seq) w =
    [(C_sent, 1), (C_bytes_sent, size_of (''query-'' @ seq_text seq)), (C_rpc_success, 1), (C_received, 1),
     (C_bytes_received, size_of (''response-to-query-'' @ seq_text seq))]"
proof -
  define u where "u = world_of (GenerateUUID (be_rand64 E)) w"
  define rid where "rid = result_of (GenerateUUID (be_rand64 E)) w"
  let ?m = "Query_default\<lparr>qy_id := rid, qy_channel := wk_channel wk, qy_body := ''query-'' @ seq_text seq, qy_timeout := 5000\<rparr>"
  have rid: "rid \<noteq> []" unfolding rid_def by (rule is_uuid_v4_nonempty [OF GenerateUUID_v4])
  have ch: "wk_channel wk \<noteq> []" using assms(4) by (auto simp: channel_sendable_def channel_wf_def)
  let ?b = "Query_SetTimeout 5000 (Query_SetBody (''query-'' @ seq_text seq) (Query_SetChannel (wk_channel wk) Query_default))"
  have v: "Query_valid ?b" "qy_id ?b = []"
    using ch by (simp_all add: Query_valid_def plain_valid_def setter_defs Query_default_def)
  have m: "?b\<lparr>qy_id := rid\<rparr> = ?m" by (simp add: setter_defs)
  have b: "run_state (Query_Build (be_rand64 E) ?b) w = (Inr ?m, u)"
    using query_builder.build_fresh [OF v, of "be_rand64 E" w] unfolding u_def rid_def [symmetric] m .
  let ?p = "PbRequest_default\<lparr>rq_RequestID := rid, rq_RequestTypeData := RequestTypeQuery,
    rq_ClientID := co_client_id (cl_opts c), rq_Channel := wk_channel wk, rq_Body := ''query-'' @ seq_text seq,
    rq_Timeout := 5000, rq_CacheTTL := (if 0 < query_cache_ttl c ?m then to_int32 (trunc_div (query_cache_ttl c ?m) 1000) else 0),
    rq_Tags := Map.empty\<rparr>"
  obtain reply w' where t: "run_state (GrpcTransport_SendRequest (cl_transport c) ?p) u
      = (Inr (query_answer rwk (?p\<lparr>rq_ReplyChannel := reply\<rparr>)), w')"
    using request_answered [OF assms(1-3), of ?p u] rid by auto
  have cl: "\<not> cl_closed c" using assms(2) by (simp add: broker_client_def)
  have t32: "to_int32 5000 = 5000" by (simp add: to_int32_id)
  show ?thesis
    using b t cl ch rid assms(4)
    by (simp add: Let_def queries_send_def SendQuerySimple_def Client_SendQuery_def CheckClosed_def effective_channel_def
        effective_client_id_def status_simps sdk_defaults t32 query_answer_def PbRequest_default_def PbResponse_default_def cong del: if_weak_cong)
qed

section \<open>A run of the sending loop\<close>

lemma constant_loop:
  assumes "\<And>seq w. result_of (body seq) w = f seq" "\<And>v. result_of (be_running E) v"
  shows "\<exists>ss. length ss = n \<and> fst (result_of (paced_loop E i body n seq t) w) = concat (map f ss)"
proof (induction n arbitrary: seq t w)
  case (Suc n)
  obtain ns u where "fst (result_of (paced_loop E i body (Suc n) seq t) w)
      = f (seq + 1) @ fst (result_of (paced_loop E i body n (seq + 1) ns) u)"
    using paced_loop_step [OF assms(2) [of w], of i body n seq t] assms(1) by (metis fst_conv)
  moreover obtain ss where "length ss = n" "fst (result_of (paced_loop E i body n (seq + 1) ns) u) = concat (map f ss)"
    using Suc by blast
  ultimately show ?case by (intro exI [of _ "(seq + 1) # ss"]) simp
qed simp

definition command_adds :: "64 word \<Rightarrow> fetch_adds" where
  "command_adds seq = [(C_sent, 1), (C_bytes_sent, size_of (''command-'' @ seq_text seq)), (C_rpc_success, 1), (C_received, 1)]"

definition query_adds :: "64 word \<Rightarrow> fetch_adds" where
  "query_adds seq = [(C_sent, 1), (C_bytes_sent, size_of (''query-'' @ seq_text seq)), (C_rpc_success, 1), (C_received, 1),
     (C_bytes_received, size_of (''response-to-query-'' @ seq_text seq))]"

lemma added_command_adds:
  "added n (concat (map command_adds ss)) =
    (if n \<in> {C_sent, C_rpc_success, C_received} then of_nat (length ss)
     else if n = C_bytes_sent then (\<Sum>s\<leftarrow>ss. size_of (''command-'' @ seq_text s)) else 0)"
  by (induction ss) (auto simp: command_adds_def)

lemma added_query_adds:
  "added n (concat (map query_adds ss)) =
    (if n \<in> {C_sent, C_rpc_success, C_received} then of_nat (length ss)
     else if n = C_bytes_sent then (\<Sum>s\<leftarrow>ss. size_of (''query-'' @ seq_text s))
     else if n = C_bytes_received then (\<Sum>s\<leftarrow>ss. size_of (''query-'' @ seq_text s)) + 12 * of_nat (length ss) else 0)"
  by (induction ss) (auto simp: query_adds_def size_of_def algebra_simps)


section \<open>A concrete exchange\<close>

definition idle_env :: "'w burnin_env" where
  "idle_env =
     \<lparr>be_grpc = \<lparr>ge_CreateCustomChannel = \<lambda>_ _ _. ret None, ge_NewStub = \<lambda>_. None, ge_WaitForConnected = \<lambda>_ _. ret True,
        ge_GetState = \<lambda>_. ret CHANNEL_READY\<rparr>,
      be_fs = Map.empty, be_rand64 = ret 0, be_contexts = \<lparr>cx_alive = \<lambda>_. ret False, cx_cancel = \<lambda>_. ret ()\<rparr>,
      be_running = ret True, be_store_running = (\<lambda>_. ret ()), be_now = ret 0, be_sleep_until = (\<lambda>_. ret ()),
      be_sleep_ms = (\<lambda>_. ret ()), be_try_cancel = (\<lambda>_. ret ()), be_spawn = (\<lambda>_. ret ()), be_join = (\<lambda>_. ret None)\<rparr>"

definition query_reader :: "(PbRequest consumer_world, PbRequest) reader_loop" where
  "query_reader = QueriesWorker_reader sample_worker cw_client cw_read (\<lambda>_. ret grpc_status_OK) (\<lambda>_. ret ()) cw_tally"

definition rpc_stub :: "PbRequest consumer_world Stub" where
  "rpc_stub = cw_stub\<lparr>stub_SendRequest := \<lambda>_ p. State (\<lambda>w.
     let w' = world_of (rl_handle query_reader (p\<lparr>rq_ReplyChannel := ''_re''\<rparr>)) w
     in ((grpc_status_OK, last (cw_answers w')), w'))\<rparr>"

definition rpc_client :: "PbRequest consumer_world Client" where
  "rpc_client = cw_client\<lparr>cl_transport := (cl_transport cw_client)\<lparr>gt_stub := rpc_stub\<rparr>\<rparr>"

lemma rpc_broker: "request_broker rpc_stub query_reader cw_answers"
  unfolding request_broker_def Let_def rpc_stub_def by (intro allI exI [of _ "''_re''"]) (simp add: Let_def)


end
