(* ===== verification/Burnin_Lifecycle.thy ===== *)
theory Burnin_Lifecycle
  imports Burnin_Engine
begin

text \<open>
  The life of one burn-in worker (burnin/worker/): \<^verbatim>\<open>Start\<close> spawns its two threads, \<^verbatim>\<open>Stop\<close> clears the
  flag, joins them and closes the clients they left in the members.  \<^verbatim>\<open>Burnin_Workers\<close> has each thread
  as one function; here the owner and the two threads interleave, one access to a member, one test of
  the flag or one client operation at a time.  Each thread is a function from the state of the worker to its
  next state (\<open>None\<close> when it has ended or has to wait), \<open>worker_step\<close> lets any of them move.
\<close>

section \<open>The code of the threads\<close>

datatype 'w producer_code =
    Sends "'w burnin_env \<Rightarrow> Worker \<Rightarrow> 'w Client \<Rightarrow> 64 word \<Rightarrow> ('w, fetch_adds) state"
  | Streams "('w, PbQueuesUpstreamRequest, PbQueuesUpstreamResponse) stream_ops" "fetch_adds \<Rightarrow> ('w, unit) state"

datatype 'w consumer_code =
    Subscribes "'w burnin_env \<Rightarrow> Worker \<Rightarrow> 'w Client \<Rightarrow> ('w, ('w Subscription \<times> nat) StatusOr) state"
  | Polls "'w burnin_env \<Rightarrow> Worker \<Rightarrow> 'w Client \<Rightarrow> ('w, fetch_adds) state"
  | Polls_stream "'w downstream_ops"

text \<open>\<open>tc_delay\<close> is the pause between the two spawns, in milliseconds.\<close>

record 'w thread_code =
  tc_producer_suffix :: string
  tc_producer :: "'w producer_code"
  tc_consumer_suffix :: string
  tc_consumer :: "'w consumer_code"
  tc_consumer_first :: bool
  tc_delay :: "int option"

definition EventsWorker_Start :: "'w thread_code" where
  "EventsWorker_Start = \<lparr>tc_producer_suffix = ''-events-producer'', tc_producer = Sends events_send,
     tc_consumer_suffix = ''-events-consumer'',
     tc_consumer = Subscribes (\<lambda>E wk c. Client_SubscribeToEvents (be_rand64 E) c (wk_channel wk, [])),
     tc_consumer_first = True, tc_delay = None\<rparr>"

definition EventsStoreWorker_Start :: "'w thread_code" where
  "EventsStoreWorker_Start = \<lparr>tc_producer_suffix = ''-es-producer'', tc_producer = Sends events_store_send,
     tc_consumer_suffix = ''-es-consumer'',
     tc_consumer = Subscribes (\<lambda>E wk c. Client_SubscribeToEventsStore (be_rand64 E) c (wk_channel wk, [], StartFromNewEvents)),
     tc_consumer_first = True, tc_delay = None\<rparr>"

definition QueueSimpleWorker_Start :: "'w thread_code" where
  "QueueSimpleWorker_Start = \<lparr>tc_producer_suffix = ''-qs-producer'', tc_producer = Sends queue_simple_send,
     tc_consumer_suffix = ''-qs-consumer'', tc_consumer = Polls queue_simple_receive,
     tc_consumer_first = False, tc_delay = None\<rparr>"

definition QueueStreamWorker_Start :: "('w, PbQueuesUpstreamRequest, PbQueuesUpstreamResponse) stream_ops
    \<Rightarrow> (fetch_adds \<Rightarrow> ('w, unit) state) \<Rightarrow> 'w downstream_ops \<Rightarrow> 'w thread_code" where
  "QueueStreamWorker_Start uops tally dops =
     \<lparr>tc_producer_suffix = ''-qstream-producer'', tc_producer = Streams uops tally,
      tc_consumer_suffix = ''-qstream-consumer'', tc_consumer = Polls_stream dops,
      tc_consumer_first = False, tc_delay = None\<rparr>"

definition CommandsWorker_Start :: "'w thread_code" where
  "CommandsWorker_Start = \<lparr>tc_producer_suffix = ''-cmd-sender'', tc_producer = Sends commands_send,
     tc_consumer_suffix = ''-cmd-responder'',
     tc_consumer = Subscribes (\<lambda>E wk c. Client_SubscribeToCommands (be_rand64 E) c (wk_channel wk, [])),
     tc_consumer_first = True, tc_delay = Some 500\<rparr>"

definition QueriesWorker_Start :: "'w thread_code" where
  "QueriesWorker_Start = \<lparr>tc_producer_suffix = ''-qry-sender'', tc_producer = Sends queries_send,
     tc_consumer_suffix = ''-qry-responder'',
     tc_consumer = Subscribes (\<lambda>E wk c. Client_SubscribeToQueries (be_rand64 E) c (wk_channel wk, [])),
     tc_consumer_first = True, tc_delay = Some 500\<rparr>"

section \<open>The state of a worker\<close>

datatype 'w producer_pc = P_absent | P_connect | P_store_client "'w Client" | P_open
  | P_store_upstream "('w, QueueUpstreamResult) StreamHandle" | P_set_callbacks | P_begin
  | P_test "64 word" int | P_send "64 word" int | P_returned

datatype 'w consumer_pc = C_absent | C_connect | C_store_client "'w Client" | C_open
  | C_store_receiver "'w QueueDownstreamReceiver" | C_test "'w Subscription option"
  | C_work "'w Subscription option" | C_cancel "'w Subscription" | C_returned

datatype owner_pc = O_new | O_spawn_first | O_spawn_second | O_started | O_close_receiver | O_join_producer
  | O_join_consumer | O_close_producer | O_close_consumer | O_stopped

text \<open>\<open>lf_adds\<close> lists the \<^verbatim>\<open>fetch_add\<close> calls of the two threads, \<open>lf_log\<close> what became of the clients.\<close>

datatype who = Producer | Consumer

datatype life_event = Client_stored who | Client_closed who | Client_detached

record 'w life =
  lf_world :: 'w
  lf_running :: bool
  lf_owner :: owner_pc
  lf_producer :: "'w producer_pc"
  lf_consumer :: "'w consumer_pc"
  lf_members :: "'w StreamWorkerState"
  lf_live :: "nat set"
  lf_adds :: fetch_adds
  lf_log :: "life_event list"

definition life_new :: "'w \<Rightarrow> 'w life" where
  "life_new w = \<lparr>lf_world = w, lf_running = False, lf_owner = O_new, lf_producer = P_absent, lf_consumer = C_absent,
     lf_members = \<lparr>ws_producer_joinable = False, ws_consumer_joinable = False, ws_producer_client = None,
       ws_consumer_client = None, sws_upstream = None, sws_receiver = None\<rparr>,
     lf_live = {}, lf_adds = [], lf_log = []\<rparr>"

definition at_flag :: "'w burnin_env \<Rightarrow> bool \<Rightarrow> 'w burnin_env" where
  "at_flag E running = E\<lparr>be_running := ret running\<rparr>"

section \<open>The producing thread\<close>

text \<open>A step that performs an operation changes the world and counts; \<open>counted\<close> does both.\<close>

definition counted :: "'w \<Rightarrow> fetch_adds \<Rightarrow> 'w life \<Rightarrow> 'w life" where
  "counted w adds s = s\<lparr>lf_world := w, lf_adds := lf_adds s @ adds\<rparr>"

definition producer_fails :: "'w \<Rightarrow> 'w life \<Rightarrow> 'w life" where
  "producer_fails w s = (counted w [(C_errors, 1)] s)\<lparr>lf_producer := P_returned\<rparr>"

definition producer_step :: "'w burnin_env \<Rightarrow> 'w thread_code \<Rightarrow> Worker \<Rightarrow> 'w life \<Rightarrow> 'w life option" where
  "producer_step E T wk s =
     (case lf_producer s of
        P_connect \<Rightarrow> Some (case run_state (create_client E wk (tc_producer_suffix T)) (lf_world s) of
            (Inl _, w) \<Rightarrow> producer_fails w s
          | (Inr client, w) \<Rightarrow> s\<lparr>lf_world := w, lf_producer := P_store_client client\<rparr>)
      | P_store_client client \<Rightarrow> Some (s\<lparr>lf_members := (lf_members s)\<lparr>ws_producer_client := Some client\<rparr>,
            lf_producer := (case tc_producer T of Sends _ \<Rightarrow> P_begin | Streams _ _ \<Rightarrow> P_open),
            lf_log := lf_log s @ [Client_stored Producer]\<rparr>)
      | P_open \<Rightarrow> (case ws_producer_client (lf_members s) of
            None \<Rightarrow> None
          | Some client \<Rightarrow> Some (case run_state (Client_QueueUpstream client (None, None)) (lf_world s) of
                (Inl _, w) \<Rightarrow> producer_fails w s
              | (Inr upstream, w) \<Rightarrow> s\<lparr>lf_world := w, lf_producer := P_store_upstream upstream\<rparr>))
      | P_store_upstream upstream \<Rightarrow> Some (s\<lparr>lf_members := (lf_members s)\<lparr>sws_upstream := Some upstream\<rparr>,
            lf_producer := P_set_callbacks\<rparr>)
      | P_set_callbacks \<Rightarrow> (case (tc_producer T, sws_upstream (lf_members s)) of
            (Streams _ tally, Some upstream) \<Rightarrow>
              Some (s\<lparr>lf_members := (lf_members s)\<lparr>sws_upstream := Some (install_callbacks tally upstream)\<rparr>,
                lf_producer := P_begin\<rparr>)
          | _ \<Rightarrow> None)
      | P_begin \<Rightarrow> (let (now, w) = run_state (be_now E) (lf_world s) in Some (s\<lparr>lf_world := w, lf_producer := P_test 0 now\<rparr>))
      | P_test seq next_send \<Rightarrow> Some (s\<lparr>lf_producer := (if lf_running s then P_send (seq + 1) next_send else P_returned)\<rparr>)
      | P_send seq next_send \<Rightarrow>
          (let send = (case tc_producer T of
                 Sends f \<Rightarrow> map_option (\<lambda>c. f (at_flag E (lf_running s)) wk c seq) (ws_producer_client (lf_members s))
               | Streams ops _ \<Rightarrow> map_option (\<lambda>h. queue_stream_send (at_flag E (lf_running s)) ops (ret h) wk seq) (sws_upstream (lf_members s)))
           in (case send of
                 None \<Rightarrow> None
               | Some m \<Rightarrow>
                   (let (adds, w) = run_state m (lf_world s);
                        (next_send, w) = run_state (pace E (send_interval (wk_rate wk)) next_send) w
                    in Some ((counted w adds s)\<lparr>lf_producer := P_test seq next_send\<rparr>))))
      | _ \<Rightarrow> None)"

section \<open>The consuming thread\<close>

definition consumer_fails :: "'w \<Rightarrow> 'w life \<Rightarrow> 'w life" where
  "consumer_fails w s = (counted w [(C_errors, 1)] s)\<lparr>lf_consumer := C_returned\<rparr>"

text \<open>While a subscribing thread waits, the reader thread of its subscription runs the callbacks
  (\<^verbatim>\<open>Burnin_Consumers\<close>); it ends before the thread returns, because the destructor of the subscription joins it.\<close>

definition consumer_open :: "'w burnin_env \<Rightarrow> 'w thread_code \<Rightarrow> Worker \<Rightarrow> 'w Client \<Rightarrow> 'w life \<Rightarrow> 'w life" where
  "consumer_open E T wk client s =
     (case tc_consumer T of
        Subscribes subscribe \<Rightarrow> (case run_state (subscribe E wk client) (lf_world s) of
            (Inl _, w) \<Rightarrow> consumer_fails w s
          | (Inr (sub, stream), w) \<Rightarrow> s\<lparr>lf_world := w, lf_consumer := C_test (Some sub)\<rparr>)
      | Polls _ \<Rightarrow> s\<lparr>lf_consumer := C_test None\<rparr>
      | Polls_stream _ \<Rightarrow> (case run_state (NewQueueDownstreamReceiver client (lf_live s)) (lf_world s) of
            ((Inl _, live), w) \<Rightarrow> consumer_fails w (s\<lparr>lf_live := live\<rparr>)
          | ((Inr receiver, live), w) \<Rightarrow> s\<lparr>lf_world := w, lf_live := live, lf_consumer := C_store_receiver receiver\<rparr>))"

definition consumer_work :: "'w burnin_env \<Rightarrow> 'w thread_code \<Rightarrow> Worker \<Rightarrow> 'w life \<Rightarrow> ('w, fetch_adds) state option" where
  "consumer_work E T wk s =
     (case tc_consumer T of
        Subscribes _ \<Rightarrow> Some (do { _ \<leftarrow> be_sleep_ms E 100; ret [] })
      | Polls receive \<Rightarrow> map_option (receive (at_flag E (lf_running s)) wk) (ws_consumer_client (lf_members s))
      | Polls_stream ops \<Rightarrow> map_option (queue_stream_poll (at_flag E (lf_running s)) ops (lf_live s) wk) (sws_receiver (lf_members s)))"

definition consumer_step :: "'w burnin_env \<Rightarrow> 'w thread_code \<Rightarrow> Worker \<Rightarrow> 'w life \<Rightarrow> 'w life option" where
  "consumer_step E T wk s =
     (case lf_consumer s of
        C_connect \<Rightarrow> Some (case run_state (create_client E wk (tc_consumer_suffix T)) (lf_world s) of
            (Inl _, w) \<Rightarrow> consumer_fails w s
          | (Inr client, w) \<Rightarrow> s\<lparr>lf_world := w, lf_consumer := C_store_client client\<rparr>)
      | C_store_client client \<Rightarrow> Some (s\<lparr>lf_members := (lf_members s)\<lparr>ws_consumer_client := Some client\<rparr>,
            lf_consumer := C_open, lf_log := lf_log s @ [Client_stored Consumer]\<rparr>)
      | C_open \<Rightarrow> map_option (\<lambda>client. consumer_open E T wk client s) (ws_consumer_client (lf_members s))
      | C_store_receiver receiver \<Rightarrow> Some (s\<lparr>lf_members := (lf_members s)\<lparr>sws_receiver := Some receiver\<rparr>,
            lf_consumer := C_test None\<rparr>)
      | C_test sub \<Rightarrow> Some (s\<lparr>lf_consumer := (if lf_running s then C_work sub
            else (case sub of Some sb \<Rightarrow> C_cancel sb | None \<Rightarrow> C_returned))\<rparr>)
      | C_work sub \<Rightarrow> map_option (\<lambda>m. let (adds, w) = run_state m (lf_world s)
            in (counted w adds s)\<lparr>lf_consumer := C_test sub\<rparr>) (consumer_work E T wk s)
      | C_cancel sub \<Rightarrow> Some (s\<lparr>lf_world := world_of (Cancel (be_try_cancel E) sub) (lf_world s), lf_consumer := C_returned\<rparr>)
      | _ \<Rightarrow> None)"

section \<open>The owner: Start and Stop\<close>

definition spawn :: "bool \<Rightarrow> 'w life \<Rightarrow> 'w life" where
  "spawn producer s =
     (if producer then s\<lparr>lf_producer := P_connect, lf_members := (lf_members s)\<lparr>ws_producer_joinable := True\<rparr>\<rparr>
      else s\<lparr>lf_consumer := C_connect, lf_members := (lf_members s)\<lparr>ws_consumer_joinable := True\<rparr>\<rparr>)"

definition streaming :: "'w thread_code \<Rightarrow> bool" where
  "streaming T = (case tc_consumer T of Polls_stream _ \<Rightarrow> True | _ \<Rightarrow> False)"

definition close_receiver :: "'w burnin_env \<Rightarrow> 'w thread_code \<Rightarrow> 'w life \<Rightarrow> 'w life" where
  "close_receiver E T s =
     (case (tc_consumer T, sws_receiver (lf_members s)) of
        (Polls_stream ops, Some r) \<Rightarrow> (let (r', w) = run_state (Receiver_Close (be_rand64 E) ops r) (lf_world s)
           in s\<lparr>lf_world := w, lf_members := (lf_members s)\<lparr>sws_receiver := Some r'\<rparr>\<rparr>)
      | _ \<Rightarrow> s)"

definition close_producer :: "'w burnin_env \<Rightarrow> 'w life \<Rightarrow> 'w life" where
  "close_producer E s =
     (case (sws_upstream (lf_members s), ws_producer_client (lf_members s)) of
        (Some _, _) \<Rightarrow> s\<lparr>lf_members := (lf_members s)\<lparr>sws_upstream := None, ws_producer_client := None\<rparr>,
            lf_log := lf_log s @ [Client_detached]\<rparr>
      | (None, Some c) \<Rightarrow> s\<lparr>lf_world := world_of (Client_Close (be_contexts E) c) (lf_world s),
            lf_members := (lf_members s)\<lparr>ws_producer_client := None\<rparr>, lf_log := lf_log s @ [Client_closed Producer]\<rparr>
      | (None, None) \<Rightarrow> s)"

definition reset_receiver :: "'w burnin_env \<Rightarrow> 'w thread_code \<Rightarrow> 'w life \<Rightarrow> 'w life" where
  "reset_receiver E T s =
     (case (tc_consumer T, sws_receiver (lf_members s)) of
        (Polls_stream ops, Some r) \<Rightarrow> (let (live, w) = run_state (Receiver_destroy (be_rand64 E) ops r (lf_live s)) (lf_world s)
           in s\<lparr>lf_world := w, lf_live := live, lf_members := (lf_members s)\<lparr>sws_receiver := None\<rparr>\<rparr>)
      | _ \<Rightarrow> s)"

definition close_consumer :: "'w burnin_env \<Rightarrow> 'w life \<Rightarrow> 'w life" where
  "close_consumer E s =
     (case ws_consumer_client (lf_members s) of
        Some c \<Rightarrow> s\<lparr>lf_world := world_of (Client_Close (be_contexts E) c) (lf_world s),
            lf_members := (lf_members s)\<lparr>ws_consumer_client := None\<rparr>, lf_log := lf_log s @ [Client_closed Consumer]\<rparr>
      | None \<Rightarrow> s)"

definition owner_step :: "'w burnin_env \<Rightarrow> 'w thread_code \<Rightarrow> 'w life \<Rightarrow> 'w life option" where
  "owner_step E T s =
     (case lf_owner s of
        O_new \<Rightarrow> Some (s\<lparr>lf_running := True, lf_owner := O_spawn_first\<rparr>)
      | O_spawn_first \<Rightarrow> Some ((spawn (\<not> tc_consumer_first T) s)\<lparr>lf_owner := O_spawn_second\<rparr>)
      | O_spawn_second \<Rightarrow>
          (let s = (case tc_delay T of Some ms \<Rightarrow> s\<lparr>lf_world := world_of (be_sleep_ms E ms) (lf_world s)\<rparr> | None \<Rightarrow> s)
           in Some ((spawn (tc_consumer_first T) s)\<lparr>lf_owner := O_started\<rparr>))
      | O_started \<Rightarrow> Some (s\<lparr>lf_running := False, lf_owner := (if streaming T then O_close_receiver else O_join_producer)\<rparr>)
      | O_close_receiver \<Rightarrow> Some ((close_receiver E T s)\<lparr>lf_owner := O_join_producer\<rparr>)
      | O_join_producer \<Rightarrow>
          if lf_producer s = P_returned
          then Some (s\<lparr>lf_members := (lf_members s)\<lparr>ws_producer_joinable := False\<rparr>, lf_owner := O_join_consumer\<rparr>) else None
      | O_join_consumer \<Rightarrow>
          if lf_consumer s = C_returned
          then Some (s\<lparr>lf_members := (lf_members s)\<lparr>ws_consumer_joinable := False\<rparr>, lf_owner := O_close_producer\<rparr>) else None
      | O_close_producer \<Rightarrow> Some ((close_producer E s)\<lparr>lf_owner := O_close_consumer\<rparr>)
      | O_close_consumer \<Rightarrow> Some ((close_consumer E (reset_receiver E T s))\<lparr>lf_owner := O_stopped\<rparr>)
      | O_stopped \<Rightarrow> None)"

inductive worker_step :: "'w burnin_env \<Rightarrow> 'w thread_code \<Rightarrow> Worker \<Rightarrow> 'w life \<Rightarrow> 'w life \<Rightarrow> bool"
  for E :: "'w burnin_env" and T :: "'w thread_code" and wk :: Worker where
  owner_moves: "owner_step E T s = Some t \<Longrightarrow> worker_step E T wk s t"
| producer_moves: "producer_step E T wk s = Some t \<Longrightarrow> worker_step E T wk s t"
| consumer_moves: "consumer_step E T wk s = Some t \<Longrightarrow> worker_step E T wk s t"

section \<open>What always holds\<close>

text \<open>How many steps of its own each thread is from its end, once the flag is cleared.\<close>

fun owner_left :: "owner_pc \<Rightarrow> nat" where
  "owner_left O_new = 9" | "owner_left O_spawn_first = 8" | "owner_left O_spawn_second = 7" | "owner_left O_started = 6"
| "owner_left O_close_receiver = 5" | "owner_left O_join_producer = 4" | "owner_left O_join_consumer = 3"
| "owner_left O_close_producer = 2" | "owner_left O_close_consumer = 1" | "owner_left O_stopped = 0"

fun producer_left :: "'w producer_pc \<Rightarrow> nat" where
  "producer_left P_absent = 0" | "producer_left P_connect = 7" | "producer_left (P_store_client c) = 6"
| "producer_left P_open = 5" | "producer_left (P_store_upstream h) = 4" | "producer_left P_set_callbacks = 3"
| "producer_left P_begin = 2" | "producer_left (P_send q t) = 2" | "producer_left (P_test q t) = 1" | "producer_left P_returned = 0"

fun consumer_left :: "'w consumer_pc \<Rightarrow> nat" where
  "consumer_left C_absent = 0" | "consumer_left C_connect = 6" | "consumer_left (C_store_client c) = 5"
| "consumer_left C_open = 4" | "consumer_left (C_store_receiver r) = 3" | "consumer_left (C_work sub) = 3"
| "consumer_left (C_test sub) = 2" | "consumer_left (C_cancel sub) = 1" | "consumer_left C_returned = 0"

definition steps_left :: "'w life \<Rightarrow> nat" where
  "steps_left s = owner_left (lf_owner s) + producer_left (lf_producer s) + consumer_left (lf_consumer s)"

text \<open>The threads exist between their spawn and their join, and the flag is set from the start to the stop.\<close>

definition phases :: "'w thread_code \<Rightarrow> 'w life \<Rightarrow> bool" where
  "phases T s \<longleftrightarrow>
     (let n = owner_left (lf_owner s) in
       (lf_producer s = P_absent \<longrightarrow> 7 \<le> n) \<and> (8 \<le> n \<longrightarrow> lf_producer s = P_absent) \<and> (n < 4 \<longrightarrow> lf_producer s = P_returned)
       \<and> (lf_consumer s = C_absent \<longrightarrow> 7 \<le> n) \<and> (8 \<le> n \<longrightarrow> lf_consumer s = C_absent) \<and> (n < 3 \<longrightarrow> lf_consumer s = C_returned)
       \<and> (n = 7 \<longrightarrow> (if tc_consumer_first T then lf_producer s = P_absent \<and> lf_consumer s \<noteq> C_absent
            else lf_consumer s = C_absent \<and> lf_producer s \<noteq> P_absent))
       \<and> (lf_running s \<longleftrightarrow> 6 \<le> n \<and> n \<le> 8))"

lemmas step_splits = producer_code.splits consumer_code.splits option.splits sum.splits prod.splits

text \<open>What a step does to the program counters, without the operations.\<close>

lemma producer_control:
  assumes "producer_step E T wk s = Some t"
  shows "lf_owner t = lf_owner s \<and> lf_running t = lf_running s \<and> lf_consumer t = lf_consumer s
    \<and> lf_producer s \<noteq> P_absent \<and> lf_producer s \<noteq> P_returned \<and> lf_producer t \<noteq> P_absent
    \<and> (\<not> lf_running s \<longrightarrow> producer_left (lf_producer t) < producer_left (lf_producer s))"
  using assms
  by (cases "lf_producer s") (auto simp: producer_step_def producer_fails_def counted_def case_prod_unfold Let_def split: step_splits if_splits)

lemma consumer_open_control:
  "lf_owner (consumer_open E T wk c s) = lf_owner s" "lf_running (consumer_open E T wk c s) = lf_running s"
  "lf_producer (consumer_open E T wk c s) = lf_producer s" "lf_consumer (consumer_open E T wk c s) \<noteq> C_absent"
  "consumer_left (lf_consumer (consumer_open E T wk c s)) < 4"
  by (simp_all add: consumer_open_def consumer_fails_def counted_def case_prod_unfold Let_def split: consumer_code.split sum.split)

lemma consumer_control:
  assumes "consumer_step E T wk s = Some t"
  shows "lf_owner t = lf_owner s \<and> lf_running t = lf_running s \<and> lf_producer t = lf_producer s
    \<and> lf_consumer s \<noteq> C_absent \<and> lf_consumer s \<noteq> C_returned \<and> lf_consumer t \<noteq> C_absent
    \<and> (\<not> lf_running s \<longrightarrow> consumer_left (lf_consumer t) < consumer_left (lf_consumer s))"
  using assms consumer_open_control [of E T wk _ s]
  by (cases "lf_consumer s")
    (auto simp: consumer_step_def consumer_fails_def counted_def case_prod_unfold Let_def less_Suc_eq_le split: option.splits sum.splits if_splits)

lemma owner_helpers [simp]:
  "lf_owner (close_receiver E T s) = lf_owner s" "lf_producer (close_receiver E T s) = lf_producer s"
  "lf_consumer (close_receiver E T s) = lf_consumer s" "lf_running (close_receiver E T s) = lf_running s"
  "lf_owner (reset_receiver E T s) = lf_owner s" "lf_producer (reset_receiver E T s) = lf_producer s"
  "lf_consumer (reset_receiver E T s) = lf_consumer s" "lf_running (reset_receiver E T s) = lf_running s"
  "lf_owner (close_producer E s) = lf_owner s" "lf_producer (close_producer E s) = lf_producer s"
  "lf_consumer (close_producer E s) = lf_consumer s" "lf_running (close_producer E s) = lf_running s"
  "lf_owner (close_consumer E s) = lf_owner s" "lf_producer (close_consumer E s) = lf_producer s"
  "lf_consumer (close_consumer E s) = lf_consumer s" "lf_running (close_consumer E s) = lf_running s"
  by (simp_all add: close_receiver_def reset_receiver_def close_producer_def close_consumer_def case_prod_unfold Let_def split: step_splits)

lemma spawn_helpers [simp]:
  "lf_running (spawn p s) = lf_running s" "lf_producer (spawn p s) = (if p then P_connect else lf_producer s)"
  "lf_consumer (spawn p s) = (if p then lf_consumer s else C_connect)"
  by (simp_all add: spawn_def)

lemma phases_owner: "owner_step E T s = Some t \<Longrightarrow> phases T s \<Longrightarrow> phases T t"
  by (cases "lf_owner s") (auto simp: phases_def Let_def owner_step_def split: option.splits if_splits)

lemma phases_producer: "producer_step E T wk s = Some t \<Longrightarrow> phases T s \<Longrightarrow> phases T t"
  by (drule producer_control) (simp add: phases_def Let_def split: if_splits)

lemma phases_consumer: "consumer_step E T wk s = Some t \<Longrightarrow> phases T s \<Longrightarrow> phases T t"
  by (drule consumer_control) (simp add: phases_def Let_def split: if_splits)

lemma phases_step: "worker_step E T wk s t \<Longrightarrow> phases T s \<Longrightarrow> phases T t"
  by (erule worker_step.cases) (simp_all add: phases_owner phases_producer phases_consumer)

text \<open>What a thread is about to use is there.\<close>

definition producer_has :: "'w thread_code \<Rightarrow> 'w producer_pc \<Rightarrow> 'w StreamWorkerState \<Rightarrow> bool" where
  "producer_has T pc m =
     (let usable = (case tc_producer T of Sends _ \<Rightarrow> ws_producer_client m \<noteq> None | Streams _ _ \<Rightarrow> sws_upstream m \<noteq> None);
          streams = (case tc_producer T of Sends _ \<Rightarrow> False | Streams _ _ \<Rightarrow> True)
      in (case pc of
            P_open \<Rightarrow> streams \<and> ws_producer_client m \<noteq> None
          | P_store_upstream _ \<Rightarrow> streams \<and> ws_producer_client m \<noteq> None
          | P_set_callbacks \<Rightarrow> streams \<and> sws_upstream m \<noteq> None
          | P_begin \<Rightarrow> usable
          | P_test _ _ \<Rightarrow> usable
          | P_send _ _ \<Rightarrow> usable
          | _ \<Rightarrow> True))"

definition consumer_has :: "'w thread_code \<Rightarrow> 'w consumer_pc \<Rightarrow> 'w StreamWorkerState \<Rightarrow> bool" where
  "consumer_has T pc m =
     (let usable = (\<lambda>sub. case tc_consumer T of Subscribes _ \<Rightarrow> sub \<noteq> None
            | Polls _ \<Rightarrow> sub = None \<and> ws_consumer_client m \<noteq> None | Polls_stream _ \<Rightarrow> sub = None \<and> sws_receiver m \<noteq> None)
      in (case pc of
            C_open \<Rightarrow> ws_consumer_client m \<noteq> None
          | C_store_receiver _ \<Rightarrow> streaming T
          | C_test sub \<Rightarrow> usable sub
          | C_work sub \<Rightarrow> usable sub
          | _ \<Rightarrow> True))"

definition members_ready :: "'w thread_code \<Rightarrow> 'w life \<Rightarrow> bool" where
  "members_ready T s = (producer_has T (lf_producer s) (lf_members s) \<and> consumer_has T (lf_consumer s) (lf_members s))"

lemma producer_has_step:
  assumes "producer_step E T wk s = Some t" "producer_has T (lf_producer s) (lf_members s)"
  shows "producer_has T (lf_producer t) (lf_members t)"
  using assms
  by (cases "lf_producer s"; cases "tc_producer T")
    (auto simp: producer_step_def producer_has_def producer_fails_def counted_def case_prod_unfold Let_def
      split: option.splits sum.splits if_splits)

lemma producer_frame:
  assumes "producer_step E T wk s = Some t"
  shows "ws_consumer_client (lf_members t) = ws_consumer_client (lf_members s)"
    "sws_receiver (lf_members t) = sws_receiver (lf_members s)"
  using assms
  by (cases "lf_producer s"; cases "tc_producer T",
      auto simp: producer_step_def producer_fails_def counted_def case_prod_unfold Let_def split: option.splits sum.splits)+

lemma consumer_open_has: "consumer_has T (lf_consumer (consumer_open E T wk c s)) m" if "ws_consumer_client m \<noteq> None"
  using that
  by (simp add: consumer_open_def consumer_has_def consumer_fails_def counted_def streaming_def case_prod_unfold Let_def
      split: consumer_code.split sum.split)

lemma consumer_open_frame [simp]: "lf_members (consumer_open E T wk c s) = lf_members s"
  by (simp add: consumer_open_def consumer_fails_def counted_def case_prod_unfold Let_def split: consumer_code.split sum.split)

lemma consumer_has_step:
  assumes "consumer_step E T wk s = Some t" "consumer_has T (lf_consumer s) (lf_members s)"
  shows "consumer_has T (lf_consumer t) (lf_members t)"
proof (cases "lf_consumer s")
  case C_open
  then show ?thesis using assms by (auto simp: consumer_step_def consumer_open_has)
qed (use assms in \<open>auto simp: consumer_step_def consumer_has_def consumer_fails_def counted_def streaming_def case_prod_unfold Let_def
      split: option.splits sum.splits if_splits consumer_code.splits\<close>)

lemma consumer_frame:
  assumes "consumer_step E T wk s = Some t"
  shows "ws_producer_client (lf_members t) = ws_producer_client (lf_members s)"
    "sws_upstream (lf_members t) = sws_upstream (lf_members s)"
  using assms
  by (cases "lf_consumer s",
      auto simp: consumer_step_def consumer_fails_def counted_def case_prod_unfold Let_def split: option.splits sum.splits)+

lemma producer_has_cong:
  "producer_has T pc m \<Longrightarrow> ws_producer_client m' = ws_producer_client m \<Longrightarrow> sws_upstream m' = None \<longleftrightarrow> sws_upstream m = None
    \<Longrightarrow> producer_has T pc m'"
  by (cases pc) (auto simp: producer_has_def Let_def split: producer_code.splits)

lemma consumer_has_cong:
  "consumer_has T pc m \<Longrightarrow> ws_consumer_client m' = ws_consumer_client m \<Longrightarrow> sws_receiver m' = None \<longleftrightarrow> sws_receiver m = None
    \<Longrightarrow> consumer_has T pc m'"
  by (cases pc) (auto simp: consumer_has_def Let_def split: consumer_code.splits)

lemma has_trivial [simp]:
  "producer_has T P_connect m" "producer_has T P_returned m" "producer_has T P_absent m"
  "consumer_has T C_connect m" "consumer_has T C_returned m" "consumer_has T C_absent m"
  by (simp_all add: producer_has_def consumer_has_def)

lemma close_receiver_frame:
  "ws_producer_client (lf_members (close_receiver E T s)) = ws_producer_client (lf_members s)"
  "ws_consumer_client (lf_members (close_receiver E T s)) = ws_consumer_client (lf_members s)"
  "sws_upstream (lf_members (close_receiver E T s)) = sws_upstream (lf_members s)"
  "sws_receiver (lf_members (close_receiver E T s)) = None \<longleftrightarrow> sws_receiver (lf_members s) = None"
  by (simp_all add: close_receiver_def case_prod_unfold Let_def split: consumer_code.split option.split)

lemma spawn_frame [simp]:
  "ws_producer_client (lf_members (spawn p s)) = ws_producer_client (lf_members s)"
  "ws_consumer_client (lf_members (spawn p s)) = ws_consumer_client (lf_members s)"
  "sws_upstream (lf_members (spawn p s)) = sws_upstream (lf_members s)"
  "sws_receiver (lf_members (spawn p s)) = sws_receiver (lf_members s)"
  by (simp_all add: spawn_def)

lemma ready_owner:
  assumes "owner_step E T s = Some t" "phases T s" "members_ready T s"
  shows "members_ready T t"
proof (cases "owner_left (lf_owner s) < 3")
  case True
  then have "lf_producer s = P_returned" "lf_consumer s = C_returned" using assms(2) by (simp_all add: phases_def Let_def)
  then show ?thesis using assms(1) True
    by (cases "lf_owner s") (auto simp: owner_step_def members_ready_def split: if_splits)
next
  case False
  have h: "producer_has T (lf_producer s) (lf_members s)" "consumer_has T (lf_consumer s) (lf_members s)"
    using assms(3) by (simp_all add: members_ready_def)
  have "(lf_producer t = lf_producer s \<or> lf_producer t = P_connect) \<and> (lf_consumer t = lf_consumer s \<or> lf_consumer t = C_connect)
      \<and> ws_producer_client (lf_members t) = ws_producer_client (lf_members s)
      \<and> ws_consumer_client (lf_members t) = ws_consumer_client (lf_members s)
      \<and> sws_upstream (lf_members t) = sws_upstream (lf_members s)
      \<and> (sws_receiver (lf_members t) = None \<longleftrightarrow> sws_receiver (lf_members s) = None)"
    using assms(1) False by (cases "lf_owner s") (auto simp: owner_step_def Let_def close_receiver_frame split: if_splits option.splits)
  then show ?thesis
    using producer_has_cong [OF h(1), of "lf_members t"] consumer_has_cong [OF h(2), of "lf_members t"]
    by (auto simp: members_ready_def)
qed

lemma ready_step: "worker_step E T wk s t \<Longrightarrow> phases T s \<Longrightarrow> members_ready T s \<Longrightarrow> members_ready T t"
  by (erule worker_step.cases)
    (auto simp: members_ready_def ready_owner [unfolded members_ready_def] producer_control consumer_control producer_frame consumer_frame
      intro: producer_has_step consumer_has_step elim: producer_has_cong consumer_has_cong)


section \<open>What becomes of the clients\<close>

definition logged :: "life_event \<Rightarrow> 'w life \<Rightarrow> nat" where
  "logged e s = count_list (lf_log s) e"

fun before_store :: "'w producer_pc \<Rightarrow> bool" where
  "before_store P_absent = True" | "before_store P_connect = True" | "before_store (P_store_client c) = True"
| "before_store pc = False"

fun before_store_consumer :: "'w consumer_pc \<Rightarrow> bool" where
  "before_store_consumer C_absent = True" | "before_store_consumer C_connect = True"
| "before_store_consumer (C_store_client c) = True" | "before_store_consumer pc = False"

text \<open>Every client that a thread has stored is either still in its member or has left it once, closed by
  the owner or (with the upstream handle) handed to the detached thread.\<close>

definition producer_accounted :: "'w life \<Rightarrow> bool" where
  "producer_accounted s \<longleftrightarrow>
     logged (Client_stored Producer) s
       = logged (Client_closed Producer) s + logged Client_detached s + (if ws_producer_client (lf_members s) = None then 0 else 1)
     \<and> (before_store (lf_producer s) \<longrightarrow> logged (Client_stored Producer) s = 0)
     \<and> logged (Client_stored Producer) s \<le> 1
     \<and> (sws_upstream (lf_members s) \<noteq> None \<longrightarrow> ws_producer_client (lf_members s) \<noteq> None)"

definition consumer_accounted :: "'w life \<Rightarrow> bool" where
  "consumer_accounted s \<longleftrightarrow>
     logged (Client_stored Consumer) s = logged (Client_closed Consumer) s + (if ws_consumer_client (lf_members s) = None then 0 else 1)
     \<and> (before_store_consumer (lf_consumer s) \<longrightarrow> logged (Client_stored Consumer) s = 0)
     \<and> logged (Client_stored Consumer) s \<le> 1"

text \<open>The three ways a step touches the log and the client of the producer.\<close>

definition keeps_producer :: "'w life \<Rightarrow> 'w life \<Rightarrow> bool" where
  "keeps_producer s t \<longleftrightarrow>
     logged (Client_stored Producer) t = logged (Client_stored Producer) s \<and> logged (Client_closed Producer) t = logged (Client_closed Producer) s
     \<and> logged Client_detached t = logged Client_detached s
     \<and> ws_producer_client (lf_members t) = ws_producer_client (lf_members s)
     \<and> (before_store (lf_producer t) \<longrightarrow> before_store (lf_producer s))
     \<and> (sws_upstream (lf_members t) \<noteq> None \<longrightarrow> sws_upstream (lf_members s) \<noteq> None \<or> ws_producer_client (lf_members s) \<noteq> None)"

definition keeps_consumer :: "'w life \<Rightarrow> 'w life \<Rightarrow> bool" where
  "keeps_consumer s t \<longleftrightarrow>
     logged (Client_stored Consumer) t = logged (Client_stored Consumer) s \<and> logged (Client_closed Consumer) t = logged (Client_closed Consumer) s
     \<and> ws_consumer_client (lf_members t) = ws_consumer_client (lf_members s)
     \<and> (before_store_consumer (lf_consumer t) \<longrightarrow> before_store_consumer (lf_consumer s))"

lemma producer_keeps: "keeps_producer s t \<Longrightarrow> producer_accounted s \<Longrightarrow> producer_accounted t"
  by (auto simp: keeps_producer_def producer_accounted_def)

lemma consumer_keeps: "keeps_consumer s t \<Longrightarrow> consumer_accounted s \<Longrightarrow> consumer_accounted t"
  by (auto simp: keeps_consumer_def consumer_accounted_def)

lemma producer_log:
  assumes "producer_step E T wk s = Some t"
  shows "lf_log t = (if \<exists>c. lf_producer s = P_store_client c then lf_log s @ [Client_stored Producer] else lf_log s)"
    "ws_producer_client (lf_members t) = (case lf_producer s of P_store_client c \<Rightarrow> Some c | _ \<Rightarrow> ws_producer_client (lf_members s))"
    "before_store (lf_producer t) \<Longrightarrow> lf_producer s = P_connect"
  using assms
  by (cases "lf_producer s"; auto simp: producer_step_def producer_fails_def counted_def case_prod_unfold Let_def
      split: option.splits sum.splits producer_code.splits if_splits)+

lemma producer_upstream:
  assumes "producer_step E T wk s = Some t" "members_ready T s" "sws_upstream (lf_members t) \<noteq> None"
  shows "sws_upstream (lf_members s) \<noteq> None \<or> ws_producer_client (lf_members s) \<noteq> None"
  using assms
  by (cases "lf_producer s"; cases "tc_producer T"; auto simp: producer_step_def members_ready_def producer_has_def producer_fails_def
      counted_def case_prod_unfold Let_def split: option.splits sum.splits)

lemma producer_step_log:
  assumes "producer_step E T wk s = Some t" "members_ready T s"
  shows "keeps_consumer s t"
    "keeps_producer s t \<or> (\<exists>c. lf_producer s = P_store_client c \<and> lf_log t = lf_log s @ [Client_stored Producer]
      \<and> ws_producer_client (lf_members t) = Some c \<and> \<not> before_store (lf_producer t))"
proof -
  show "keeps_consumer s t"
    using producer_frame [OF assms(1)] producer_log(1) [OF assms(1)] producer_control [OF assms(1)]
    by (simp add: keeps_consumer_def logged_def)
  show "keeps_producer s t \<or> (\<exists>c. lf_producer s = P_store_client c \<and> lf_log t = lf_log s @ [Client_stored Producer]
      \<and> ws_producer_client (lf_members t) = Some c \<and> \<not> before_store (lf_producer t))"
  proof (cases "\<exists>c. lf_producer s = P_store_client c")
    case True
    then show ?thesis using producer_log [OF assms(1)] by auto
  next
    case False
    then have "ws_producer_client (lf_members t) = ws_producer_client (lf_members s)" "lf_log t = lf_log s"
      "before_store (lf_producer t) \<longrightarrow> before_store (lf_producer s)"
      using producer_log [OF assms(1)] by (auto split: producer_pc.splits)
    then show ?thesis using producer_upstream [OF assms] by (simp add: keeps_producer_def logged_def)
  qed
qed

lemma producer_accounted_step:
  assumes "producer_step E T wk s = Some t" "members_ready T s"
  shows "producer_accounted s \<Longrightarrow> producer_accounted t" "consumer_accounted s \<Longrightarrow> consumer_accounted t"
proof -
  show "producer_accounted t" if "producer_accounted s"
    using producer_step_log(2) [OF assms]
  proof
    assume "\<exists>c. lf_producer s = P_store_client c \<and> lf_log t = lf_log s @ [Client_stored Producer]
      \<and> ws_producer_client (lf_members t) = Some c \<and> \<not> before_store (lf_producer t)"
    then obtain c where "lf_producer s = P_store_client c" "lf_log t = lf_log s @ [Client_stored Producer]"
      "ws_producer_client (lf_members t) = Some c" "\<not> before_store (lf_producer t)" by blast
    then show ?thesis using that by (simp add: producer_accounted_def logged_def)
  qed (rule producer_keeps [OF _ that])
qed (rule consumer_keeps [OF producer_step_log(1) [OF assms]])

lemma consumer_open_log [simp]:
  "lf_log (consumer_open E T wk c s) = lf_log s" "\<not> before_store_consumer (lf_consumer (consumer_open E T wk c s))"
  by (simp_all add: consumer_open_def consumer_fails_def counted_def case_prod_unfold Let_def split: consumer_code.split sum.split)

lemma consumer_log:
  assumes "consumer_step E T wk s = Some t"
  shows "lf_log t = (if \<exists>c. lf_consumer s = C_store_client c then lf_log s @ [Client_stored Consumer] else lf_log s)"
    "ws_consumer_client (lf_members t) = (case lf_consumer s of C_store_client c \<Rightarrow> Some c | _ \<Rightarrow> ws_consumer_client (lf_members s))"
    "before_store_consumer (lf_consumer t) \<Longrightarrow> lf_consumer s = C_connect"
  using assms
  by (cases "lf_consumer s"; auto simp: consumer_step_def consumer_fails_def counted_def case_prod_unfold Let_def
      split: option.splits sum.splits if_splits)+

lemma consumer_step_log:
  assumes "consumer_step E T wk s = Some t"
  shows "keeps_producer s t"
    "keeps_consumer s t \<or> (\<exists>c. lf_consumer s = C_store_client c \<and> lf_log t = lf_log s @ [Client_stored Consumer]
      \<and> ws_consumer_client (lf_members t) = Some c \<and> \<not> before_store_consumer (lf_consumer t))"
proof -
  show "keeps_producer s t"
    using consumer_frame [OF assms] consumer_log(1) [OF assms] consumer_control [OF assms]
    by (simp add: keeps_producer_def logged_def)
  show "keeps_consumer s t \<or> (\<exists>c. lf_consumer s = C_store_client c \<and> lf_log t = lf_log s @ [Client_stored Consumer]
      \<and> ws_consumer_client (lf_members t) = Some c \<and> \<not> before_store_consumer (lf_consumer t))"
  proof (cases "\<exists>c. lf_consumer s = C_store_client c")
    case True
    then show ?thesis using consumer_log [OF assms] by auto
  next
    case False
    then have "ws_consumer_client (lf_members t) = ws_consumer_client (lf_members s)" "lf_log t = lf_log s"
      "before_store_consumer (lf_consumer t) \<longrightarrow> before_store_consumer (lf_consumer s)"
      using consumer_log [OF assms] by (auto split: consumer_pc.splits)
    then show ?thesis by (simp add: keeps_consumer_def logged_def)
  qed
qed

lemma consumer_accounted_step:
  assumes "consumer_step E T wk s = Some t"
  shows "producer_accounted s \<Longrightarrow> producer_accounted t" "consumer_accounted s \<Longrightarrow> consumer_accounted t"
proof -
  show "consumer_accounted t" if "consumer_accounted s"
    using consumer_step_log(2) [OF assms]
  proof
    assume "\<exists>c. lf_consumer s = C_store_client c \<and> lf_log t = lf_log s @ [Client_stored Consumer]
      \<and> ws_consumer_client (lf_members t) = Some c \<and> \<not> before_store_consumer (lf_consumer t)"
    then obtain c where "lf_consumer s = C_store_client c" "lf_log t = lf_log s @ [Client_stored Consumer]"
      "ws_consumer_client (lf_members t) = Some c" "\<not> before_store_consumer (lf_consumer t)" by blast
    then show ?thesis using that by (simp add: consumer_accounted_def logged_def)
  qed (rule consumer_keeps [OF _ that])
qed (rule producer_keeps [OF consumer_step_log(1) [OF assms]])

lemma receiver_log [simp]:
  "lf_log (close_receiver E T s) = lf_log s" "lf_log (reset_receiver E T s) = lf_log s" "lf_log (spawn p s) = lf_log s"
  "ws_consumer_client (lf_members (reset_receiver E T s)) = ws_consumer_client (lf_members s)"
  "ws_producer_client (lf_members (reset_receiver E T s)) = ws_producer_client (lf_members s)"
  "sws_upstream (lf_members (reset_receiver E T s)) = sws_upstream (lf_members s)"
  by (simp_all add: close_receiver_def reset_receiver_def spawn_def case_prod_unfold Let_def split: consumer_code.split option.split)

lemma close_producer_fields:
  "keeps_consumer s (close_producer E s)"
  "logged (Client_stored Producer) (close_producer E s) = logged (Client_stored Producer) s"
  "ws_producer_client (lf_members s) = None \<Longrightarrow> sws_upstream (lf_members s) = None \<Longrightarrow> close_producer E s = s"
  "ws_producer_client (lf_members s) \<noteq> None \<Longrightarrow> logged (Client_closed Producer) (close_producer E s) + logged Client_detached (close_producer E s)
    = Suc (logged (Client_closed Producer) s + logged Client_detached s)"
  "ws_producer_client (lf_members s) \<noteq> None \<Longrightarrow> ws_producer_client (lf_members (close_producer E s)) = None"
  "ws_producer_client (lf_members s) \<noteq> None \<Longrightarrow> sws_upstream (lf_members (close_producer E s)) = None"
  by (auto simp: close_producer_def keeps_consumer_def logged_def split: option.split)

lemma close_consumer_fields:
  "keeps_producer s (close_consumer E s)"
  "logged (Client_stored Consumer) (close_consumer E s) = logged (Client_stored Consumer) s"
  "ws_consumer_client (lf_members s) = None \<Longrightarrow> close_consumer E s = s"
  "ws_consumer_client (lf_members s) \<noteq> None \<Longrightarrow> logged (Client_closed Consumer) (close_consumer E s) = Suc (logged (Client_closed Consumer) s)"
  "ws_consumer_client (lf_members (close_consumer E s)) = None"
  by (auto simp: close_consumer_def keeps_producer_def logged_def split: option.split)

lemma close_accounted:
  "producer_accounted s \<Longrightarrow> producer_accounted (close_producer E s)" "keeps_consumer s (close_producer E s)"
  "consumer_accounted s \<Longrightarrow> consumer_accounted (close_consumer E s)" "keeps_producer s (close_consumer E s)"
proof -
  show "producer_accounted (close_producer E s)" if p: "producer_accounted s"
  proof (cases "ws_producer_client (lf_members s) = None")
    case True
    then show ?thesis using p close_producer_fields(3) [where s = s and E = E] by (auto simp: producer_accounted_def)
  next
    case False
    then show ?thesis using p close_producer_fields(2,4-6) [where s = s and E = E] by (auto simp: producer_accounted_def)
  qed
  show "consumer_accounted (close_consumer E s)" if c: "consumer_accounted s"
  proof (cases "ws_consumer_client (lf_members s) = None")
    case True
    then show ?thesis using c close_consumer_fields(3) [where s = s and E = E] by simp
  next
    case False
    then show ?thesis using c close_consumer_fields(2,4,5) [where s = s and E = E] by (auto simp: consumer_accounted_def)
  qed
qed (rule close_producer_fields close_consumer_fields)+

lemma accounted_field [simp]:
  "producer_accounted (s\<lparr>lf_owner := n\<rparr>) = producer_accounted s" "consumer_accounted (s\<lparr>lf_owner := n\<rparr>) = consumer_accounted s"
  by (simp_all add: producer_accounted_def consumer_accounted_def logged_def)

lemma owner_spawns:
  assumes "owner_step E T s = Some t" "phases T s"
  shows "lf_producer t = lf_producer s \<or> lf_producer s = P_absent" "lf_consumer t = lf_consumer s \<or> lf_consumer s = C_absent"
proof -
  have "lf_owner s = O_spawn_first \<Longrightarrow> lf_producer s = P_absent \<and> lf_consumer s = C_absent"
    "lf_owner s = O_spawn_second \<Longrightarrow> if tc_consumer_first T then lf_producer s = P_absent else lf_consumer s = C_absent"
    using assms(2) by (simp_all add: phases_def)
  then show "lf_producer t = lf_producer s \<or> lf_producer s = P_absent" "lf_consumer t = lf_consumer s \<or> lf_consumer s = C_absent"
    using assms(1) by (cases "lf_owner s"; auto simp: owner_step_def Let_def split: if_splits option.splits)+
qed

lemma owner_frame:
  assumes "owner_step E T s = Some t" "lf_owner s \<notin> {O_close_producer, O_close_consumer}"
  shows "lf_log t = lf_log s" "ws_producer_client (lf_members t) = ws_producer_client (lf_members s)"
    "ws_consumer_client (lf_members t) = ws_consumer_client (lf_members s)"
    "sws_upstream (lf_members t) = sws_upstream (lf_members s)"
  using assms by (cases "lf_owner s"; auto simp: owner_step_def Let_def close_receiver_frame split: if_splits option.splits)+

lemma owner_keeps:
  assumes "owner_step E T s = Some t" "phases T s" "lf_owner s \<notin> {O_close_producer, O_close_consumer}"
  shows "keeps_producer s t \<and> keeps_consumer s t"
proof -
  have "before_store (lf_producer t) \<longrightarrow> before_store (lf_producer s)" "before_store_consumer (lf_consumer t) \<longrightarrow> before_store_consumer (lf_consumer s)"
    using owner_spawns [OF assms(1,2)] by auto
  then show ?thesis using owner_frame [OF assms(1,3)] by (simp add: keeps_producer_def keeps_consumer_def logged_def)
qed

lemma accounted_owner:
  assumes "owner_step E T s = Some t" "phases T s" "producer_accounted s" "consumer_accounted s"
  shows "producer_accounted t \<and> consumer_accounted t"
proof -
  consider "lf_owner s = O_close_producer" | "lf_owner s = O_close_consumer" | "lf_owner s \<notin> {O_close_producer, O_close_consumer}" by blast
  then show ?thesis
  proof cases
    case 1
    then show ?thesis using assms(1,3,4) close_accounted(1) [of s E] consumer_keeps [OF close_accounted(2) [of s E]]
      by (auto simp: owner_step_def)
  next
    case 2
    have "keeps_producer s (reset_receiver E T s) \<and> keeps_consumer s (reset_receiver E T s)"
      by (simp add: keeps_producer_def keeps_consumer_def logged_def)
    then have "producer_accounted (reset_receiver E T s)" "consumer_accounted (reset_receiver E T s)"
      using assms(3,4) producer_keeps consumer_keeps by blast+
    then show ?thesis using 2 assms(1) close_accounted(3) producer_keeps [OF close_accounted(4)] by (auto simp: owner_step_def)
  next
    case 3
    then show ?thesis using owner_keeps [OF assms(1,2)] assms(3,4) producer_keeps consumer_keeps by blast
  qed
qed

definition life_inv :: "'w thread_code \<Rightarrow> 'w life \<Rightarrow> bool" where
  "life_inv T s = (phases T s \<and> members_ready T s \<and> producer_accounted s \<and> consumer_accounted s)"

lemma life_inv_step: "worker_step E T wk s t \<Longrightarrow> life_inv T s \<Longrightarrow> life_inv T t"
  by (frule phases_step, simp add: life_inv_def, frule ready_step, simp_all add: life_inv_def, erule worker_step.cases)
    (simp_all add: accounted_owner producer_accounted_step consumer_accounted_step)

lemma life_inv_new: "life_inv T (life_new w)"
  by (simp add: life_inv_def life_new_def phases_def members_ready_def producer_accounted_def consumer_accounted_def logged_def)

lemma life_reachable: "(worker_step E T wk)\<^sup>*\<^sup>* (life_new w) s \<Longrightarrow> life_inv T s"
  by (induction rule: rtranclp_induct) (auto intro: life_inv_step life_inv_new)

section \<open>Stop ends\<close>

lemma someone_moves:
  assumes "life_inv T s" "lf_owner s \<noteq> O_stopped"
  shows "\<exists>t. worker_step E T wk s t"
proof (cases "owner_step E T s")
  case (Some t)
  then show ?thesis by (blast intro: owner_moves)
next
  case None
  have p: "phases T s" and r: "members_ready T s" using assms(1) by (simp_all add: life_inv_def)
  consider "lf_owner s = O_join_producer" "lf_producer s \<noteq> P_returned" | "lf_owner s = O_join_consumer" "lf_consumer s \<noteq> C_returned"
    using None assms(2) by (cases "lf_owner s") (auto simp: owner_step_def Let_def split: if_splits)
  then show ?thesis
  proof cases
    case 1
    then have "lf_producer s \<noteq> P_absent" using p by (simp add: phases_def Let_def)
    then have "producer_step E T wk s \<noteq> None"
      using 1 r by (cases "lf_producer s"; cases "tc_producer T")
        (auto simp: producer_step_def members_ready_def producer_has_def case_prod_unfold Let_def split: option.splits)
    then show ?thesis by (blast intro: producer_moves)
  next
    case 2
    then have "lf_consumer s \<noteq> C_absent" using p by (simp add: phases_def Let_def)
    then have "consumer_step E T wk s \<noteq> None"
      using 2 r by (cases "lf_consumer s"; cases "tc_consumer T")
        (auto simp: consumer_step_def consumer_work_def members_ready_def consumer_has_def case_prod_unfold Let_def split: option.splits)
    then show ?thesis by (blast intro: consumer_moves)
  qed
qed

definition stopping :: "'w life \<Rightarrow> bool" where
  "stopping s = (lf_owner s \<notin> {O_new, O_spawn_first, O_spawn_second, O_started})"

lemma stopping_left: "stopping s \<longleftrightarrow> owner_left (lf_owner s) \<le> 5"
  by (cases "lf_owner s") (simp_all add: stopping_def)

lemma stopping_step:
  assumes "worker_step E T wk s t" "life_inv T s" "stopping s"
  shows "stopping t \<and> steps_left t < steps_left s"
proof -
  have f: "\<not> lf_running s" using assms by (simp add: life_inv_def phases_def stopping_left Let_def)
  show ?thesis using assms(1)
  proof cases
    case owner_moves
    then show ?thesis using assms(3)
      by (cases "lf_owner s") (auto simp: owner_step_def stopping_def steps_left_def split: if_splits)
  next
    case producer_moves
    then show ?thesis using producer_control [OF producer_moves] f assms(3) by (simp add: stopping_def steps_left_def)
  next
    case consumer_moves
    then show ?thesis using consumer_control [OF consumer_moves] f assms(3) by (simp add: stopping_def steps_left_def)
  qed
qed

lemma thread_left: "producer_left pc \<le> 7" "consumer_left cpc \<le> 6"
  by (cases pc; simp) (cases cpc; simp)

lemma steps_left_bound: "stopping s \<Longrightarrow> steps_left s \<le> 18"
  using thread_left(1) [of "lf_producer s"] thread_left(2) [of "lf_consumer s"] by (simp add: steps_left_def stopping_left)

lemma stopping_run:
  "(worker_step E T wk ^^ n) s t \<Longrightarrow> life_inv T s \<Longrightarrow> stopping s \<Longrightarrow> life_inv T t \<and> stopping t \<and> steps_left t + n \<le> steps_left s"
proof (induction n arbitrary: t)
  case (Suc n)
  then obtain u where "(worker_step E T wk ^^ n) s u" "worker_step E T wk u t" by (auto elim: relpowp_Suc_E)
  then show ?case using Suc.IH [of u] Suc.prems(2,3) life_inv_step [of E T wk u t] stopping_step [of E T wk u t] by fastforce
qed simp


lemma last_step:
  assumes "life_inv T s" "stopping s"
  shows "\<exists>t. (worker_step E T wk)\<^sup>*\<^sup>* s t \<and> (\<nexists>u. worker_step E T wk t u)"
  using assms
proof (induction "steps_left s" arbitrary: s rule: less_induct)
  case less
  show ?case
  proof (cases "\<exists>u. worker_step E T wk s u")
    case True
    then obtain u where u: "worker_step E T wk s u" by blast
    then have "life_inv T u" "stopping u" "steps_left u < steps_left s"
      using less.prems life_inv_step stopping_step by blast+
    then obtain t where "(worker_step E T wk)\<^sup>*\<^sup>* u t" "\<nexists>v. worker_step E T wk t v" using less.hyps by blast
    then show ?thesis using u by (blast intro: converse_rtranclp_into_rtranclp)
  qed blast
qed

text \<open>What the owner has left behind it stays done.\<close>

definition tidy :: "'w thread_code \<Rightarrow> 'w life \<Rightarrow> bool" where
  "tidy T s \<longleftrightarrow>
     (let n = owner_left (lf_owner s); m = lf_members s in
       (n < 4 \<longrightarrow> \<not> ws_producer_joinable m) \<and> (n < 3 \<longrightarrow> \<not> ws_consumer_joinable m)
       \<and> (n < 2 \<longrightarrow> sws_upstream m = None \<and> ws_producer_client m = None)
       \<and> (n < 1 \<longrightarrow> sws_receiver m = None \<and> ws_consumer_client m = None)
       \<and> (n = 5 \<longrightarrow> streaming T) \<and> (sws_receiver m \<noteq> None \<longrightarrow> streaming T))"

lemma thread_moves_early:
  "producer_step E T wk s = Some t \<Longrightarrow> phases T s \<Longrightarrow> 4 \<le> owner_left (lf_owner s)"
  "consumer_step E T wk s = Some t \<Longrightarrow> phases T s \<Longrightarrow> 3 \<le> owner_left (lf_owner s)"
  using producer_control [of E T wk s t] consumer_control [of E T wk s t] by (auto simp: phases_def Let_def not_less_eq_eq)

lemma consumer_joinables:
  assumes "consumer_step E T wk s = Some t"
  shows "ws_producer_joinable (lf_members t) = ws_producer_joinable (lf_members s)"
  using assms by (cases "lf_consumer s"; auto simp: consumer_step_def consumer_fails_def counted_def case_prod_unfold Let_def
      split: option.splits sum.splits)

lemma consumer_receiver:
  assumes "consumer_step E T wk s = Some t" "members_ready T s" "sws_receiver (lf_members s) \<noteq> None \<longrightarrow> streaming T"
  shows "sws_receiver (lf_members t) \<noteq> None \<longrightarrow> streaming T"
  using assms
  by (cases "lf_consumer s"; auto simp: consumer_step_def members_ready_def consumer_has_def consumer_fails_def counted_def
      case_prod_unfold Let_def split: option.splits sum.splits)

lemma closing_members [simp]:
  "sws_upstream (lf_members (close_producer E s)) = None" "ws_producer_client (lf_members (close_producer E s)) = None"
  "sws_receiver (lf_members (close_producer E s)) = sws_receiver (lf_members s)"
  "ws_producer_joinable (lf_members (close_producer E s)) = ws_producer_joinable (lf_members s)"
  "ws_consumer_joinable (lf_members (close_producer E s)) = ws_consumer_joinable (lf_members s)"
  "sws_upstream (lf_members (close_consumer E s)) = sws_upstream (lf_members s)"
  "ws_producer_client (lf_members (close_consumer E s)) = ws_producer_client (lf_members s)"
  "ws_consumer_client (lf_members (close_consumer E s)) = None"
  "sws_receiver (lf_members (close_consumer E s)) = sws_receiver (lf_members s)"
  "ws_producer_joinable (lf_members (close_consumer E s)) = ws_producer_joinable (lf_members s)"
  "ws_consumer_joinable (lf_members (close_consumer E s)) = ws_consumer_joinable (lf_members s)"
  by (simp_all add: close_producer_def close_consumer_def split: option.split)

lemma reset_members [simp]:
  "ws_producer_joinable (lf_members (reset_receiver E T s)) = ws_producer_joinable (lf_members s)"
  "ws_consumer_joinable (lf_members (reset_receiver E T s)) = ws_consumer_joinable (lf_members s)"
  "sws_receiver (lf_members s) \<noteq> None \<longrightarrow> streaming T \<Longrightarrow> sws_receiver (lf_members (reset_receiver E T s)) = None"
  by (auto simp: reset_receiver_def streaming_def case_prod_unfold Let_def split: consumer_code.splits option.splits)

lemma tidy_owner: "owner_step E T s = Some t \<Longrightarrow> tidy T s \<Longrightarrow> tidy T t"
  by (cases "lf_owner s") (auto simp: tidy_def Let_def owner_step_def close_receiver_frame split: option.splits if_splits)

lemma tidy_step:
  assumes "worker_step E T wk s t" "life_inv T s" "tidy T s"
  shows "tidy T t"
  using assms(1)
proof cases
  case owner_moves
  then show ?thesis using assms(3) by (rule tidy_owner)
next
  case producer_moves
  then show ?thesis
    using assms(2,3) producer_control [OF producer_moves] producer_frame [OF producer_moves] thread_moves_early(1) [OF producer_moves]
    by (simp add: tidy_def life_inv_def Let_def)
next
  case consumer_moves
  have "sws_receiver (lf_members t) \<noteq> None \<longrightarrow> streaming T"
    using consumer_receiver [OF consumer_moves] assms(2,3) by (simp add: tidy_def life_inv_def Let_def)
  moreover have "3 \<le> owner_left (lf_owner s)" "lf_owner t = lf_owner s"
    using assms(2) thread_moves_early(2) [OF consumer_moves] consumer_control [OF consumer_moves] by (simp_all add: life_inv_def)
  ultimately show ?thesis
    using assms(3) consumer_joinables [OF consumer_moves] by (simp add: tidy_def Let_def)
qed

lemma tidy_reachable: "(worker_step E T wk)\<^sup>*\<^sup>* (life_new w) s \<Longrightarrow> tidy T s"
proof (induction rule: rtranclp_induct)
  case base
  then show ?case by (simp add: tidy_def life_new_def)
next
  case (step s t)
  show ?case by (rule tidy_step [OF step(2) life_reachable [OF step(1)] step(3)])
qed

text \<open>C12. Stopping a worker ends, whatever the broker answers, whatever state its threads are in and however the
  scheduler picks them: once the flag is cleared at most eighteen more steps are possible, a step is
  possible until the owner is done, and then both threads have returned and been joined, every member is empty,
  and each client that a thread had stored has been closed, or handed to the detached thread, exactly
  once.\<close>

theorem worker_Stop_ends:
  assumes "(worker_step E T wk)\<^sup>*\<^sup>* (life_new w) s" "lf_owner s \<notin> {O_new, O_spawn_first, O_spawn_second, O_started}"
  shows "((worker_step E T wk ^^ n) s t \<longrightarrow> n \<le> 18)
    \<and> ((worker_step E T wk)\<^sup>*\<^sup>* s t \<and> (\<nexists>u. worker_step E T wk t u) \<longrightarrow>
       lf_owner t = O_stopped \<and> lf_producer t = P_returned \<and> lf_consumer t = C_returned
       \<and> lf_members t = \<lparr>ws_producer_joinable = False, ws_consumer_joinable = False, ws_producer_client = None,
            ws_consumer_client = None, sws_upstream = None, sws_receiver = None\<rparr>
       \<and> logged (Client_stored Producer) t = logged (Client_closed Producer) t + logged Client_detached t
       \<and> logged (Client_stored Consumer) t = logged (Client_closed Consumer) t
       \<and> logged (Client_stored Producer) t \<le> 1 \<and> logged (Client_stored Consumer) t \<le> 1)"
proof (intro conjI impI)
  have s: "life_inv T s" "stopping s" using life_reachable [OF assms(1)] assms(2) by (simp_all add: stopping_def)
  show "n \<le> 18" if "(worker_step E T wk ^^ n) s t"
    using stopping_run [OF that s] steps_left_bound [OF s(2)] by linarith
  assume t: "(worker_step E T wk)\<^sup>*\<^sup>* s t \<and> (\<nexists>u. worker_step E T wk t u)"
  then have r: "(worker_step E T wk)\<^sup>*\<^sup>* (life_new w) t" using assms(1) by (meson rtranclp_trans)
  then have i: "life_inv T t" and d: "tidy T t" by (rule life_reachable, rule tidy_reachable)
  from i t have o: "lf_owner t = O_stopped" using someone_moves by blast
  then show "lf_owner t = O_stopped" "lf_producer t = P_returned" "lf_consumer t = C_returned"
    using i by (simp_all add: life_inv_def phases_def)
  show m: "lf_members t = \<lparr>ws_producer_joinable = False, ws_consumer_joinable = False, ws_producer_client = None,
      ws_consumer_client = None, sws_upstream = None, sws_receiver = None\<rparr>"
    using d o by (intro StreamWorkerState.equality) (simp_all add: tidy_def Let_def)
  show "logged (Client_stored Producer) t = logged (Client_closed Producer) t + logged Client_detached t"
    "logged (Client_stored Consumer) t = logged (Client_closed Consumer) t"
    "logged (Client_stored Producer) t \<le> 1" "logged (Client_stored Consumer) t \<le> 1"
    using i m by (simp_all add: life_inv_def producer_accounted_def consumer_accounted_def)
qed

section \<open>Who touches which member\<close>

text \<open>The client, upstream and receiver members are plain pointers without a lock.  An access is a member
  and whether it is written; a race is two threads whose next steps access the same member, one of
  them writing.  While a subscription is open, its reader thread may call a callback that reads the
  consuming client.\<close>

datatype member = Mem_producer_client | Mem_consumer_client | Mem_upstream | Mem_receiver

type_synonym accesses = "(member \<times> bool) list"

definition owner_accesses :: "owner_pc \<Rightarrow> accesses" where
  "owner_accesses pc =
     (case pc of
        O_close_receiver \<Rightarrow> [(Mem_receiver, False)]
      | O_close_producer \<Rightarrow> [(Mem_upstream, True), (Mem_producer_client, True)]
      | O_close_consumer \<Rightarrow> [(Mem_receiver, True), (Mem_consumer_client, True)]
      | _ \<Rightarrow> [])"

definition producer_accesses :: "'w thread_code \<Rightarrow> 'w producer_pc \<Rightarrow> accesses" where
  "producer_accesses T pc =
     (case pc of
        P_store_client _ \<Rightarrow> [(Mem_producer_client, True)]
      | P_open \<Rightarrow> [(Mem_producer_client, False)]
      | P_store_upstream _ \<Rightarrow> [(Mem_upstream, True)]
      | P_set_callbacks \<Rightarrow> [(Mem_upstream, False)]
      | P_send _ _ \<Rightarrow> [(case tc_producer T of Sends _ \<Rightarrow> Mem_producer_client | Streams _ _ \<Rightarrow> Mem_upstream, False)]
      | _ \<Rightarrow> [])"

definition consumer_accesses :: "'w thread_code \<Rightarrow> 'w consumer_pc \<Rightarrow> accesses" where
  "consumer_accesses T pc =
     (let subscribed = (case tc_consumer T of Subscribes _ \<Rightarrow> [(Mem_consumer_client, False)] | _ \<Rightarrow> [])
      in (case pc of
            C_store_client _ \<Rightarrow> [(Mem_consumer_client, True)]
          | C_open \<Rightarrow> [(Mem_consumer_client, False)]
          | C_store_receiver _ \<Rightarrow> [(Mem_receiver, True)]
          | C_test _ \<Rightarrow> subscribed
          | C_work _ \<Rightarrow> (case tc_consumer T of Polls_stream _ \<Rightarrow> [(Mem_receiver, False)] | _ \<Rightarrow> [(Mem_consumer_client, False)])
          | C_cancel _ \<Rightarrow> subscribed
          | _ \<Rightarrow> []))"

definition conflict :: "accesses \<Rightarrow> accesses \<Rightarrow> bool" where
  "conflict xs ys = list_ex (\<lambda>(m, wr). list_ex (\<lambda>(m', wr'). m = m' \<and> (wr \<or> wr')) ys) xs"

definition racy :: "'w thread_code \<Rightarrow> 'w life \<Rightarrow> bool" where
  "racy T s =
     (let ow = owner_accesses (lf_owner s); p = producer_accesses T (lf_producer s); c = consumer_accesses T (lf_consumer s)
      in conflict ow p \<or> conflict ow c \<or> conflict p c)"

lemma conflict_nil [simp]: "\<not> conflict [] ys" "\<not> conflict xs []"
  by (simp_all add: conflict_def list_ex_iff)

lemma threads_never_conflict: "\<not> conflict (producer_accesses T p) (consumer_accesses T c)"
  by (cases p; cases c) (auto simp: conflict_def producer_accesses_def consumer_accesses_def Let_def split: producer_code.split consumer_code.split)

lemma owner_alone:
  assumes "phases T s" "tidy T s" "\<not> streaming T"
  shows "owner_accesses (lf_owner s) = [] \<or> producer_accesses T (lf_producer s) = [] \<and> consumer_accesses T (lf_consumer s) = []"
  using assms
  by (cases "lf_owner s")
    (simp_all add: owner_accesses_def producer_accesses_def consumer_accesses_def phases_def tidy_def Let_def)

text \<open>C16. In five of the six workers no two threads ever race for a member: each thread stores and uses its own,
  and the owner touches them only after both joins.\<close>

theorem worker_members_race_free:
  assumes "T \<in> {EventsWorker_Start, EventsStoreWorker_Start, QueueSimpleWorker_Start, CommandsWorker_Start, QueriesWorker_Start}"
    and "(worker_step E T wk)\<^sup>*\<^sup>* (life_new w) s"
  shows "\<not> racy T s"
proof -
  have "\<not> streaming T"
    using assms(1) by (auto simp: streaming_def EventsWorker_Start_def EventsStoreWorker_Start_def QueueSimpleWorker_Start_def
        CommandsWorker_Start_def QueriesWorker_Start_def)
  then have "owner_accesses (lf_owner s) = [] \<or> producer_accesses T (lf_producer s) = [] \<and> consumer_accesses T (lf_consumer s) = []"
    using life_reachable [OF assms(2)] by (intro owner_alone tidy_reachable [OF assms(2)]) (simp_all add: life_inv_def)
  then show ?thesis using threads_never_conflict by (auto simp: racy_def Let_def)
qed


text \<open>C39. The stream worker is the sixth.  Its \<^verbatim>\<open>Stop\<close> looks at the receiver before the join, while the consuming
  thread may be about to store it: whenever connecting and opening succeed, a race on the receiver
  member is reachable.\<close>

theorem stream_worker_races:
  assumes "run_state (create_client E wk ''-qstream-consumer'') w = (Inr c, w1)"
    and "run_state (NewQueueDownstreamReceiver c {}) w1 = ((Inr r, live), w2)"
  shows "\<exists>s. (worker_step E (QueueStreamWorker_Start uops tally dops) wk)\<^sup>*\<^sup>* (life_new w) s
    \<and> racy (QueueStreamWorker_Start uops tally dops) s
    \<and> lf_owner s = O_close_receiver \<and> lf_consumer s = C_store_receiver r"
proof -
  let ?T = "QueueStreamWorker_Start uops tally dops"
  define s1 where "s1 = (life_new w)\<lparr>lf_running := True, lf_owner := O_spawn_first\<rparr>"
  define s2 where "s2 = (spawn True s1)\<lparr>lf_owner := O_spawn_second\<rparr>"
  define s3 where "s3 = (spawn False s2)\<lparr>lf_owner := O_started\<rparr>"
  define s4 where "s4 = s3\<lparr>lf_world := w1, lf_consumer := C_store_client c\<rparr>"
  define s5 where "s5 = s4\<lparr>lf_members := (lf_members s4)\<lparr>ws_consumer_client := Some c\<rparr>, lf_consumer := C_open,
    lf_log := lf_log s4 @ [Client_stored Consumer]\<rparr>"
  define s6 where "s6 = s5\<lparr>lf_world := w2, lf_live := live, lf_consumer := C_store_receiver r\<rparr>"
  define s7 where "s7 = s6\<lparr>lf_running := False, lf_owner := O_close_receiver\<rparr>"
  note states = s1_def s2_def s3_def s4_def s5_def s6_def s7_def
  have T: "tc_consumer ?T = Polls_stream dops" "streaming ?T" "\<not> tc_consumer_first ?T" "tc_delay ?T = None"
      "tc_consumer_suffix ?T = ''-qstream-consumer''"
    by (simp_all add: QueueStreamWorker_Start_def streaming_def)
  have "worker_step E ?T wk (life_new w) s1" by (rule owner_moves) (simp add: owner_step_def s1_def life_new_def)
  moreover have "worker_step E ?T wk s1 s2" by (rule owner_moves) (simp add: owner_step_def s2_def s1_def T)
  moreover have "worker_step E ?T wk s2 s3" by (rule owner_moves) (simp add: owner_step_def s3_def s2_def T)
  moreover have "worker_step E ?T wk s3 s4" using assms(1)
    by (intro consumer_moves) (simp add: consumer_step_def spawn_def states life_new_def T)
  moreover have "worker_step E ?T wk s4 s5" by (rule consumer_moves) (simp add: consumer_step_def s5_def s4_def)
  moreover have "worker_step E ?T wk s5 s6" using assms(2)
    by (intro consumer_moves) (simp add: consumer_step_def consumer_open_def spawn_def states life_new_def T)
  moreover have "worker_step E ?T wk s6 s7" by (rule owner_moves) (simp add: owner_step_def states T)
  ultimately have "(worker_step E ?T wk)\<^sup>*\<^sup>* (life_new w) s7" by (meson rtranclp.rtrancl_refl rtranclp.rtrancl_into_rtrancl)
  moreover have "racy ?T s7"
    by (simp add: racy_def s7_def s6_def owner_accesses_def consumer_accesses_def conflict_def T Let_def)
  ultimately show ?thesis by (intro exI [of _ s7]) (simp add: s7_def s6_def)
qed

section \<open>The owner's steps and Stop\<close>

text \<open>Once both threads of one of the five workers have returned, the remaining steps of the owner are the function
  \<open>Worker_Stop\<close> of \<^verbatim>\<open>Burnin_Workers\<close>, with joins that yield the clients in the members.\<close>

lemma owner_steps_are_Worker_Stop:
  assumes "lf_owner s = O_join_producer" "lf_producer s = P_returned" "lf_consumer s = C_returned"
    and "\<not> streaming T" "sws_upstream (lf_members s) = None"
    and "\<And>b. be_store_running E b = ret ()"
    and "\<And>p. be_join E p = ret (if p then ws_producer_client (lf_members s) else ws_consumer_client (lf_members s))"
  shows "\<exists>t. (worker_step E T wk ^^ 4) s t \<and> lf_owner t = O_stopped
    \<and> run_state (Worker_Stop E (WorkerState.truncate (lf_members s))) (lf_world s) = (WorkerState.truncate (lf_members t), lf_world t)"
proof -
  define s1 where "s1 = s\<lparr>lf_members := (lf_members s)\<lparr>ws_producer_joinable := False\<rparr>, lf_owner := O_join_consumer\<rparr>"
  define s2 where "s2 = s1\<lparr>lf_members := (lf_members s1)\<lparr>ws_consumer_joinable := False\<rparr>, lf_owner := O_close_producer\<rparr>"
  define s3 where "s3 = (close_producer E s2)\<lparr>lf_owner := O_close_consumer\<rparr>"
  define t where "t = (close_consumer E s3)\<lparr>lf_owner := O_stopped\<rparr>"
  note states = s1_def s2_def s3_def t_def
  have r: "reset_receiver E T s3 = s3" using assms(4) by (auto simp: reset_receiver_def streaming_def split: consumer_code.splits)
  have "worker_step E T wk s s1" using assms by (intro owner_moves) (simp add: owner_step_def s1_def)
  moreover have "worker_step E T wk s1 s2" using assms by (intro owner_moves) (simp add: owner_step_def states)
  moreover have "worker_step E T wk s2 s3" using assms by (intro owner_moves) (simp add: owner_step_def states)
  moreover have "worker_step E T wk s3 t" using r by (intro owner_moves) (simp add: owner_step_def t_def s3_def)
  ultimately have "(worker_step E T wk ^^ 4) s t" by (auto simp: eval_nat_numeral)
  moreover have "run_state (Worker_Stop E (WorkerState.truncate (lf_members s))) (lf_world s) = (WorkerState.truncate (lf_members t), lf_world t)"
    using assms(5-7)
    by (cases "ws_producer_client (lf_members s)"; cases "ws_consumer_client (lf_members s)")
      (simp_all add: states Worker_Stop_def join_if_def close_if_def close_producer_def close_consumer_def WorkerState.defs case_prod_unfold)
  ultimately show ?thesis by (auto simp: t_def)
qed

section \<open>Concrete lives\<close>

text \<open>The events worker that is stopped before either thread has connected.\<close>

definition stopped_early :: "nat life" where
  "stopped_early = (spawn True (spawn False (life_new 0)))\<lparr>lf_owner := O_join_producer\<rparr>"

lemma stopped_early_reachable: "(worker_step clock_env EventsWorker_Start sample_worker)\<^sup>*\<^sup>* (life_new 0) stopped_early"
proof -
  let ?T = "EventsWorker_Start :: nat thread_code"
  define s1 where "s1 = (life_new (0 :: nat))\<lparr>lf_running := True, lf_owner := O_spawn_first\<rparr>"
  define s2 where "s2 = (spawn False s1)\<lparr>lf_owner := O_spawn_second\<rparr>"
  define s3 where "s3 = (spawn True s2)\<lparr>lf_owner := O_started\<rparr>"
  have "worker_step clock_env ?T sample_worker (life_new 0) s1" by (rule owner_moves) (simp add: owner_step_def s1_def life_new_def)
  moreover have "worker_step clock_env ?T sample_worker s1 s2"
    by (rule owner_moves) (simp add: owner_step_def s2_def s1_def EventsWorker_Start_def)
  moreover have "worker_step clock_env ?T sample_worker s2 s3"
    by (rule owner_moves) (simp add: owner_step_def s3_def s2_def EventsWorker_Start_def)
  moreover have "worker_step clock_env ?T sample_worker s3 stopped_early"
    by (rule owner_moves) (simp add: owner_step_def s3_def s2_def s1_def stopped_early_def spawn_def life_new_def
        EventsWorker_Start_def streaming_def)
  ultimately show ?thesis by (meson rtranclp.rtrancl_refl rtranclp.rtrancl_into_rtrancl)
qed

theorem worker_Stop_ends_witness:
  "\<exists>t. (worker_step clock_env EventsWorker_Start sample_worker)\<^sup>*\<^sup>* stopped_early t
     \<and> lf_owner t = O_stopped \<and> lf_producer t = P_returned \<and> lf_consumer t = C_returned
     \<and> logged (Client_stored Consumer) t = logged (Client_closed Consumer) t"
proof -
  have o: "lf_owner stopped_early = O_join_producer" by (simp add: stopped_early_def)
  then have "stopping stopped_early" by (simp add: stopping_def)
  then obtain t where "(worker_step clock_env EventsWorker_Start sample_worker)\<^sup>*\<^sup>* stopped_early t"
      "\<nexists>u. worker_step clock_env EventsWorker_Start sample_worker t u"
    using last_step [OF life_reachable [OF stopped_early_reachable]] by blast
  then show ?thesis using worker_Stop_ends [OF stopped_early_reachable] o by (intro exI [of _ t]) simp
qed

theorem worker_members_race_free_witness: "\<not> racy EventsWorker_Start stopped_early"
  by (rule worker_members_race_free [OF _ stopped_early_reachable]) simp

lemma sample_worker_options:
  "worker_options sample_worker suffix = ClientOptions_default\<lparr>co_client_id := ''cpp-burnin'' @ suffix\<rparr>"
proof -
  have "nat_to_string 50000 = ''50000''" by (simp add: nat_to_string.simps digit_char_def char_of_def bit_0)
  then have "set_address ''localhost:50000'' opts = opts\<lparr>co_host := ''localhost'', co_port := 50000\<rparr>" for opts :: "'a ClientOptions"
    using set_address_text [of 50000 "''localhost''" opts] by simp
  then show ?thesis by (simp add: worker_options_def sample_worker_def set_client_id_def ClientOptions_default_def)
qed

definition sample_options :: "string \<Rightarrow> nat ClientOptions" where
  "sample_options suffix = ClientOptions_default\<lparr>co_client_id := ''cpp-burnin'' @ suffix\<rparr>"

lemma sample_options_simps:
  "ok (Validate (sample_options s))" "co_tls_config (sample_options s) = TlsConfig_default" "co_client_id (sample_options s) \<noteq> []"
  "co_wait_for_ready (sample_options s)" "co_check_connection (sample_options s)" "co_auth_token (sample_options s) = []"
  "co_credential_provider (sample_options s) = None"
  by (simp_all add: sample_options_def Validate_ok_iff ClientOptions_default_def RetryPolicy_default_def)

lemma sample_worker_connects:
  "\<exists>c w. run_state (create_client clock_env sample_worker suffix) 0 = (Inr c, w) \<and> \<not> cl_closed c
   \<and> \<not> gt_closed (cl_transport c) \<and> gt_opts (cl_transport c) = sample_options suffix \<and> gt_stub (cl_transport c) = counting_stub"
  unfolding create_client_def Client_Create_def sample_worker_options sample_options_def [symmetric]
  by (simp add: clock_env_def with_client_id_def create_from_def GrpcTransport_Create_run Connect_run sample_env_def Let_def
      BuildChannelCredentials_def sample_options_simps TlsConfig_default_def case_prod_unfold assemble_client_def Client_Ping_def
      CheckClosed_def GrpcTransport_Ping_def GrpcTransport_CheckClosed_def ApplyAuth_def InjectAuthToken_def counting_stub_def
      count_call_def)

theorem stream_worker_races_witness:
  "\<forall>uops tally dops. \<exists>s. (worker_step clock_env (QueueStreamWorker_Start uops tally dops) sample_worker)\<^sup>*\<^sup>* (life_new 0) s
    \<and> racy (QueueStreamWorker_Start uops tally dops) s"
proof (intro allI)
  fix uops tally dops
  obtain c w where c: "run_state (create_client clock_env sample_worker ''-qstream-consumer'') 0 = (Inr c, w)" "\<not> cl_closed c"
    "\<not> gt_closed (cl_transport c)" "gt_opts (cl_transport c) = sample_options ''-qstream-consumer''"
    "gt_stub (cl_transport c) = counting_stub"
    using sample_worker_connects by blast
  then obtain r live w2 where "run_state (NewQueueDownstreamReceiver c {}) w = ((Inr r, live), w2)"
    by (simp add: NewQueueDownstreamReceiver_def OpenQueueDownstream_def CheckClosed_def GrpcTransport_CheckClosed_def ApplyAuth_def
        InjectAuthToken_def sample_options_simps counting_stub_def count_call_def Let_def case_prod_unfold)
  then show "\<exists>s. (worker_step clock_env (QueueStreamWorker_Start uops tally dops) sample_worker)\<^sup>*\<^sup>* (life_new 0) s
    \<and> racy (QueueStreamWorker_Start uops tally dops) s"
    using stream_worker_races [OF c(1)] by blast
qed

end
