(* ===== verification/Example_Programs.thy ===== *)
theory Example_Programs
  imports Queue_Stream
begin

text \<open>
  The example programs of the repository that use the client from one thread only (examples/connection,
  examples/tls, examples/error_handling/connection_error, examples/management, examples/commands/command_timeout; the
  queue examples are in \<^verbatim>\<open>Example_Queues\<close>).  A program acts on the world and on its output, a list of lines
  marked \<open>True\<close> for \<^verbatim>\<open>std::cout\<close> and \<open>False\<close> for \<^verbatim>\<open>std::cerr\<close>, and ends with an exit code or with
  \<^verbatim>\<open>std::terminate\<close> (an exception escapes \<^verbatim>\<open>main\<close> or a destructor), or never, waiting for a thread.  Every return runs the destructors of the locals: first those declared
  after the client (\<open>inner\<close>), then that of the client, which closes it.
\<close>

section \<open>The frame of a program\<close>

type_synonym console = "(bool \<times> string) list"

datatype outcome = Exits int | Aborts | Blocks

type_synonym 'w main = "('w \<times> console, outcome) state"

record 'w example_env =
  ex_grpc :: "'w grpc_env"
  ex_fs :: filesystem
  ex_rand64 :: "('w, 64 word) state"
  ex_contexts :: "'w context_ops"
  ex_getenv :: "string \<Rightarrow> string option"
  ex_sleep_ms :: "int \<Rightarrow> ('w, unit) state"
  ex_downstream :: "'w downstream_ops"

definition sdk :: "('w, 'a) state \<Rightarrow> ('w \<times> console, 'a) state" where
  "sdk m = State (\<lambda>(w, out). let (a, w') = run_state m w in (a, (w', out)))"

definition cout :: "string \<Rightarrow> ('w \<times> console, unit) state" where
  "cout line = State (\<lambda>(w, out). ((), (w, out @ [(True, line)])))"

definition cerr :: "string \<Rightarrow> ('w \<times> console, unit) state" where
  "cerr line = State (\<lambda>(w, out). ((), (w, out @ [(False, line)])))"

fun cout_all :: "string list \<Rightarrow> ('w \<times> console, unit) state" where
  "cout_all [] = ret ()"
| "cout_all (line # lines) = do { _ \<leftarrow> cout line; cout_all lines }"

definition example_options :: "string \<Rightarrow> 'w ClientOptions" where
  "example_options client_id = set_client_id client_id (set_address_host_port ''localhost'' 50000 ClientOptions_default)"

definition failed_to_create :: "string \<Rightarrow> 'w main" where
  "failed_to_create msg = do { _ \<leftarrow> cerr (''[ERROR] Failed to create client: '' @ msg); ret (Exits 1) }"

definition with_client :: "'w example_env \<Rightarrow> 'w ClientOptions \<Rightarrow> (string \<Rightarrow> 'w main) \<Rightarrow> ('w Client \<Rightarrow> 'w main) \<Rightarrow> 'w main" where
  "with_client E options on_failure k = do {
     client_or \<leftarrow> sdk (Client_Create (ex_grpc E) (ex_fs E) (ex_rand64 E) (ex_contexts E) options);
     (case client_or of
        Inl s \<Rightarrow> on_failure (st_message s)
      | Inr c \<Rightarrow> k c)
   }"

text \<open>\<open>leave\<close> is a return from main: an exception from the destructor of the client terminates the program.\<close>

definition leave :: "'w example_env \<Rightarrow> 'w Client \<Rightarrow> ('w \<times> console, unit) state \<Rightarrow> int \<Rightarrow> 'w main" where
  "leave E c inner n = do {
     _ \<leftarrow> inner;
     (closed, _) \<leftarrow> sdk (Client_Close (ex_contexts E) c);
     ret (case closed of Inl _ \<Rightarrow> Aborts | Inr _ \<Rightarrow> Exits n)
   }"

definition error_exit :: "'w example_env \<Rightarrow> 'w Client \<Rightarrow> ('w \<times> console, unit) state \<Rightarrow> string \<Rightarrow> 'w main" where
  "error_exit E c inner line = do { _ \<leftarrow> cerr line; leave E c inner 1 }"

definition checked :: "'w example_env \<Rightarrow> 'w Client \<Rightarrow> ('w \<times> console, unit) state \<Rightarrow> string \<Rightarrow> 'a StatusOr \<Rightarrow> ('a \<Rightarrow> 'w main) \<Rightarrow> 'w main" where
  "checked E c inner what r k =
     (case r of
        Inl s \<Rightarrow> error_exit E c inner (what @ st_message s)
      | Inr a \<Rightarrow> k a)"

definition close_client :: "'w example_env \<Rightarrow> 'w Client \<Rightarrow> ('w \<times> console, unit) state \<Rightarrow> string list \<Rightarrow> 'w main" where
  "close_client E c inner final_lines = do {
     (close_status, c') \<leftarrow> sdk (Client_Close (ex_contexts E) c);
     (case close_status of
        Inl _ \<Rightarrow> ret Aborts
      | Inr s \<Rightarrow>
          if \<not> ok s then error_exit E c' inner (''[ERROR] Close failed: '' @ st_message s)
          else do { _ \<leftarrow> cout_all final_lines; leave E c' inner 0 })
   }"

text \<open>A status that is reported, but does not end the program.\<close>

definition report :: "Status \<Rightarrow> string \<Rightarrow> string \<Rightarrow> ('w \<times> console, unit) state" where
  "report s what success = (if \<not> ok s then cerr (what @ st_message s) else cout success)"

section \<open>Connections\<close>

definition ping_then :: "'w example_env \<Rightarrow> 'w Client \<Rightarrow> (ServerInfo \<Rightarrow> 'w main) \<Rightarrow> 'w main" where
  "ping_then E c k = do {
     ping_result \<leftarrow> sdk (Client_Ping c);
     checked E c (ret ()) ''[ERROR] Ping failed: '' ping_result k
   }"

definition connection_connect_main :: "'w example_env \<Rightarrow> 'w main" where
  "connection_connect_main E = do {
     _ \<leftarrow> cout ''[1] Connecting to localhost:50000'';
     with_client E (example_options ''cpp-connection-connect-client'') failed_to_create (\<lambda>c.
       ping_then E c (\<lambda>info. do {
         _ \<leftarrow> cout (''[2] Connected successfully: host='' @ si_host info @ '' version='' @ si_version info
                @ '' uptime='' @ to_string (si_server_up_time_seconds info) @ ''s'');
         close_client E c (ret ()) [''[3] Client closed'']
       }))
   }"

definition connection_ping_main :: "'w example_env \<Rightarrow> 'w main" where
  "connection_ping_main E = do {
     _ \<leftarrow> cout ''[1] Connecting to localhost:50000'';
     with_client E (example_options ''cpp-connection-ping-client'') failed_to_create (\<lambda>c. do {
       _ \<leftarrow> cout ''[2] Client connected'';
       ping_then E c (\<lambda>info. do {
         _ \<leftarrow> cout (''[3] Ping OK: host='' @ si_host info @ '' version='' @ si_version info
                @ '' uptime='' @ to_string (si_server_up_time_seconds info) @ ''s'');
         close_client E c (ret ()) [''[4] Client closed'']
       })
     })
   }"

definition connection_close_main :: "'w example_env \<Rightarrow> 'w main" where
  "connection_close_main E = do {
     _ \<leftarrow> cout ''[1] Connecting to localhost:50000'';
     with_client E (example_options ''cpp-connection-close-client'') failed_to_create (\<lambda>c.
       ping_then E c (\<lambda>info. do {
         _ \<leftarrow> cout (''[2] Connected: host='' @ si_host info @ '' version='' @ si_version info);
         close_client E c (ret ()) [''[3] Client closed successfully'']
       }))
   }"

definition connection_custom_timeouts_main :: "'w example_env \<Rightarrow> 'w main" where
  "connection_custom_timeouts_main E = do {
     _ \<leftarrow> cout ''[1] Configuring custom timeouts'';
     let options = set_max_send_message_size (50 * 1024 * 1024) (set_max_receive_message_size (50 * 1024 * 1024)
           (set_drain_timeout 10000 (set_keepalive_timeout 10000 (set_keepalive_time 30000 (set_connection_timeout 15000
             (example_options ''cpp-connection-custom-timeouts-client''))))));
     _ \<leftarrow> cout ''[2] Connecting to localhost:50000'';
     with_client E options failed_to_create (\<lambda>c.
       ping_then E c (\<lambda>info. do {
         _ \<leftarrow> cout (''[3] Connected with custom timeouts: host='' @ si_host info @ '' version='' @ si_version info);
         close_client E c (ret ()) [''[4] Client closed'']
       }))
   }"

definition connection_token_auth_main :: "'w example_env \<Rightarrow> 'w main" where
  "connection_token_auth_main E = do {
     let token = (case ex_getenv E ''KUBEMQ_AUTH_TOKEN'' of Some t \<Rightarrow> t | None \<Rightarrow> ''your-auth-token-here'');
     _ \<leftarrow> cout ''[1] Connecting with auth token to localhost:50000'';
     with_client E (set_auth_token token (example_options ''cpp-connection-token-auth-client'')) failed_to_create (\<lambda>c.
       ping_then E c (\<lambda>info. do {
         _ \<leftarrow> cout (''[2] Connected with auth token. Server version: '' @ si_version info);
         close_client E c (ret ()) [''[3] Client closed'']
       }))
   }"

definition tls_tls_setup_main :: "'w example_env \<Rightarrow> 'w main" where
  "tls_tls_setup_main E = do {
     _ \<leftarrow> cout ''[1] Connecting with TLS to localhost:50000'';
     let tls = FromCertFile ''/path/to/ca.pem'';
     with_client E (set_tls_config tls (example_options ''cpp-tls-tls-setup-client''))
       (\<lambda>msg. do {
         _ \<leftarrow> cerr (''[ERROR] Failed to create client: '' @ msg);
         _ \<leftarrow> cout ''[INFO] Ensure the KubeMQ server has TLS enabled and the CA cert path is correct.'';
         ret (Exits 1)
       })
       (\<lambda>c. ping_then E c (\<lambda>info. do {
         _ \<leftarrow> cout (''[2] Connected with TLS. Server version: '' @ si_version info);
         close_client E c (ret ()) [''[3] Client closed'']
       }))
   }"

definition tls_mtls_setup_main :: "'w example_env \<Rightarrow> 'w main" where
  "tls_mtls_setup_main E = do {
     _ \<leftarrow> cout ''[1] Connecting with mTLS to localhost:50000'';
     let tls = FromMTLS ''/path/to/client.pem'' ''/path/to/client-key.pem'' ''/path/to/ca.pem'';
     with_client E (set_tls_config tls (example_options ''cpp-tls-mtls-setup-client''))
       (\<lambda>msg. do {
         _ \<leftarrow> cerr (''[ERROR] Failed to create client: '' @ msg);
         _ \<leftarrow> cout ''[INFO] Ensure the KubeMQ server has mTLS enabled and all cert paths are correct.'';
         ret (Exits 1)
       })
       (\<lambda>c. ping_then E c (\<lambda>info. do {
         _ \<leftarrow> cout (''[2] Connected with mTLS. Server version: '' @ si_version info);
         close_client E c (ret ()) [''[3] Client closed'']
       }))
   }"

text \<open>Here a failure to connect is the expected end, and a failed ping closes the client before the
  return.\<close>

definition connection_error_main :: "'w example_env \<Rightarrow> 'w main" where
  "connection_error_main E = do {
     _ \<leftarrow> cout ''[1] Attempting connection to non-existent server localhost:59999'';
     let options = set_connection_timeout 3000 (set_check_connection True
           (set_client_id ''cpp-error-handling-connection-error-client''
             (set_address_host_port ''localhost'' 59999 ClientOptions_default)));
     with_client E options
       (\<lambda>msg. do {
         _ \<leftarrow> cout (''[2] Connection failed (expected): '' @ msg);
         _ \<leftarrow> cout ''[3] Tip: Use set_check_connection(true) to detect unreachable servers at startup'';
         ret (Exits 0)
       })
       (\<lambda>c. do {
         ping_result \<leftarrow> sdk (Client_Ping c);
         (case ping_result of
            Inl s \<Rightarrow> do {
              _ \<leftarrow> cerr (''[ERROR] Ping failed: '' @ st_message s);
              (close_status, c') \<leftarrow> sdk (Client_Close (ex_contexts E) c);
              (case close_status of
                 Inl _ \<Rightarrow> ret Aborts
               | Inr cs \<Rightarrow> if \<not> ok cs then error_exit E c' (ret ()) (''[ERROR] Close failed: '' @ st_message cs)
                           else leave E c' (ret ()) 1)
            }
          | Inr info \<Rightarrow> do {
              _ \<leftarrow> cout (''[2] Connected (unexpected): host='' @ si_host info);
              close_client E c (ret ()) []
            })
       })
   }"

section \<open>Commands\<close>

definition command_timeout_main :: "'w example_env \<Rightarrow> 'w main" where
  "command_timeout_main E = do {
     _ \<leftarrow> cout ''[1] Connecting to localhost:50000'';
     with_client E (example_options ''cpp-commands-command-timeout-client'') failed_to_create (\<lambda>c. do {
       _ \<leftarrow> cout ''[2] Sending command to channel with no handler (2s timeout)'';
       cmd_result \<leftarrow> sdk (Command_Build (ex_rand64 E)
         (Command_SetTimeout 2000 (Command_SetBody ''will timeout''
           (Command_SetChannel ''cpp-commands.command_timeout'' Command_default))));
       checked E c (ret ()) ''[ERROR] Build command: '' cmd_result (\<lambda>cmd. do {
         resp_result \<leftarrow> sdk (Client_SendCommand (ex_rand64 E) c cmd);
         _ \<leftarrow> (case resp_result of
                Inl s \<Rightarrow> cout (''[3] Command timed out as expected: '' @ st_message s)
              | Inr _ \<Rightarrow> cout ''[3] Unexpected: command succeeded without a handler'');
         close_client E c (ret ()) [''[4] Client closed'']
       })
     })
   }"

section \<open>Channel management\<close>

definition create_channel_main :: "'w example_env \<Rightarrow> 'w main" where
  "create_channel_main E = do {
     _ \<leftarrow> cout ''[1] Connecting to localhost:50000'';
     with_client E (example_options ''cpp-management-create-channel-client'') failed_to_create (\<lambda>c. do {
       s \<leftarrow> sdk (CreateChannel (ex_rand64 E) c ''cpp-management.create_channel.events'' kChannelTypeEvents);
       _ \<leftarrow> report s ''[ERROR] CreateChannel events: '' ''[2] Created events channel: cpp-management.create_channel.events'';
       s \<leftarrow> sdk (CreateChannel (ex_rand64 E) c ''cpp-management.create_channel.queues'' kChannelTypeQueues);
       _ \<leftarrow> report s ''[ERROR] CreateChannel queues: '' ''[3] Created queue channel: cpp-management.create_channel.queues'';
       s \<leftarrow> sdk (CreateChannel (ex_rand64 E) c ''cpp-management.create_channel.es'' kChannelTypeEventsStore);
       _ \<leftarrow> report s ''[ERROR] CreateChannel events_store: '' ''[4] Created events store channel: cpp-management.create_channel.es'';
       s \<leftarrow> sdk (CreateEventsChannel (ex_rand64 E) c ''cpp-management.typed.events'');
       _ \<leftarrow> report s ''[ERROR] CreateEventsChannel: '' ''[5] Created events channel (typed): cpp-management.typed.events'';
       s \<leftarrow> sdk (CreateQueuesChannel (ex_rand64 E) c ''cpp-management.typed.queues'');
       _ \<leftarrow> report s ''[ERROR] CreateQueuesChannel: '' ''[6] Created queues channel (typed): cpp-management.typed.queues'';
       s \<leftarrow> sdk (CreateCommandsChannel (ex_rand64 E) c ''cpp-management.typed.commands'');
       _ \<leftarrow> report s ''[ERROR] CreateCommandsChannel: '' ''[7] Created commands channel (typed): cpp-management.typed.commands'';
       close_client E c (ret ()) [''[8] Client closed'']
     })
   }"

definition delete_channel_main :: "'w example_env \<Rightarrow> 'w main" where
  "delete_channel_main E = do {
     _ \<leftarrow> cout ''[1] Connecting to localhost:50000'';
     with_client E (example_options ''cpp-management-delete-channel-client'') failed_to_create (\<lambda>c. do {
       let channel_name = ''cpp-management.delete_channel.temp'';
       s \<leftarrow> sdk (CreateChannel (ex_rand64 E) c channel_name kChannelTypeEvents);
       _ \<leftarrow> report s ''[ERROR] CreateChannel: '' (''[2] Created channel: '' @ channel_name);
       s \<leftarrow> sdk (DeleteChannel (ex_rand64 E) c channel_name kChannelTypeEvents);
       _ \<leftarrow> report s ''[ERROR] DeleteChannel: '' (''[3] Deleted channel: '' @ channel_name);
       let typed_name = ''cpp-management.delete_channel.typed'';
       _ \<leftarrow> sdk (CreateEventsChannel (ex_rand64 E) c typed_name);
       s \<leftarrow> sdk (DeleteEventsChannel (ex_rand64 E) c typed_name);
       _ \<leftarrow> report s ''[ERROR] DeleteEventsChannel: '' (''[4] Deleted events channel (typed): '' @ typed_name);
       close_client E c (ret ()) [''[5] Client closed'']
     })
   }"

text \<open>Listing parses JSON; an exception that escapes it terminates the program.\<close>

definition listing :: "('w, exn + ChannelInfo list StatusOr) state \<Rightarrow> string \<Rightarrow> string \<Rightarrow> (ChannelInfo \<Rightarrow> string) \<Rightarrow> 'w main \<Rightarrow> 'w main" where
  "listing m what heading line k = do {
     channels_result \<leftarrow> sdk m;
     (case channels_result of
        Inl _ \<Rightarrow> ret Aborts
      | Inr (Inl s) \<Rightarrow> do { _ \<leftarrow> cerr (what @ st_message s); k }
      | Inr (Inr chs) \<Rightarrow> do {
          _ \<leftarrow> cout (heading @ nat_to_string (length chs) @ '' found'');
          _ \<leftarrow> cout_all (map line chs);
          k
        })
   }"

definition name_line :: "ChannelInfo \<Rightarrow> string" where
  "name_line ch = ''  - name='' @ ci_name ch"

definition active_line :: "ChannelInfo \<Rightarrow> string" where
  "active_line ch = ''  - name='' @ ci_name ch @ '' active='' @ (if ci_is_active ch then ''1'' else ''0'')"

definition list_channels_main :: "'j json_ops \<Rightarrow> 'w example_env \<Rightarrow> 'w main" where
  "list_channels_main J E = do {
     _ \<leftarrow> cout ''[1] Connecting to localhost:50000'';
     with_client E (example_options ''cpp-management-list-channels-client'') failed_to_create (\<lambda>c.
       listing (ListChannels J (ex_rand64 E) c kChannelTypeEvents []) ''[ERROR] ListChannels: ''
         ''[2] All events channels: '' active_line
       (listing (ListChannels J (ex_rand64 E) c kChannelTypeQueues ''cpp-'') ''[ERROR] ListChannels filtered: ''
         ''[3] Queue channels matching 'cpp-': '' name_line
       (listing (ListEventsChannels J (ex_rand64 E) c []) ''[ERROR] ListEventsChannels: ''
         ''[4] Events channels (typed): '' active_line
       (listing (ListQueuesChannels J (ex_rand64 E) c ''cpp-'') ''[ERROR] ListQueuesChannels: ''
         ''[5] Queue channels (typed, matching 'cpp-'): '' name_line
       (close_client E c (ret ()) [''[6] Client closed''])))))
   }"

section \<open>How the programs end\<close>

text \<open>A client whose connection callbacks are empty closes without an exception.\<close>

definition quiet_client :: "'w Client \<Rightarrow> bool" where
  "quiet_client c = (case gt_state_machine (cl_transport c) of None \<Rightarrow> True
     | Some sm \<Rightarrow> on_connected sm = None \<and> on_disconnected sm = None \<and> on_reconnecting sm = None
         \<and> on_reconnected sm = None \<and> on_closed sm = None)"

definition quiet_options :: "'w ClientOptions \<Rightarrow> bool" where
  "quiet_options co = (co_on_connected co = None \<and> co_on_disconnected co = None \<and> co_on_reconnecting co = None
     \<and> co_on_reconnected co = None \<and> co_on_closed co = None)"

text \<open>Whatever happens, a program appends to its output and returns 0 or 1: 1 only after it has reported an error
  on \<^verbatim>\<open>std::cerr\<close>, and 0 only with a last line on \<^verbatim>\<open>std::cout\<close> or none of its own.\<close>

definition error_line :: "bool \<times> string \<Rightarrow> bool" where
  "error_line l = (\<not> fst l \<and> take 8 (snd l) = ''[ERROR] '')"

definition orderly :: "'w main \<Rightarrow> bool" where
  "orderly prog \<longleftrightarrow>
     (\<forall>w out. \<exists>lines. snd (world_of prog (w, out)) = out @ lines
        \<and> (result_of prog (w, out) = Exits 0 \<or> result_of prog (w, out) = Exits 1 \<and> list_ex error_line lines))"

lemma console_run [simp]:
  "run_state (sdk m) (w, out) = (result_of m w, (world_of m w, out))"
  "run_state (cout l) (w, out) = ((), (w, out @ [(True, l)]))" "run_state (cerr l) (w, out) = ((), (w, out @ [(False, l)]))"
  by (simp_all add: sdk_def cout_def cerr_def case_prod_unfold Let_def)

lemma cout_all_run [simp]: "run_state (cout_all ls) (w, out) = ((), (w, out @ map (Pair True) ls))"
  by (induction ls arbitrary: out) simp_all

text \<open>Each building block is orderly when what follows it is; errors are reported with the prefix that makes
  them error lines.\<close>

named_theorems orderly_intros

lemma orderlyI:
  assumes "\<And>w out. \<exists>lines. snd (world_of p (w, out)) = out @ lines
    \<and> (result_of p (w, out) = Exits 0 \<or> result_of p (w, out) = Exits 1 \<and> list_ex error_line lines)"
  shows "orderly p"
  using assms by (simp add: orderly_def)

lemma orderly_after:
  assumes "orderly p" "\<exists>lines. snd (world_of m (w, out)) = out @ lines"
  shows "\<exists>lines. snd (world_of p (world_of m (w, out))) = out @ lines
    \<and> (result_of p (world_of m (w, out)) = Exits 0 \<or> result_of p (world_of m (w, out)) = Exits 1 \<and> list_ex error_line lines)"
proof -
  obtain l w' where m: "world_of m (w, out) = (w', out @ l)" using assms(2) by (metis prod.collapse)
  obtain lines where "snd (world_of p (w', out @ l)) = (out @ l) @ lines"
    "result_of p (w', out @ l) = Exits 0 \<or> result_of p (w', out @ l) = Exits 1 \<and> list_ex error_line lines"
    using assms(1) unfolding orderly_def by blast
  then show ?thesis unfolding m by (intro exI [of _ "l @ lines"]) auto
qed

lemma orderly_sdk [orderly_intros]: "(\<And>a. orderly (k a)) \<Longrightarrow> orderly (do { a \<leftarrow> sdk m; k a })"
  unfolding orderly_def by simp

text \<open>What a part of a program does to the console is to append to it.\<close>

definition prints :: "('w \<times> console, 'a) state \<Rightarrow> bool" where
  "prints m \<longleftrightarrow> (\<forall>w out. \<exists>lines. snd (world_of m (w, out)) = out @ lines)"

named_theorems prints_intros

lemma prints_basics [prints_intros]:
  "prints (ret a)" "prints (sdk q)" "prints (cout l)" "prints (cerr l)" "prints (cout_all ls)" "prints (report st what success)"
  by (simp_all add: prints_def report_def)

lemma prints_bind [prints_intros]:
  assumes "prints m" "\<And>a. prints (k a)"
  shows "prints (do { a \<leftarrow> m; k a })"
  unfolding prints_def
proof (intro allI)
  fix w out
  obtain l w' where m: "world_of m (w, out) = (w', out @ l)" using assms(1) unfolding prints_def by (metis prod.collapse)
  obtain lines where "snd (world_of (k (result_of m (w, out))) (w', out @ l)) = (out @ l) @ lines"
    using assms(2) unfolding prints_def by blast
  then show "\<exists>lines. snd (world_of (do { a \<leftarrow> m; k a }) (w, out)) = out @ lines" using m by (simp add: case_prod_unfold)
qed

lemma prints_branches [prints_intros]:
  "(\<And>x y. prints (f x y)) \<Longrightarrow> prints (case p of (x, y) \<Rightarrow> f x y)"
  "(\<And>a. prints (g a)) \<Longrightarrow> (\<And>b. prints (h b)) \<Longrightarrow> prints (case r of Inl a \<Rightarrow> g a | Inr b \<Rightarrow> h b)"
  "(b \<Longrightarrow> prints q) \<Longrightarrow> (\<not> b \<Longrightarrow> prints q') \<Longrightarrow> prints (if b then q else q')"
  by (auto split: prod.split sum.split)

lemma orderly_bind:
  assumes "prints m" "\<And>a. orderly (k a)"
  shows "orderly (do { a \<leftarrow> m; k a })"
proof (rule orderlyI)
  fix w out
  have "\<exists>lines. snd (world_of m (w, out)) = out @ lines" using assms(1) by (simp add: prints_def)
  then show "\<exists>lines. snd (world_of (do { a \<leftarrow> m; k a }) (w, out)) = out @ lines
    \<and> (result_of (do { a \<leftarrow> m; k a }) (w, out) = Exits 0
       \<or> result_of (do { a \<leftarrow> m; k a }) (w, out) = Exits 1 \<and> list_ex error_line lines)"
    using orderly_after [OF assms(2)] by (simp add: case_prod_unfold)
qed

lemma orderly_console [orderly_intros]:
  assumes "orderly p"
  shows "orderly (do { _ \<leftarrow> cout line; p })" "orderly (do { _ \<leftarrow> cout_all ls; p })"
    "orderly (do { _ \<leftarrow> report s what success; p })"
  by (intro orderly_bind prints_intros assms)+

lemma orderly_zero [orderly_intros]: "orderly (ret (Exits 0))"
  by (rule orderlyI) simp

text \<open>Closing a quiet client.\<close>

definition quiet_machine :: "'w StateMachine option \<Rightarrow> bool" where
  "quiet_machine m = (case m of None \<Rightarrow> True
     | Some sm \<Rightarrow> on_connected sm = None \<and> on_disconnected sm = None \<and> on_reconnecting sm = None
         \<and> on_reconnected sm = None \<and> on_closed sm = None)"

lemma quiet_client_machine: "quiet_client c = quiet_machine (gt_state_machine (cl_transport c))"
  by (simp add: quiet_client_def quiet_machine_def)

lemma quiet_transition:
  assumes "quiet_machine (Some sm)"
  obtains b sm' where "run_state (Transition to sm) w = ((Inr b, sm'), w)" "quiet_machine (Some sm')"
proof -
  have "\<exists>b sm'. run_state (Transition to sm) w = ((Inr b, sm'), w) \<and> quiet_machine (Some sm')"
    using assms by (cases to) (auto simp: Transition_def transition_step_def quiet_machine_def Let_def)
  then show thesis using that by blast
qed

lemma quiet_transport_close:
  assumes "quiet_machine (gt_state_machine t)"
  obtains t' w' where "run_state (GrpcTransport_Close t) w = ((Inr Status_ok, t'), w')" "quiet_machine (gt_state_machine t')"
proof (cases "gt_close_once t")
  case True
  then show thesis using assms that by (simp add: GrpcTransport_Close_def)
next
  case unclosed: False
  show thesis
  proof (cases "gt_state_machine t")
    case None
    show thesis by (rule that [of "t\<lparr>gt_closed := True, gt_close_once := True\<rparr>" w])
        (use unclosed None in \<open>simp_all add: GrpcTransport_Close_def quiet_machine_def\<close>)
  next
    case sm: (Some sm)
    obtain b sm' where step: "run_state (Transition kClosed sm) w = ((Inr b, sm'), w)" "quiet_machine (Some sm')"
      using assms sm by (auto intro: quiet_transition)
    show thesis by (rule that [of "t\<lparr>gt_closed := True, gt_state_machine := Some sm', gt_close_once := True\<rparr>" w])
        (use unclosed sm step in \<open>simp_all add: GrpcTransport_Close_def Let_def\<close>)
  qed
qed

lemma quiet_close:
  assumes "quiet_client c"
  obtains c' w' where "run_state (Client_Close ops c) w = ((Inr Status_ok, c'), w')" "quiet_client c'"
proof (cases "cl_close_once c")
  case True
  then show thesis using assms that by (simp add: Client_Close_def)
next
  case False
  let ?w = "world_of (DrainAll ops (co_drain_timeout (cl_opts c)) (c\<lparr>cl_closed := True\<rparr>)) w"
  obtain t' w' where "run_state (GrpcTransport_Close (cl_transport c)) ?w = ((Inr Status_ok, t'), w')" "quiet_machine (gt_state_machine t')"
    using assms by (auto simp: quiet_client_machine intro: quiet_transport_close)
  then show thesis using False that by (simp add: Client_Close_def case_prod_unfold DrainAll_fields quiet_client_machine)
qed

lemma leave_run:
  assumes "quiet_client c" "prints inner"
  shows "\<exists>w' lines. run_state (leave E c inner n) (w, out) = (Exits n, (w', out @ lines))"
proof -
  obtain lines w1 where i: "world_of inner (w, out) = (w1, out @ lines)"
    using assms(2) unfolding prints_def by (metis prod.collapse)
  obtain c' w' where "run_state (Client_Close (ex_contexts E) c) w1 = ((Inr Status_ok, c'), w')"
    by (rule quiet_close [OF assms(1)])
  then show ?thesis using i by (simp add: leave_def case_prod_unfold)
qed

lemma orderly_leave:
  assumes "quiet_client c" "prints inner"
  shows "orderly (leave E c inner 0)"
proof (rule orderlyI)
  fix w out
  obtain w' lines where "run_state (leave E c inner 0) (w, out) = (Exits 0, (w', out @ lines))"
    using leave_run [OF assms] by blast
  then show "\<exists>lines. snd (world_of (leave E c inner 0) (w, out)) = out @ lines
    \<and> (result_of (leave E c inner 0) (w, out) = Exits 0 \<or> result_of (leave E c inner 0) (w, out) = Exits 1 \<and> list_ex error_line lines)"
    by simp
qed

lemma orderly_error_exit:
  assumes "quiet_client c" "prints inner" "error_line (False, line)"
  shows "orderly (error_exit E c inner line)"
proof (rule orderlyI)
  fix w out
  obtain w' lines where "run_state (leave E c inner 1) (w, out @ [(False, line)]) = (Exits 1, (w', (out @ [(False, line)]) @ lines))"
    using leave_run [OF assms(1,2)] by blast
  then show "\<exists>lines. snd (world_of (error_exit E c inner line) (w, out)) = out @ lines
    \<and> (result_of (error_exit E c inner line) (w, out) = Exits 0
       \<or> result_of (error_exit E c inner line) (w, out) = Exits 1 \<and> list_ex error_line lines)"
    using assms(3) by (simp add: error_exit_def)
qed

text \<open>What an error is announced with is a constant of the program; \<open>error_text\<close> is decided by evaluation.\<close>

definition error_text :: "string \<Rightarrow> bool" where
  "error_text what = (take 8 what = ''[ERROR] '')"

lemma error_text_append:
  assumes "error_text what"
  shows "error_line (False, what @ s)"
proof -
  have "length (take 8 what) = 8" using assms by (simp add: error_text_def)
  then have "8 \<le> length what" by simp
  then show ?thesis using assms by (simp add: error_text_def error_line_def)
qed

lemma orderly_checked [orderly_intros]:
  assumes "quiet_client c" "prints inner" "error_text what" "\<And>a. orderly (k a)"
  shows "orderly (checked E c inner what r k)"
  using assms by (simp add: checked_def orderly_error_exit error_text_append split: sum.split)

lemma orderly_close_client [orderly_intros]:
  assumes "quiet_client c" "prints inner"
  shows "orderly (close_client E c inner final_lines)"
proof (rule orderlyI)
  fix w out
  obtain c' w' where c: "run_state (Client_Close (ex_contexts E) c) w = ((Inr Status_ok, c'), w')" "quiet_client c'"
    by (rule quiet_close [OF assms(1)])
  obtain w'' lines where "run_state (leave E c' inner 0) (w', out @ map (Pair True) final_lines)
      = (Exits 0, (w'', (out @ map (Pair True) final_lines) @ lines))"
    using leave_run [OF c(2) assms(2)] by blast
  then show "\<exists>lines. snd (world_of (close_client E c inner final_lines) (w, out)) = out @ lines
    \<and> (result_of (close_client E c inner final_lines) (w, out) = Exits 0
       \<or> result_of (close_client E c inner final_lines) (w, out) = Exits 1 \<and> list_ex error_line lines)"
    using c(1) by (simp add: close_client_def)
qed


text \<open>A client created with quiet options is quiet.\<close>

lemma Transition_quiet: "quiet_machine (Some sm) \<Longrightarrow> quiet_machine (Some (snd (result_of (Transition to sm) w)))"
  by (metis fst_conv quiet_transition snd_conv)

lemma Connect_quiet: "result_of (Connect env fs opts) w = Inr t \<Longrightarrow> quiet_machine (gt_state_machine t)"
proof -
  have new: "quiet_machine (Some (StateMachine_new kIdle))" by (simp add: quiet_machine_def StateMachine_new_def)
  show "result_of (Connect env fs opts) w = Inr t \<Longrightarrow> quiet_machine (gt_state_machine t)"
    using Transition_quiet [OF Transition_quiet [OF new]]
    by (auto simp: Connect_def Let_def case_prod_unfold split: sum.splits option.splits if_splits)
qed

lemma wire_callbacks_quiet:
  "quiet_options opts \<Longrightarrow> quiet_machine m \<Longrightarrow> quiet_machine (map_option (wire_callbacks opts) m)"
  by (cases m) (simp_all add: wire_callbacks_def set_if_def quiet_options_def)

lemma create_from_quiet:
  "result_of (create_from env fs ops opts) w = Inr c \<Longrightarrow> quiet_options opts \<Longrightarrow> quiet_client c"
  using Connect_quiet [of env fs opts w]
  by (auto simp: create_from_def Let_def GrpcTransport_Create_def case_prod_unfold quiet_client_machine assemble_client_def
      wire_callbacks_quiet split: sum.splits if_splits)

lemma with_client_id_quiet: "quiet_options opts \<Longrightarrow> quiet_options (result_of (with_client_id rand64 opts) w)"
  by (simp add: with_client_id_def quiet_options_def case_prod_unfold)

lemma created_quiet:
  assumes "quiet_options options" "result_of (Client_Create env fs rand64 ops options) w = Inr c"
  shows "quiet_client c"
  using assms(2) by (auto simp: Client_Create_def case_prod_unfold
      intro: create_from_quiet with_client_id_quiet [OF assms(1)])

lemma orderly_with_client [orderly_intros]:
  assumes "quiet_options options" "\<And>msg. orderly (on_failure msg)" "\<And>c. quiet_client c \<Longrightarrow> orderly (k c)"
  shows "orderly (with_client E options on_failure k)"
proof (rule orderlyI)
  fix w out
  let ?m = "Client_Create (ex_grpc E) (ex_fs E) (ex_rand64 E) (ex_contexts E) options"
  show "\<exists>lines. snd (world_of (with_client E options on_failure k) (w, out)) = out @ lines
    \<and> (result_of (with_client E options on_failure k) (w, out) = Exits 0
       \<or> result_of (with_client E options on_failure k) (w, out) = Exits 1 \<and> list_ex error_line lines)"
  proof (cases "result_of ?m w")
    case (Inl s)
    then show ?thesis using assms(2) by (simp add: with_client_def orderly_def)
  next
    case (Inr c)
    then show ?thesis using assms(3) [OF created_quiet [OF assms(1) Inr]] by (simp add: with_client_def orderly_def)
  qed
qed

lemma orderly_failed_to_create [orderly_intros]: "orderly (failed_to_create msg)"
  by (rule orderlyI) (simp add: failed_to_create_def error_line_def)

lemma orderly_ping_then [orderly_intros]: "quiet_client c \<Longrightarrow> (\<And>i. orderly (k i)) \<Longrightarrow> orderly (ping_then E c k)"
  unfolding ping_then_def by (intro orderly_intros prints_intros) (simp_all add: error_text_def)


text \<open>The error prefixes of the programs, and the options they set, are decided by evaluation.\<close>

lemma quiet_options_setters [orderly_intros]:
  "quiet_options (example_options i)"
  "quiet_options options \<Longrightarrow> quiet_options (set_auth_token tok options)"
  "quiet_options options \<Longrightarrow> quiet_options (set_tls_config tls options)"
  "quiet_options options \<Longrightarrow> quiet_options (set_check_connection b options)"
  "quiet_options (set_client_id i (set_address_host_port h p ClientOptions_default))"
  by (simp_all add: quiet_options_def example_options_def set_client_id_def set_address_host_port_def
      set_auth_token_def set_tls_config_def set_check_connection_def ClientOptions_default_def)

lemma quiet_options_limits [orderly_intros]:
  "quiet_options options \<Longrightarrow> quiet_options (set_max_send_message_size n options)"
  "quiet_options options \<Longrightarrow> quiet_options (set_max_receive_message_size n options)"
  "quiet_options options \<Longrightarrow> quiet_options (set_drain_timeout n options)"
  "quiet_options options \<Longrightarrow> quiet_options (set_keepalive_timeout n options)"
  "quiet_options options \<Longrightarrow> quiet_options (set_keepalive_time n options)"
  "quiet_options options \<Longrightarrow> quiet_options (set_connection_timeout n options)"
  by (simp_all add: quiet_options_def set_max_send_message_size_def set_max_receive_message_size_def
      set_drain_timeout_def set_keepalive_timeout_def set_keepalive_time_def set_connection_timeout_def)

text \<open>After an error has been reported the program may do what it likes, as long as it ends with 0 or 1.\<close>

definition tame :: "'w main \<Rightarrow> bool" where
  "tame prog \<longleftrightarrow>
     (\<forall>w out. \<exists>lines. snd (world_of prog (w, out)) = out @ lines \<and> result_of prog (w, out) \<in> {Exits 0, Exits 1})"

named_theorems tame_intros

lemma tame_bind:
  assumes "prints m" "\<And>a. tame (k a)"
  shows "tame (do { a \<leftarrow> m; k a })"
  unfolding tame_def
proof (intro allI)
  fix w out
  obtain l w' where l: "world_of m (w, out) = (w', out @ l)" using assms(1) unfolding prints_def by (metis prod.collapse)
  obtain lines where "snd (world_of (k (result_of m (w, out))) (w', out @ l)) = (out @ l) @ lines"
      "result_of (k (result_of m (w, out))) (w', out @ l) \<in> {Exits 0, Exits 1}"
    using assms(2) unfolding tame_def by blast
  then show "\<exists>lines. snd (world_of (do { a \<leftarrow> m; k a }) (w, out)) = out @ lines
      \<and> result_of (do { a \<leftarrow> m; k a }) (w, out) \<in> {Exits 0, Exits 1}"
    using l by (auto simp: case_prod_unfold)
qed

lemma tame_basics [tame_intros]:
  "tame (ret (Exits 0))" "tame (ret (Exits 1))"
  "(\<And>a. tame (k a)) \<Longrightarrow> tame (do { a \<leftarrow> sdk m; k a })"
  by (simp_all add: tame_def)

lemma tame_console [tame_intros]:
  assumes "tame p"
  shows "tame (do { _ \<leftarrow> cout line; p })" "tame (do { _ \<leftarrow> cerr line; p })"
  by (intro tame_bind prints_intros assms)+

lemma tame_leave [tame_intros]:
  assumes "quiet_client c" "prints inner" "n \<in> {0, 1}"
  shows "tame (leave E c inner n)"
  unfolding tame_def
proof (intro allI)
  fix w out
  obtain w' lines where "run_state (leave E c inner n) (w, out) = (Exits n, (w', out @ lines))"
    using leave_run [OF assms(1,2)] by blast
  then show "\<exists>lines. snd (world_of (leave E c inner n) (w, out)) = out @ lines
      \<and> result_of (leave E c inner n) (w, out) \<in> {Exits 0, Exits 1}"
    using assms(3) by auto
qed

lemma tame_closing [tame_intros]:
  assumes "quiet_client c" "\<And>c' s. quiet_client c' \<Longrightarrow> tame (k c' s)"
  shows "tame (do {
     (close_status, c') \<leftarrow> sdk (Client_Close (ex_contexts E) c);
     (case close_status of Inl _ \<Rightarrow> ret Aborts | Inr s \<Rightarrow> k c' s) })"
  unfolding tame_def
proof (intro allI)
  fix w out
  obtain c' w' where c: "run_state (Client_Close (ex_contexts E) c) w = ((Inr Status_ok, c'), w')" "quiet_client c'"
    by (rule quiet_close [OF assms(1)])
  obtain lines where "snd (world_of (k c' Status_ok) (w', out)) = out @ lines"
      "result_of (k c' Status_ok) (w', out) \<in> {Exits 0, Exits 1}"
    using assms(2) [OF c(2)] unfolding tame_def by blast
  then show "\<exists>lines. snd (world_of (do {
       (close_status, c') \<leftarrow> sdk (Client_Close (ex_contexts E) c);
       (case close_status of Inl _ \<Rightarrow> ret Aborts | Inr s \<Rightarrow> k c' s) }) (w, out)) = out @ lines
     \<and> result_of (do {
       (close_status, c') \<leftarrow> sdk (Client_Close (ex_contexts E) c);
       (case close_status of Inl _ \<Rightarrow> ret Aborts | Inr s \<Rightarrow> k c' s) }) (w, out) \<in> {Exits 0, Exits 1}"
    using c(1) by auto
qed

lemma orderly_tame: "orderly p \<Longrightarrow> tame p"
  unfolding orderly_def tame_def by blast

lemma orderly_reported [orderly_intros]:
  assumes "tame p" "error_text what"
  shows "orderly (do { _ \<leftarrow> cerr (what @ s); p })"
proof (rule orderlyI)
  fix w out
  let ?l = "(False, what @ s)"
  obtain lines where "snd (world_of p (w, out @ [?l])) = (out @ [?l]) @ lines" "result_of p (w, out @ [?l]) \<in> {Exits 0, Exits 1}"
    using assms(1) unfolding tame_def by blast
  then show "\<exists>lines. snd (world_of (do { _ \<leftarrow> cerr (what @ s); p }) (w, out)) = out @ lines
    \<and> (result_of (do { _ \<leftarrow> cerr (what @ s); p }) (w, out) = Exits 0
       \<or> result_of (do { _ \<leftarrow> cerr (what @ s); p }) (w, out) = Exits 1 \<and> list_ex error_line lines)"
    using error_text_append [OF assms(2), of s] by (intro exI [of _ "?l # lines"]) auto
qed

lemma orderly_branches [orderly_intros]:
  "(\<And>x y. orderly (f x y)) \<Longrightarrow> orderly (case p of (x, y) \<Rightarrow> f x y)"
  "(\<And>a. orderly (g a)) \<Longrightarrow> (\<And>b. orderly (h b)) \<Longrightarrow> orderly (case r of Inl a \<Rightarrow> g a | Inr b \<Rightarrow> h b)"
  "(b \<Longrightarrow> orderly q) \<Longrightarrow> (\<not> b \<Longrightarrow> orderly q') \<Longrightarrow> orderly (if b then q else q')"
  by (auto split: prod.split sum.split)

lemma orderly_either_line [orderly_intros]:
  "orderly p \<Longrightarrow> orderly (do { _ \<leftarrow> (case r of Inl a \<Rightarrow> cout (f a) | Inr b \<Rightarrow> cout (g b)); p })"
  by (intro orderly_bind prints_intros)

lemmas example_defs = connection_connect_main_def connection_ping_main_def connection_close_main_def
  connection_custom_timeouts_main_def connection_token_auth_main_def tls_tls_setup_main_def tls_mtls_setup_main_def
  connection_error_main_def command_timeout_main_def create_channel_main_def delete_channel_main_def Let_def

lemma connection_examples_orderly:
  "orderly (connection_connect_main E)" "orderly (connection_ping_main E)" "orderly (connection_close_main E)"
  "orderly (connection_custom_timeouts_main E)" "orderly (connection_token_auth_main E)"
  unfolding example_defs by (intro orderly_intros prints_intros; assumption)+

lemma tls_examples_orderly:
  "orderly (tls_tls_setup_main E)" "orderly (tls_mtls_setup_main E)"
  unfolding example_defs by (intro orderly_intros tame_intros prints_intros; simp add: error_text_def)+

lemma management_examples_orderly:
  "orderly (create_channel_main E)" "orderly (delete_channel_main E)" "orderly (command_timeout_main E)"
  unfolding example_defs by (intro orderly_intros prints_intros; simp add: error_text_def)+


lemma connection_error_orderly: "orderly (connection_error_main E)"
  unfolding connection_error_main_def Let_def error_exit_def
  by (intro orderly_intros tame_intros prints_intros) (auto simp: error_text_def intro!: tame_intros prints_intros)

end
