(* ===== verification/Example_Queues.thy ===== *)
theory Example_Queues
  imports Example_Programs Queue_Broker
begin

text \<open>
  The queue examples that use one thread only (examples/queues, examples/management/purge_queue,
  examples/patterns/work_queue, and the polling examples of examples/queues_stream), that they end orderly, and
  what \<^verbatim>\<open>ack_all\<close> leaves in the queue.  A program holds at most one downstream stream; the set \<open>live\<close> starts empty.
\<close>

section \<open>Steps the programs share\<close>

text \<open>Build one message and send it: what an error of each step is reported with, and whether \<^verbatim>\<open>is_error\<close> of the
  result is looked at.\<close>

definition build_message :: "'w example_env \<Rightarrow> 'w Client \<Rightarrow> string \<Rightarrow> QueueMessage \<Rightarrow> (QueueMessage \<Rightarrow> 'w main) \<Rightarrow> 'w main" where
  "build_message E c build_error b k = do {
     msg_result \<leftarrow> sdk (QueueMessage_Build (ex_rand64 E) b);
     checked E c (ret ()) build_error msg_result k
   }"

definition send_built :: "'w example_env \<Rightarrow> 'w Client \<Rightarrow> string \<Rightarrow> string option \<Rightarrow> QueueMessage
    \<Rightarrow> (QueueSendResult \<Rightarrow> 'w main) \<Rightarrow> 'w main" where
  "send_built E c send_error result_error msg k = do {
     send_result \<leftarrow> sdk (Client_SendQueueMessage c msg);
     checked E c (ret ()) send_error send_result (\<lambda>sent.
       case result_error of
         Some failed \<Rightarrow> if qs_is_error sent then error_exit E c (ret ()) (failed @ qs_error sent) else k sent
       | None \<Rightarrow> k sent)
   }"

text \<open>The sending loops \<open>for (int i = first; i <= bound; i++)\<close>; the body may print a line for each message.\<close>

fun send_loop :: "'w example_env \<Rightarrow> 'w Client \<Rightarrow> (int \<Rightarrow> string) \<Rightarrow> (int \<Rightarrow> string) \<Rightarrow> string option
    \<Rightarrow> (int \<Rightarrow> QueueMessage) \<Rightarrow> (int \<Rightarrow> QueueSendResult \<Rightarrow> string list) \<Rightarrow> int list \<Rightarrow> 'w main \<Rightarrow> 'w main" where
  "send_loop E c build_error send_error result_error builder sent_lines [] k = k"
| "send_loop E c build_error send_error result_error builder sent_lines (i # is) k =
     build_message E c (build_error i) (builder i) (\<lambda>msg.
       send_built E c (send_error i) result_error msg (\<lambda>sent. do {
         _ \<leftarrow> cout_all (sent_lines i sent);
         send_loop E c build_error send_error result_error builder sent_lines is k
       }))"

definition no_lines :: "int \<Rightarrow> QueueSendResult \<Rightarrow> string list" where
  "no_lines i sent = []"

definition body_message :: "string \<Rightarrow> string \<Rightarrow> QueueMessage" where
  "body_message channel body = QueueMessage_SetBody body (QueueMessage_SetChannel channel QueueMessage_default)"

definition poll_request :: "string \<Rightarrow> int \<Rightarrow> bool \<Rightarrow> PollRequest" where
  "poll_request channel wait_timeout_seconds auto_ack =
     PollRequest_default\<lparr>plr_channel := channel, plr_max_items := 10,
       plr_wait_timeout_seconds := wait_timeout_seconds, plr_auto_ack := auto_ack\<rparr>"

text \<open>What the end of the scope does to the local that owns the stream: a receiver, or the response of
  \<^verbatim>\<open>PollQueue\<close>, which holds its own receiver.\<close>

definition drop_receiver :: "'w example_env \<Rightarrow> nat set \<Rightarrow> 'w QueueDownstreamReceiver \<Rightarrow> ('w \<times> console, unit) state" where
  "drop_receiver E live r = do { _ \<leftarrow> sdk (Receiver_destroy (ex_rand64 E) (ex_downstream E) r live); ret () }"

definition drop_response :: "'w example_env \<Rightarrow> nat set \<Rightarrow> 'w PollResponse \<Rightarrow> ('w \<times> console, unit) state" where
  "drop_response E live p = (case po_receiver p of None \<Rightarrow> ret () | Some r \<Rightarrow> drop_receiver E live r)"

definition poll_queue :: "'w example_env \<Rightarrow> 'w Client \<Rightarrow> PollRequest \<Rightarrow> string
    \<Rightarrow> (nat set \<Rightarrow> 'w PollResponse \<Rightarrow> 'w main) \<Rightarrow> 'w main" where
  "poll_queue E c poll_req response_error k = do {
     (poll_result, live) \<leftarrow> sdk (PollQueue (ex_rand64 E) (ex_downstream E) c poll_req {});
     checked E c (ret ()) ''[ERROR] PollQueue: '' poll_result (\<lambda>p.
       if po_is_error p then error_exit E c (drop_response E live p) (response_error @ po_error p)
       else k live p)
   }"

definition open_receiver :: "'w example_env \<Rightarrow> 'w Client \<Rightarrow> (nat set \<Rightarrow> 'w QueueDownstreamReceiver \<Rightarrow> 'w main) \<Rightarrow> 'w main" where
  "open_receiver E c k = do {
     (receiver_result, live) \<leftarrow> sdk (NewQueueDownstreamReceiver c {});
     checked E c (ret ()) ''[ERROR] NewQueueDownstreamReceiver: '' receiver_result (k live)
   }"

definition receiver_poll :: "'w example_env \<Rightarrow> 'w Client \<Rightarrow> nat set \<Rightarrow> 'w QueueDownstreamReceiver \<Rightarrow> PollRequest \<Rightarrow> string
    \<Rightarrow> ('w PollResponse \<Rightarrow> 'w main) \<Rightarrow> 'w main" where
  "receiver_poll E c live r poll_req response_error k = do {
     poll_result \<leftarrow> sdk (Poll (ex_rand64 E) (ex_downstream E) r poll_req);
     checked E c (drop_receiver E live r) ''[ERROR] Poll: '' poll_result (\<lambda>p.
       if po_is_error p then error_exit E c (drop_receiver E live r) (response_error @ po_error p)
       else k p)
   }"

text \<open>\<^verbatim>\<open>receiver->Close()\<close>, the closing of the client and the return.\<close>

definition close_receiver_and_client :: "'w example_env \<Rightarrow> 'w Client \<Rightarrow> nat set \<Rightarrow> 'w QueueDownstreamReceiver
    \<Rightarrow> string list \<Rightarrow> string list \<Rightarrow> 'w main" where
  "close_receiver_and_client E c live r receiver_lines client_lines = do {
     r' \<leftarrow> sdk (Receiver_Close (ex_rand64 E) (ex_downstream E) r);
     _ \<leftarrow> cout_all receiver_lines;
     close_client E c (drop_receiver E live r') client_lines
   }"

text \<open>Settling all messages of a poll, when there are any.\<close>

definition settle_polled :: "'w example_env \<Rightarrow> 'w Client \<Rightarrow> ('w \<times> console, unit) state \<Rightarrow> 'w PollResponse \<Rightarrow> string list
    \<Rightarrow> ('w, Status) state \<Rightarrow> string \<Rightarrow> string \<Rightarrow> 'w main \<Rightarrow> 'w main" where
  "settle_polled E c inner p before settle settle_error after k =
     (if po_messages p = [] then k
      else do {
        _ \<leftarrow> cout_all before;
        settle_status \<leftarrow> sdk settle;
        (if \<not> ok settle_status then error_exit E c inner (settle_error @ st_message settle_status)
         else do { _ \<leftarrow> cout after; k })
      })"

definition polled_size :: "'w PollResponse \<Rightarrow> string" where
  "polled_size p = nat_to_string (length (po_messages p))"

definition body_line :: "QueueDownstreamMessage \<Rightarrow> string" where
  "body_line dm = ''  body='' @ qm_body (qd_message dm)"

definition body_metadata_line :: "string \<Rightarrow> QueueDownstreamMessage \<Rightarrow> string" where
  "body_metadata_line indent dm = indent @ ''body='' @ qm_body (qd_message dm) @ '' metadata='' @ qm_metadata (qd_message dm)"

definition body_tx_line :: "QueueDownstreamMessage \<Rightarrow> string" where
  "body_tx_line dm = ''  body='' @ qm_body (qd_message dm) @ '' tx='' @ qd_transaction_id dm"

section \<open>examples/queues\<close>

definition send_receive_main :: "'w example_env \<Rightarrow> 'w main" where
  "send_receive_main E = do {
     _ \<leftarrow> cout ''[1] Connecting to localhost:50000'';
     with_client E (example_options ''cpp-queues-send-receive-client'') failed_to_create (\<lambda>c. do {
       let channel = ''cpp-queues.send_receive'';
       _ \<leftarrow> cout (''[2] Sending message to queue '' @ channel);
       build_message E c ''[ERROR] Build message: ''
         (QueueMessage_SetMetadata ''greeting'' (body_message channel ''hello queue'')) (\<lambda>msg.
       send_built E c ''[ERROR] SendQueueMessage: '' (Some ''[ERROR] Send failed: '') msg (\<lambda>sent. do {
         _ \<leftarrow> cout (''[3] Sent: id='' @ qs_message_id sent);
         _ \<leftarrow> cout (''[4] Polling queue '' @ channel);
         poll_queue E c (poll_request channel 5 True) ''[ERROR] Poll failed: '' (\<lambda>live p. do {
           _ \<leftarrow> cout (''[5] Received: '' @ polled_size p @ '' messages'');
           _ \<leftarrow> cout_all (map (body_metadata_line ''  '') (po_messages p));
           close_client E c (drop_response E live p) [''[6] Client closed'']
         })
       }))
     })
   }"

definition peek_messages_main :: "'w example_env \<Rightarrow> 'w main" where
  "peek_messages_main E = do {
     _ \<leftarrow> cout ''[1] Connecting to localhost:50000'';
     with_client E (example_options ''cpp-queues-peek-messages-client'') failed_to_create (\<lambda>c. do {
       let channel = ''cpp-queues.peek_messages'';
       _ \<leftarrow> cout (''[2] Sending message to queue '' @ channel);
       build_message E c ''[ERROR] Build message: '' (body_message channel ''transactional message'') (\<lambda>msg.
       send_built E c ''[ERROR] SendQueueMessage: '' (Some ''[ERROR] Send failed: '') msg (\<lambda>sent. do {
         _ \<leftarrow> cout ''[3] Message sent'';
         _ \<leftarrow> cout ''[4] Polling without auto-ack (peek)'';
         poll_queue E c (poll_request channel 5 False) ''[ERROR] Poll failed: '' (\<lambda>live p. do {
           _ \<leftarrow> cout (''[5] Polled: '' @ polled_size p @ '' messages (pending ack)'');
           _ \<leftarrow> cout_all (map body_line (po_messages p));
           ack_status \<leftarrow> sdk (Poll_AckAll (ex_rand64 E) (ex_downstream E) live p);
           (if \<not> ok ack_status
            then error_exit E c (drop_response E live p) (''[ERROR] AckAll failed: '' @ st_message ack_status)
            else do {
              _ \<leftarrow> cout ''[6] All messages acknowledged'';
              close_client E c (drop_response E live p) [''[7] Client closed'']
            })
         })
       }))
     })
   }"

definition ack_all_main :: "'w example_env \<Rightarrow> 'w main" where
  "ack_all_main E = do {
     _ \<leftarrow> cout ''[1] Connecting to localhost:50000'';
     with_client E (example_options ''cpp-queues-ack-all-client'') failed_to_create (\<lambda>c. do {
       let channel = ''cpp-queues.ack_all'';
       _ \<leftarrow> cout (''[2] Sending 3 messages to queue '' @ channel);
       send_loop E c (\<lambda>i. ''[ERROR] Build message '' @ to_string i @ '': '') (\<lambda>i. ''[ERROR] SendQueueMessage: '')
         (Some ''[ERROR] Send failed: '') (\<lambda>i. body_message channel (''msg-'' @ to_string i)) no_lines [1..3] (do {
       _ \<leftarrow> cout ''[3] Sent 3 messages'';
       _ \<leftarrow> cout (''[4] AckAllQueueMessages on channel '' @ channel);
       let ack_req = AckAllQueueMessagesRequest_default\<lparr>akq_channel := channel, akq_wait_time_seconds := 5\<rparr>;
       ack_result \<leftarrow> sdk (Client_AckAllQueueMessages (ex_rand64 E) c ack_req);
       checked E c (ret ()) ''[ERROR] AckAllQueueMessages: '' ack_result (\<lambda>ack. do {
         _ \<leftarrow> (if ako_is_error ack then cerr (''[ERROR] Ack warning: '' @ ako_error ack) else ret ());
         _ \<leftarrow> cout (''[5] Acknowledged '' @ nat_to_string (unat (ako_affected_messages ack)) @ '' messages'');
         close_client E c (ret ()) [''[6] Client closed'']
       })})
     })
   }"

definition ack_reject_main :: "'w example_env \<Rightarrow> 'w main" where
  "ack_reject_main E = do {
     _ \<leftarrow> cout ''[1] Connecting to localhost:50000'';
     with_client E (example_options ''cpp-queues-ack-reject-client'') failed_to_create (\<lambda>c. do {
       let channel = ''cpp-queues.ack_reject'';
       _ \<leftarrow> cout (''[2] Sending 2 messages to queue '' @ channel);
       send_loop E c (\<lambda>i. ''[ERROR] Build message '' @ to_string i @ '': '') (\<lambda>i. ''[ERROR] SendQueueMessage: '')
         (Some ''[ERROR] Send failed: '') (\<lambda>i. body_message channel (''msg-'' @ to_string i)) no_lines [1..2] (do {
       _ \<leftarrow> cout ''[3] Sent 2 messages'';
       _ \<leftarrow> cout ''[4] Creating downstream receiver'';
       open_receiver E c (\<lambda>live r. do {
         _ \<leftarrow> cout ''[5] Polling with manual ack'';
         resp_result \<leftarrow> sdk (Poll (ex_rand64 E) (ex_downstream E) r (poll_request channel 5 False));
         (case resp_result of
            Inl s \<Rightarrow> do {
              _ \<leftarrow> cerr (''[ERROR] Poll: '' @ st_message s);
              r' \<leftarrow> sdk (Receiver_Close (ex_rand64 E) (ex_downstream E) r);
              (close_status, c') \<leftarrow> sdk (Client_Close (ex_contexts E) c);
              (case close_status of
                 Inl _ \<Rightarrow> ret Aborts
               | Inr cs \<Rightarrow> do {
                   _ \<leftarrow> (if \<not> ok cs then cerr (''[ERROR] Close failed: '' @ st_message cs) else ret ());
                   leave E c' (drop_receiver E live r') 1
                 })
            }
          | Inr p \<Rightarrow> do {
              _ \<leftarrow> cout (''[6] Polled '' @ polled_size p @ '' messages'');
              _ \<leftarrow> cout_all (map body_line (po_messages p));
              close_receiver_and_client E c live r [] [''[7] Client closed'']
            })
       })})
     })
   }"

definition batch_line :: "nat \<Rightarrow> QueueSendResult \<Rightarrow> string" where
  "batch_line i res = ''[4] Batch['' @ nat_to_string i @ '']: id='' @ qs_message_id res
     @ '' error='' @ (if qs_is_error res then ''true'' else ''false'')"

text \<open>The loop that builds the batch keeps the messages built so far.\<close>

fun build_loop :: "'w example_env \<Rightarrow> 'w Client \<Rightarrow> (int \<Rightarrow> string) \<Rightarrow> (int \<Rightarrow> QueueMessage) \<Rightarrow> int list
    \<Rightarrow> QueueMessage list \<Rightarrow> (QueueMessage list \<Rightarrow> 'w main) \<Rightarrow> 'w main" where
  "build_loop E c build_error builder [] batch k = k batch"
| "build_loop E c build_error builder (i # is) batch k =
     build_message E c (build_error i) (builder i) (\<lambda>msg. build_loop E c build_error builder is (batch @ [msg]) k)"

definition batch_send_main :: "'w example_env \<Rightarrow> 'w main" where
  "batch_send_main E = do {
     _ \<leftarrow> cout ''[1] Connecting to localhost:50000'';
     with_client E (example_options ''cpp-queues-batch-send-client'') failed_to_create (\<lambda>c. do {
       let channel = ''cpp-queues.batch_send'';
       _ \<leftarrow> cout ''[2] Building batch of 3 messages'';
       build_loop E c (\<lambda>i. ''[ERROR] Build message '' @ to_string i @ '': '')
         (\<lambda>i. body_message channel (''batch-msg-'' @ to_string i)) [1..3] [] (\<lambda>batch. do {
         _ \<leftarrow> cout ''[3] Sending batch'';
         results \<leftarrow> sdk (Client_SendQueueMessages (ex_rand64 E) c batch);
         checked E c (ret ()) ''[ERROR] SendQueueMessages: '' results (\<lambda>rs. do {
           _ \<leftarrow> cout_all (map2 batch_line [0..<length rs] rs);
           _ \<leftarrow> cout ''[5] Batch send complete'';
           close_client E c (ret ()) [''[6] Client closed'']
         })
       })
     })
   }"

definition dead_letter_queue_main :: "'w example_env \<Rightarrow> 'w main" where
  "dead_letter_queue_main E = do {
     _ \<leftarrow> cout ''[1] Connecting to localhost:50000'';
     with_client E (example_options ''cpp-queues-dead-letter-queue-client'') failed_to_create (\<lambda>c. do {
       let channel = ''cpp-queues.dead_letter_queue'';
       let dlq_channel = channel @ ''.dlq'';
       _ \<leftarrow> cout (''[2] Sending message with DLQ config (max_receives=3, dlq='' @ dlq_channel @ '')'');
       build_message E c ''[ERROR] Build message: '' (QueueMessage_SetMaxReceiveQueue dlq_channel
           (QueueMessage_SetMaxReceiveCount 3 (body_message channel ''message with DLQ''))) (\<lambda>msg.
       send_built E c ''[ERROR] SendQueueMessage: '' (Some ''[ERROR] Send failed: '') msg (\<lambda>sent. do {
         _ \<leftarrow> cout (''[3] DLQ message sent: id='' @ qs_message_id sent @ '' (max_receives=3, dlq='' @ dlq_channel @ '')'');
         close_client E c (ret ()) [''[4] Client closed'']
       }))
     })
   }"

definition delayed_messages_main :: "'w example_env \<Rightarrow> 'w main" where
  "delayed_messages_main E = do {
     _ \<leftarrow> cout ''[1] Connecting to localhost:50000'';
     with_client E (example_options ''cpp-queues-delayed-messages-client'') failed_to_create (\<lambda>c. do {
       let channel = ''cpp-queues.delayed_messages'';
       _ \<leftarrow> cout (''[2] Sending delayed message (3s) to queue '' @ channel);
       build_message E c ''[ERROR] Build message: ''
         (QueueMessage_SetDelaySeconds 3 (body_message channel ''delayed message'')) (\<lambda>msg.
       send_built E c ''[ERROR] SendQueueMessage: '' (Some ''[ERROR] Send failed: '') msg (\<lambda>sent. do {
         _ \<leftarrow> cout (''[3] Delayed message sent: id='' @ qs_message_id sent @ '' delayed_to='' @ to_string (qs_delayed_to sent));
         _ \<leftarrow> cout ''[4] Message will be available after 3 seconds'';
         close_client E c (ret ()) [''[5] Client closed'']
       }))
     })
   }"

section \<open>examples/management/purge_queue and examples/patterns/work_queue\<close>

definition purge_queue_main :: "'w example_env \<Rightarrow> 'w main" where
  "purge_queue_main E = do {
     _ \<leftarrow> cout ''[1] Connecting to localhost:50000'';
     with_client E (example_options ''cpp-management-purge-queue-client'') failed_to_create (\<lambda>c. do {
       let channel = ''cpp-management.purge_queue'';
       send_loop E c (\<lambda>i. ''[ERROR] Build message: '') (\<lambda>i. ''[ERROR] SendQueueMessage: '')
         None (\<lambda>i. body_message channel (''to-purge-'' @ to_string i)) no_lines [1..5] (do {
       _ \<leftarrow> cout ''[2] Sent 5 messages to queue'';
       let req = AckAllQueueMessagesRequest_default\<lparr>akq_channel := channel, akq_wait_time_seconds := 5\<rparr>;
       purge_result \<leftarrow> sdk (Client_AckAllQueueMessages (ex_rand64 E) c req);
       checked E c (ret ()) ''[ERROR] AckAllQueueMessages: '' purge_result (\<lambda>purged. do {
         _ \<leftarrow> (if ako_is_error purged then cerr (''[ERROR] Purge warning: '' @ ako_error purged)
              else cout (''[3] Purged '' @ nat_to_string (unat (ako_affected_messages purged)) @ '' messages from queue''));
         close_client E c (ret ()) [''[4] Client closed'']
       })})
     })
   }"

definition enqueued_line :: "int \<Rightarrow> QueueSendResult \<Rightarrow> string list" where
  "enqueued_line i sent = [''  Enqueued: task-'' @ to_string i @ '' (id='' @ qs_message_id sent @ '')'']"

definition work_queue_main :: "'w example_env \<Rightarrow> 'w main" where
  "work_queue_main E = do {
     _ \<leftarrow> cout ''[1] Connecting to localhost:50000'';
     with_client E (example_options ''cpp-patterns-work-queue-client'') failed_to_create (\<lambda>c. do {
       let channel = ''cpp-patterns.work_queue'';
       _ \<leftarrow> cout ''[2] Enqueuing 5 tasks'';
       send_loop E c (\<lambda>i. ''[ERROR] Build message '' @ to_string i @ '': '')
         (\<lambda>i. ''[ERROR] SendQueueMessage '' @ to_string i @ '': '') (Some ''[ERROR] Send error: '')
         (\<lambda>i. QueueMessage_SetMetadata (''priority-'' @ to_string i) (body_message channel (''task-'' @ to_string i)))
         enqueued_line [1..5] (do {
       _ \<leftarrow> cout ''[3] Worker polling for tasks'';
       poll_queue E c (poll_request channel 5 True) ''[ERROR] Poll response: '' (\<lambda>live p. do {
         _ \<leftarrow> cout (''[4] Worker processed '' @ polled_size p @ '' tasks:'');
         _ \<leftarrow> cout_all (map (body_metadata_line ''  - '') (po_messages p));
         close_client E c (drop_response E live p) [''[5] Client closed'']
       })})
     })
   }"

section \<open>The polling examples of examples/queues_stream\<close>

definition poll_mode_main :: "'w example_env \<Rightarrow> 'w main" where
  "poll_mode_main E = do {
     _ \<leftarrow> cout ''[1] Connecting to localhost:50000'';
     with_client E (example_options ''cpp-queues-stream-poll-mode-client'') failed_to_create (\<lambda>c. do {
       let channel = ''cpp-queues_stream.poll_mode'';
       _ \<leftarrow> cout (''[2] Sending 3 messages to queue '' @ channel);
       send_loop E c (\<lambda>i. ''[ERROR] Build message '' @ to_string i @ '': '')
         (\<lambda>i. ''[ERROR] SendQueueMessage '' @ to_string i @ '': '') None
         (\<lambda>i. body_message channel (''poll-msg-'' @ to_string i)) no_lines [1..3] (do {
       _ \<leftarrow> cout ''[3] Sent 3 messages'';
       _ \<leftarrow> cout ''[4] Polling queue with auto-ack'';
       poll_queue E c (poll_request channel 3 True) ''[ERROR] Poll response: '' (\<lambda>live p. do {
         _ \<leftarrow> cout (''[5] PollQueue: '' @ polled_size p @ '' messages'');
         _ \<leftarrow> cout_all (map body_line (po_messages p));
         close_client E c (drop_response E live p) [''[6] Client closed'']
       })})
     })
   }"

definition auto_ack_main :: "'w example_env \<Rightarrow> 'w main" where
  "auto_ack_main E = do {
     _ \<leftarrow> cout ''[1] Connecting to localhost:50000'';
     with_client E (example_options ''cpp-queues-stream-auto-ack-client'') failed_to_create (\<lambda>c. do {
       let channel = ''cpp-queues_stream.auto_ack'';
       _ \<leftarrow> cout (''[2] Sending message to queue '' @ channel);
       build_message E c ''[ERROR] Build message: '' (body_message channel ''auto-ack message'') (\<lambda>msg.
       send_built E c ''[ERROR] SendQueueMessage: '' None msg (\<lambda>sent. do {
         _ \<leftarrow> cout ''[3] Message sent'';
         _ \<leftarrow> cout ''[4] Polling with auto_ack=true'';
         poll_queue E c (poll_request channel 5 True) ''[ERROR] Poll response: '' (\<lambda>live p. do {
           _ \<leftarrow> cout (''[5] Auto-ack: received '' @ polled_size p @ '' messages (automatically acknowledged)'');
           _ \<leftarrow> cout_all (map body_line (po_messages p));
           close_client E c (drop_response E live p) [''[6] Client closed'']
         })
       }))
     })
   }"

definition nack_all_main :: "'w example_env \<Rightarrow> 'w main" where
  "nack_all_main E = do {
     _ \<leftarrow> cout ''[1] Connecting to localhost:50000'';
     with_client E (example_options ''cpp-queues-stream-nack-all-client'') failed_to_create (\<lambda>c. do {
       let channel = ''cpp-queues_stream.nack_all'';
       _ \<leftarrow> cout ''[2] Sending message with max_receive_count=3'';
       build_message E c ''[ERROR] Build message: ''
         (QueueMessage_SetMaxReceiveCount 3 (body_message channel ''will be nacked'')) (\<lambda>msg.
       send_built E c ''[ERROR] SendQueueMessage: '' None msg (\<lambda>sent. do {
         _ \<leftarrow> cout ''[3] Message sent'';
         _ \<leftarrow> cout ''[4] Opening downstream receiver'';
         open_receiver E c (\<lambda>live r.
         receiver_poll E c live r (poll_request channel 5 False) ''[ERROR] Poll response: '' (\<lambda>p. do {
           _ \<leftarrow> cout (''[5] Received '' @ polled_size p @ '' messages'');
           _ \<leftarrow> cout_all (map body_tx_line (po_messages p));
           settle_polled E c (drop_receiver E live r) p [''[6] NackAll: rejecting all messages'']
             (Poll_NackAll (ex_rand64 E) (ex_downstream E) live p)
             ''[ERROR] NackAll: '' ''[7] All messages rejected (returned to queue)''
             (close_receiver_and_client E c live r [] [''[8] Client closed''])
         }))
       }))
     })
   }"

definition requeue_all_main :: "'w example_env \<Rightarrow> 'w main" where
  "requeue_all_main E = do {
     _ \<leftarrow> cout ''[1] Connecting to localhost:50000'';
     with_client E (example_options ''cpp-queues-stream-requeue-all-client'') failed_to_create (\<lambda>c. do {
       let src_channel = ''cpp-queues_stream.requeue_all'';
       let dst_channel = ''cpp-queues_stream.requeue_all.dest'';
       _ \<leftarrow> cout (''[2] Sending message to source queue '' @ src_channel);
       build_message E c ''[ERROR] Build message: ''
         (QueueMessage_SetMaxReceiveCount 3 (body_message src_channel ''will be requeued'')) (\<lambda>msg.
       send_built E c ''[ERROR] SendQueueMessage: '' None msg (\<lambda>sent. do {
         _ \<leftarrow> cout ''[3] Message sent to source queue'';
         _ \<leftarrow> cout ''[4] Opening downstream receiver'';
         open_receiver E c (\<lambda>live r.
         receiver_poll E c live r (poll_request src_channel 5 False) ''[ERROR] Poll response: '' (\<lambda>p. do {
           _ \<leftarrow> cout (''[5] Received '' @ polled_size p @ '' messages'');
           _ \<leftarrow> cout_all (map body_tx_line (po_messages p));
           settle_polled E c (drop_receiver E live r) p [''[6] ReQueueAll: moving messages to '' @ dst_channel]
             (Poll_ReQueueAll (ex_rand64 E) (ex_downstream E) live p dst_channel)
             ''[ERROR] ReQueueAll: '' ''[7] Messages requeued to destination''
             (close_receiver_and_client E c live r [] [''[8] Client closed''])
         }))
       }))
     })
   }"

definition stream_receive_main :: "'w example_env \<Rightarrow> 'w main" where
  "stream_receive_main E = do {
     _ \<leftarrow> cout ''[1] Connecting to localhost:50000'';
     with_client E (example_options ''cpp-queues-stream-stream-receive-client'') failed_to_create (\<lambda>c. do {
       let channel = ''cpp-queues_stream.stream_receive'';
       _ \<leftarrow> cout (''[2] Sending message to queue '' @ channel);
       build_message E c ''[ERROR] Build message: '' (body_message channel ''message to receive'') (\<lambda>msg.
       send_built E c ''[ERROR] SendQueueMessage: '' None msg (\<lambda>sent. do {
         _ \<leftarrow> cout ''[3] Message sent'';
         _ \<leftarrow> sdk (ex_sleep_ms E 1000);
         _ \<leftarrow> cout ''[4] Opening downstream receiver'';
         open_receiver E c (\<lambda>live r.
         receiver_poll E c live r (poll_request channel 5 False) ''[ERROR] Poll response error: '' (\<lambda>p. do {
           _ \<leftarrow> cout (''[5] Received '' @ polled_size p @ '' messages'');
           _ \<leftarrow> cout_all (map body_tx_line (po_messages p));
           settle_polled E c (drop_receiver E live r) p []
             (Poll_AckAll (ex_rand64 E) (ex_downstream E) live p)
             ''[ERROR] AckAll: '' ''[6] Messages acknowledged''
             (close_receiver_and_client E c live r [''[7] Downstream receiver closed''] [''[8] Client closed''])
         }))
       }))
     })
   }"

section \<open>How the programs end\<close>

lemma prints_drops [prints_intros]: "prints (drop_receiver E live r)" "prints (drop_response E live p)"
  by (auto simp: drop_receiver_def drop_response_def split: option.split intro!: prints_intros)

lemma orderly_build_message [orderly_intros]:
  "quiet_client c \<Longrightarrow> error_text what \<Longrightarrow> (\<And>msg. orderly (k msg)) \<Longrightarrow> orderly (build_message E c what b k)"
  unfolding build_message_def by (intro orderly_intros prints_intros)

lemma orderly_exit [orderly_intros]:
  "quiet_client c \<Longrightarrow> prints inner \<Longrightarrow> error_text what \<Longrightarrow> orderly (error_exit E c inner (what @ s))"
  by (rule orderly_error_exit [OF _ _ error_text_append])

definition error_texts :: "string option \<Rightarrow> bool" where
  "error_texts what = (case what of None \<Rightarrow> True | Some s \<Rightarrow> error_text s)"

lemma orderly_send_built [orderly_intros]:
  assumes "quiet_client c" "error_text what" "error_texts failed" "\<And>sent. orderly (k sent)"
  shows "orderly (send_built E c what failed msg k)"
proof -
  have "orderly (case failed of
      Some f \<Rightarrow> if qs_is_error sent then error_exit E c (ret ()) (f @ qs_error sent) else k sent | None \<Rightarrow> k sent)" for sent
    using assms(3,4) by (auto simp: error_texts_def split: option.splits intro: orderly_exit [OF assms(1)] prints_intros)
  then show ?thesis unfolding send_built_def by (intro orderly_intros prints_intros assms(1,2))
qed

lemma orderly_send_loop [orderly_intros]:
  assumes "quiet_client c" "\<And>i. error_text (build_error i)" "\<And>i. error_text (send_error i)" "error_texts failed" "orderly k"
  shows "orderly (send_loop E c build_error send_error failed builder sent_lines is k)"
  by (induction "is") (auto intro!: orderly_intros assms)

lemma orderly_build_loop [orderly_intros]:
  assumes "quiet_client c" "\<And>i. error_text (build_error i)" "\<And>batch. orderly (k batch)"
  shows "orderly (build_loop E c build_error builder is batch k)"
  by (induction "is" arbitrary: batch) (auto intro!: orderly_build_message assms)

lemma orderly_poll_queue [orderly_intros]:
  "quiet_client c \<Longrightarrow> error_text what \<Longrightarrow> (\<And>live p. orderly (k live p)) \<Longrightarrow> orderly (poll_queue E c req what k)"
  unfolding poll_queue_def by (intro orderly_intros prints_intros) (simp_all add: error_text_def)

lemma orderly_open_receiver [orderly_intros]:
  "quiet_client c \<Longrightarrow> (\<And>live r. orderly (k live r)) \<Longrightarrow> orderly (open_receiver E c k)"
  unfolding open_receiver_def by (intro orderly_intros prints_intros) (simp_all add: error_text_def)

lemma orderly_receiver_poll [orderly_intros]:
  "quiet_client c \<Longrightarrow> error_text what \<Longrightarrow> (\<And>p. orderly (k p)) \<Longrightarrow> orderly (receiver_poll E c live r req what k)"
  unfolding receiver_poll_def by (intro orderly_intros prints_intros) (simp_all add: error_text_def)

lemma orderly_close_receiver [orderly_intros]:
  "quiet_client c \<Longrightarrow> orderly (close_receiver_and_client E c live r ls ls')"
  unfolding close_receiver_and_client_def by (intro orderly_intros prints_intros)

lemma orderly_settle_polled [orderly_intros]:
  "quiet_client c \<Longrightarrow> prints inner \<Longrightarrow> error_text what \<Longrightarrow> orderly k \<Longrightarrow> orderly (settle_polled E c inner p ls m what l k)"
  unfolding settle_polled_def by (intro orderly_intros prints_intros)

lemma orderly_warning [orderly_intros]:
  "orderly p \<Longrightarrow> orderly (do { _ \<leftarrow> (if b then cerr l else ret ()); p })"
  "orderly p \<Longrightarrow> orderly (do { _ \<leftarrow> (if b then cerr l else cout l'); p })"
  by (intro orderly_bind prints_intros; assumption)+

lemma tame_warning [tame_intros]: "tame p \<Longrightarrow> tame (do { _ \<leftarrow> (if b then cerr l else ret ()); p })"
  by (intro tame_bind prints_intros)

lemmas queue_example_defs = send_receive_main_def peek_messages_main_def ack_all_main_def ack_reject_main_def
  batch_send_main_def dead_letter_queue_main_def delayed_messages_main_def purge_queue_main_def work_queue_main_def
  poll_mode_main_def auto_ack_main_def nack_all_main_def requeue_all_main_def stream_receive_main_def Let_def

lemma queue_examples_orderly:
  "orderly (send_receive_main E)" "orderly (peek_messages_main E)" "orderly (ack_all_main E)"
  "orderly (batch_send_main E)" "orderly (dead_letter_queue_main E)"
  "orderly (delayed_messages_main E)" "orderly (purge_queue_main E)" "orderly (work_queue_main E)"
  unfolding queue_example_defs by (intro orderly_intros prints_intros; simp add: error_text_def error_texts_def)+

lemma stream_examples_orderly:
  "orderly (poll_mode_main E)" "orderly (auto_ack_main E)" "orderly (nack_all_main E)" "orderly (requeue_all_main E)"
  "orderly (stream_receive_main E)" 
  unfolding queue_example_defs by (intro orderly_intros prints_intros; simp add: error_text_def error_texts_def)+

lemma ack_reject_orderly: "orderly (ack_reject_main E)"
  unfolding queue_example_defs
  by (intro orderly_intros tame_intros prints_intros) (auto simp: error_text_def error_texts_def intro!: tame_intros prints_intros)

section \<open>What ack_all and purge_queue leave behind\<close>

text \<open>The rest of the environment leaves the queues of the broker alone, and every stub talks to that broker.\<close>

definition calm :: "'w Stub \<Rightarrow> ('w \<Rightarrow> PbQueueMessage queues) \<Rightarrow> 'w example_env \<Rightarrow> bool" where
  "calm stub queue E \<longleftrightarrow>
     (\<forall>ch s. ge_NewStub (ex_grpc E) ch = Some s \<longrightarrow> s = stub)
     \<and> (\<forall>target creds args w. queue (world_of (ge_CreateCustomChannel (ex_grpc E) target creds args) w) = queue w)
     \<and> (\<forall>ch timeout w. queue (world_of (ge_WaitForConnected (ex_grpc E) ch timeout) w) = queue w)
     \<and> (\<forall>ctx w. queue (world_of (stub_Ping stub ctx) w) = queue w)
     \<and> (\<forall>ctx w. queue (world_of (cx_alive (ex_contexts E) ctx) w) = queue w)
     \<and> (\<forall>ctx w. queue (world_of (cx_cancel (ex_contexts E) ctx) w) = queue w)"

lemma broker_uuid: "queue_broker stub queue rand64 \<Longrightarrow> queue (world_of (GenerateUUID rand64) w) = queue w"
  by (simp add: queue_broker_def GenerateUUID_def case_prod_unfold)

lemma quiet_transition_world: "quiet_machine (Some sm) \<Longrightarrow> world_of (Transition to sm) w = w"
  by (metis quiet_transition snd_conv)

lemma new_machine_quiet: "quiet_machine (Some (StateMachine_new s))"
  by (simp add: quiet_machine_def StateMachine_new_def)

lemma calm_connect:
  assumes "calm stub queue E" "result_of (Connect (ex_grpc E) fs opts) w = Inr t"
  shows "queue (world_of (Connect (ex_grpc E) fs opts) w) = queue w
    \<and> gt_stub t = stub \<and> gt_opts t = opts \<and> \<not> gt_closed t"
  using assms
  by (auto simp: Connect_def calm_def Let_def case_prod_unfold quiet_transition_world [OF new_machine_quiet]
      quiet_transition_world [OF Transition_quiet [OF new_machine_quiet]] split: sum.splits option.splits if_splits)

lemma calm_ping:
  assumes "calm stub queue E" "broker_client stub c"
  shows "queue (world_of (Client_Ping c) w) = queue w"
  using assms by (simp add: Client_Ping_def GrpcTransport_Ping_def broker_client_def calm_def CheckClosed_def
      GrpcTransport_CheckClosed_def ApplyAuth_def InjectAuthToken_def Let_def case_prod_unfold)

lemma assembled_broker_client:
  "gt_stub t = stub \<Longrightarrow> gt_opts t = opts \<Longrightarrow> \<not> gt_closed t \<Longrightarrow> co_credential_provider opts = None
    \<Longrightarrow> broker_client stub (assemble_client t opts)"
  by (simp add: broker_client_def assemble_client_def)

lemma calm_create_from:
  assumes "calm stub queue E" "co_credential_provider opts = None"
    and "result_of (create_from (ex_grpc E) fs ops opts) w = Inr c"
  shows "queue (world_of (create_from (ex_grpc E) fs ops opts) w) = queue w \<and> broker_client stub c"
proof -
  have "result_of (Connect (ex_grpc E) fs opts) w = Inr t \<Longrightarrow>
      queue (world_of (Connect (ex_grpc E) fs opts) w) = queue w \<and> broker_client stub (assemble_client t opts)" for t
    using calm_connect [OF assms(1)] assembled_broker_client [OF _ _ _ assms(2)] by blast
  then show ?thesis
    using assms(3) calm_ping [OF assms(1)]
    by (auto simp: create_from_def GrpcTransport_Create_def Let_def case_prod_unfold split: sum.splits if_splits)
qed

lemma calm_create:
  assumes "queue_broker stub queue (ex_rand64 E)" "calm stub queue E" "co_credential_provider options = None"
    and "result_of (Client_Create (ex_grpc E) fs (ex_rand64 E) ops options) w = Inr c"
  shows "queue (world_of (Client_Create (ex_grpc E) fs (ex_rand64 E) ops options) w) = queue w \<and> broker_client stub c"
proof -
  have "co_credential_provider (result_of (with_client_id (ex_rand64 E) options) w) = None"
    "queue (world_of (with_client_id (ex_rand64 E) options) w) = queue w"
    using assms(3) broker_uuid [OF assms(1)] by (simp_all add: with_client_id_def case_prod_unfold)
  then show ?thesis
    using assms(4) calm_create_from [OF assms(2), of _ fs ops "world_of (with_client_id (ex_rand64 E) options) w" c]
    by (simp add: Client_Create_def case_prod_unfold)
qed

lemma calm_cancel_all: "calm stub queue E \<Longrightarrow> queue (world_of (cancel_all (ex_contexts E) ctxs) w) = queue w"
  by (induction ctxs arbitrary: w) (simp_all add: calm_def case_prod_unfold)

lemma calm_close:
  assumes "calm stub queue E" "quiet_client c"
  shows "queue (world_of (Client_Close (ex_contexts E) c) w) = queue w"
proof -
  have t: "world_of (GrpcTransport_Close (cl_transport c)) w' = w'" for w'
    using assms(2) quiet_transition_world
    by (auto simp: GrpcTransport_Close_def quiet_client_machine Let_def case_prod_unfold split: option.splits)
  show ?thesis using calm_cancel_all [OF assms(1)]
    by (simp add: Client_Close_def DrainAll_def case_prod_unfold t)
qed

text \<open>The queues while a program runs: everything is on one channel.\<close>

definition only_on :: "string \<Rightarrow> nat \<Rightarrow> PbQueueMessage queues \<Rightarrow> bool" where
  "only_on ch n Q \<longleftrightarrow> (\<exists>S. queue_rel Q S \<and> length (S ch) = n \<and> (\<forall>ch'. ch' \<noteq> ch \<longrightarrow> S ch' = []))"

lemma only_on_put:
  assumes "queue_broker stub queue rand64" "broker_client stub c" "immediate_message m" "qm_channel m = ch"
    and "run_state (Client_SendQueueMessage c m) w = (Inr sent, w1)" "only_on ch n (queue w)"
  shows "only_on ch (Suc n) (queue w1)"
proof -
  obtain S where S: "queue_rel (queue w) S" "length (S ch) = n" "\<forall>ch'. ch' \<noteq> ch \<longrightarrow> S ch' = []"
    using assms(6) by (auto simp: only_on_def)
  have "run_state (queue_call_run rand64 c (Put m)) w = (Stored [True], w1)" using assms(5) by simp
  from call_refines [OF assms(1,2) _ S(1) this] assms(3)
  obtain S' where "queue_step c S (Put m) (Stored [True]) S'" "queue_rel (queue w1) S'" by auto
  then show ?thesis using S(2,3) assms(4)
    by (auto simp: only_on_def queue_step_stored intro!: exI [of _ S'])
qed

lemma only_on_ack_all:
  assumes "queue_broker stub queue rand64" "broker_client stub c" "akq_channel aq = ch" "ch \<noteq> []"
    and "run_state (Client_AckAllQueueMessages rand64 c aq) w = (Inr ack, w1)" "only_on ch n (queue w)"
  shows "ako_affected_messages ack = of_nat n \<and> queue w1 = (\<lambda>_. [])"
proof -
  obtain S where S: "queue_rel (queue w) S" "length (S ch) = n" "\<forall>ch'. ch' \<noteq> ch \<longrightarrow> S ch' = []"
    using assms(6) by (auto simp: only_on_def)
  have "run_state (queue_call_run rand64 c (Ack_all aq)) w = (Dropped (ako_affected_messages ack), w1)" using assms(5) by simp
  from call_refines [OF assms(1,2) _ S(1) this]
  obtain S' where S': "queue_step c S (Ack_all aq) (Dropped (ako_affected_messages ack)) S'" "queue_rel (queue w1) S'" by auto
  have "effective_channel c (akq_channel aq) = ch" using assms(3,4) by (simp add: effective_channel_def)
  with S'(1) S(2,3) have "ako_affected_messages ack = of_nat n" "S' = (\<lambda>_. [])"
    by (cases; auto)+
  then show ?thesis using S'(2) by (auto simp: queue_rel_def)
qed

lemma ack_all_not_error: "result_of (Client_AckAllQueueMessages rand64 c aq) w = Inr ack \<Longrightarrow> \<not> ako_is_error ack"
  by (auto simp: Client_AckAllQueueMessages_def Let_def case_prod_unfold AckAllQueueMessagesResponse_default_def
      split: if_splits sum.splits)

lemma built_body_message:
  assumes "result_of (QueueMessage_Build rand64 (body_message ch body)) w = Inr m"
  shows "immediate_message m \<and> qm_channel m = ch"
  using queue_builder.build_result [OF assms]
  by (auto simp: body_message_def setter_defs sdk_defaults immediate_message_def QueueMessage_sendable_def QueueMessage_valid_def
      plain_valid_def int32_range_def is_uuid_v4_def split: if_splits)

text \<open>What a program that exits with 0 has gone through.\<close>

lemma error_exit_not_zero: "run_state (error_exit E c inner l) (w, out) \<noteq> (Exits 0, y)"
  by (auto simp: error_exit_def leave_def case_prod_unfold split: sum.splits)

lemma checked_zero:
  assumes "run_state (checked E c inner what r k) (w, out) = (Exits 0, y)"
  obtains a where "r = Inr a" "run_state (k a) (w, out) = (Exits 0, y)"
  using assms that by (cases r) (auto simp: checked_def error_exit_not_zero)

lemma with_client_zero:
  assumes "queue_broker stub queue (ex_rand64 E)" "calm stub queue E" "quiet_options options" "co_credential_provider options = None"
    and "run_state (with_client E options failed_to_create k) (w, out) = (Exits 0, y)"
  obtains c w1 where "broker_client stub c" "quiet_client c" "queue w1 = queue w" "run_state (k c) (w1, out) = (Exits 0, y)"
proof -
  let ?m = "Client_Create (ex_grpc E) (ex_fs E) (ex_rand64 E) (ex_contexts E) options"
  obtain c where c: "result_of ?m w = Inr c"
    using assms(5) by (cases "result_of ?m w") (auto simp: with_client_def failed_to_create_def)
  then have "run_state (k c) (world_of ?m w, out) = (Exits 0, y)" using assms(5) by (simp add: with_client_def)
  then show thesis
    using that calm_create [OF assms(1,2,4) c] created_quiet [OF assms(3) c] by blast
qed

lemma send_zero:
  assumes "queue_broker stub queue (ex_rand64 E)" "broker_client stub c" "only_on ch n (queue w)"
    and "run_state (build_message E c what (body_message ch body) (\<lambda>msg. send_built E c what' failed msg k)) (w, out) = (Exits 0, y)"
  obtains sent w1 where "only_on ch (Suc n) (queue w1)" "run_state (k sent) (w1, out) = (Exits 0, y)"
proof -
  let ?b = "QueueMessage_Build (ex_rand64 E) (body_message ch body)"
  from assms(4) obtain m where m: "result_of ?b w = Inr m"
    and s: "run_state (send_built E c what' failed m k) (world_of ?b w, out) = (Exits 0, y)"
    by (auto simp: build_message_def elim: checked_zero)
  have q: "queue (world_of ?b w) = queue w"
    using broker_uuid [OF assms(1), of w] by (simp add: QueueMessage_Build_def case_prod_unfold)
  from s obtain sent where sent: "result_of (Client_SendQueueMessage c m) (world_of ?b w) = Inr sent"
    and r: "run_state (k sent) (world_of (Client_SendQueueMessage c m) (world_of ?b w), out) = (Exits 0, y)"
    by (auto simp: send_built_def error_exit_not_zero elim!: checked_zero split: option.splits if_splits)
  have "run_state (Client_SendQueueMessage c m) (world_of ?b w)
      = (Inr sent, world_of (Client_SendQueueMessage c m) (world_of ?b w))" using sent by (metis prod.collapse)
  then show thesis
    using only_on_put [OF assms(1,2)] built_body_message [OF m] assms(3) q r that by metis
qed

lemma no_lines_run: "cout_all (no_lines i sent) = ret ()"
  by (simp add: no_lines_def)

lemma send_loop_zero:
  assumes "queue_broker stub queue (ex_rand64 E)" "broker_client stub c" "only_on ch n (queue w)"
    and "run_state (send_loop E c what what' failed (\<lambda>i. body_message ch (body i)) no_lines is k) (w, out) = (Exits 0, y)"
  obtains w1 where "only_on ch (n + length is) (queue w1)" "run_state k (w1, out) = (Exits 0, y)"
  using assms(3,4) that
proof (induction "is" arbitrary: n w)
  case (Cons i "is")
  obtain sent w1 where "only_on ch (Suc n) (queue w1)"
    "run_state (do { _ \<leftarrow> cout_all (no_lines i sent);
       send_loop E c what what' failed (\<lambda>i. body_message ch (body i)) no_lines is k }) (w1, out) = (Exits 0, y)"
    by (rule send_zero [OF assms(1,2) Cons.prems(2) Cons.prems(3) [unfolded send_loop.simps]])
  then show ?case using Cons.IH [of "Suc n" w1] Cons.prems(1) by (simp add: no_lines_run)
qed simp

lemma close_client_run:
  assumes "calm stub queue E" "quiet_client c"
  obtains w' where "run_state (close_client E c (ret ()) ls) (w, out) = (Exits 0, (w', out @ map (Pair True) ls))" "queue w' = queue w"
proof -
  obtain c1 w1 where 1: "run_state (Client_Close (ex_contexts E) c) w = ((Inr Status_ok, c1), w1)" "quiet_client c1"
    by (rule quiet_close [OF assms(2)])
  obtain c2 w2 where 2: "run_state (Client_Close (ex_contexts E) c1) w1 = ((Inr Status_ok, c2), w2)"
    by (rule quiet_close [OF 1(2)])
  have "queue w2 = queue w" using calm_close [OF assms] calm_close [OF assms(1) 1(2)] 1(1) 2 by (metis snd_conv)
  then show thesis using that [of w2] 1(1) 2 by (simp add: close_client_def leave_def)
qed


lemma example_options_plain: "co_credential_provider (example_options i) = None"
  by (simp add: example_options_def set_client_id_def set_address_host_port_def ClientOptions_default_def)

lemma one_digit: "nat_to_string 3 = ''3''" "nat_to_string 5 = ''5''"
  by code_simp+

lemma only_on_empty: "only_on ch 0 (\<lambda>_. [])"
  by (auto simp: only_on_def queue_rel_def intro!: exI [of _ "\<lambda>_. []"])

text \<open>The same, with the run first, as elimination rules.\<close>

lemma connected_zero:
  assumes "run_state (with_client E (example_options i) failed_to_create k) (w, out) = (Exits 0, y)"
    and "queue_broker stub queue (ex_rand64 E)" "calm stub queue E"
  obtains c w1 where "broker_client stub c" "quiet_client c" "queue w1 = queue w" "run_state (k c) (w1, out) = (Exits 0, y)"
  using with_client_zero [OF assms(2,3) quiet_options_setters(1) example_options_plain assms(1)] by blast

lemma fill_zero:
  assumes "run_state (send_loop E c what what' failed (\<lambda>i. body_message ch (body i)) no_lines is k) (w, out) = (Exits 0, y)"
    and "queue_broker stub queue (ex_rand64 E)" "broker_client stub c" "queue w = (\<lambda>_. [])"
  obtains w1 where "only_on ch (length is) (queue w1)" "run_state k (w1, out) = (Exits 0, y)"
  by (rule send_loop_zero [where n = 0, OF assms(2,3) _ assms(1)]) (use assms(4) that only_on_empty in auto)

lemma drain_zero:
  assumes "run_state (checked E c (ret ()) what (result_of (Client_AckAllQueueMessages (ex_rand64 E) c aq) w) k)
      (world_of (Client_AckAllQueueMessages (ex_rand64 E) c aq) w, out) = (Exits 0, y)"
    and "queue_broker stub queue (ex_rand64 E)" "broker_client stub c" "only_on (akq_channel aq) n (queue w)" "akq_channel aq \<noteq> []"
  obtains ack w1 where "ako_affected_messages ack = of_nat n" "\<not> ako_is_error ack" "queue w1 = (\<lambda>_. [])"
    "run_state (k ack) (w1, out) = (Exits 0, y)"
proof -
  let ?m = "Client_AckAllQueueMessages (ex_rand64 E) c aq"
  from assms(1) obtain ack where ack: "result_of ?m w = Inr ack" "run_state (k ack) (world_of ?m w, out) = (Exits 0, y)"
    by (auto elim: checked_zero)
  then have "run_state ?m w = (Inr ack, world_of ?m w)" by (metis prod.collapse)
  then show thesis
    using only_on_ack_all [OF assms(2,3) refl assms(5) _ assms(4)] ack_all_not_error [OF ack(1)] ack(2) that by blast
qed

lemma closing_zero:
  assumes "run_state (close_client E c (ret ()) ls) (w, out) = (Exits 0, (w', out'))" "calm stub queue E" "quiet_client c"
  shows "out' = out @ map (Pair True) ls \<and> queue w' = queue w"
  using close_client_run [OF assms(2,3), of ls w out] assms(1) by auto

text \<open>C37. The example \<^verbatim>\<open>ack_all\<close> does what it says: on a broker whose queues are empty, a run that exits with 0 has
  printed exactly its six lines, of which the fifth reports the three messages it has sent as acknowledged, and leaves
  every queue empty.\<close>

theorem ack_all_example_drains:
  assumes "queue_broker stub queue (ex_rand64 E)" "calm stub queue E" "queue w = (\<lambda>_. [])"
    and "run_state (ack_all_main E) (w, out) = (Exits 0, (w', out'))"
  shows "queue w' = (\<lambda>_. [])
    \<and> out' = out @ map (Pair True) [''[1] Connecting to localhost:50000'', ''[2] Sending 3 messages to queue cpp-queues.ack_all'',
        ''[3] Sent 3 messages'', ''[4] AckAllQueueMessages on channel cpp-queues.ack_all'', ''[5] Acknowledged 3 messages'',
        ''[6] Client closed'']"
  using assms(4) unfolding ack_all_main_def Let_def
  apply (simp del: send_loop.simps)
  apply (erule connected_zero [OF _ assms(1,2)])
  apply (simp del: send_loop.simps)
  apply (erule fill_zero [OF _ assms(1)], assumption, simp add: assms(3))
  apply simp
  apply (erule drain_zero [OF _ assms(1)], assumption, simp, simp)
  apply simp
  apply (drule closing_zero [OF _ assms(2)], assumption)
  apply (simp add: one_digit)
  done

lemma purge_queue_example_drains:
  assumes "queue_broker stub queue (ex_rand64 E)" "calm stub queue E" "queue w = (\<lambda>_. [])"
    and "run_state (purge_queue_main E) (w, out) = (Exits 0, (w', out'))"
  shows "queue w' = (\<lambda>_. [])
    \<and> out' = out @ map (Pair True) [''[1] Connecting to localhost:50000'', ''[2] Sent 5 messages to queue'',
        ''[3] Purged 5 messages from queue'', ''[4] Client closed'']"
  using assms(4) unfolding purge_queue_main_def Let_def
  apply (simp del: send_loop.simps)
  apply (erule connected_zero [OF _ assms(1,2)])
  apply (erule fill_zero [OF _ assms(1)], assumption, simp add: assms(3))
  apply simp
  apply (erule drain_zero [OF _ assms(1)], assumption, simp, simp)
  apply simp
  apply (drule closing_zero [OF _ assms(2)], assumption)
  apply (simp add: one_digit)
  done

text \<open>A run of the example against the concrete broker.\<close>

definition fifo_env :: "fifo_world example_env" where
  "fifo_env = \<lparr>ex_grpc = \<lparr>ge_CreateCustomChannel = \<lambda>_ _ _. ret (Some 1), ge_NewStub = \<lambda>_. Some fifo_stub,
       ge_WaitForConnected = \<lambda>_ _. ret True, ge_GetState = \<lambda>_. ret CHANNEL_READY\<rparr>,
     ex_fs = \<lambda>_. None, ex_rand64 = ret 0, ex_contexts = \<lparr>cx_alive = \<lambda>_. ret True, cx_cancel = \<lambda>_. ret ()\<rparr>,
     ex_getenv = \<lambda>_. None, ex_sleep_ms = \<lambda>_. ret (),
     ex_downstream = \<lparr>dn_Write = \<lambda>_ _. ret False, dn_Read = \<lambda>_. ret None, dn_WritesDone = \<lambda>_. ret False\<rparr>\<rparr>"

lemma fifo_ping: "run_state (stub_Ping fifo_stub ctx) q = ((grpc_status_OK, PbPingResult_default), q)"
  by (simp add: fifo_stub_def inert_transport_def)

lemma fifo_env_laws: "queue_broker fifo_stub id (ex_rand64 fifo_env)" "calm fifo_stub id fifo_env"
  using fifo_broker fifo_ping by (simp_all add: fifo_env_def calm_def)

lemma sample_connect:
  assumes "co_tls_config opts = TlsConfig_default"
  obtains t where "result_of (Connect (ex_grpc fifo_env) fs opts) q = Inr t"
proof -
  have "\<exists>creds. BuildChannelCredentials fs (co_tls_config opts) = Inr creds"
    using assms by (simp add: BuildChannelCredentials_def TlsConfig_default_def)
  then show thesis using that by (auto simp: Connect_def fifo_env_def Let_def case_prod_unfold)
qed

lemma sample_ping:
  assumes "gt_stub t = fifo_stub" "\<not> gt_closed t" "gt_opts t = opts" "co_credential_provider opts = None" "co_auth_token opts = []"
  obtains p where "result_of (Client_Ping (assemble_client t opts)) q = Inr p"
  using assms that by (simp add: Client_Ping_def GrpcTransport_Ping_def assemble_client_def CheckClosed_def
      GrpcTransport_CheckClosed_def ApplyAuth_def InjectAuthToken_def Let_def fifo_ping case_prod_unfold)

lemma sample_create:
  assumes "i \<noteq> []"
  obtains c where "result_of (Client_Create (ex_grpc fifo_env) (ex_fs fifo_env) (ex_rand64 fifo_env) (ex_contexts fifo_env)
      (example_options i)) q = Inr c"
proof -
  let ?o = "example_options i :: fifo_world ClientOptions"
  note o = example_options_def set_client_id_def set_address_host_port_def ClientOptions_default_def
  have client_id: "co_client_id ?o = i" by (simp add: o)
  have valid: "ok (Validate ?o)" by (simp add: Validate_def o RetryPolicy_default_def Let_def)
  obtain t where t: "result_of (Connect (ex_grpc fifo_env) (ex_fs fifo_env) ?o) q = Inr t"
    by (rule sample_connect [of ?o]) (simp add: o)
  have ts: "gt_stub t = fifo_stub" "\<not> gt_closed t" "gt_opts t = ?o"
    using calm_connect [OF fifo_env_laws(2) t] by auto
  obtain p where "result_of (Client_Ping (assemble_client t ?o)) (world_of (Connect (ex_grpc fifo_env) (ex_fs fifo_env) ?o) q) = Inr p"
    by (rule sample_ping [OF ts example_options_plain]) (simp add: o)
  then show thesis using t valid assms that
    by (simp add: Client_Create_def create_from_def GrpcTransport_Create_def with_client_id_def client_id Let_def case_prod_unfold)
qed

lemma sample_send:
  assumes "broker_client fifo_stub c" "channel_sendable (qm_channel m)" "qm_channel m \<noteq> []" "qm_body m \<noteq> []"
  shows "\<exists>r. result_of (Client_SendQueueMessage c m) q = Inr r \<and> \<not> qs_is_error r"
  using assms by (simp add: broker_client_def fifo_run Client_SendQueueMessage_def GrpcTransport_SendQueueMessage_def fifo_stub_def
      effective_channel_def QueueSendResultFromProto_def PbSendQueueMessageResult_default_def sdk_defaults)

lemma sample_ack_all:
  assumes "broker_client fifo_stub c" "channel_wf (akq_channel aq)" "akq_channel aq \<noteq> []"
  shows "\<exists>r. result_of (Client_AckAllQueueMessages (ret 0) c aq) q = Inr r"
  using assms by (simp add: broker_client_def fifo_run Client_AckAllQueueMessages_def GrpcTransport_AckAllQueueMessages_def
      fifo_stub_def effective_channel_def fresh_id_def case_prod_unfold
      PbAckAllQueueMessagesResponse_default_def sdk_defaults)

lemma fifo_send_run:
  assumes "broker_client fifo_stub c" "channel_sendable ch" "ch \<noteq> []" "body \<noteq> []"
  obtains sent q' where "run_state (build_message fifo_env c what (body_message ch body)
      (\<lambda>msg. send_built fifo_env c what' failed msg k)) (q, out) = run_state (k sent) (q', out)"
proof -
  let ?b = "QueueMessage_Build (ex_rand64 fifo_env) (body_message ch body)"
  have "sor_ok (result_of ?b q)"
    using assms(3,4) by (simp add: queue_builder.build_ok_iff QueueMessage_valid_def plain_valid_def body_message_def setter_defs sdk_defaults)
  then obtain m where m: "result_of ?b q = Inr m" by (cases "result_of ?b q") auto
  then have "qm_channel m = ch" "qm_body m = body"
    using queue_builder.build_result [OF m] by (auto simp: body_message_def setter_defs sdk_defaults)
  then obtain r where r: "result_of (Client_SendQueueMessage c m) (world_of ?b q) = Inr r" "\<not> qs_is_error r"
    using sample_send [OF assms(1), of m] assms(2,3,4) by blast
  show thesis
    by (rule that [of r "world_of (Client_SendQueueMessage c m) (world_of ?b q)"])
      (use m r in \<open>simp add: build_message_def send_built_def checked_def split: option.split\<close>)
qed

lemma fifo_loop_run:
  assumes "broker_client fifo_stub c" "channel_sendable ch" "ch \<noteq> []" "\<And>i. body i \<noteq> []"
  shows "\<exists>q'. run_state (send_loop fifo_env c what what' failed (\<lambda>i. body_message ch (body i)) no_lines is k) (q, out)
    = run_state k (q', out)"
proof (induction "is" arbitrary: q)
  case (Cons i "is")
  obtain sent q' where "run_state (send_loop fifo_env c what what' failed (\<lambda>i. body_message ch (body i)) no_lines (i # is) k) (q, out)
    = run_state (do { _ \<leftarrow> cout_all (no_lines i sent);
        send_loop fifo_env c what what' failed (\<lambda>i. body_message ch (body i)) no_lines is k }) (q', out)"
    unfolding send_loop.simps by (rule fifo_send_run [OF assms])
  then show ?case using Cons.IH [of q'] by (simp add: no_lines_run del: send_loop.simps)
qed auto

text \<open>Backwards: a program exits with 0 when the rest of it does.\<close>

definition exits_zero :: "'w main \<Rightarrow> 'w \<Rightarrow> console \<Rightarrow> bool" where
  "exits_zero p w out \<longleftrightarrow> fst (run_state p (w, out)) = Exits 0"

lemma exits_zero_cout: "exits_zero p w (out @ [(True, l)]) \<Longrightarrow> exits_zero (do { _ \<leftarrow> cout l; p }) w out"
  by (simp add: exits_zero_def)

lemma exits_zero_quiet: "\<not> b \<Longrightarrow> exits_zero p w out \<Longrightarrow> exits_zero (do { _ \<leftarrow> (if b then cerr l else ret ()); p }) w out"
  by (simp add: exits_zero_def)

lemma exits_zero_with_client:
  assumes "\<And>c q'. broker_client fifo_stub c \<Longrightarrow> quiet_client c \<Longrightarrow> exits_zero (k c) q' out" "i \<noteq> []"
  shows "exits_zero (with_client fifo_env (example_options i) failed_to_create k) q out"
proof -
  obtain c where c: "result_of (Client_Create (ex_grpc fifo_env) (ex_fs fifo_env) (ex_rand64 fifo_env) (ex_contexts fifo_env)
      (example_options i)) q = Inr c" by (rule sample_create [OF assms(2)])
  then show ?thesis
    using assms(1) calm_create [OF fifo_env_laws example_options_plain c] created_quiet [OF quiet_options_setters(1) c]
    by (simp add: exits_zero_def with_client_def)
qed

lemma exits_zero_loop:
  assumes "\<And>q'. exits_zero k q' out" "broker_client fifo_stub c" "channel_sendable ch" "ch \<noteq> []" "\<And>i. body i \<noteq> []"
  shows "exits_zero (send_loop fifo_env c what what' failed (\<lambda>i. body_message ch (body i)) no_lines is k) q out"
proof -
  have "\<exists>q'. run_state (send_loop fifo_env c what what' failed (\<lambda>i. body_message ch (body i)) no_lines is k) (q, out)
      = run_state k (q', out)"
    by (rule fifo_loop_run [OF assms(2-5)])
  then show ?thesis using assms(1) by (auto simp only: exits_zero_def)
qed

lemma exits_zero_ack_all:
  assumes "\<And>ack q'. \<not> ako_is_error ack \<Longrightarrow> exits_zero (k ack) q' out"
    and "broker_client fifo_stub c" "channel_wf (akq_channel aq)" "akq_channel aq \<noteq> []"
  shows "exits_zero (do { r \<leftarrow> sdk (Client_AckAllQueueMessages (ex_rand64 fifo_env) c aq);
      checked fifo_env c (ret ()) what r k }) q out"
proof -
  have "ex_rand64 fifo_env = ret 0" by (simp add: fifo_env_def)
  then obtain r where r: "result_of (Client_AckAllQueueMessages (ex_rand64 fifo_env) c aq) q = Inr r"
    using sample_ack_all [OF assms(2-4)] by metis
  then show ?thesis using assms(1) [OF ack_all_not_error [OF r]] by (simp add: exits_zero_def checked_def)
qed

lemma exits_zero_close: "quiet_client c \<Longrightarrow> exits_zero (close_client fifo_env c (ret ()) ls) q out"
  by (metis close_client_run [OF fifo_env_laws(2)] exits_zero_def fst_conv)

lemma ack_all_example_runs: "exits_zero (ack_all_main fifo_env) q out"
proof -
  have ch: "channel_sendable ''cpp-queues.ack_all''" "channel_wf ''cpp-queues.ack_all''"
    by (simp_all add: channel_sendable_def channel_wf_def is_ascii_space_def)
  show ?thesis
    unfolding ack_all_main_def Let_def
    by (intro exits_zero_cout exits_zero_with_client exits_zero_loop exits_zero_ack_all exits_zero_quiet exits_zero_close)
      (simp_all add: ch)
qed

theorem ack_all_example_drains_witness:
  "\<exists>q out. run_state (ack_all_main fifo_env) ((\<lambda>_. []), []) = (Exits 0, (q, out)) \<and> q = (\<lambda>_. [])
    \<and> (True, ''[5] Acknowledged 3 messages'') \<in> set out"
proof -
  obtain q out where r: "run_state (ack_all_main fifo_env) ((\<lambda>_. []), []) = (Exits 0, (q, out))"
    using ack_all_example_runs [of "\<lambda>_. []" "[]"] by (metis exits_zero_def prod.collapse)
  show ?thesis using ack_all_example_drains [OF fifo_env_laws _ r] r by simp
qed

end
