(* ===== verification/Example_Threads.thy ===== *)
theory Example_Threads
  imports Example_Queues Subscriptions Client_Messaging
begin

text \<open>
  The example programs that subscribe (examples/events, examples/events_store, examples/patterns/fan_out) and
  examples/observability.  Their callbacks run on the reader threads of the SDK and write to the same console.  What
  the readers hand to the callbacks is a parameter (\<open>th_deliveries\<close>): at every point where main leaves its own code,
  by a call of the SDK or by sleeping, an arbitrary list of messages and errors is delivered to the live subscriptions.
  The counter that callbacks and main share (\<^verbatim>\<open>std::atomic\<close>) is passed along.
\<close>

section \<open>Callbacks and what happens meanwhile\<close>

type_synonym ('w, 'p) handler = "'p + Status \<Rightarrow> int \<Rightarrow> ('w \<times> console, int) state"

record ('w, 'p) threads =
  th_deliveries :: "nat list \<Rightarrow> ('w, (nat \<times> ('p + Status)) list) state"
  th_TryCancel :: "nat \<Rightarrow> ('w, unit) state"
  th_now :: "('w, int) state"

text \<open>The live subscriptions: the stream of the reader, the callbacks, the handle.\<close>

type_synonym ('w, 'p, 's) listeners = "(nat \<times> ('w, 'p) handler \<times> 's) list"

type_synonym ('w, 'p) running = "('w, 'p, 'w Subscription) listeners"

definition callbacks :: "('p \<Rightarrow> int \<Rightarrow> ('w \<times> console, int) state) \<Rightarrow> string \<Rightarrow> ('w, 'p) handler" where
  "callbacks on_message err_text d n =
     (case d of
        Inl p \<Rightarrow> on_message p n
      | Inr err \<Rightarrow> do { _ \<leftarrow> cerr (err_text @ st_message err); ret n })"

definition print_message :: "('p \<Rightarrow> string) \<Rightarrow> 'p \<Rightarrow> int \<Rightarrow> ('w \<times> console, int) state" where
  "print_message line p n = do { _ \<leftarrow> cout (line p); ret n }"

definition count_message :: "('p \<Rightarrow> string) \<Rightarrow> 'p \<Rightarrow> int \<Rightarrow> ('w \<times> console, int) state" where
  "count_message line p n = do { _ \<leftarrow> cout (line p); ret (n + 1) }"

fun deliver_all :: "('w, 'p, 's) listeners \<Rightarrow> (nat \<times> ('p + Status)) list \<Rightarrow> int \<Rightarrow> ('w \<times> console, int) state" where
  "deliver_all R [] n = ret n"
| "deliver_all R ((h, d) # ds) n = do {
     n' \<leftarrow> (case map_of R h of Some (handler, _) \<Rightarrow> handler d n | None \<Rightarrow> ret n);
     deliver_all R ds n'
   }"

definition meanwhile :: "('w, 'p) threads \<Rightarrow> ('w, 'p, 's) listeners \<Rightarrow> int \<Rightarrow> ('w \<times> console, int) state" where
  "meanwhile T R n = do {
     ds \<leftarrow> sdk (th_deliveries T (map fst R));
     deliver_all R ds n
   }"

text \<open>A call that may block: callbacks run before and after it takes effect.\<close>

definition calling :: "('w, 'p) threads \<Rightarrow> ('w, 'p, 's) listeners \<Rightarrow> int \<Rightarrow> ('w, 'a) state \<Rightarrow> ('w \<times> console, 'a \<times> int) state" where
  "calling T R n m = do {
     n1 \<leftarrow> meanwhile T R n;
     a \<leftarrow> sdk m;
     n2 \<leftarrow> meanwhile T R n1;
     ret (a, n2)
   }"

definition sleeping :: "'w example_env \<Rightarrow> ('w, 'p) threads \<Rightarrow> ('w, 'p) running \<Rightarrow> int \<Rightarrow> int \<Rightarrow> ('w \<times> console, int) state" where
  "sleeping E T R n ms = do { r \<leftarrow> calling T R n (ex_sleep_ms E ms); ret (snd r) }"

section \<open>Steps the programs share\<close>

text \<open>The destructor of a subscription cancels it and joins the reader; locals go in the reverse order.\<close>

fun drop_each :: "('w, 'p) threads \<Rightarrow> ('w, 'p) running \<Rightarrow> ('w, 'p) running \<Rightarrow> int \<Rightarrow> ('w \<times> console, unit) state" where
  "drop_each T R [] n = ret ()"
| "drop_each T R ((h, handler, sub) # subs) n = do {
     _ \<leftarrow> sdk (Cancel (th_TryCancel T) sub);
     n' \<leftarrow> meanwhile T R n;
     drop_each T (filter (\<lambda>r. fst r \<noteq> h) R) subs n'
   }"

definition drop_subscriptions :: "('w, 'p) threads \<Rightarrow> ('w, 'p) running \<Rightarrow> int \<Rightarrow> ('w \<times> console, unit) state" where
  "drop_subscriptions T R n = drop_each T R (rev R) n"

definition subscribing :: "'w example_env \<Rightarrow> ('w, 'p) threads \<Rightarrow> 'w Client \<Rightarrow> ('w, 'p) running \<Rightarrow> int
    \<Rightarrow> ('w, ('w Subscription \<times> nat) StatusOr) state \<Rightarrow> ('w, 'p) handler \<Rightarrow> string
    \<Rightarrow> (('w, 'p) running \<Rightarrow> int \<Rightarrow> 'w main) \<Rightarrow> 'w main" where
  "subscribing E T c R n subscribe handler what k = do {
     (sub_result, n1) \<leftarrow> calling T R n subscribe;
     checked E c (drop_subscriptions T R n1) what sub_result (\<lambda>(sub, h). k (R @ [(h, handler, sub)]) n1)
   }"

definition publishing :: "'w example_env \<Rightarrow> ('w, 'p) threads \<Rightarrow> 'w Client \<Rightarrow> ('w, 'p) running \<Rightarrow> int
    \<Rightarrow> string \<Rightarrow> Event \<Rightarrow> string \<Rightarrow> (int \<Rightarrow> 'w main) \<Rightarrow> 'w main" where
  "publishing E T c R n build_error b send_error k = do {
     event_result \<leftarrow> sdk (Event_Build (ex_rand64 E) b);
     checked E c (drop_subscriptions T R n) build_error event_result (\<lambda>ev. do {
       (send_status, n1) \<leftarrow> calling T R n (Client_SendEvent (ex_rand64 E) c ev);
       (if \<not> ok send_status then error_exit E c (drop_subscriptions T R n1) (send_error @ st_message send_status)
        else k n1)
     })
   }"

definition storing :: "'w example_env \<Rightarrow> ('w, 'p) threads \<Rightarrow> 'w Client \<Rightarrow> ('w, 'p) running \<Rightarrow> int
    \<Rightarrow> string \<Rightarrow> EventStore \<Rightarrow> (EventStoreResult \<Rightarrow> int \<Rightarrow> 'w main) \<Rightarrow> 'w main" where
  "storing E T c R n build_error b k = do {
     ev_result \<leftarrow> sdk (EventStore_Build (ex_rand64 E) b);
     checked E c (drop_subscriptions T R n) build_error ev_result (\<lambda>ev. do {
       (send_result, n1) \<leftarrow> calling T R n (Client_SendEventStore (ex_rand64 E) c ev);
       checked E c (drop_subscriptions T R n1) ''[ERROR] SendEventStore: '' send_result (\<lambda>sent. k sent n1)
     })
   }"

fun store_loop :: "'w example_env \<Rightarrow> ('w, 'p) threads \<Rightarrow> 'w Client \<Rightarrow> (int \<Rightarrow> EventStore) \<Rightarrow> int list \<Rightarrow> 'w main \<Rightarrow> 'w main" where
  "store_loop E T c builder [] k = k"
| "store_loop E T c builder (i # is) k =
     storing E T c [] 0 ''[ERROR] Build: '' (builder i) (\<lambda>sent n. store_loop E T c builder is k)"

text \<open>\<^verbatim>\<open>Cancel\<close> on every subscription in order.\<close>

fun cancel_each :: "('w, 'p) threads \<Rightarrow> ('w, 'p) running \<Rightarrow> ('w, 'p) running \<Rightarrow> int
    \<Rightarrow> ('w \<times> console, ('w, 'p) running \<times> int) state" where
  "cancel_each T before [] n = ret (before, n)"
| "cancel_each T before ((h, handler, sub) # subs) n = do {
     (sub', n') \<leftarrow> calling T (before @ (h, handler, sub) # subs) n (Cancel (th_TryCancel T) sub);
     cancel_each T (before @ [(h, handler, sub')]) subs n'
   }"

text \<open>\<^verbatim>\<open>Client::Close\<close>, its error branch and the return; a callback that was running when its subscription was
  cancelled may still be running.\<close>

definition closing :: "'w example_env \<Rightarrow> ('w, 'p) threads \<Rightarrow> 'w Client \<Rightarrow> ('w, 'p) running \<Rightarrow> int \<Rightarrow> string list \<Rightarrow> 'w main" where
  "closing E T c R n final_lines = do {
     ((close_status, c'), n1) \<leftarrow> calling T R n (Client_Close (ex_contexts E) c);
     (case close_status of
        Inl _ \<Rightarrow> ret Aborts
      | Inr s \<Rightarrow>
          if \<not> ok s then error_exit E c' (drop_subscriptions T R n1) (''[ERROR] Close failed: '' @ st_message s)
          else do { _ \<leftarrow> cout_all final_lines; leave E c' (drop_subscriptions T R n1) 0 })
   }"

text \<open>The common end: cancel the subscriptions, print, close the client, return.\<close>

definition finishing :: "'w example_env \<Rightarrow> ('w, 'p) threads \<Rightarrow> 'w Client \<Rightarrow> ('w, 'p) running \<Rightarrow> int
    \<Rightarrow> string list \<Rightarrow> string list \<Rightarrow> 'w main" where
  "finishing E T c R n cancelled_lines final_lines = do {
     (R', n1) \<leftarrow> cancel_each T [] R n;
     _ \<leftarrow> cout_all cancelled_lines;
     closing E T c R' n1 final_lines
   }"

definition event_message :: "string \<Rightarrow> string \<Rightarrow> string \<Rightarrow> Event" where
  "event_message channel body metadata =
     Event_SetMetadata metadata (Event_SetBody body (Event_SetChannel channel Event_default))"

definition stored_message :: "string \<Rightarrow> string \<Rightarrow> EventStore" where
  "stored_message channel body = EventStore_SetBody body (EventStore_SetChannel channel EventStore_default)"

definition seq_line :: "string \<Rightarrow> EventStoreReceive \<Rightarrow> string" where
  "seq_line head e = head @ ''seq='' @ nat_to_string (unat (eer_sequence e)) @ '' body='' @ eer_body e"

section \<open>examples/events\<close>

definition basic_pubsub_main :: "'w example_env \<Rightarrow> ('w, EventReceive) threads \<Rightarrow> 'w main" where
  "basic_pubsub_main E T = do {
     _ \<leftarrow> cout ''[1] Connecting to localhost:50000'';
     with_client E (example_options ''cpp-events-basic-pubsub-client'') failed_to_create (\<lambda>c. do {
       let channel = ''cpp-events.basic_pubsub'';
       _ \<leftarrow> cout (''[2] Subscribing to channel '' @ channel);
       subscribing E T c [] 0 (Client_SubscribeToEvents (ex_rand64 E) c (channel, []))
         (callbacks (print_message (\<lambda>event. ''[4] Received: channel='' @ er_channel event @ '' body='' @ er_body event
            @ '' metadata='' @ er_metadata event)) ''[ERROR] Subscription error: '')
         ''[ERROR] SubscribeToEvents: '' (\<lambda>R n. do {
         n \<leftarrow> sleeping E T R n 1000;
         publishing E T c R n ''[ERROR] Build event: '' (event_message channel ''hello from C++ SDK'' ''greeting'')
           ''[ERROR] SendEvent: '' (\<lambda>n. do {
           _ \<leftarrow> cout ''[3] Event published'';
           n \<leftarrow> sleeping E T R n 2000;
           _ \<leftarrow> cout ''[5] Event received successfully'';
           finishing E T c R n [''[6] Subscription cancelled''] [''[7] Client closed'']
         })
       })
     })
   }"

text \<open>\<^verbatim>\<open>IsDone\<close> is asked between the cancellation and the closing of the client.\<close>

definition confirm_done :: "('w, 'p) running \<Rightarrow> ('w \<times> console, unit) state" where
  "confirm_done R = (if list_all (\<lambda>(h, handler, sub). Subscription_IsDone sub) R then cout ''[7] Subscription confirmed done''
     else ret ())"

definition events_cancel_main :: "'w example_env \<Rightarrow> ('w, EventReceive) threads \<Rightarrow> 'w main" where
  "events_cancel_main E T = do {
     _ \<leftarrow> cout ''[1] Connecting to localhost:50000'';
     with_client E (example_options ''cpp-events-cancel-subscription-client'') failed_to_create (\<lambda>c. do {
       let channel = ''cpp-events.cancel_subscription'';
       _ \<leftarrow> cout (''[2] Subscribing to channel '' @ channel);
       subscribing E T c [] 0 (Client_SubscribeToEvents (ex_rand64 E) c (channel, []))
         (callbacks (print_message (\<lambda>event. ''[4] Received: body='' @ er_body event)) ''[ERROR] Subscription error: '')
         ''[ERROR] SubscribeToEvents: '' (\<lambda>R n. do {
         n \<leftarrow> sleeping E T R n 1000;
         publishing E T c R n ''[ERROR] Build event: '' (event_message channel ''before cancel'' ''test'')
           ''[ERROR] SendEvent: '' (\<lambda>n. do {
           _ \<leftarrow> cout ''[3] Event sent'';
           n \<leftarrow> sleeping E T R n 2000;
           _ \<leftarrow> cout ''[5] Event received before cancellation'';
           (R, n) \<leftarrow> cancel_each T [] R n;
           _ \<leftarrow> cout ''[6] Subscription cancelled'';
           _ \<leftarrow> confirm_done R;
           closing E T c R n [''[8] Client closed'']
         })
       })
     })
   }"

definition events_group_main :: "'w example_env \<Rightarrow> ('w, EventReceive) threads \<Rightarrow> 'w main" where
  "events_group_main E T = do {
     _ \<leftarrow> cout ''[1] Connecting to localhost:50000'';
     with_client E (example_options ''cpp-events-consumer-group-client'') failed_to_create (\<lambda>c. do {
       let channel = ''cpp-events.consumer_group'';
       let worker_group = ''cpp-events-worker-group'';
       _ \<leftarrow> cout (''[2] Subscribing with group='' @ worker_group);
       subscribing E T c [] 0 (Client_SubscribeToEvents (ex_rand64 E) c (channel, worker_group))
         (callbacks (print_message (\<lambda>event. ''[4] Consumer group received: channel='' @ er_channel event
            @ '' body='' @ er_body event)) ''[ERROR] Subscription error: '')
         ''[ERROR] SubscribeToEvents: '' (\<lambda>R n. do {
         n \<leftarrow> sleeping E T R n 1000;
         publishing E T c R n ''[ERROR] Build event: '' (event_message channel ''hello consumer group'' ''group-demo'')
           ''[ERROR] SendEvent: '' (\<lambda>n. do {
           _ \<leftarrow> cout ''[3] Event published to consumer group channel'';
           n \<leftarrow> sleeping E T R n 2000;
           _ \<leftarrow> cout ''[5] Consumer group demo complete'';
           finishing E T c R n [] [''[6] Client closed'']
         })
       })
     })
   }"

definition multiple_subscribers_main :: "'w example_env \<Rightarrow> ('w, EventReceive) threads \<Rightarrow> 'w main" where
  "multiple_subscribers_main E T = do {
     _ \<leftarrow> cout ''[1] Connecting to localhost:50000'';
     with_client E (example_options ''cpp-events-multiple-subscribers-client'') failed_to_create (\<lambda>c. do {
       let channel = ''cpp-events.multiple_subscribers'';
       _ \<leftarrow> cout ''[2] Creating subscriber 1'';
       subscribing E T c [] 0 (Client_SubscribeToEvents (ex_rand64 E) c (channel, []))
         (callbacks (count_message (\<lambda>event. ''[5] Subscriber 1 received: body='' @ er_body event)) ''[ERROR] Sub1 error: '')
         ''[ERROR] SubscribeToEvents sub1: '' (\<lambda>R n. do {
       _ \<leftarrow> cout ''[3] Creating subscriber 2'';
       subscribing E T c R n (Client_SubscribeToEvents (ex_rand64 E) c (channel, []))
         (callbacks (count_message (\<lambda>event. ''[5] Subscriber 2 received: body='' @ er_body event)) ''[ERROR] Sub2 error: '')
         ''[ERROR] SubscribeToEvents sub2: '' (\<lambda>R n. do {
         n \<leftarrow> sleeping E T R n 1000;
         publishing E T c R n ''[ERROR] Build event: '' (event_message channel ''hello to all subscribers'' ''fan-out'')
           ''[ERROR] SendEvent: '' (\<lambda>n. do {
           _ \<leftarrow> cout ''[4] Event published'';
           n \<leftarrow> sleeping E T R n 2000;
           _ \<leftarrow> cout (''[6] Total deliveries: '' @ to_string n @ '' (expected 2 for fan-out)'');
           finishing E T c R n [] [''[7] Client closed'']
         })
       })
       })
     })
   }"

text \<open>The loop over the two channels publishes to each.\<close>

fun publish_loop :: "'w example_env \<Rightarrow> ('w, EventReceive) threads \<Rightarrow> 'w Client \<Rightarrow> ('w, EventReceive) running \<Rightarrow> int
    \<Rightarrow> string list \<Rightarrow> (int \<Rightarrow> 'w main) \<Rightarrow> 'w main" where
  "publish_loop E T c R n [] k = k n"
| "publish_loop E T c R n (ch # chs) k =
     publishing E T c R n ''[ERROR] Build event: '' (event_message ch ''wildcard-msg'' ''wildcard-demo'')
       (''[ERROR] SendEvent to '' @ ch @ '': '') (\<lambda>n. do {
       _ \<leftarrow> cout (''[3] Published to '' @ ch);
       publish_loop E T c R n chs k
     })"

definition wildcard_main :: "'w example_env \<Rightarrow> ('w, EventReceive) threads \<Rightarrow> 'w main" where
  "wildcard_main E T = do {
     _ \<leftarrow> cout ''[1] Connecting to localhost:50000'';
     with_client E (example_options ''cpp-events-wildcard-subscription-client'') failed_to_create (\<lambda>c. do {
       _ \<leftarrow> cout ''[2] Subscribing to cpp-events.wildcard.*'';
       subscribing E T c [] 0 (Client_SubscribeToEvents (ex_rand64 E) c (''cpp-events.wildcard.*'', []))
         (callbacks (print_message (\<lambda>event. ''[4] Wildcard received: channel='' @ er_channel event @ '' body='' @ er_body event))
            ''[ERROR] Subscription error: '')
         ''[ERROR] SubscribeToEvents: '' (\<lambda>R n. do {
         n \<leftarrow> sleeping E T R n 1000;
         publish_loop E T c R n [''cpp-events.wildcard.a'', ''cpp-events.wildcard.b''] (\<lambda>n. do {
           n \<leftarrow> sleeping E T R n 2000;
           _ \<leftarrow> cout ''[5] Wildcard subscription demo complete'';
           finishing E T c R n [] [''[6] Client closed'']
         })
       })
     })
   }"

section \<open>examples/patterns/fan_out and examples/observability\<close>

text \<open>The subscriptions of \<^verbatim>\<open>fan_out\<close> are the elements of a vector; the order in which a vector destroys them is not
  specified, here it is the last first.\<close>

fun fan_out_subscribe :: "'w example_env \<Rightarrow> ('w, EventReceive) threads \<Rightarrow> 'w Client \<Rightarrow> string \<Rightarrow> int list
    \<Rightarrow> ('w, EventReceive) running \<Rightarrow> int \<Rightarrow> (('w, EventReceive) running \<Rightarrow> int \<Rightarrow> 'w main) \<Rightarrow> 'w main" where
  "fan_out_subscribe E T c channel [] R n k = k R n"
| "fan_out_subscribe E T c channel (i # is) R n k =
     subscribing E T c R n (Client_SubscribeToEvents (ex_rand64 E) c (channel, []))
       (callbacks (count_message (\<lambda>event. ''[4] Subscriber '' @ to_string i @ '' received: body='' @ er_body event))
          (''[ERROR] Subscriber '' @ to_string i @ '' error: ''))
       (''[ERROR] SubscribeToEvents (subscriber '' @ to_string i @ ''): '')
       (\<lambda>R n. fan_out_subscribe E T c channel is R n k)"

definition fan_out_main :: "'w example_env \<Rightarrow> ('w, EventReceive) threads \<Rightarrow> 'w main" where
  "fan_out_main E T = do {
     _ \<leftarrow> cout ''[1] Connecting to localhost:50000'';
     with_client E (example_options ''cpp-patterns-fan-out-client'') failed_to_create (\<lambda>c. do {
       let channel = ''cpp-patterns.fan_out'';
       _ \<leftarrow> cout ''[2] Creating 3 fan-out subscribers'';
       fan_out_subscribe E T c channel [1..3] [] 0 (\<lambda>R n. do {
         n \<leftarrow> sleeping E T R n 1000;
         _ \<leftarrow> cout ''[3] Publishing event to all subscribers'';
         publishing E T c R n ''[ERROR] Build event: '' (event_message channel ''broadcast message'' ''fan-out'')
           ''[ERROR] SendEvent: '' (\<lambda>n. do {
           n \<leftarrow> sleeping E T R n 2000;
           _ \<leftarrow> cout (''[5] Total deliveries: '' @ to_string n @ '' (expected 3 for fan-out)'');
           finishing E T c R n [''[6] All subscriptions cancelled''] [''[7] Client closed'']
         })
       })
     })
   }"

definition opentelemetry_main :: "'w example_env \<Rightarrow> ('w, EventReceive) threads \<Rightarrow> 'w main" where
  "opentelemetry_main E T = do {
     _ \<leftarrow> cout ''[1] OpenTelemetry providers configured (using default/no-op)'';
     _ \<leftarrow> cout (''[INFO] To see real traces, configure an OpenTelemetry collector and '' @
              ''replace the no-op provider above.'');
     with_client E (example_options ''cpp-observability-opentelemetry-setup-client'') failed_to_create (\<lambda>c.
       publishing E T c [] 0 ''[ERROR] Build event: ''
         (event_message ''cpp-observability.opentelemetry_setup'' ''traced-event'' ''otel-demo'') ''[ERROR] SendEvent: '' (\<lambda>n. do {
         _ \<leftarrow> cout ''[2] Event sent with tracing enabled'';
         n \<leftarrow> sleeping E T [] n 1000;
         close_client E c (ret ()) [''[3] Client closed'']
       }))
   }"

section \<open>examples/events_store\<close>

definition store_cancel_main :: "'w example_env \<Rightarrow> ('w, EventStoreReceive) threads \<Rightarrow> 'w main" where
  "store_cancel_main E T = do {
     _ \<leftarrow> cout ''[1] Connecting to localhost:50000'';
     with_client E (example_options ''cpp-events-store-cancel-subscription-client'') failed_to_create (\<lambda>c. do {
       let channel = ''cpp-events_store.cancel_subscription'';
       _ \<leftarrow> cout (''[2] Subscribing with StartFromNewEvents'');
       subscribing E T c [] 0 (Client_SubscribeToEventsStore (ex_rand64 E) c (channel, [], StartFromNewEvents))
         (callbacks (count_message (seq_line ''[4] Received: '')) ''[ERROR] Subscription error: '')
         ''[ERROR] SubscribeToEventsStore: '' (\<lambda>R n. do {
         n \<leftarrow> sleeping E T R n 1000;
         _ \<leftarrow> cout (''[3] Sending event before cancel'');
         storing E T c R n ''[ERROR] Build: '' (stored_message channel ''before cancel'') (\<lambda>sent n. do {
           n \<leftarrow> sleeping E T R n 2000;
           _ \<leftarrow> cout (''[5] Event received before cancellation, count='' @ to_string n);
           (R, n) \<leftarrow> cancel_each T [] R n;
           _ \<leftarrow> cout ''[6] Subscription cancelled'';
           _ \<leftarrow> confirm_done R;
           closing E T c R n [''[8] Client closed'']
         })
       })
     })
   }"

definition store_group_main :: "'w example_env \<Rightarrow> ('w, EventStoreReceive) threads \<Rightarrow> 'w main" where
  "store_group_main E T = do {
     _ \<leftarrow> cout ''[1] Connecting to localhost:50000'';
     with_client E (example_options ''cpp-events-store-consumer-group-client'') failed_to_create (\<lambda>c. do {
       let channel = ''cpp-events_store.consumer_group'';
       let worker_group = ''cpp-events-store-worker-group'';
       _ \<leftarrow> cout (''[2] Subscribing with group='' @ worker_group);
       subscribing E T c [] 0 (Client_SubscribeToEventsStore (ex_rand64 E) c (channel, worker_group, StartFromFirstEvent))
         (callbacks (count_message (seq_line ''[4] [ConsumerGroup] '')) ''[ERROR] Subscription error: '')
         ''[ERROR] SubscribeToEventsStore: '' (\<lambda>R n. do {
         n \<leftarrow> sleeping E T R n 1000;
         _ \<leftarrow> cout (''[3] Sending event to channel '' @ channel);
         storing E T c R n ''[ERROR] Build: '' (EventStore_SetMetadata ''group-demo'' (stored_message channel ''group event'')) (\<lambda>sent n. do {
           n \<leftarrow> sleeping E T R n 2000;
           _ \<leftarrow> cout (''[5] Received '' @ to_string n @ '' event(s)'');
           _ \<leftarrow> cout ''[6] Consumer group demo complete'';
           finishing E T c R n [] [''[7] Client closed'']
         })
       })
     })
   }"

definition persistent_pubsub_main :: "'w example_env \<Rightarrow> ('w, EventStoreReceive) threads \<Rightarrow> 'w main" where
  "persistent_pubsub_main E T = do {
     _ \<leftarrow> cout ''[1] Connecting to localhost:50000'';
     with_client E (example_options ''cpp-events-store-persistent-pubsub-client'') failed_to_create (\<lambda>c. do {
       let channel = ''cpp-events_store.persistent_pubsub'';
       _ \<leftarrow> cout (''[2] Subscribing to channel '' @ channel);
       subscribing E T c [] 0 (Client_SubscribeToEventsStore (ex_rand64 E) c (channel, [], StartFromNewEvents))
         (callbacks (print_message (seq_line ''[5] Received: '')) ''[ERROR] Subscription error: '')
         ''[ERROR] SubscribeToEventsStore: '' (\<lambda>R n. do {
         n \<leftarrow> sleeping E T R n 1000;
         storing E T c R n ''[ERROR] Build event store: '' (EventStore_SetMetadata ''greeting'' (stored_message channel ''persistent hello'')) (\<lambda>sent n. do {
           _ \<leftarrow> cout (''[3] Event stored: id='' @ ers_id sent @ '' sent='' @ (if ers_sent sent then ''1'' else ''0''));
           n \<leftarrow> sleeping E T R n 2000;
           _ \<leftarrow> cout ''[4] Persistent pub/sub demo complete'';
           finishing E T c R n [] [''[6] Client closed'']
         })
       })
     })
   }"

definition start_delta_main :: "'w example_env \<Rightarrow> ('w, EventStoreReceive) threads \<Rightarrow> 'w main" where
  "start_delta_main E T = do {
     _ \<leftarrow> cout ''[1] Connecting to localhost:50000'';
     with_client E (example_options ''cpp-events-store-start-at-time-delta-client'') failed_to_create (\<lambda>c. do {
       let channel = ''cpp-events_store.start_at_time_delta'';
       _ \<leftarrow> cout (''[2] Subscribing with StartFromTimeDelta(30 minutes)'');
       subscribing E T c [] 0 (Client_SubscribeToEventsStore (ex_rand64 E) c (channel, [], StartFromTimeDelta 1800))
         (callbacks (count_message (seq_line ''[4] [StartFromTimeDelta] '')) ''[ERROR] Subscription error: '')
         ''[ERROR] SubscribeToEventsStore: '' (\<lambda>R n. do {
         n \<leftarrow> sleeping E T R n 1000;
         _ \<leftarrow> cout (''[3] Sending event within delta window'');
         storing E T c R n ''[ERROR] Build: '' (stored_message channel ''recent event'') (\<lambda>sent n. do {
           n \<leftarrow> sleeping E T R n 2000;
           _ \<leftarrow> cout (''[5] Received '' @ to_string n @ '' event(s)'');
           _ \<leftarrow> cout ''[6] Start at time delta demo complete'';
           finishing E T c R n [] [''[7] Client closed'']
         })
       })
     })
   }"

definition replay_time_main :: "'w example_env \<Rightarrow> ('w, EventStoreReceive) threads \<Rightarrow> 'w main" where
  "replay_time_main E T = do {
     _ \<leftarrow> cout ''[1] Connecting to localhost:50000'';
     with_client E (example_options ''cpp-events-store-replay-from-time-client'') failed_to_create (\<lambda>c. do {
       let channel = ''cpp-events_store.replay_from_time'';
       now \<leftarrow> sdk (th_now T);
       let since = now - 3600 * 1000000000;
       _ \<leftarrow> cout (''[2] Subscribing with StartFromTime(now - 1 hour)'');
       subscribing E T c [] 0 (Client_SubscribeToEventsStore (ex_rand64 E) c (channel, [], StartFromTime since))
         (callbacks (count_message (seq_line ''[4] [StartFromTime] '')) ''[ERROR] Subscription error: '')
         ''[ERROR] SubscribeToEventsStore: '' (\<lambda>R n. do {
         n \<leftarrow> sleeping E T R n 1000;
         _ \<leftarrow> cout (''[3] Sending event within time window'');
         storing E T c R n ''[ERROR] Build: '' (stored_message channel ''event within time window'') (\<lambda>sent n. do {
           n \<leftarrow> sleeping E T R n 2000;
           _ \<leftarrow> cout (''[5] Received '' @ to_string n @ '' event(s)'');
           _ \<leftarrow> cout ''[6] Replay from time demo complete'';
           finishing E T c R n [] [''[7] Client closed'']
         })
       })
     })
   }"

definition start_new_main :: "'w example_env \<Rightarrow> ('w, EventStoreReceive) threads \<Rightarrow> 'w main" where
  "start_new_main E T = do {
     _ \<leftarrow> cout ''[1] Connecting to localhost:50000'';
     with_client E (example_options ''cpp-events-store-start-new-only-client'') failed_to_create (\<lambda>c. do {
       let channel = ''cpp-events_store.start_new_only'';
       _ \<leftarrow> cout (''[2] Subscribing with StartFromNewEvents'');
       subscribing E T c [] 0 (Client_SubscribeToEventsStore (ex_rand64 E) c (channel, [], StartFromNewEvents))
         (callbacks (count_message (seq_line ''[4] [StartFromNew] '')) ''[ERROR] Subscription error: '')
         ''[ERROR] SubscribeToEventsStore: '' (\<lambda>R n. do {
         n \<leftarrow> sleeping E T R n 1000;
         _ \<leftarrow> cout (''[3] Sending event after subscription'');
         storing E T c R n ''[ERROR] Build: '' (EventStore_SetMetadata ''new-only'' (stored_message channel ''new event only'')) (\<lambda>sent n. do {
           n \<leftarrow> sleeping E T R n 2000;
           _ \<leftarrow> cout (''[5] Received '' @ to_string n @ '' event(s)'');
           _ \<leftarrow> cout ''[6] Start new only demo complete'';
           finishing E T c R n [] [''[7] Client closed'']
         })
       })
     })
   }"

definition replay_sequence_main :: "'w example_env \<Rightarrow> ('w, EventStoreReceive) threads \<Rightarrow> 'w main" where
  "replay_sequence_main E T = do {
     _ \<leftarrow> cout ''[1] Connecting to localhost:50000'';
     with_client E (example_options ''cpp-events-store-replay-from-sequence-client'') failed_to_create (\<lambda>c. do {
       let channel = ''cpp-events_store.replay_from_sequence'';
       store_loop E T c (\<lambda>i. stored_message channel (''msg-'' @ to_string i)) [1..5] (do {
       _ \<leftarrow> cout ''[2] Sent 5 events'';
       _ \<leftarrow> cout ''[3] Subscribing with StartFromSequence(3)'';
       subscribing E T c [] 0 (Client_SubscribeToEventsStore (ex_rand64 E) c (channel, [], StartFromSequence 3))
         (callbacks (count_message (seq_line ''[4] [StartFromSeq(3)] '')) ''[ERROR] Subscription error: '')
         ''[ERROR] SubscribeToEventsStore: '' (\<lambda>R n. do {
         n \<leftarrow> sleeping E T R n 3000;
         _ \<leftarrow> cout (''[5] Received '' @ to_string n @ '' events from sequence 3 onward'');
         finishing E T c R n [] [''[6] Client closed'']
       })})
     })
   }"

definition start_first_main :: "'w example_env \<Rightarrow> ('w, EventStoreReceive) threads \<Rightarrow> 'w main" where
  "start_first_main E T = do {
     _ \<leftarrow> cout ''[1] Connecting to localhost:50000'';
     with_client E (example_options ''cpp-events-store-start-from-first-client'') failed_to_create (\<lambda>c. do {
       let channel = ''cpp-events_store.start_from_first'';
       store_loop E T c (\<lambda>i. EventStore_SetMetadata ''replay-test'' (stored_message channel (''stored-msg-'' @ to_string i))) [1..3] (do {
       _ \<leftarrow> cout ''[2] Sent 3 events to store'';
       _ \<leftarrow> cout ''[3] Subscribing with StartFromFirstEvent'';
       subscribing E T c [] 0 (Client_SubscribeToEventsStore (ex_rand64 E) c (channel, [], StartFromFirstEvent))
         (callbacks (count_message (seq_line ''[4] [StartFromFirst] '')) ''[ERROR] Subscription error: '')
         ''[ERROR] SubscribeToEventsStore: '' (\<lambda>R n. do {
         n \<leftarrow> sleeping E T R n 3000;
         _ \<leftarrow> cout (''[5] Received '' @ to_string n @ '' events from replay'');
         finishing E T c R n [] [''[6] Client closed'']
       })})
     })
   }"

definition start_last_main :: "'w example_env \<Rightarrow> ('w, EventStoreReceive) threads \<Rightarrow> 'w main" where
  "start_last_main E T = do {
     _ \<leftarrow> cout ''[1] Connecting to localhost:50000'';
     with_client E (example_options ''cpp-events-store-start-from-last-client'') failed_to_create (\<lambda>c. do {
       let channel = ''cpp-events_store.start_from_last'';
       store_loop E T c (\<lambda>i. stored_message channel (''msg-'' @ to_string i)) [1..3] (do {
       _ \<leftarrow> cout ''[2] Sent 3 events'';
       _ \<leftarrow> cout ''[3] Subscribing with StartFromLastEvent'';
       subscribing E T c [] 0 (Client_SubscribeToEventsStore (ex_rand64 E) c (channel, [], StartFromLastEvent))
         (callbacks (count_message (seq_line ''[4] [StartFromLast] '')) ''[ERROR] Subscription error: '')
         ''[ERROR] SubscribeToEventsStore: '' (\<lambda>R n. do {
         n \<leftarrow> sleeping E T R n 2000;
         _ \<leftarrow> cout (''[5] Received '' @ to_string n @ '' event(s) from last'');
         _ \<leftarrow> cout (''[6] Start from last demo complete'');
         finishing E T c R n [] [''[7] Client closed'']
       })})
     })
   }"

section \<open>How the programs end\<close>

text \<open>Callbacks of these programs only print; so does everything that runs them.\<close>

definition running_prints :: "('w, 'p, 's) listeners \<Rightarrow> bool" where
  "running_prints R = list_all (\<lambda>(h, handler, sub). \<forall>d n. prints (handler d n)) R"

lemma running_prints_intros [prints_intros]:
  "running_prints []" "running_prints R \<Longrightarrow> (\<And>d n. prints (f d n)) \<Longrightarrow> running_prints (R @ [(h, f, sub)])"
  by (auto simp: running_prints_def)

lemma prints_callbacks [prints_intros]:
  "(\<And>p n. prints (on_message p n)) \<Longrightarrow> prints (callbacks on_message t d n)"
  "prints (print_message line p n)" "prints (count_message line p n)"
  unfolding callbacks_def print_message_def count_message_def by (intro prints_intros; assumption)+

lemma map_of_running: "map_of R h = Some (f, sub) \<Longrightarrow> running_prints R \<Longrightarrow> prints (f d n)"
  unfolding running_prints_def list_all_iff by (drule map_of_SomeD) fastforce

lemma prints_deliver_all [prints_intros]: "running_prints R \<Longrightarrow> prints (deliver_all R ds n)"
proof (induction R ds n rule: deliver_all.induct)
  case (2 R h d ds n)
  have "prints (case map_of R h of Some (f, _) \<Rightarrow> f d n | None \<Rightarrow> ret n)"
    using 2(2) by (auto split: option.split intro: prints_intros map_of_running)
  then show ?case using 2 by (auto intro: prints_bind)
qed (auto intro: prints_intros)

lemma prints_meanwhile [prints_intros]: "running_prints R \<Longrightarrow> prints (meanwhile T R n)"
  unfolding meanwhile_def by (intro prints_intros)

lemma prints_calling [prints_intros]: "running_prints R \<Longrightarrow> prints (calling T R n m)"
  unfolding calling_def by (intro prints_intros)

lemma prints_sleeping [prints_intros]: "running_prints R \<Longrightarrow> prints (sleeping E T R n ms)"
  unfolding sleeping_def by (intro prints_intros)

lemma prints_drop_each: "running_prints R \<Longrightarrow> prints (drop_each T R subs n)"
proof (induction T R subs n rule: drop_each.induct)
  case (2 T R h f sub subs n)
  have "running_prints (filter (\<lambda>r. fst r \<noteq> h) R)" using 2(2) by (auto simp: running_prints_def list_all_iff)
  then show ?case using 2 by (auto intro!: prints_intros)
qed (auto intro: prints_intros)

lemma prints_drop_subscriptions [prints_intros]: "running_prints R \<Longrightarrow> prints (drop_subscriptions T R n)"
  by (simp add: drop_subscriptions_def prints_drop_each)

lemma prints_cancel_each: "running_prints (before @ subs) \<Longrightarrow> prints (cancel_each T before subs n)"
proof (induction T before subs n rule: cancel_each.induct)
  case (2 T before h f sub subs n)
  have "running_prints ((before @ [(h, f, sub')]) @ subs)" for sub' using 2(2) by (simp add: running_prints_def)
  then show ?case using 2 by (auto intro!: prints_intros)
qed (auto intro: prints_intros)

lemma cancel_each_running:
  "running_prints (before @ subs) \<Longrightarrow> running_prints (fst (result_of (cancel_each T before subs n) x))"
proof (induction T before subs n arbitrary: x rule: cancel_each.induct)
  case (2 T before h f sub subs n)
  have "running_prints ((before @ [(h, f, sub')]) @ subs)" for sub' using 2(2) by (simp add: running_prints_def)
  then show ?case using 2(1) by (simp add: case_prod_unfold)
qed simp

lemma confirm_done_prints [prints_intros]: "prints (confirm_done R)"
  unfolding confirm_done_def by (intro prints_intros)

text \<open>The rules for the steps of these programs.\<close>

lemma orderly_result:
  assumes "prints m" "\<And>x. orderly (k (result_of m x))"
  shows "orderly (do { a \<leftarrow> m; k a })"
proof (rule orderlyI)
  fix w out
  have "\<exists>lines. snd (world_of m (w, out)) = out @ lines" using assms(1) by (simp add: prints_def)
  then show "\<exists>lines. snd (world_of (do { a \<leftarrow> m; k a }) (w, out)) = out @ lines
    \<and> (result_of (do { a \<leftarrow> m; k a }) (w, out) = Exits 0
       \<or> result_of (do { a \<leftarrow> m; k a }) (w, out) = Exits 1 \<and> list_ex error_line lines)"
    using orderly_after [OF assms(2)] by (simp add: case_prod_unfold)
qed

lemma orderly_steps [orderly_intros]:
  "running_prints R \<Longrightarrow> (\<And>n. orderly (k n)) \<Longrightarrow> orderly (do { n \<leftarrow> sleeping E T R n0 ms; k n })"
  "running_prints R \<Longrightarrow> (\<And>r. orderly (l r)) \<Longrightarrow> orderly (do { r \<leftarrow> calling T R n0 q; l r })"
  "orderly p \<Longrightarrow> orderly (do { _ \<leftarrow> confirm_done R; p })"
  by (intro orderly_bind prints_intros; assumption)+

lemma orderly_cancel [orderly_intros]:
  assumes "running_prints R" "\<And>R' n'. running_prints R' \<Longrightarrow> orderly (k R' n')"
  shows "orderly (do { (R', n') \<leftarrow> cancel_each T [] R n; k R' n' })"
proof (rule orderly_result)
  show "prints (cancel_each T [] R n)" by (rule prints_cancel_each) (simp add: assms(1))
next
  fix x
  have "running_prints (fst (result_of (cancel_each T [] R n) x))" by (rule cancel_each_running) (simp add: assms(1))
  then show "orderly (case result_of (cancel_each T [] R n) x of (R', n') \<Rightarrow> k R' n')"
    using assms(2) by (simp add: case_prod_unfold)
qed

lemma calling_close:
  assumes "quiet_client c"
  shows "\<exists>c' n'. result_of (calling T R n (Client_Close ctx c)) x = ((Inr Status_ok, c'), n') \<and> quiet_client c'"
proof -
  obtain n1 w1 out1 where m: "run_state (meanwhile T R n) x = (n1, (w1, out1))" by (metis surj_pair)
  obtain c' w' where c: "run_state (Client_Close ctx c) w1 = ((Inr Status_ok, c'), w')" "quiet_client c'"
    by (rule quiet_close [OF assms])
  show ?thesis using m c by (simp add: calling_def case_prod_unfold sdk_def)
qed

lemma orderly_subscribing [orderly_intros]:
  assumes "quiet_client c" "running_prints R" "error_text what" "\<And>d n. prints (handler d n)"
    and "\<And>R n. running_prints R \<Longrightarrow> orderly (k R n)"
  shows "orderly (subscribing E T c R n m handler what k)"
  unfolding subscribing_def by (intro orderly_intros prints_intros assms)

lemma orderly_publishing [orderly_intros]:
  assumes "quiet_client c" "running_prints R" "error_text what" "error_text what'" "\<And>n. orderly (k n)"
  shows "orderly (publishing E T c R n what b what' k)"
  unfolding publishing_def by (intro orderly_intros prints_intros assms)

lemma orderly_storing [orderly_intros]:
  assumes "quiet_client c" "running_prints R" "error_text what" "\<And>s n. orderly (k s n)"
  shows "orderly (storing E T c R n what b k)"
  unfolding storing_def by (intro orderly_intros prints_intros assms) (simp add: error_text_def)

lemma orderly_store_loop [orderly_intros]:
  "quiet_client c \<Longrightarrow> orderly k \<Longrightarrow> orderly (store_loop E T c builder is k)"
  by (induction "is") (auto intro!: orderly_storing running_prints_intros simp: error_text_def)

lemma orderly_closing [orderly_intros]:
  assumes "quiet_client c" "running_prints R"
  shows "orderly (closing E T c R n final_lines)"
  unfolding closing_def
proof (rule orderly_result [OF prints_calling [OF assms(2)]], goal_cases)
  case (1 x)
  obtain c' n' where r: "result_of (calling T R n (Client_Close (ex_contexts E) c)) x = ((Inr Status_ok, c'), n')"
      and c': "quiet_client c'"
    using calling_close [OF assms(1)] by metis
  have "orderly (do { _ \<leftarrow> cout_all final_lines; leave E c' (drop_subscriptions T R n') 0 })"
    by (intro orderly_intros prints_intros orderly_leave c' assms(2))
  then show ?case by (simp add: r)
qed

lemma orderly_finishing [orderly_intros]:
  "quiet_client c \<Longrightarrow> running_prints R \<Longrightarrow> orderly (finishing E T c R n ls ls')"
  unfolding finishing_def by (intro orderly_intros prints_intros)

lemma orderly_publish_loop [orderly_intros]:
  assumes "quiet_client c" "running_prints R" "\<And>n. orderly (k n)"
  shows "orderly (publish_loop E T c R n chs k)"
  by (induction chs arbitrary: n) (auto intro!: orderly_publishing orderly_console assms simp: error_text_def)

lemma orderly_fan_out_subscribe [orderly_intros]:
  assumes "quiet_client c" "\<And>R n. running_prints R \<Longrightarrow> orderly (k R n)"
  shows "running_prints R \<Longrightarrow> orderly (fan_out_subscribe E T c ch is R n k)"
  by (induction "is" arbitrary: R n) (auto intro!: orderly_subscribing prints_intros assms simp: error_text_def)

lemmas thread_example_defs = basic_pubsub_main_def events_cancel_main_def events_group_main_def
  multiple_subscribers_main_def wildcard_main_def fan_out_main_def opentelemetry_main_def store_cancel_main_def
  store_group_main_def persistent_pubsub_main_def start_delta_main_def replay_time_main_def start_new_main_def
  replay_sequence_main_def start_first_main_def start_last_main_def Let_def

lemma events_examples_orderly:
  "orderly (basic_pubsub_main E T)" "orderly (events_cancel_main E T)" "orderly (events_group_main E T)"
  "orderly (multiple_subscribers_main E T)" "orderly (wildcard_main E T)" "orderly (fan_out_main E T)"
  "orderly (opentelemetry_main E T)"
  unfolding thread_example_defs by (intro orderly_intros prints_intros; simp add: error_text_def)+

lemma store_examples_orderly:
  "orderly (store_cancel_main E S)" "orderly (store_group_main E S)" "orderly (persistent_pubsub_main E S)"
  "orderly (start_delta_main E S)" "orderly (replay_time_main E S)" "orderly (start_new_main E S)"
  "orderly (replay_sequence_main E S)" "orderly (start_first_main E S)" "orderly (start_last_main E S)"
  unfolding thread_example_defs by (intro orderly_intros prints_intros; simp add: error_text_def)+

end
