(* ===== verification/Example_Rpc.thy ===== *)
theory Example_Rpc
  imports Example_Threads
begin

text \<open>
  The examples of commands and queries (examples/commands, examples/queries, examples/patterns/request_reply): a handler
  that answers on the reader thread while main waits for the answer.
\<close>

section \<open>Steps the programs share\<close>

text \<open>The handlers print, build a reply to the request and send it; the flag they set is 0 or 1.  \<open>decorate\<close> is what a
  program adds to the reply.\<close>

definition epoch_seconds :: "('w, 'p) threads \<Rightarrow> ('w, int) state" where
  "epoch_seconds T = do { nanos \<leftarrow> th_now T; ret (nanos div 1000000000) }"

definition send_command_reply :: "('w, 'p) threads \<Rightarrow> 'w Client \<Rightarrow> (CommandReply \<Rightarrow> CommandReply) \<Rightarrow> CommandReceive
    \<Rightarrow> ('w \<times> console, bool) state" where
  "send_command_reply T c decorate cmd = do {
     now_epoch \<leftarrow> sdk (epoch_seconds T);
     (case CommandReply_Build (CommandReply_SetExecutedAt now_epoch (CommandReply_SetExecuted True (decorate
         (CommandReply_SetResponseTo (cv_response_to cmd) (CommandReply_SetRequestId (cv_id cmd) CommandReply_default))))) of
        Inl s \<Rightarrow> do { _ \<leftarrow> cerr (''[ERROR] Build reply: '' @ st_message s); ret False }
      | Inr reply \<Rightarrow> do {
          send_status \<leftarrow> sdk (Client_SendCommandResponse c reply);
          (if \<not> ok send_status
           then do { _ \<leftarrow> cerr (''[ERROR] SendCommandResponse: '' @ st_message send_status); ret False }
           else ret True)
        })
   }"

definition answer_command :: "('w, 'p) threads \<Rightarrow> 'w Client \<Rightarrow> (CommandReceive \<Rightarrow> string) \<Rightarrow> (CommandReply \<Rightarrow> CommandReply)
    \<Rightarrow> CommandReceive \<Rightarrow> int \<Rightarrow> ('w \<times> console, int) state" where
  "answer_command T c line decorate cmd handled = do {
     _ \<leftarrow> cout (line cmd);
     sent \<leftarrow> send_command_reply T c decorate cmd;
     ret (if sent then 1 else handled)
   }"

definition send_query_reply :: "('w, 'p) threads \<Rightarrow> 'w Client \<Rightarrow> (QueryReply \<Rightarrow> QueryReply) \<Rightarrow> QueryReceive
    \<Rightarrow> ('w \<times> console, bool) state" where
  "send_query_reply T c decorate qry = do {
     now_epoch \<leftarrow> sdk (epoch_seconds T);
     (case QueryReply_Build (QueryReply_SetExecutedAt now_epoch (QueryReply_SetExecuted True (decorate
         (QueryReply_SetResponseTo (qv_response_to qry) (QueryReply_SetRequestId (qv_id qry) QueryReply_default))))) of
        Inl s \<Rightarrow> do { _ \<leftarrow> cerr (''[ERROR] Build reply: '' @ st_message s); ret False }
      | Inr reply \<Rightarrow> do {
          send_status \<leftarrow> sdk (Client_SendQueryResponse c reply);
          (if \<not> ok send_status
           then do { _ \<leftarrow> cerr (''[ERROR] SendQueryResponse: '' @ st_message send_status); ret False }
           else ret True)
        })
   }"

definition answer_query :: "('w, 'p) threads \<Rightarrow> 'w Client \<Rightarrow> (QueryReceive \<Rightarrow> string) \<Rightarrow> (QueryReply \<Rightarrow> QueryReply)
    \<Rightarrow> QueryReceive \<Rightarrow> int \<Rightarrow> ('w \<times> console, int) state" where
  "answer_query T c line decorate qry handled = do {
     _ \<leftarrow> cout (line qry);
     sent \<leftarrow> send_query_reply T c decorate qry;
     ret (if sent then 1 else handled)
   }"

text \<open>The handler of \<^verbatim>\<open>cached_query\<close> counts its calls, whether the reply is sent or not.\<close>

definition count_query :: "('w, 'p) threads \<Rightarrow> 'w Client \<Rightarrow> QueryReceive \<Rightarrow> int \<Rightarrow> ('w \<times> console, int) state" where
  "count_query T c qry handler_calls = do {
     let call_num = handler_calls + 1;
     _ \<leftarrow> cout (''[*] Handler called (call #'' @ to_string call_num @ ''): body='' @ qv_body qry);
     _ \<leftarrow> send_query_reply T c (QueryReply_SetBody ''cached-result'') qry;
     ret call_num
   }"

definition requesting_command :: "'w example_env \<Rightarrow> ('w, 'p) threads \<Rightarrow> 'w Client \<Rightarrow> ('w, 'p) running \<Rightarrow> int
    \<Rightarrow> Command \<Rightarrow> (CommandResponse \<Rightarrow> int \<Rightarrow> 'w main) \<Rightarrow> 'w main" where
  "requesting_command E T c R n b k = do {
     cmd_result \<leftarrow> sdk (Command_Build (ex_rand64 E) b);
     checked E c (drop_subscriptions T R n) ''[ERROR] Build command: '' cmd_result (\<lambda>cmd. do {
       (resp_result, n1) \<leftarrow> calling T R n (Client_SendCommand (ex_rand64 E) c cmd);
       checked E c (drop_subscriptions T R n1) ''[ERROR] SendCommand: '' resp_result (\<lambda>resp. k resp n1)
     })
   }"

definition requesting_query :: "'w example_env \<Rightarrow> ('w, 'p) threads \<Rightarrow> 'w Client \<Rightarrow> ('w, 'p) running \<Rightarrow> int
    \<Rightarrow> string \<Rightarrow> Query \<Rightarrow> string \<Rightarrow> (QueryResponse \<Rightarrow> int \<Rightarrow> 'w main) \<Rightarrow> 'w main" where
  "requesting_query E T c R n build_error b send_error k = do {
     query_build \<leftarrow> sdk (Query_Build (ex_rand64 E) b);
     checked E c (drop_subscriptions T R n) build_error query_build (\<lambda>qry. do {
       (resp_result, n1) \<leftarrow> calling T R n (Client_SendQuery (ex_rand64 E) c qry);
       checked E c (drop_subscriptions T R n1) send_error resp_result (\<lambda>resp. k resp n1)
     })
   }"

definition boolalpha :: "bool \<Rightarrow> string" where
  "boolalpha b = (if b then ''true'' else ''false'')"

definition command_message :: "string \<Rightarrow> string \<Rightarrow> Command" where
  "command_message channel body =
     Command_SetTimeout 10000 (Command_SetBody body (Command_SetChannel channel Command_default))"

definition query_message :: "string \<Rightarrow> string \<Rightarrow> Query" where
  "query_message channel body =
     Query_SetTimeout 10000 (Query_SetBody body (Query_SetChannel channel Query_default))"

section \<open>examples/commands\<close>

definition handle_command_main :: "'w example_env \<Rightarrow> ('w, CommandReceive) threads \<Rightarrow> 'w main" where
  "handle_command_main E T = do {
     _ \<leftarrow> cout ''[1] Connecting to localhost:50000'';
     with_client E (example_options ''cpp-commands-handle-command-client'') failed_to_create (\<lambda>c. do {
       let channel = ''cpp-commands.handle_command'';
       _ \<leftarrow> cout (''[2] Subscribing to commands on channel '' @ channel);
       subscribing E T c [] 0 (Client_SubscribeToCommands (ex_rand64 E) c (channel, []))
         (callbacks (answer_command T c (\<lambda>cmd. ''[4] Handling command: id='' @ cv_id cmd @ '' channel='' @ cv_channel cmd
            @ '' body='' @ cv_body cmd @ '' metadata='' @ cv_metadata cmd) id) ''[ERROR] Handler error: '')
         ''[ERROR] SubscribeToCommands: '' (\<lambda>R n. do {
         n \<leftarrow> sleeping E T R n 300;
         _ \<leftarrow> cout (''[3] Sending command to channel '' @ channel);
         requesting_command E T c R n (Command_SetMetadata ''order-123'' (command_message channel ''process-order'')) (\<lambda>resp n. do {
           _ \<leftarrow> cout (''[5] Response: executed='' @ boolalpha (co_executed resp));
           n \<leftarrow> sleeping E T R n 1000;
           finishing E T c R n [''[6] Subscription cancelled''] [''[7] Client closed'']
         })
       })
     })
   }"

definition send_command_main :: "'w example_env \<Rightarrow> ('w, CommandReceive) threads \<Rightarrow> 'w main" where
  "send_command_main E T = do {
     _ \<leftarrow> cout ''[1] Connecting to localhost:50000'';
     with_client E (example_options ''cpp-commands-send-command-client'') failed_to_create (\<lambda>c. do {
       let channel = ''cpp-commands.send_command'';
       _ \<leftarrow> cout (''[2] Subscribing to commands on channel '' @ channel);
       subscribing E T c [] 0 (Client_SubscribeToCommands (ex_rand64 E) c (channel, []))
         (callbacks (answer_command T c (\<lambda>cmd. ''[4] Command received: channel='' @ cv_channel cmd @ '' body='' @ cv_body cmd) (CommandReply_SetBody ''executed'')) ''[ERROR] Command subscription error: '')
         ''[ERROR] SubscribeToCommands: '' (\<lambda>R n. do {
         n \<leftarrow> sleeping E T R n 300;
         _ \<leftarrow> cout (''[3] Sending command to channel '' @ channel);
         requesting_command E T c R n (command_message channel ''do-something'') (\<lambda>resp n. do {
           _ \<leftarrow> cout (''[5] Command response: executed='' @ boolalpha (co_executed resp));
           n \<leftarrow> sleeping E T R n 1000;
           finishing E T c R n [''[6] Subscription cancelled''] [''[7] Client closed'']
         })
       })
     })
   }"

definition commands_group_main :: "'w example_env \<Rightarrow> ('w, CommandReceive) threads \<Rightarrow> 'w main" where
  "commands_group_main E T = do {
     _ \<leftarrow> cout ''[1] Connecting to localhost:50000'';
     with_client E (example_options ''cpp-commands-consumer-group-client'') failed_to_create (\<lambda>c. do {
       let channel = ''cpp-commands.consumer_group'';
       let worker_group = ''cpp-commands-worker-group'';
       _ \<leftarrow> cout (''[2] Subscribing to commands with group '' @ worker_group);
       subscribing E T c [] 0 (Client_SubscribeToCommands (ex_rand64 E) c (channel, worker_group))
         (callbacks (answer_command T c (\<lambda>cmd. ''[4] Worker received: body='' @ cv_body cmd) id) ''[ERROR] Group error: '')
         ''[ERROR] SubscribeToCommands: '' (\<lambda>R n. do {
         n \<leftarrow> sleeping E T R n 300;
         _ \<leftarrow> cout (''[3] Sending command to group '' @ worker_group);
         requesting_command E T c R n (command_message channel ''group-task'') (\<lambda>resp n. do {
           _ \<leftarrow> cout (''[5] Group response: executed='' @ boolalpha (co_executed resp));
           n \<leftarrow> sleeping E T R n 1000;
           finishing E T c R n [''[6] Subscription cancelled''] [''[7] Client closed'']
         })
       })
     })
   }"

section \<open>examples/queries and examples/patterns/request_reply\<close>

definition handle_query_main :: "'w example_env \<Rightarrow> ('w, QueryReceive) threads \<Rightarrow> 'w main" where
  "handle_query_main E T = do {
     _ \<leftarrow> cout ''[1] Connecting to localhost:50000'';
     with_client E (example_options ''cpp-queries-handle-query-client'') failed_to_create (\<lambda>c. do {
       let channel = ''cpp-queries.handle_query'';
       _ \<leftarrow> cout (''[2] Subscribing to queries on channel '' @ channel);
       subscribing E T c [] 0 (Client_SubscribeToQueries (ex_rand64 E) c (channel, []))
         (callbacks (answer_query T c (\<lambda>qry. ''[4] Handling query: id='' @ qv_id qry @ '' channel='' @ qv_channel qry
            @ '' body='' @ qv_body qry @ '' metadata='' @ qv_metadata qry)
            (\<lambda>r. QueryReply_SetMetadata ''success'' (QueryReply_SetBody ''{\"users\":[\"alice\",\"bob\"]}'' r))) ''[ERROR] Handler error: '')
         ''[ERROR] SubscribeToQueries: '' (\<lambda>R n. do {
         n \<leftarrow> sleeping E T R n 300;
         _ \<leftarrow> cout (''[3] Sending query to channel '' @ channel);
         requesting_query E T c R n ''[ERROR] Build query: '' (Query_SetMetadata ''request-meta'' (query_message channel ''list-users'')) ''[ERROR] SendQuery: '' (\<lambda>resp n. do {
           _ \<leftarrow> cout (''[5] Response: executed='' @ boolalpha (qo_executed resp) @ '' body='' @ qo_body resp @ '' metadata='' @ qo_metadata resp);
           n \<leftarrow> sleeping E T R n 1000;
           finishing E T c R n [''[6] Subscription cancelled''] [''[7] Client closed'']
         })
       })
     })
   }"

definition send_query_main :: "'w example_env \<Rightarrow> ('w, QueryReceive) threads \<Rightarrow> 'w main" where
  "send_query_main E T = do {
     _ \<leftarrow> cout ''[1] Connecting to localhost:50000'';
     with_client E (example_options ''cpp-queries-send-query-client'') failed_to_create (\<lambda>c. do {
       let channel = ''cpp-queries.send_query'';
       _ \<leftarrow> cout (''[2] Subscribing to queries on channel '' @ channel);
       subscribing E T c [] 0 (Client_SubscribeToQueries (ex_rand64 E) c (channel, []))
         (callbacks (answer_query T c (\<lambda>qry. ''[4] Query received: channel='' @ qv_channel qry @ '' body='' @ qv_body qry)
            (\<lambda>r. QueryReply_SetMetadata ''ok'' (QueryReply_SetBody ''{\"result\":\"data\",\"status\":\"ok\"}'' r))) ''[ERROR] Query subscription error: '')
         ''[ERROR] SubscribeToQueries: '' (\<lambda>R n. do {
         n \<leftarrow> sleeping E T R n 300;
         _ \<leftarrow> cout (''[3] Sending query to channel '' @ channel);
         requesting_query E T c R n ''[ERROR] Build query: '' (query_message channel ''fetch-data'') ''[ERROR] SendQuery: '' (\<lambda>resp n. do {
           _ \<leftarrow> cout (''[5] Query response: executed='' @ boolalpha (qo_executed resp) @ '' body='' @ qo_body resp);
           n \<leftarrow> sleeping E T R n 1000;
           finishing E T c R n [''[6] Subscription cancelled''] [''[7] Client closed'']
         })
       })
     })
   }"

definition queries_group_main :: "'w example_env \<Rightarrow> ('w, QueryReceive) threads \<Rightarrow> 'w main" where
  "queries_group_main E T = do {
     _ \<leftarrow> cout ''[1] Connecting to localhost:50000'';
     with_client E (example_options ''cpp-queries-consumer-group-client'') failed_to_create (\<lambda>c. do {
       let channel = ''cpp-queries.consumer_group'';
       let reader_group = ''cpp-queries-reader-group'';
       _ \<leftarrow> cout (''[2] Subscribing to queries with group '' @ reader_group);
       subscribing E T c [] 0 (Client_SubscribeToQueries (ex_rand64 E) c (channel, reader_group))
         (callbacks (answer_query T c (\<lambda>qry. ''[4] Worker received: body='' @ qv_body qry)
            (QueryReply_SetBody ''group-result'')) ''[ERROR] Group error: '')
         ''[ERROR] SubscribeToQueries: '' (\<lambda>R n. do {
         n \<leftarrow> sleeping E T R n 300;
         _ \<leftarrow> cout (''[3] Sending query to group '' @ reader_group);
         requesting_query E T c R n ''[ERROR] Build query: '' (query_message channel ''group-fetch'') ''[ERROR] SendQuery: '' (\<lambda>resp n. do {
           _ \<leftarrow> cout (''[5] Group response: executed='' @ boolalpha (qo_executed resp) @ '' body='' @ qo_body resp);
           n \<leftarrow> sleeping E T R n 1000;
           finishing E T c R n [''[6] Subscription cancelled''] [''[7] Client closed'']
         })
       })
     })
   }"

definition request_reply_main :: "'w example_env \<Rightarrow> ('w, QueryReceive) threads \<Rightarrow> 'w main" where
  "request_reply_main E T = do {
     _ \<leftarrow> cout ''[1] Connecting to localhost:50000'';
     with_client E (example_options ''cpp-patterns-request-reply-client'') failed_to_create (\<lambda>c. do {
       let channel = ''cpp-patterns.request_reply'';
       _ \<leftarrow> cout (''[2] Starting service on channel '' @ channel);
       subscribing E T c [] 0 (Client_SubscribeToQueries (ex_rand64 E) c (channel, []))
         (callbacks (answer_query T c (\<lambda>qry. ''[4] Service received request: body='' @ qv_body qry)
            (\<lambda>r. QueryReply_SetMetadata ''success'' (QueryReply_SetBody ''{\"order_id\":\"ORD-123\",\"status\":\"confirmed\"}'' r))) ''[ERROR] Service error: '')
         ''[ERROR] SubscribeToQueries: '' (\<lambda>R n. do {
         n \<leftarrow> sleeping E T R n 300;
         _ \<leftarrow> cout (''[3] Client sending request'');
         requesting_query E T c R n ''[ERROR] Build query: '' (query_message channel ''{\"action\":\"create_order\",\"item\":\"widget\"}'') ''[ERROR] SendQuery: '' (\<lambda>resp n. do {
           _ \<leftarrow> cout (''[5] Client received reply: executed='' @ boolalpha (qo_executed resp) @ '' body='' @ qo_body resp);
           n \<leftarrow> sleeping E T R n 1000;
           finishing E T c R n [''[6] Service stopped''] [''[7] Client closed'']
         })
       })
     })
   }"

definition cacheable_query :: "string \<Rightarrow> Query" where
  "cacheable_query channel = Query_SetCacheTTL 60000 (Query_SetCacheKey ''my-cache-key'' (query_message channel ''cacheable-query''))"

definition cached_line :: "string \<Rightarrow> QueryResponse \<Rightarrow> string" where
  "cached_line head resp = head @ ''executed='' @ boolalpha (qo_executed resp) @ '' cache_hit='' @ boolalpha (qo_cache_hit resp)
     @ '' body='' @ qo_body resp"

definition cached_query_main :: "'w example_env \<Rightarrow> ('w, QueryReceive) threads \<Rightarrow> 'w main" where
  "cached_query_main E T = do {
     _ \<leftarrow> cout ''[1] Connecting to localhost:50000'';
     with_client E (example_options ''cpp-queries-cached-query-client'') failed_to_create (\<lambda>c. do {
       let channel = ''cpp-queries.cached_query'';
       _ \<leftarrow> cout (''[2] Subscribing to queries on channel '' @ channel);
       subscribing E T c [] 0 (Client_SubscribeToQueries (ex_rand64 E) c (channel, []))
         (callbacks (count_query T c) ''[ERROR] Subscription error: '')
         ''[ERROR] SubscribeToQueries: '' (\<lambda>R n. do {
         n \<leftarrow> sleeping E T R n 300;
         _ \<leftarrow> cout ''[3] Sending first query (cache miss expected)'';
         requesting_query E T c R n ''[ERROR] Build query 1: '' (cacheable_query channel) ''[ERROR] SendQuery 1: '' (\<lambda>resp n. do {
           _ \<leftarrow> cout (cached_line ''[4] First query:  '' resp);
           n \<leftarrow> sleeping E T R n 500;
           _ \<leftarrow> cout ''[5] Sending second query (cache hit expected)'';
           requesting_query E T c R n ''[ERROR] Build query 2: '' (cacheable_query channel) ''[ERROR] SendQuery 2: '' (\<lambda>resp n. do {
             _ \<leftarrow> cout (cached_line ''[6] Second query: '' resp);
             finishing E T c R n [''[7] Subscription cancelled''] [''[8] Client closed'']
           })
         })
       })
     })
   }"

section \<open>How the programs end\<close>

lemma prints_answers [prints_intros]:
  "prints (answer_command T c line decorate cmd n)" "prints (answer_query T c line' decorate' qry n)" "prints (count_query T c qry n)"
  unfolding answer_command_def answer_query_def count_query_def send_command_reply_def send_query_reply_def Let_def
  by (intro prints_intros)+

lemma orderly_requesting [orderly_intros]:
  assumes "quiet_client c" "running_prints R"
  shows "(\<And>s n. orderly (k s n)) \<Longrightarrow> orderly (requesting_command E T c R n b k)"
    "error_text what \<Longrightarrow> error_text what' \<Longrightarrow> (\<And>s n. orderly (l s n)) \<Longrightarrow> orderly (requesting_query E T c R n what q what' l)"
  unfolding requesting_command_def requesting_query_def
  by (intro orderly_intros prints_intros assms; simp add: error_text_def)+

lemmas rpc_example_defs = handle_command_main_def send_command_main_def commands_group_main_def handle_query_main_def
  send_query_main_def queries_group_main_def request_reply_main_def cached_query_main_def Let_def

lemma rpc_examples_orderly:
  "orderly (handle_command_main E C)" "orderly (send_command_main E C)" "orderly (commands_group_main E C)"
  "orderly (handle_query_main E Q)" "orderly (send_query_main E Q)" "orderly (queries_group_main E Q)"
  "orderly (request_reply_main E Q)" "orderly (cached_query_main E Q)"
  unfolding rpc_example_defs by (intro orderly_intros prints_intros; simp add: error_text_def)+

end
