(* ===== verification/Example_Streams.thy ===== *)
theory Example_Streams
  imports Example_Rpc Stream_Handles
begin

text \<open>
  The example programs whose callbacks are kept by the SDK: the publishing streams (examples/events/stream_send,
  examples/events_store/stream_send, examples/queues_stream/stream_send, ack_range, dead_letter_policy, delay_policy,
  expiration_policy) and the connection callbacks (examples/error_handling/reconnection, graceful_shutdown).  A callback
  runs inside the SDK, so here the SDK itself acts on the whole process: the outside world, the one shared variable of the
  program (\<^verbatim>\<open>std::atomic\<close>) and the console.  The reader thread of a stream takes as many steps as the scheduler gives it
  (\<open>st_turns\<close>), before and after each call of main; a join that the reader has not let go is the outcome \<open>Blocks\<close>.
\<close>

section \<open>The world of a process\<close>

type_synonym 'w process = "('w \<times> int) \<times> console"

type_synonym 'w program = "('w process, outcome) state"

definition cell :: "('w, 'a) state \<Rightarrow> ('w \<times> int, 'a) state" where
  "cell m = State (\<lambda>(w, n). let (a, w') = run_state m w in (a, (w', n)))"

definition outside :: "('w, 'a) state \<Rightarrow> ('w process, 'a) state" where
  "outside m = sdk (cell m)"

definition store :: "int \<Rightarrow> ('w process, unit) state" where
  "store v = sdk (State (\<lambda>(w, n). ((), (w, v))))"

definition load :: "('w process, int) state" where
  "load = sdk (State (\<lambda>(w, n). (n, (w, n))))"

definition fetch_add :: "('w process, unit) state" where
  "fetch_add = do { n \<leftarrow> load; store (n + 1) }"

text \<open>What surrounds the program touches neither the shared variable nor the console.\<close>

definition process_stub :: "'w Stub \<Rightarrow> 'w process Stub" where
  "process_stub s =
     \<lparr>stub_Ping = \<lambda>ctx. outside (stub_Ping s ctx),
      stub_SendEvent = \<lambda>ctx q. outside (stub_SendEvent s ctx q),
      stub_SendEventsStream = \<lambda>ctx. outside (stub_SendEventsStream s ctx),
      stub_SubscribeToEvents = \<lambda>ctx q. outside (stub_SubscribeToEvents s ctx q),
      stub_SendRequest = \<lambda>ctx q. outside (stub_SendRequest s ctx q),
      stub_SendResponse = \<lambda>ctx q. outside (stub_SendResponse s ctx q),
      stub_SubscribeToRequests = \<lambda>ctx q. outside (stub_SubscribeToRequests s ctx q),
      stub_SendQueueMessage = \<lambda>ctx q. outside (stub_SendQueueMessage s ctx q),
      stub_SendQueueMessagesBatch = \<lambda>ctx q. outside (stub_SendQueueMessagesBatch s ctx q),
      stub_ReceiveQueueMessages = \<lambda>ctx q. outside (stub_ReceiveQueueMessages s ctx q),
      stub_AckAllQueueMessages = \<lambda>ctx q. outside (stub_AckAllQueueMessages s ctx q),
      stub_QueuesUpstream = \<lambda>ctx. outside (stub_QueuesUpstream s ctx),
      stub_QueuesDownstream = \<lambda>ctx. outside (stub_QueuesDownstream s ctx)\<rparr>"

definition process_env :: "'w example_env \<Rightarrow> 'w process example_env" where
  "process_env E =
     \<lparr>ex_grpc =
        \<lparr>ge_CreateCustomChannel = \<lambda>target creds args. outside (ge_CreateCustomChannel (ex_grpc E) target creds args),
         ge_NewStub = \<lambda>ch. map_option process_stub (ge_NewStub (ex_grpc E) ch),
         ge_WaitForConnected = \<lambda>ch timeout. outside (ge_WaitForConnected (ex_grpc E) ch timeout),
         ge_GetState = \<lambda>ch. outside (ge_GetState (ex_grpc E) ch)\<rparr>,
      ex_fs = ex_fs E,
      ex_rand64 = outside (ex_rand64 E),
      ex_contexts = \<lparr>cx_alive = \<lambda>ctx. outside (cx_alive (ex_contexts E) ctx),
        cx_cancel = \<lambda>ctx. outside (cx_cancel (ex_contexts E) ctx)\<rparr>,
      ex_getenv = ex_getenv E,
      ex_sleep_ms = \<lambda>ms. outside (ex_sleep_ms E ms),
      ex_downstream = \<lparr>dn_Write = \<lambda>h q. outside (dn_Write (ex_downstream E) h q),
        dn_Read = \<lambda>h. outside (dn_Read (ex_downstream E) h),
        dn_WritesDone = \<lambda>h. outside (dn_WritesDone (ex_downstream E) h)\<rparr>\<rparr>"

definition process_stream :: "('w, 'q, 'a) stream_ops \<Rightarrow> ('w process, 'q, 'a) stream_ops" where
  "process_stream ops =
     \<lparr>so_Write = \<lambda>h q. outside (so_Write ops h q), so_Read = \<lambda>h. outside (so_Read ops h),
      so_Finish = \<lambda>h. outside (so_Finish ops h), so_WritesDone = \<lambda>h. outside (so_WritesDone ops h)\<rparr>"

section \<open>The frame of a program\<close>

text \<open>\<open>inner\<close> runs the destructors of the locals declared after the client, and tells whether the process is still
  to go on.\<close>

definition process_client :: "'w process example_env \<Rightarrow> 'w process ClientOptions \<Rightarrow> ('w process Client \<Rightarrow> 'w program) \<Rightarrow> 'w program" where
  "process_client P options k = do {
     client_or \<leftarrow> Client_Create (ex_grpc P) (ex_fs P) (ex_rand64 P) (ex_contexts P) options;
     (case client_or of
        Inl s \<Rightarrow> failed_to_create (st_message s)
      | Inr c \<Rightarrow> k c)
   }"

definition process_leave :: "'w process example_env \<Rightarrow> 'w process Client \<Rightarrow> ('w process, outcome option) state \<Rightarrow> int \<Rightarrow> 'w program" where
  "process_leave P c inner n = do {
     early \<leftarrow> inner;
     (case early of
        Some ended \<Rightarrow> ret ended
      | None \<Rightarrow> do {
          (closed, _) \<leftarrow> Client_Close (ex_contexts P) c;
          ret (case closed of Inl _ \<Rightarrow> Aborts | Inr _ \<Rightarrow> Exits n)
        })
   }"

definition process_error :: "'w process example_env \<Rightarrow> 'w process Client \<Rightarrow> ('w process, outcome option) state \<Rightarrow> string \<Rightarrow> 'w program" where
  "process_error P c inner line = do { _ \<leftarrow> cerr line; process_leave P c inner 1 }"

definition process_checked :: "'w process example_env \<Rightarrow> 'w process Client \<Rightarrow> ('w process, outcome option) state
    \<Rightarrow> string \<Rightarrow> 'a StatusOr \<Rightarrow> ('a \<Rightarrow> 'w program) \<Rightarrow> 'w program" where
  "process_checked P c inner what r k =
     (case r of
        Inl s \<Rightarrow> process_error P c inner (what @ st_message s)
      | Inr a \<Rightarrow> k a)"

definition process_close :: "'w process example_env \<Rightarrow> 'w process Client \<Rightarrow> ('w process, outcome option) state
    \<Rightarrow> string \<Rightarrow> string list \<Rightarrow> 'w program" where
  "process_close P c inner what final_lines = do {
     (close_status, c') \<leftarrow> Client_Close (ex_contexts P) c;
     (case close_status of
        Inl _ \<Rightarrow> ret Aborts
      | Inr s \<Rightarrow>
          if \<not> ok s then process_error P c' inner (what @ st_message s)
          else do { _ \<leftarrow> cout_all final_lines; process_leave P c' inner 0 })
   }"

section \<open>examples/error_handling\<close>

text \<open>A callback without arguments that prints one line.\<close>

definition say :: "string \<Rightarrow> 'w process callback" where
  "say line = do { _ \<leftarrow> cout line; ret None }"

definition reconnection_options :: "'w process ClientOptions" where
  "reconnection_options =
     (let policy = ReconnectPolicy_default\<lparr>rp_initial_delay := 1000, rp_max_delay := 30000, rp_backoff_multiplier := 2,
            rp_max_attempts := 0, rp_jitter := kFull\<rparr>
      in set_on_closed (Some (say ''[State] Connection closed''))
           (set_on_reconnected (Some (say ''[State] Reconnected to KubeMQ server''))
             (set_on_reconnecting (Some (say ''[State] Reconnecting to KubeMQ server...''))
               (set_on_disconnected (Some (say ''[State] Disconnected from KubeMQ server''))
                 (set_on_connected (Some (say ''[State] Connected to KubeMQ server''))
                   (set_reconnect_policy policy (example_options ''cpp-error-handling-reconnection-client'')))))))"

definition reconnection_main :: "'w example_env \<Rightarrow> 'w program" where
  "reconnection_main E = (let P = process_env E in do {
     _ \<leftarrow> cout ''[1] Configuring reconnection policy and state callbacks'';
     _ \<leftarrow> cout ''[2] Connecting to localhost:50000'';
     process_client P reconnection_options (\<lambda>c. do {
       state \<leftarrow> Client_State (ex_grpc P) c;
       _ \<leftarrow> cout (''[3] Current state: '' @ ConnectionStateToString state);
       ping_result \<leftarrow> Client_Ping c;
       (case ping_result of
          Inl s \<Rightarrow> do {
            _ \<leftarrow> cerr (''[ERROR] Ping failed: '' @ st_message s);
            (close_status, c') \<leftarrow> Client_Close (ex_contexts P) c;
            (case close_status of
               Inl _ \<Rightarrow> ret Aborts
             | Inr s' \<Rightarrow> do {
                 _ \<leftarrow> (if \<not> ok s' then cerr (''[ERROR] Close failed: '' @ st_message s') else ret ());
                 process_leave P c' (ret None) 1
               })
          }
        | Inr info \<Rightarrow> do {
            _ \<leftarrow> cout (''[4] Connected: host='' @ si_host info @ '' version='' @ si_version info);
            _ \<leftarrow> cout ''[5] Client is configured with automatic reconnection'';
            process_close P c (ret None) ''[ERROR] Close failed: '' [''[6] Client closed'']
          })
     })
   })"

text \<open>The subscription of \<^verbatim>\<open>graceful_shutdown\<close>: what its reader delivers, and the wait for a signal.  The flag that the
  signal handler sets is read by \<open>requested\<close>; \<open>fuel\<close> bounds the number of turns of the loop.\<close>

definition received_event :: "(EventReceive + Status) \<Rightarrow> int \<Rightarrow> ('w process, int) state" where
  "received_event = callbacks (print_message (\<lambda>event. ''Received: body='' @ er_body event)) ''Subscription error: ''"

definition background :: "('w \<times> int, EventReceive) threads \<Rightarrow> nat \<Rightarrow> ((EventReceive + Status) \<Rightarrow> int \<Rightarrow> ('w process, int) state)
    \<Rightarrow> ('w process, unit) state" where
  "background T h handler = do { _ \<leftarrow> meanwhile T [(h, handler, ())] 0; ret () }"

fun await_shutdown :: "'w process example_env \<Rightarrow> ('w \<times> int, EventReceive) threads \<Rightarrow> ('w process, unit) state
    \<Rightarrow> ('w, bool) state \<Rightarrow> int \<Rightarrow> nat \<Rightarrow> ('w process, unit option) state" where
  "await_shutdown P T others requested start 0 = ret None"
| "await_shutdown P T others requested start (Suc fuel) = do {
     stop \<leftarrow> outside requested;
     (if stop then ret (Some ())
      else do {
        _ \<leftarrow> others;
        _ \<leftarrow> ex_sleep_ms P 100;
        _ \<leftarrow> others;
        now \<leftarrow> sdk (th_now T);
        (if 5 * 1000000000 < now - start
         then do { _ \<leftarrow> cout (CHR 0x0A # ''[4] Auto-shutdown after 5s (example mode)''); ret (Some ()) }
         else await_shutdown P T others requested start fuel)
      })
   }"

text \<open>The destructor of the subscription.\<close>

definition drop_listener :: "('w \<times> int, EventReceive) threads \<Rightarrow> ('w process, unit) state \<Rightarrow> 'w process Subscription
    \<Rightarrow> ('w process, outcome option) state" where
  "drop_listener T others sub = do { _ \<leftarrow> Cancel (\<lambda>h. sdk (th_TryCancel T h)) sub; _ \<leftarrow> others; ret None }"

definition graceful_shutdown_main :: "'w example_env \<Rightarrow> ('w \<times> int, EventReceive) threads \<Rightarrow> ('w, bool) state \<Rightarrow> nat \<Rightarrow> 'w program" where
  "graceful_shutdown_main E T requested fuel = (let P = process_env E in do {
     _ \<leftarrow> cout ''[1] Connecting to localhost:50000'';
     process_client P (set_on_closed (Some (say ''[Shutdown] Connection closed''))
         (set_drain_timeout 10000 (example_options ''cpp-error-handling-graceful-shutdown-client''))) (\<lambda>c. do {
       let channel = ''cpp-error_handling.graceful_shutdown'';
       _ \<leftarrow> cout (''[2] Subscribing to events on channel '' @ channel);
       sub_result \<leftarrow> Client_SubscribeToEvents (ex_rand64 P) c (channel, []);
       process_checked P c (ret None) ''[ERROR] SubscribeToEvents: '' sub_result (\<lambda>(sub, h). do {
         let others = background T h received_event;
         _ \<leftarrow> cout ''[3] Running... Press Ctrl+C to initiate graceful shutdown'';
         start \<leftarrow> sdk (th_now T);
         waited \<leftarrow> await_shutdown P T others requested start fuel;
         (case waited of
            None \<Rightarrow> ret Blocks
          | Some _ \<Rightarrow> do {
              stop \<leftarrow> outside requested;
              _ \<leftarrow> (if stop then cout (CHR 0x0A # ''[4] Shutdown signal received, cleaning up...'') else ret ());
              _ \<leftarrow> others;
              sub' \<leftarrow> Cancel (\<lambda>h. sdk (th_TryCancel T h)) sub;
              _ \<leftarrow> others;
              _ \<leftarrow> cout ''[5] Subscription cancelled'';
              _ \<leftarrow> others;
              process_close P c (drop_listener T others sub') ''[ERROR] Close error: '' [''[6] Graceful shutdown complete'']
            })
       })
     })
   })"

section \<open>Publishing streams\<close>

text \<open>The reader threads of the three classes of handles.\<close>

definition EventStream_reader :: "('w, PbEvent, PbResult) stream_ops \<Rightarrow> reader_at \<Rightarrow> ('w, unit) StreamHandle
    \<Rightarrow> ('w, reader_at \<times> ('w, unit) StreamHandle) state" where
  "EventStream_reader ops = handle_reader_step ops EventStream_on_read ''EventStreamHandle::Finish''"

definition EventStoreStream_reader :: "('w, PbEvent, PbResult) stream_ops \<Rightarrow> reader_at \<Rightarrow> ('w, EventStoreResult) StreamHandle
    \<Rightarrow> ('w, reader_at \<times> ('w, EventStoreResult) StreamHandle) state" where
  "EventStoreStream_reader ops = handle_reader_step ops EventStoreStream_on_read ''EventStoreStreamHandle::Finish''"

definition QueueUpstream_reader :: "('w, PbQueuesUpstreamRequest, PbQueuesUpstreamResponse) stream_ops \<Rightarrow> reader_at
    \<Rightarrow> ('w, QueueUpstreamResult) StreamHandle \<Rightarrow> ('w, reader_at \<times> ('w, QueueUpstreamResult) StreamHandle) state" where
  "QueueUpstream_reader ops = handle_reader_step ops QueueUpstream_on_read ''QueueUpstreamHandle::Finish''"

record ('w, 'q, 'a) stream_threads =
  st_ops :: "('w, 'q, 'a) stream_ops"
  st_turns :: "('w, nat) state"

text \<open>An open stream: where its reader is, the handle, and whether a \<^verbatim>\<open>Close\<close> has joined the reader.\<close>

type_synonym ('w, 'r) opened = "reader_at \<times> ('w process, 'r) StreamHandle \<times> bool"

fun turns :: "(reader_at \<Rightarrow> 'h \<Rightarrow> ('v, reader_at \<times> 'h) state) \<Rightarrow> nat \<Rightarrow> reader_at \<Rightarrow> 'h \<Rightarrow> ('v, reader_at \<times> 'h) state" where
  "turns step 0 pos h = ret (pos, h)"
| "turns step (Suc n) pos h = do { (pos', h') \<leftarrow> step pos h; turns step n pos' h' }"

definition reader_runs :: "(reader_at \<Rightarrow> ('w process, 'r) StreamHandle \<Rightarrow> ('w process, reader_at \<times> ('w process, 'r) StreamHandle) state)
    \<Rightarrow> ('w, nat) state \<Rightarrow> ('w, 'r) opened \<Rightarrow> ('w process, ('w, 'r) opened) state" where
  "reader_runs step scheduled = (\<lambda>(pos, h, joined). do {
     n \<leftarrow> outside scheduled;
     (pos', h') \<leftarrow> turns step n pos h;
     ret (pos', h', joined)
   })"

definition while_calling :: "('s \<Rightarrow> ('w process, 's) state) \<Rightarrow> 's \<Rightarrow> ('s \<Rightarrow> ('w process, 'a) state) \<Rightarrow> ('w process, 'a \<times> 's) state" where
  "while_calling bg s m = do { s1 \<leftarrow> bg s; a \<leftarrow> m s1; s2 \<leftarrow> bg s1; ret (a, s2) }"

text \<open>\<^verbatim>\<open>Close\<close>: the caller that sets \<^verbatim>\<open>done\<close> first waits for the reader; nothing is returned if that wait does not end.\<close>

definition close_stream :: "('w process, 'q, 'a) stream_ops \<Rightarrow> (('w, 'r) opened \<Rightarrow> ('w process, ('w, 'r) opened) state)
    \<Rightarrow> ('w, 'r) opened \<Rightarrow> ('w process, ('w, 'r) opened option) state" where
  "close_stream ops bg s = do {
     (pos, h, joined) \<leftarrow> bg s;
     (first, h1) \<leftarrow> Close_section ops h;
     (if \<not> first then ret (Some (pos, h1, joined))
      else do {
        (pos', h', _) \<leftarrow> bg (pos, h1, joined);
        ret (if pos' = At_exit then Some (pos', h', True) else None)
      })
   }"

text \<open>The destructor: it closes the handle, and destroying a thread that nobody has joined ends the process.\<close>

definition drop_stream :: "('w process, 'q, 'a) stream_ops \<Rightarrow> (('w, 'r) opened \<Rightarrow> ('w process, ('w, 'r) opened) state)
    \<Rightarrow> ('w, 'r) opened \<Rightarrow> ('w process, outcome option) state" where
  "drop_stream ops bg s = do {
     closed \<leftarrow> close_stream ops bg s;
     ret (case closed of
        None \<Rightarrow> Some Blocks
      | Some (pos, h, joined) \<Rightarrow> if joined then None else Some Aborts)
   }"

definition closing_stream :: "('w process, 'q, 'a) stream_ops \<Rightarrow> (('w, 'r) opened \<Rightarrow> ('w process, ('w, 'r) opened) state)
    \<Rightarrow> ('w, 'r) opened \<Rightarrow> (('w, 'r) opened \<Rightarrow> 'w program) \<Rightarrow> 'w program" where
  "closing_stream ops bg s k = do {
     closed \<leftarrow> close_stream ops bg s;
     (case closed of None \<Rightarrow> ret Blocks | Some s' \<Rightarrow> k s')
   }"

definition sending :: "'w process example_env \<Rightarrow> 'w process Client \<Rightarrow> (('w, 'r) opened \<Rightarrow> ('w process, ('w, 'r) opened) state)
    \<Rightarrow> (('w, 'r) opened \<Rightarrow> ('w process, outcome option) state) \<Rightarrow> ('w, 'r) opened
    \<Rightarrow> (('w process, 'r) StreamHandle \<Rightarrow> ('w process, Status) state) \<Rightarrow> string \<Rightarrow> (('w, 'r) opened \<Rightarrow> 'w program) \<Rightarrow> 'w program" where
  "sending P c bg drop_locals s send what k = do {
     (send_status, s') \<leftarrow> while_calling bg s (\<lambda>(pos, h, joined). send h);
     (if \<not> ok send_status then process_error P c (drop_locals s') (what @ st_message send_status)
      else k s')
   }"

definition stream_sleep :: "'w process example_env \<Rightarrow> ('s \<Rightarrow> ('w process, 's) state) \<Rightarrow> 's \<Rightarrow> int \<Rightarrow> ('w process, 's) state" where
  "stream_sleep P bg s ms = do { r \<leftarrow> while_calling bg s (\<lambda>_. ex_sleep_ms P ms); ret (snd r) }"

text \<open>The callbacks: a result is reported, then counted; an error of the stream is reported.\<close>

definition on_upstream_result :: "string \<Rightarrow> (QueueUpstreamResult \<Rightarrow> ('w process, unit) state) \<Rightarrow> ('w process, unit) state
    \<Rightarrow> QueueUpstreamResult \<Rightarrow> 'w process callback" where
  "on_upstream_result what on_success after res = do {
     _ \<leftarrow> (if uur_is_error res then cerr (what @ uur_error res) else on_success res);
     _ \<leftarrow> after;
     ret None
   }"

definition complain :: "string \<Rightarrow> Status \<Rightarrow> 'w process callback" where
  "complain what err = do { _ \<leftarrow> cerr (what @ st_message err); ret None }"

definition open_upstream :: "'w process example_env \<Rightarrow> 'w process Client \<Rightarrow> (QueueUpstreamResult \<Rightarrow> 'w process callback)
    \<Rightarrow> (Status \<Rightarrow> 'w process callback) \<Rightarrow> (('w, QueueUpstreamResult) opened \<Rightarrow> 'w program) \<Rightarrow> 'w program" where
  "open_upstream P c on_result on_err k = do {
     upstream_result \<leftarrow> Client_QueueUpstream c (Some on_result, Some on_err);
     process_checked P c (ret None) ''[ERROR] QueueUpstream: '' upstream_result (\<lambda>h. k (At_read, h, False))
   }"

definition building :: "'w process example_env \<Rightarrow> 'w process Client \<Rightarrow> ('w process, outcome option) state \<Rightarrow> string
    \<Rightarrow> QueueMessage \<Rightarrow> (QueueMessage \<Rightarrow> 'w program) \<Rightarrow> 'w program" where
  "building P c inner what b k = do {
     msg_result \<leftarrow> QueueMessage_Build (ex_rand64 P) b;
     process_checked P c inner what msg_result k
   }"

definition finish_stream :: "'w process example_env \<Rightarrow> 'w process Client \<Rightarrow> (('w, 'r) opened \<Rightarrow> ('w process, ('w, 'r) opened) state)
    \<Rightarrow> (('w, 'r) opened \<Rightarrow> ('w process, outcome option) state) \<Rightarrow> ('w, 'r) opened \<Rightarrow> string list \<Rightarrow> 'w program" where
  "finish_stream P c bg drop_locals s final_lines = do {
     s' \<leftarrow> bg s;
     process_close P c (drop_locals s') ''[ERROR] Close failed: '' final_lines
   }"

section \<open>examples/queues_stream\<close>

text \<open>The three policy programs differ in the message and in what they print.\<close>

definition policy_program :: "'w example_env \<Rightarrow> ('w, PbQueuesUpstreamRequest, PbQueuesUpstreamResponse) stream_threads
    \<Rightarrow> string \<Rightarrow> string \<Rightarrow> QueueMessage \<Rightarrow> string \<Rightarrow> string \<Rightarrow> 'w program" where
  "policy_program E S client_id confirmation b announcement request_id =
     (let P = process_env E; ops = process_stream (st_ops S); bg = reader_runs (QueueUpstream_reader ops) (st_turns S) in do {
     _ \<leftarrow> cout ''[1] Connecting to localhost:50000'';
     process_client P (example_options client_id) (\<lambda>c. do {
       _ \<leftarrow> store 0;
       _ \<leftarrow> cout ''[2] Opening upstream stream'';
       open_upstream P c (on_upstream_result ''[ERROR] Upstream result: '' (\<lambda>_. cout confirmation) (store 1))
         (complain ''[ERROR] Upstream error: '') (\<lambda>s.
       building P c (drop_stream ops bg s) ''[ERROR] Build message: '' b (\<lambda>msg. do {
         _ \<leftarrow> cout announcement;
         sending P c bg (drop_stream ops bg) s (\<lambda>h. QueueUpstreamHandle_Send (ex_rand64 P) ops h request_id [msg]) ''[ERROR] Send: '' (\<lambda>s. do {
           s \<leftarrow> stream_sleep P bg s 3000;
           result_received \<leftarrow> load;
           _ \<leftarrow> (if result_received = 0 then cout ''[4] Sent message (no result confirmation within timeout)'' else ret ());
           closing_stream ops bg s (\<lambda>s. do {
             _ \<leftarrow> cout ''[5] Upstream stream closed'';
             finish_stream P c bg (drop_stream ops bg) s [''[6] Client closed'']
           })
         })
       }))
     })
   })"

definition dead_letter_policy_main :: "'w example_env \<Rightarrow> ('w, PbQueuesUpstreamRequest, PbQueuesUpstreamResponse) stream_threads \<Rightarrow> 'w program" where
  "dead_letter_policy_main E S =
     (let dlq_channel = ''cpp-queues_stream.dead_letter_policy.dlq'' in
      policy_program E S ''cpp-queues-stream-dead-letter-policy-client''
        (''[4] Sent message with DLQ policy (max 3 receives, dlq='' @ dlq_channel @ '')'')
        (QueueMessage_SetMaxReceiveQueue dlq_channel (QueueMessage_SetMaxReceiveCount 3
          (body_message ''cpp-queues_stream.dead_letter_policy'' ''max 3 receives, then DLQ'')))
        (''[3] Sending message with max_receive_count=3, dlq='' @ dlq_channel) ''req-dlq'')"

definition delay_policy_main :: "'w example_env \<Rightarrow> ('w, PbQueuesUpstreamRequest, PbQueuesUpstreamResponse) stream_threads \<Rightarrow> 'w program" where
  "delay_policy_main E S =
     policy_program E S ''cpp-queues-stream-delay-policy-client'' ''[4] Sent message with 10s delay policy''
       (QueueMessage_SetDelaySeconds 10 (body_message ''cpp-queues_stream.delay_policy'' ''delayed by 10s''))
       ''[3] Sending message with delay_seconds=10'' ''req-delay''"

definition expiration_policy_main :: "'w example_env \<Rightarrow> ('w, PbQueuesUpstreamRequest, PbQueuesUpstreamResponse) stream_threads \<Rightarrow> 'w program" where
  "expiration_policy_main E S =
     policy_program E S ''cpp-queues-stream-expiration-policy-client'' ''[4] Sent message with 60s expiration policy''
       (QueueMessage_SetExpirationSeconds 60 (body_message ''cpp-queues_stream.expiration_policy'' ''expires in 60s''))
       ''[3] Sending message with expiration_seconds=60'' ''req-expiration''"

fun build_batch :: "'w process example_env \<Rightarrow> 'w process Client \<Rightarrow> ('w process, outcome option) state \<Rightarrow> string \<Rightarrow> int
    \<Rightarrow> QueueMessage list \<Rightarrow> int list \<Rightarrow> (QueueMessage list \<Rightarrow> 'w program) \<Rightarrow> 'w program" where
  "build_batch P c inner channel batch messages [] k = k messages"
| "build_batch P c inner channel batch messages (i # is) k =
     building P c inner (''[ERROR] Build message batch='' @ to_string batch @ '' msg='' @ to_string i @ '': '')
       (body_message channel (''batch-'' @ to_string batch @ ''-msg-'' @ to_string i))
       (\<lambda>msg. build_batch P c inner channel batch (messages @ [msg]) is k)"

fun batch_loop :: "'w process example_env \<Rightarrow> 'w process Client \<Rightarrow> ('w process, PbQueuesUpstreamRequest, PbQueuesUpstreamResponse) stream_ops
    \<Rightarrow> (('w, QueueUpstreamResult) opened \<Rightarrow> ('w process, ('w, QueueUpstreamResult) opened) state) \<Rightarrow> string
    \<Rightarrow> ('w, QueueUpstreamResult) opened \<Rightarrow> int list \<Rightarrow> (('w, QueueUpstreamResult) opened \<Rightarrow> 'w program) \<Rightarrow> 'w program" where
  "batch_loop P c ops bg channel s [] k = k s"
| "batch_loop P c ops bg channel s (batch # batches) k =
     build_batch P c (drop_stream ops bg s) channel batch [] [1..3] (\<lambda>messages.
       sending P c bg (drop_stream ops bg) s
         (\<lambda>h. QueueUpstreamHandle_Send (ex_rand64 P) ops h (''req-batch-'' @ to_string batch) messages)
         (''[ERROR] Upstream Send batch '' @ to_string batch @ '': '') (\<lambda>s. batch_loop P c ops bg channel s batches k))"

definition queue_stream_send_main :: "'w example_env \<Rightarrow> ('w, PbQueuesUpstreamRequest, PbQueuesUpstreamResponse) stream_threads \<Rightarrow> 'w program" where
  "queue_stream_send_main E S =
     (let P = process_env E; ops = process_stream (st_ops S); bg = reader_runs (QueueUpstream_reader ops) (st_turns S) in do {
     _ \<leftarrow> cout ''[1] Connecting to localhost:50000'';
     process_client P (example_options ''cpp-queues-stream-stream-send-client'') (\<lambda>c. do {
       _ \<leftarrow> store 0;
       _ \<leftarrow> cout ''[2] Opening upstream stream'';
       open_upstream P c (on_upstream_result ''[ERROR] Upstream result error: ''
           (\<lambda>res. cout (''[4] Batch confirmed: ref_request_id='' @ uur_ref_request_id res
              @ '' messages='' @ nat_to_string (length (uur_results res)))) fetch_add)
         (complain ''[ERROR] Upstream stream error: '') (\<lambda>s. do {
         _ \<leftarrow> cout ''[3] Sending 5 batches of 3 messages each'';
         batch_loop P c ops bg ''cpp-queues_stream.stream_send'' s [1..5] (\<lambda>s. do {
           s \<leftarrow> stream_sleep P bg s 2000;
           batches_confirmed \<leftarrow> load;
           _ \<leftarrow> cout (''[5] Batches confirmed: '' @ to_string batches_confirmed @ '' of 5'');
           closing_stream ops bg s (\<lambda>s. do {
             _ \<leftarrow> cout ''[6] Upstream stream closed'';
             finish_stream P c bg (drop_stream ops bg) s [''[7] Client closed'']
           })
         })
       })
     })
   })"

text \<open>\<^verbatim>\<open>ack_range\<close>: three messages go upstream one by one, then a receiver takes them and the first is acknowledged.\<close>

fun single_loop :: "'w process example_env \<Rightarrow> 'w process Client \<Rightarrow> ('w process, PbQueuesUpstreamRequest, PbQueuesUpstreamResponse) stream_ops
    \<Rightarrow> (('w, QueueUpstreamResult) opened \<Rightarrow> ('w process, ('w, QueueUpstreamResult) opened) state) \<Rightarrow> string
    \<Rightarrow> ('w, QueueUpstreamResult) opened \<Rightarrow> int list \<Rightarrow> (('w, QueueUpstreamResult) opened \<Rightarrow> 'w program) \<Rightarrow> 'w program" where
  "single_loop P c ops bg channel s [] k = k s"
| "single_loop P c ops bg channel s (i # is) k =
     building P c (drop_stream ops bg s) (''[ERROR] Build message '' @ to_string i @ '': '')
       (body_message channel (''msg-'' @ to_string i)) (\<lambda>msg.
     sending P c bg (drop_stream ops bg) s
       (\<lambda>h. QueueUpstreamHandle_Send (ex_rand64 P) ops h (''req-'' @ to_string i) [msg])
       (''[ERROR] Send '' @ to_string i @ '': '') (\<lambda>s. do {
       s \<leftarrow> stream_sleep P bg s 500;
       single_loop P c ops bg channel s is k
     }))"

definition body_seq_line :: "QueueDownstreamMessage \<Rightarrow> string" where
  "body_seq_line dm = ''  body='' @ qm_body (qd_message dm) @ '' seq='' @ nat_to_string (unat (qd_sequence dm))"

text \<open>The receiver is declared after the upstream handle, so it goes first.\<close>

definition drop_receiver_and :: "'w process example_env \<Rightarrow> nat set \<Rightarrow> 'w process QueueDownstreamReceiver
    \<Rightarrow> ('w process, outcome option) state \<Rightarrow> ('w process, outcome option) state" where
  "drop_receiver_and P live r inner = do { _ \<leftarrow> Receiver_destroy (ex_rand64 P) (ex_downstream P) r live; inner }"

definition ack_first :: "'w process example_env \<Rightarrow> 'w process Client
    \<Rightarrow> (('w, 'r) opened \<Rightarrow> ('w process, ('w, 'r) opened) state) \<Rightarrow> (('w, 'r) opened \<Rightarrow> ('w process, outcome option) state)
    \<Rightarrow> nat set \<Rightarrow> 'w process PollResponse \<Rightarrow> ('w, 'r) opened \<Rightarrow> (('w, 'r) opened \<Rightarrow> 'w program) \<Rightarrow> 'w program" where
  "ack_first P c bg drop_locals live p s k =
     (case po_messages p of
        [] \<Rightarrow> k s
      | first_msg # _ \<Rightarrow> do {
          _ \<leftarrow> cout (''[6] Acking sequence '' @ nat_to_string (unat (qd_sequence first_msg))
                 @ '' from tx='' @ qd_transaction_id first_msg);
          (ack_status, s') \<leftarrow> while_calling bg s (\<lambda>_. Message_Ack (ex_rand64 P) (ex_downstream P) live first_msg);
          (if \<not> ok ack_status then process_error P c (drop_locals s') (''[ERROR] Ack: '' @ st_message ack_status)
           else do { _ \<leftarrow> cout ''[7] Selective ack complete''; k s' })
        })"

definition ack_range_main :: "'w example_env \<Rightarrow> ('w, PbQueuesUpstreamRequest, PbQueuesUpstreamResponse) stream_threads \<Rightarrow> 'w program" where
  "ack_range_main E S =
     (let P = process_env E; ops = process_stream (st_ops S); bg = reader_runs (QueueUpstream_reader ops) (st_turns S) in do {
     _ \<leftarrow> cout ''[1] Connecting to localhost:50000'';
     process_client P (example_options ''cpp-queues-stream-ack-range-client'') (\<lambda>c. do {
       let channel = ''cpp-queues_stream.ack_range'';
       _ \<leftarrow> store 0;
       _ \<leftarrow> cout ''[2] Sending 3 messages via upstream stream'';
       open_upstream P c (on_upstream_result ''[ERROR] Upstream result: '' (\<lambda>_. ret ()) fetch_add)
         (complain ''[ERROR] Upstream error: '') (\<lambda>s.
       single_loop P c ops bg channel s [0..2] (\<lambda>s. do {
         _ \<leftarrow> cout ''[3] Sent 3 messages'';
         s \<leftarrow> stream_sleep P bg s 1000;
         _ \<leftarrow> cout ''[4] Opening downstream receiver'';
         ((receiver_result, live), s) \<leftarrow> while_calling bg s (\<lambda>_. NewQueueDownstreamReceiver c {});
         process_checked P c (drop_stream ops bg s) ''[ERROR] NewQueueDownstreamReceiver: '' receiver_result (\<lambda>r. do {
           (poll_result, s) \<leftarrow> while_calling bg s (\<lambda>_. Poll (ex_rand64 P) (ex_downstream P) r (poll_request channel 5 False));
           process_checked P c (drop_receiver_and P live r (drop_stream ops bg s)) ''[ERROR] Poll: '' poll_result (\<lambda>p.
             if po_is_error p
             then process_error P c (drop_receiver_and P live r (drop_stream ops bg s)) (''[ERROR] Poll response: '' @ po_error p)
             else do {
               _ \<leftarrow> cout (''[5] Received '' @ polled_size p @ '' messages'');
               _ \<leftarrow> cout_all (map body_seq_line (po_messages p));
               ack_first P c bg (\<lambda>s. drop_receiver_and P live r (drop_stream ops bg s)) live p s (\<lambda>s. do {
                 (r', s) \<leftarrow> while_calling bg s (\<lambda>_. Receiver_Close (ex_rand64 P) (ex_downstream P) r);
                 closing_stream ops bg s (\<lambda>s.
                   finish_stream P c bg (\<lambda>s. drop_receiver_and P live r' (drop_stream ops bg s)) s [''[8] Client closed''])
               })
             })
         })
       }))
     })
   })"

section \<open>examples/events/stream_send and examples/events_store/stream_send\<close>

text \<open>The subscription of \<^verbatim>\<open>events/stream_send\<close> is declared before the stream, so its destructor runs after that of the
  stream.\<close>

definition drop_stream_and :: "('w process, outcome option) state \<Rightarrow> ('w process, outcome option) state \<Rightarrow> ('w process, outcome option) state" where
  "drop_stream_and stream rest = do {
     early \<leftarrow> stream;
     (case early of Some ended \<Rightarrow> ret (Some ended) | None \<Rightarrow> rest)
   }"

fun event_loop :: "'w process example_env \<Rightarrow> 'w process Client \<Rightarrow> ('w process, PbEvent, PbResult) stream_ops
    \<Rightarrow> (('w, unit) opened \<Rightarrow> ('w process, ('w, unit) opened) state) \<Rightarrow> (('w, unit) opened \<Rightarrow> ('w process, outcome option) state)
    \<Rightarrow> string \<Rightarrow> ('w, unit) opened \<Rightarrow> int list \<Rightarrow> (('w, unit) opened \<Rightarrow> 'w program) \<Rightarrow> 'w program" where
  "event_loop P c ops bg drop_locals channel s [] k = k s"
| "event_loop P c ops bg drop_locals channel s (i # is) k = do {
     ev_result \<leftarrow> Event_Build (ex_rand64 P) (event_message channel (''stream-msg-'' @ to_string i) ''stream-demo'');
     process_checked P c (drop_locals s) ''[ERROR] Build event: '' ev_result (\<lambda>ev.
       sending P c bg drop_locals s (\<lambda>h. EventStreamHandle_Send (ex_rand64 P) ops h ev) ''[ERROR] handle.Send: '' (\<lambda>s. do {
         _ \<leftarrow> cout (''[4] Stream sent event '' @ to_string (i + 1));
         event_loop P c ops bg drop_locals channel s is k
       }))
   }"

definition streamed_event :: "(EventReceive + Status) \<Rightarrow> int \<Rightarrow> ('w process, int) state" where
  "streamed_event = callbacks (print_message (\<lambda>event. ''[5] Stream received: channel='' @ er_channel event
     @ '' body='' @ er_body event)) ''[ERROR] Subscription error: ''"

definition event_stream_send_main :: "'w example_env \<Rightarrow> ('w \<times> int, EventReceive) threads \<Rightarrow> ('w, PbEvent, PbResult) stream_threads \<Rightarrow> 'w program" where
  "event_stream_send_main E T S = (let P = process_env E; ops = process_stream (st_ops S) in do {
     _ \<leftarrow> cout ''[1] Connecting to localhost:50000'';
     process_client P (example_options ''cpp-events-stream-send-client'') (\<lambda>c. do {
       let channel = ''cpp-events.stream_send'';
       _ \<leftarrow> cout (''[2] Subscribing to channel '' @ channel);
       sub_result \<leftarrow> Client_SubscribeToEvents (ex_rand64 P) c (channel, []);
       process_checked P c (ret None) ''[ERROR] SubscribeToEvents: '' sub_result (\<lambda>(sub, h). do {
         let others = background T h streamed_event;
         let bg = (\<lambda>s. do { _ \<leftarrow> others; reader_runs (EventStream_reader ops) (st_turns S) s });
         let drop_locals = (\<lambda>sub s. drop_stream_and (drop_stream ops bg s) (drop_listener T others sub));
         _ \<leftarrow> cout ''[3] Opening event stream'';
         _ \<leftarrow> others;
         handle_result \<leftarrow> Client_SendEventStream c (Some (complain ''[ERROR] Stream send error: ''));
         process_checked P c (drop_listener T others sub) ''[ERROR] SendEventStream: '' handle_result (\<lambda>handle.
           event_loop P c ops bg (drop_locals sub) channel (At_read, handle, False) [0..9] (\<lambda>s. do {
             s \<leftarrow> stream_sleep P bg s 2000;
             _ \<leftarrow> cout ''[6] Stream send demo complete'';
             closing_stream ops bg s (\<lambda>s. do {
               (sub', s) \<leftarrow> while_calling bg s (\<lambda>_. Cancel (\<lambda>h. sdk (th_TryCancel T h)) sub);
               finish_stream P c bg (drop_locals sub') s [''[7] Client closed'']
             })
           }))
       })
     })
   })"

definition on_store_result :: "EventStoreResult \<Rightarrow> 'w process callback" where
  "on_store_result r = do {
     _ \<leftarrow> cout (''[4] Stream result: eventId='' @ ers_id r @ '' sent='' @ (if ers_sent r then ''1'' else ''0'')
            @ '' err='' @ ers_error r);
     ret None
   }"

fun stored_event_loop :: "'w process example_env \<Rightarrow> 'w process Client \<Rightarrow> ('w process, PbEvent, PbResult) stream_ops
    \<Rightarrow> (('w, EventStoreResult) opened \<Rightarrow> ('w process, ('w, EventStoreResult) opened) state)
    \<Rightarrow> string \<Rightarrow> ('w, EventStoreResult) opened \<Rightarrow> int list \<Rightarrow> (('w, EventStoreResult) opened \<Rightarrow> 'w program) \<Rightarrow> 'w program" where
  "stored_event_loop P c ops bg channel s [] k = k s"
| "stored_event_loop P c ops bg channel s (i # is) k = do {
     ev_result \<leftarrow> EventStore_Build (ex_rand64 P)
       (EventStore_SetMetadata ''stream-meta'' (stored_message channel (''stream-data-'' @ to_string i)));
     process_checked P c (drop_stream ops bg s) ''[ERROR] Build event store: '' ev_result (\<lambda>ev.
       sending P c bg (drop_stream ops bg) s (\<lambda>h. EventStoreStreamHandle_Send (ex_rand64 P) ops h ev) ''[ERROR] handle.Send: '' (\<lambda>s. do {
         _ \<leftarrow> cout (''[3] Stream sent event '' @ to_string (i + 1));
         stored_event_loop P c ops bg channel s is k
       }))
   }"

definition store_stream_send_main :: "'w example_env \<Rightarrow> ('w, PbEvent, PbResult) stream_threads \<Rightarrow> 'w program" where
  "store_stream_send_main E S =
     (let P = process_env E; ops = process_stream (st_ops S); bg = reader_runs (EventStoreStream_reader ops) (st_turns S) in do {
     _ \<leftarrow> cout ''[1] Connecting to localhost:50000'';
     process_client P (example_options ''cpp-events-store-stream-send-client'') (\<lambda>c. do {
       _ \<leftarrow> cout ''[2] Opening event store stream'';
       handle_result \<leftarrow> Client_SendEventStoreStream c (Some on_store_result, Some (complain ''[ERROR] Stream error: ''));
       process_checked P c (ret None) ''[ERROR] SendEventStoreStream: '' handle_result (\<lambda>handle.
         stored_event_loop P c ops bg ''cpp-events_store.stream_send'' (At_read, handle, False) [0..4] (\<lambda>s. do {
           s \<leftarrow> stream_sleep P bg s 2000;
           _ \<leftarrow> cout ''[5] Event store stream send demo complete'';
           closing_stream ops bg s (\<lambda>s. finish_stream P c bg (drop_stream ops bg) s [''[6] Client closed''])
         }))
     })
   })"

end
