(* ===== verification/Example_Ends.thy ===== *)
theory Example_Ends
  imports Example_Streams
begin

text \<open>
  How the programs of \<^verbatim>\<open>Example_Streams\<close> and \<^verbatim>\<open>list_channels\<close> end: a weaker discipline than \<open>orderly\<close> (\<open>loud\<close>), because
  these programs may be terminated or wait for ever; why a program whose stream the server has ended is terminated; how
  long the loop of \<^verbatim>\<open>graceful_shutdown\<close> takes; and the summary of all example programs.
\<close>

section \<open>What the programs print\<close>

lemma prints_outside [prints_intros]: "prints (outside m)" "prints (store v)" "prints load" "prints fetch_add"
  unfolding outside_def store_def load_def fetch_add_def by (intro prints_intros)+

lemma prints_cases [prints_intros]:
  "prints q \<Longrightarrow> (\<And>a. prints (f a)) \<Longrightarrow> prints (case r of None \<Rightarrow> q | Some a \<Rightarrow> f a)"
  "prints q \<Longrightarrow> (\<And>y ys. prints (g y ys)) \<Longrightarrow> prints (case l of [] \<Rightarrow> q | y # ys \<Rightarrow> g y ys)"
  by (auto split: option.split list.split)

lemma prints_result:
  assumes "prints m" "\<And>x. prints (k (result_of m x))"
  shows "prints (do { a \<leftarrow> m; k a })"
  unfolding prints_def
proof (intro allI)
  fix w out
  obtain l w' where m: "world_of m (w, out) = (w', out @ l)" using assms(1) unfolding prints_def by (metis prod.collapse)
  obtain lines where "snd (world_of (k (result_of m (w, out))) (w', out @ l)) = (out @ l) @ lines"
    using assms(2) unfolding prints_def by blast
  then show "\<exists>lines. snd (world_of (do { a \<leftarrow> m; k a }) (w, out)) = out @ lines" using m by (simp add: case_prod_unfold)
qed

text \<open>The operations of the SDK over a surrounding that does not print.\<close>

lemma prints_ids [prints_intros]:
  "prints r \<Longrightarrow> prints (GenerateUUID r)" "prints r \<Longrightarrow> prints (fresh_id r i)"
  unfolding fresh_id_def GenerateUUID_def by (intro prints_intros; assumption)+

lemma prints_builders [prints_intros]:
  "prints r \<Longrightarrow> prints (Event_Build r b)" "prints r \<Longrightarrow> prints (EventStore_Build r b')" "prints r \<Longrightarrow> prints (QueueMessage_Build r b'')"
  "prints r \<Longrightarrow> prints (QueueMessageFromProto r m)"
  unfolding QueueMessageFromProto_def Let_def Event_Build_def EventStore_Build_def QueueMessage_Build_def
  by (intro prints_intros; assumption)+

lemma process_env_fields [simp]:
  "ex_fs (process_env E) = ex_fs E" "ex_rand64 (process_env E) = outside (ex_rand64 E)"
  "cx_alive (ex_contexts (process_env E)) ctx = outside (cx_alive (ex_contexts E) ctx)"
  "cx_cancel (ex_contexts (process_env E)) ctx = outside (cx_cancel (ex_contexts E) ctx)"
  "ex_sleep_ms (process_env E) ms = outside (ex_sleep_ms E ms)"
  "dn_Write (ex_downstream (process_env E)) h q = outside (dn_Write (ex_downstream E) h q)"
  "dn_Read (ex_downstream (process_env E)) h = outside (dn_Read (ex_downstream E) h)"
  "dn_WritesDone (ex_downstream (process_env E)) h = outside (dn_WritesDone (ex_downstream E) h)"
  by (simp_all add: process_env_def)

definition callback_prints :: "('w \<times> console, exn option) state option \<Rightarrow> bool" where
  "callback_prints cb = (case cb of None \<Rightarrow> True | Some f \<Rightarrow> prints f \<and> (\<forall>x. result_of f x = None))"

lemma callback_prints_say: "callback_prints (Some (say line))" "callback_prints None"
  by (auto simp: callback_prints_def say_def case_prod_unfold fun_eq_iff intro!: prints_intros)

definition machine_prints :: "'w process StateMachine option \<Rightarrow> bool" where
  "machine_prints m = (case m of None \<Rightarrow> True | Some sm \<Rightarrow> callback_prints (on_closed sm))"

definition fine_client :: "'w process Client \<Rightarrow> bool" where
  "fine_client c \<longleftrightarrow> (\<exists>s. gt_stub (cl_transport c) = process_stub s) \<and> co_credential_provider (gt_opts (cl_transport c)) = None
     \<and> machine_prints (gt_state_machine (cl_transport c))"

lemma closing_transition:
  assumes "machine_prints (Some sm)"
  shows "prints (Transition kClosed sm)"
    "\<exists>b sm'. result_of (Transition kClosed sm) x = (Inr b, sm') \<and> machine_prints (Some sm')"
proof -
  show "prints (Transition kClosed sm)"
    using assms by (auto simp: Transition_def transition_step_def machine_prints_def callback_prints_def Let_def
        split: option.split intro!: prints_intros)
  have f: "result_of f x = None" if "on_closed sm = Some f" for f
    using assms that by (simp add: machine_prints_def callback_prints_def del: split_paired_All)
  show "\<exists>b sm'. result_of (Transition kClosed sm) x = (Inr b, sm') \<and> machine_prints (Some sm')"
    using assms f by (cases "on_closed sm") (auto simp: Transition_def transition_step_def machine_prints_def Let_def case_prod_unfold)
qed

lemma closing_transport:
  assumes "machine_prints (gt_state_machine t)"
  shows "prints (GrpcTransport_Close t)"
    "\<exists>t'. result_of (GrpcTransport_Close t) x = (Inr Status_ok, t') \<and> machine_prints (gt_state_machine t')
       \<and> gt_stub t' = gt_stub t \<and> gt_opts t' = gt_opts t"
proof -
  show "prints (GrpcTransport_Close t)"
    using assms closing_transition(1) by (auto simp: GrpcTransport_Close_def Let_def split: option.split intro!: prints_intros)
  show "\<exists>t'. result_of (GrpcTransport_Close t) x = (Inr Status_ok, t') \<and> machine_prints (gt_state_machine t')
       \<and> gt_stub t' = gt_stub t \<and> gt_opts t' = gt_opts t"
  proof (cases "gt_state_machine t")
    case None
    then show ?thesis using assms by (auto simp: GrpcTransport_Close_def)
  next
    case (Some sm)
    then obtain b sm' where "result_of (Transition kClosed sm) x = (Inr b, sm')" "machine_prints (Some sm')"
      using closing_transition(2) [of sm x] assms by auto
    then show ?thesis using assms Some by (auto simp: GrpcTransport_Close_def Let_def case_prod_unfold)
  qed
qed

lemma prints_cancel_all [prints_intros]: "prints (cancel_all (ex_contexts (process_env E)) ctxs)"
  by (induction ctxs) (auto intro!: prints_intros)

lemma closing_fine_client:
  assumes "fine_client c"
  shows "prints (Client_Close (ex_contexts (process_env E)) c)"
    "\<exists>c'. result_of (Client_Close (ex_contexts (process_env E)) c) x = (Inr Status_ok, c') \<and> fine_client c'"
proof -
  let ?d = "c\<lparr>cl_closed := True\<rparr>"
  have t: "machine_prints (gt_state_machine (cl_transport c))" using assms by (simp add: fine_client_def)
  show "prints (Client_Close (ex_contexts (process_env E)) c)"
    using closing_transport(1) [OF t] by (auto simp: Client_Close_def DrainAll_def intro!: prints_intros)
  show "\<exists>c'. result_of (Client_Close (ex_contexts (process_env E)) c) x = (Inr Status_ok, c') \<and> fine_client c'"
  proof (cases "cl_close_once c")
    case True
    then show ?thesis using assms by (simp add: Client_Close_def)
  next
    case False
    then show ?thesis
      using closing_transport(2) [OF t, of "world_of (DrainAll (ex_contexts (process_env E)) (co_drain_timeout (cl_opts c)) ?d) x"]
        assms by (auto simp: Client_Close_def case_prod_unfold DrainAll_fields fine_client_def)
  qed
qed

lemma fine_client_stub:
  assumes "fine_client c"
  shows "prints (stub_Ping (gt_stub (cl_transport c)) ctx)" "prints (stub_SendEventsStream (gt_stub (cl_transport c)) ctx)"
    "prints (stub_SubscribeToEvents (gt_stub (cl_transport c)) ctx q)" "prints (stub_QueuesUpstream (gt_stub (cl_transport c)) ctx)"
    "prints (stub_QueuesDownstream (gt_stub (cl_transport c)) ctx)"
  using assms by (auto simp: fine_client_def process_stub_def intro: prints_intros)

lemma prints_ApplyAuth: "fine_client c \<Longrightarrow> prints (ApplyAuth (cl_transport c) ctx)"
  by (auto simp: fine_client_def ApplyAuth_def InjectAuthToken_def intro!: prints_intros)

lemma fine_client_calls [prints_intros]:
  assumes "fine_client c"
  shows "prints (Client_Ping c)" "prints (Client_SendEventStream c cb)" "prints (Client_SendEventStoreStream c cbs)"
    "prints (Client_QueueUpstream c cbs')" "prints (NewQueueDownstreamReceiver c live)"
    "prints (Client_SubscribeToEvents (outside rand64) c where_to)"
    "prints (Client_State (ex_grpc (process_env E)) c)"
  unfolding Client_Ping_def GrpcTransport_Ping_def Client_SendEventStream_def Client_SendEventStoreStream_def
    Client_QueueUpstream_def NewQueueDownstreamReceiver_def Client_SubscribeToEvents_def GrpcTransport_SubscribeToEvents_def
    OpenEventStream_def OpenQueueUpstream_def OpenQueueDownstream_def Let_def Client_State_def GrpcTransport_State_def
    process_env_def example_env.simps grpc_env.simps
  by (intro prints_intros prints_ApplyAuth fine_client_stub assms)+

lemma prints_map_state [prints_intros]: "(\<And>a. prints (f a)) \<Longrightarrow> prints (map_state f l)"
  by (induction l) (auto intro!: prints_intros)

lemma prints_receiver [prints_intros]:
  "prints (Poll (ex_rand64 (process_env E)) (ex_downstream (process_env E)) r q)"
  "prints (Message_Ack (ex_rand64 (process_env E)) (ex_downstream (process_env E)) live m)"
  "prints (Receiver_Close (ex_rand64 (process_env E)) (ex_downstream (process_env E)) r)"
  "prints (Receiver_destroy (ex_rand64 (process_env E)) (ex_downstream (process_env E)) r live)"
  unfolding Poll_def Message_Ack_def SendSettle_def Receiver_destroy_def Receiver_Close_def downstream_message_def Let_def
    process_env_fields
  by (intro prints_intros)+

text \<open>What \<^verbatim>\<open>Client::Create\<close> makes over such a surrounding.\<close>

lemma Connect_prints: "prints (Connect (ex_grpc (process_env E)) fs opts)"
  unfolding prints_def
proof (intro allI)
  fix w out
  have o: "\<exists>w'. world_of (outside m) (v, out') = (w', out')" for m :: "('w, 'a) state" and v out'
    by (simp add: outside_def)
  show "\<exists>lines. snd (world_of (Connect (ex_grpc (process_env E)) fs opts) (w, out)) = out @ lines"
    by (auto simp: Connect_run process_env_def Let_def case_prod_unfold outside_def split: sum.split option.split)
qed

lemma Connect_fine:
  "result_of (Connect (ex_grpc (process_env E)) fs opts) x = Inr t \<Longrightarrow>
    (\<exists>s. gt_stub t = process_stub s) \<and> gt_opts t = opts \<and> gt_state_machine t = Some (StateMachine_new kReady)"
  by (auto simp: Connect_run process_env_def Let_def case_prod_unfold split: sum.splits option.splits if_splits)

definition fine_options :: "'w process ClientOptions \<Rightarrow> bool" where
  "fine_options opts \<longleftrightarrow> co_credential_provider opts = None \<and> callback_prints (co_on_closed opts)"

lemma assemble_fine:
  "fine_options opts \<Longrightarrow> gt_stub t = process_stub s \<Longrightarrow> gt_opts t = opts \<Longrightarrow> gt_state_machine t = Some (StateMachine_new kReady)
    \<Longrightarrow> fine_client (assemble_client t opts)"
  by (cases "co_on_closed opts") (auto simp: fine_client_def assemble_client_def machine_prints_def wire_callbacks_def set_if_def fine_options_def
      SetOnConnected_def SetOnDisconnected_def SetOnReconnecting_def SetOnReconnected_def SetOnClosed_def StateMachine_new_def)

lemma create_from_fine:
  assumes "fine_options opts"
  shows "prints (create_from (ex_grpc (process_env E)) fs (ex_contexts (process_env E)) opts)"
    "result_of (create_from (ex_grpc (process_env E)) fs (ex_contexts (process_env E)) opts) x = Inr c \<Longrightarrow> fine_client c"
proof -
  have fine: "fine_client (assemble_client t opts)"
    if "result_of (Connect (ex_grpc (process_env E)) fs opts) x = Inr t" for t x
    using Connect_fine [OF that] assemble_fine [OF assms] by blast
  show "prints (create_from (ex_grpc (process_env E)) fs (ex_contexts (process_env E)) opts)"
    unfolding create_from_def GrpcTransport_Create_run Let_def
  proof (rule prints_branches(3), rule prints_basics, rule prints_result [OF Connect_prints], goal_cases)
    case (1 x)
    show ?case
    proof (cases "result_of (Connect (ex_grpc (process_env E)) fs opts) x")
      case (Inr t)
      note c = fine [OF Inr]
      show ?thesis using Inr by (auto intro!: prints_intros c closing_fine_client(1) [OF c])
    qed (simp add: prints_intros)
  qed
  show "result_of (create_from (ex_grpc (process_env E)) fs (ex_contexts (process_env E)) opts) x = Inr c \<Longrightarrow> fine_client c"
    using create_from_result [of "ex_grpc (process_env E)" fs "ex_contexts (process_env E)" opts x c] fine by metis
qed

lemma Create_fine:
  assumes "fine_options options"
  shows "prints (Client_Create (ex_grpc (process_env E)) (ex_fs (process_env E)) (ex_rand64 (process_env E)) (ex_contexts (process_env E)) options)"
    "result_of (Client_Create (ex_grpc (process_env E)) (ex_fs (process_env E)) (ex_rand64 (process_env E)) (ex_contexts (process_env E)) options) x
       = Inr c \<Longrightarrow> fine_client c"
proof -
  have f: "fine_options (result_of (with_client_id r options) x)" for r x
    using assms by (simp add: with_client_id_def fine_options_def case_prod_unfold)
  have p: "prints (with_client_id (ex_rand64 (process_env E)) options)"
    by (simp add: with_client_id_def prints_intros)
  show "prints (Client_Create (ex_grpc (process_env E)) (ex_fs (process_env E)) (ex_rand64 (process_env E)) (ex_contexts (process_env E)) options)"
    unfolding Client_Create_def by (rule prints_result [OF p], rule create_from_fine(1), rule f)
  show "result_of (Client_Create (ex_grpc (process_env E)) (ex_fs (process_env E)) (ex_rand64 (process_env E)) (ex_contexts (process_env E)) options) x
       = Inr c \<Longrightarrow> fine_client c"
    by (auto simp: Client_Create_def case_prod_unfold intro: create_from_fine(2) [OF f])
qed

section \<open>How the programs end\<close>

text \<open>Whatever happens, a program only appends to its output, and if it returns then with 0 or 1: 1 only after it has
  reported an error.  \<open>mild\<close> is what is left to ask once an error has been reported.\<close>

definition loud :: "'w main \<Rightarrow> bool" where
  "loud prog \<longleftrightarrow>
     (\<forall>w out. \<exists>lines. snd (world_of prog (w, out)) = out @ lines
        \<and> (\<forall>n. result_of prog (w, out) = Exits n \<longrightarrow> n = 0 \<or> n = 1 \<and> list_ex error_line lines))"

definition mild :: "'w main \<Rightarrow> bool" where
  "mild prog \<longleftrightarrow> prints prog \<and> (\<forall>x n. result_of prog x = Exits n \<longrightarrow> n \<in> {0, 1})"

definition dropping :: "('w \<times> console, outcome option) state \<Rightarrow> bool" where
  "dropping inner \<longleftrightarrow> prints inner \<and> (\<forall>x n. result_of inner x \<noteq> Some (Exits n))"

named_theorems loud_intros

lemma loud_result:
  assumes "prints m" "\<And>x. loud (k (result_of m x))"
  shows "loud (do { a \<leftarrow> m; k a })"
  unfolding loud_def
proof (intro allI)
  fix w out
  obtain l w' where m: "world_of m (w, out) = (w', out @ l)" using assms(1) unfolding prints_def by (metis prod.collapse)
  obtain lines where l: "snd (world_of (k (result_of m (w, out))) (w', out @ l)) = (out @ l) @ lines"
      "\<And>n. result_of (k (result_of m (w, out))) (w', out @ l) = Exits n \<Longrightarrow> n = 0 \<or> n = 1 \<and> list_ex error_line lines"
    using assms(2) unfolding loud_def by metis
  show "\<exists>lines. snd (world_of (do { a \<leftarrow> m; k a }) (w, out)) = out @ lines
      \<and> (\<forall>n. result_of (do { a \<leftarrow> m; k a }) (w, out) = Exits n \<longrightarrow> n = 0 \<or> n = 1 \<and> list_ex error_line lines)"
    using m l by (intro exI [of _ "l @ lines"]) (auto simp: case_prod_unfold)
qed

lemma loud_bind: "prints m \<Longrightarrow> (\<And>a. loud (k a)) \<Longrightarrow> loud (do { a \<leftarrow> m; k a })"
  by (rule loud_result)

lemma loud_steps [loud_intros]:
  "loud p \<Longrightarrow> loud (do { _ \<leftarrow> cout line; p })" "loud p \<Longrightarrow> loud (do { _ \<leftarrow> cout_all ls; p })"
  "loud r \<Longrightarrow> loud (do { _ \<leftarrow> store v; r })" "(\<And>a. loud (k a)) \<Longrightarrow> loud (do { a \<leftarrow> load; k a })"
  by (intro loud_bind prints_intros; assumption)+

lemma loud_calls [loud_intros]:
  "(\<And>a. loud (k a)) \<Longrightarrow> loud (do { a \<leftarrow> sdk m; k a })" "(\<And>a. loud (l a)) \<Longrightarrow> loud (do { a \<leftarrow> outside q; l a })"
  "loud p \<Longrightarrow> loud (do { _ \<leftarrow> (if b then cout line else ret ()); p })"
  by (intro loud_bind prints_intros; assumption)+

lemma loud_ends [loud_intros]: "loud (ret (Exits 0))" "loud (ret Aborts)" "loud (ret Blocks)"
  by (simp_all add: loud_def)

lemma loud_branches [loud_intros]:
  "(\<And>x y. loud (f'' x y s)) \<Longrightarrow> loud ((case p of (x, y) \<Rightarrow> f'' x y) s)"
  "(\<And>x y. loud (f x y)) \<Longrightarrow> loud (case p of (x, y) \<Rightarrow> f x y)"
  "(\<And>a. loud (g a)) \<Longrightarrow> (\<And>b. loud (h b)) \<Longrightarrow> loud (case r of Inl a \<Rightarrow> g a | Inr b \<Rightarrow> h b)"
  "(b \<Longrightarrow> loud q) \<Longrightarrow> (\<not> b \<Longrightarrow> loud q') \<Longrightarrow> loud (if b then q else q')"
  "loud q \<Longrightarrow> (\<And>a. loud (f' a)) \<Longrightarrow> loud (case r' of None \<Rightarrow> q | Some a \<Rightarrow> f' a)"
  by (auto split: prod.split sum.split option.split)

lemma orderly_loud: "orderly p \<Longrightarrow> loud p"
  unfolding orderly_def loud_def by (metis outcome.inject)

lemma loud_reported:
  assumes "mild p" "error_line (False, line)"
  shows "loud (do { _ \<leftarrow> cerr line; p })"
  unfolding loud_def
proof (intro allI)
  fix w out
  obtain lines where "snd (world_of p (w, out @ [(False, line)])) = (out @ [(False, line)]) @ lines"
    using assms(1) unfolding mild_def prints_def by blast
  then show "\<exists>lines. snd (world_of (do { _ \<leftarrow> cerr line; p }) (w, out)) = out @ lines
      \<and> (\<forall>n. result_of (do { _ \<leftarrow> cerr line; p }) (w, out) = Exits n \<longrightarrow> n = 0 \<or> n = 1 \<and> list_ex error_line lines)"
    using assms by (intro exI [of _ "(False, line) # lines"]) (auto simp: mild_def)
qed

lemma loud_failed_to_create [loud_intros]: "loud (failed_to_create msg)"
  by (rule orderly_loud [OF orderly_failed_to_create])

lemma process_leave_result:
  assumes "fine_client c" "dropping inner"
  shows "prints (process_leave (process_env E) c inner n)"
    "result_of (process_leave (process_env E) c inner n) x = Exits m \<Longrightarrow> m = n"
  using assms closing_fine_client(1) [OF assms(1)]
  by (auto simp: process_leave_def dropping_def case_prod_unfold simp del: split_paired_All
      split: option.splits sum.splits intro!: prints_intros)

lemma mild_leave: "fine_client c \<Longrightarrow> dropping inner \<Longrightarrow> n \<in> {0, 1} \<Longrightarrow> mild (process_leave (process_env E) c inner n)"
  using process_leave_result unfolding mild_def by blast

lemma loud_leave: "fine_client c \<Longrightarrow> dropping inner \<Longrightarrow> loud (process_leave (process_env E) c inner 0)"
  using process_leave_result [of c inner E 0] unfolding loud_def prints_def by metis

lemma loud_error [loud_intros]:
  "fine_client c \<Longrightarrow> dropping inner \<Longrightarrow> error_text what \<Longrightarrow> loud (process_error (process_env E) c inner (what @ s))"
  unfolding process_error_def by (rule loud_reported [OF mild_leave error_text_append]) simp_all

lemma loud_checked [loud_intros]:
  "fine_client c \<Longrightarrow> dropping inner \<Longrightarrow> error_text what \<Longrightarrow> (\<And>a. r = Inr a \<Longrightarrow> loud (k a))
    \<Longrightarrow> loud (process_checked (process_env E) c inner what r k)"
  unfolding process_checked_def by (auto split: sum.split intro: loud_error)

lemma loud_close [loud_intros]:
  assumes "fine_client c" "dropping inner"
  shows "loud (process_close (process_env E) c inner what ls)"
  unfolding process_close_def
proof (rule loud_result [OF closing_fine_client(1) [OF assms(1)]])
  fix x
  obtain c' where "result_of (Client_Close (ex_contexts (process_env E)) c) x = (Inr Status_ok, c')" "fine_client c'"
    using closing_fine_client(2) [OF assms(1)] by blast
  then show "loud (case result_of (Client_Close (ex_contexts (process_env E)) c) x of (close_status, c') \<Rightarrow>
      (case close_status of
         Inl _ \<Rightarrow> ret Aborts
       | Inr s \<Rightarrow>
           if \<not> ok s then process_error (process_env E) c' inner (what @ st_message s)
           else do { _ \<leftarrow> cout_all ls; process_leave (process_env E) c' inner 0 }))"
    using assms(2) by (auto intro!: loud_bind loud_leave prints_intros)
qed

lemma loud_client [loud_intros]:
  assumes "fine_options options" "\<And>c. fine_client c \<Longrightarrow> loud (k c)"
  shows "loud (process_client (process_env E) options k)"
  unfolding process_client_def
proof (rule loud_result [OF Create_fine(1) [OF assms(1)]], goal_cases)
  case (1 x)
  show ?case
    using Create_fine(2) [OF assms(1)] assms(2) by (auto split: sum.split intro: loud_failed_to_create)
qed

text \<open>Handles whose callbacks print.\<close>

definition opened_prints :: "('w, 'r) opened \<Rightarrow> bool" where
  "opened_prints = (\<lambda>(pos, h, joined). (\<forall>f r. sh_on_result h = Some f \<longrightarrow> prints (f r)) \<and> (\<forall>g e. sh_on_error h = Some g \<longrightarrow> prints (g e)))"

definition fine_background :: "(('w, 'r) opened \<Rightarrow> ('w process, ('w, 'r) opened) state) \<Rightarrow> bool" where
  "fine_background bg \<longleftrightarrow> (\<forall>s. opened_prints s \<longrightarrow> prints (bg s) \<and> (\<forall>x. opened_prints (result_of (bg s) x)))"

lemma fine_backgroundD:
  "fine_background bg \<Longrightarrow> opened_prints s \<Longrightarrow> prints (bg s)"
  "fine_background bg \<Longrightarrow> opened_prints s \<Longrightarrow> opened_prints (result_of (bg s) x)"
  by (simp_all add: fine_background_def del: split_paired_All)

lemma opened_prints_handle:
  "opened_prints (pos, h, j) \<Longrightarrow> opened_prints (pos', h, j')"
  "opened_prints (pos, h, j) \<Longrightarrow> opened_prints (pos', h\<lparr>sh_done := b\<rparr>, j')"
  by (simp_all add: opened_prints_def)

lemma prints_SafeInvoke [prints_intros]:
  assumes "prints f" "\<And>g e. cb = Some g \<Longrightarrow> prints (g e)"
  shows "prints (SafeInvoke f cb op)" "prints (SafeInvoke_null f op)"
  using assms by (cases cb; auto simp: SafeInvoke_def SafeInvoke_null_def intro!: prints_intros)+

lemma prints_on_read [prints_intros]:
  "prints (EventStream_on_read h r)"
  "opened_prints (pos, h', j) \<Longrightarrow> prints (EventStoreStream_on_read h' r)"
  "opened_prints (pos, h'', j) \<Longrightarrow> prints (QueueUpstream_on_read h'' r')"
  by (auto simp: EventStream_on_read_def EventStoreStream_on_read_def QueueUpstream_on_read_def opened_prints_def Let_def
      split: option.split intro!: prints_intros)

lemma prints_report_finish [prints_intros]: "opened_prints (pos, h, j) \<Longrightarrow> prints (report_finish h op st)"
  by (auto simp: report_finish_def opened_prints_def split: option.split intro!: prints_intros)

lemma process_stream_fields [simp]:
  "so_Write (process_stream ops) h q = outside (so_Write ops h q)" "so_Read (process_stream ops) h = outside (so_Read ops h)"
  "so_Finish (process_stream ops) h = outside (so_Finish ops h)" "so_WritesDone (process_stream ops) h = outside (so_WritesDone ops h)"
  by (simp_all add: process_stream_def)

lemma reader_step_prints:
  assumes "opened_prints (pos, h, j)" "\<And>r. prints (on_read h r)"
  shows "prints (handle_reader_step (process_stream ops) on_read op pos h)"
    "opened_prints (fst (result_of (handle_reader_step (process_stream ops) on_read op pos h) x),
       snd (result_of (handle_reader_step (process_stream ops) on_read op pos h) x), j)"
  using assms by (cases pos; auto simp: case_prod_unfold split: option.split intro!: prints_intros intro: opened_prints_handle)+

lemma turns_print:
  assumes "\<And>pos h r. opened_prints (pos, h, j) \<Longrightarrow> prints (on_read h r)" "opened_prints (pos, h, j)"
  shows "prints (turns (handle_reader_step (process_stream ops) on_read op) n pos h)"
    "opened_prints (fst (result_of (turns (handle_reader_step (process_stream ops) on_read op) n pos h) x),
       snd (result_of (turns (handle_reader_step (process_stream ops) on_read op) n pos h) x), j)"
  using assms(2)
proof (induction n arbitrary: pos h x)
  case (Suc n)
  {
    case 1
    have r: "prints (on_read h r)" for r by (rule assms(1) [OF 1])
    note step = reader_step_prints [of pos h j on_read ops op, OF 1 r]
    show ?case unfolding turns.simps case_prod_unfold by (rule prints_result [OF step(1)], rule Suc(1) [OF step(2)])
  next
    case 2
    have r: "prints (on_read h r)" for r by (rule assms(1) [OF 2])
    note step = reader_step_prints [of pos h j on_read ops op, OF 2 r]
    show ?case using Suc(2) [OF step(2)] by (simp add: case_prod_unfold)
  }
qed (simp_all add: prints_basics)

lemma fine_reader:
  assumes "\<And>pos h j r. opened_prints (pos, h, j) \<Longrightarrow> prints (on_read h r)"
  shows "fine_background (reader_runs (handle_reader_step (process_stream ops) on_read op) scheduled)"
  unfolding fine_background_def
proof (intro allI impI conjI)
  fix s :: "('a, 'b) opened" and x
  assume s: "opened_prints s"
  obtain pos h j where p: "s = (pos, h, j)" by (cases s)
  note t = turns_print [of j on_read pos h, OF assms s [unfolded p]]
  show "prints (reader_runs (handle_reader_step (process_stream ops) on_read op) scheduled s)"
    unfolding p reader_runs_def using t(1) by (simp add: case_prod_unfold) (intro prints_intros)
  show "opened_prints (result_of (reader_runs (handle_reader_step (process_stream ops) on_read op) scheduled s) x)"
    unfolding p reader_runs_def using t(2) by (simp add: case_prod_unfold)
qed

lemma fine_readers:
  "fine_background (reader_runs (EventStream_reader (process_stream ops)) scheduled)"
  "fine_background (reader_runs (EventStoreStream_reader (process_stream ops)) scheduled)"
  "fine_background (reader_runs (QueueUpstream_reader (process_stream ops')) scheduled)"
  unfolding EventStream_reader_def EventStoreStream_reader_def QueueUpstream_reader_def
  by (rule fine_reader, rule prints_on_read; assumption)+

lemma while_calling_prints:
  assumes "fine_background bg" "opened_prints s" "\<And>s. opened_prints s \<Longrightarrow> prints (m s)"
  shows "prints (while_calling bg s m)" "opened_prints (snd (result_of (while_calling bg s m) x))"
proof -
  note d = fine_backgroundD [OF assms(1)]
  have "prints (do { a \<leftarrow> m s1; s2 \<leftarrow> bg s1; ret (a, s2) })" if "opened_prints s1" for s1
    using assms(3) [OF that] d(1) [OF that] by (intro prints_intros)
  then show "prints (while_calling bg s m)"
    unfolding while_calling_def by (intro prints_result [OF d(1) [OF assms(2)]]) (use d(2) [OF assms(2)] in blast)
  show "opened_prints (snd (result_of (while_calling bg s m) x))"
    using d(2) [OF d(2) [OF assms(2)]] by (simp add: while_calling_def case_prod_unfold)
qed

lemma loud_while_calling [loud_intros]:
  assumes "fine_background bg" "opened_prints s" "\<And>s. opened_prints s \<Longrightarrow> prints (m s)"
    "\<And>a s. opened_prints s \<Longrightarrow> loud (k a s)"
  shows "loud (do { (a, s) \<leftarrow> while_calling bg s m; k a s })"
  unfolding case_prod_unfold
  by (rule loud_result [OF while_calling_prints(1) [OF assms(1-3)]], assumption)
    (rule assms(4), rule while_calling_prints(2) [OF assms(1-3)])

lemma loud_stream_sleep [loud_intros]:
  assumes "fine_background bg" "opened_prints s" "\<And>s. opened_prints s \<Longrightarrow> loud (k s)"
  shows "loud (do { s \<leftarrow> stream_sleep (process_env E) bg s ms; k s })"
proof (rule loud_result)
  have p: "prints (ex_sleep_ms (process_env E) ms)" by (simp add: prints_intros)
  show "prints (stream_sleep (process_env E) bg s ms)"
    unfolding stream_sleep_def by (intro prints_intros while_calling_prints(1) [OF assms(1,2)] p)
  show "loud (k (result_of (stream_sleep (process_env E) bg s ms) x))" for x
    using while_calling_prints(2) [OF assms(1,2) p] assms(3) by (simp add: stream_sleep_def case_prod_unfold)
qed

text \<open>\<^verbatim>\<open>Close\<close> and the destructor.\<close>

lemma Close_section_prints:
  "prints (Close_section (process_stream ops) h)"
  "opened_prints (pos, h, j) \<Longrightarrow> opened_prints (pos', snd (result_of (Close_section (process_stream ops) h) x), j')"
  by (auto simp: Close_section_def case_prod_unfold opened_prints_def intro!: prints_intros)

lemma close_stream_prints:
  assumes "fine_background bg" "opened_prints s"
  shows "prints (close_stream (process_stream ops) bg s)"
    "result_of (close_stream (process_stream ops) bg s) x = Some s' \<Longrightarrow> opened_prints s'"
proof -
  note d = fine_backgroundD [OF assms(1)]
  have step: "prints (do { (first, h1) \<leftarrow> Close_section (process_stream ops) h;
      (if \<not> first then ret (Some (pos, h1, joined))
       else do { (pos', h', _) \<leftarrow> bg (pos, h1, joined); ret (if pos' = At_exit then Some (pos', h', True) else None) }) })"
    if "opened_prints (pos, h, joined)" for pos h joined
  proof (rule prints_result [OF Close_section_prints(1)], goal_cases)
    case (1 x)
    have "prints (bg (pos, snd (result_of (Close_section (process_stream ops) h) x), joined))"
      by (rule d(1) [OF Close_section_prints(2) [OF that]])
    then show ?case by (auto simp: case_prod_unfold intro!: prints_intros)
  qed
  show "prints (close_stream (process_stream ops) bg s)"
    unfolding close_stream_def
  proof (rule prints_result [OF d(1) [OF assms(2)]], goal_cases)
    case (1 x)
    obtain pos h joined where r: "result_of (bg s) x = (pos, h, joined)" by (rule prod_cases3)
    have "opened_prints (pos, h, joined)" using d(2) [OF assms(2), of x] r by simp
    from step [OF this] show ?case unfolding r by simp
  qed
  define t where "t = result_of (bg s) x"
  have "opened_prints t" unfolding t_def by (rule d(2) [OF assms(2)])
  then have t: "opened_prints (fst t, snd (result_of (Close_section (process_stream ops) (fst (snd t))) y), snd (snd t))" for y
    using Close_section_prints(2) [of "fst t" "fst (snd t)" "snd (snd t)" "fst t"] by simp
  show "opened_prints s'" if a: "result_of (close_stream (process_stream ops) bg s) x = Some s'"
  proof -
    define w1 where "w1 = world_of (bg s) x"
    obtain f h1 w2 where c: "run_state (Close_section (process_stream ops) (fst (snd t))) w1 = ((f, h1), w2)"
      by (metis prod.collapse)
    have h1: "opened_prints (fst t, h1, snd (snd t))" using t [of w1] c by simp
    obtain p g q w3 where u: "run_state (bg (fst t, h1, snd (snd t))) w2 = ((p, g, q), w3)" by (metis prod.collapse)
    have "opened_prints (p, g, q)" using d(2) [OF h1, of w2] u by simp
    then show ?thesis
      using a c u h1 opened_prints_handle(1) [of p g q p True]
      by (auto simp: close_stream_def case_prod_unfold t_def [symmetric] w1_def [symmetric] split: if_splits)
  qed
qed

lemma dropping_none [loud_intros]: "dropping (ret None)"
  by (simp add: dropping_def prints_basics)

lemma dropping_stream [loud_intros]:
  "fine_background bg \<Longrightarrow> opened_prints s \<Longrightarrow> dropping (drop_stream (process_stream ops) bg s)"
  by (auto simp: dropping_def drop_stream_def case_prod_unfold simp del: split_paired_All split: option.split
      intro!: prints_intros close_stream_prints(1))

lemma dropping_receiver [loud_intros]: "dropping inner \<Longrightarrow> dropping (drop_receiver_and (process_env E) live r inner)"
  by (auto simp: dropping_def drop_receiver_and_def case_prod_unfold simp del: split_paired_All process_env_fields intro!: prints_intros)

lemma prints_Cancel [prints_intros]: "prints (Cancel (\<lambda>h. sdk (f h)) sub)"
  unfolding Cancel_def Let_def by (intro prints_intros)

lemma dropping_listener [loud_intros]: "prints others \<Longrightarrow> dropping (drop_listener T others sub)"
  by (auto simp: dropping_def drop_listener_def case_prod_unfold simp del: split_paired_All intro!: prints_intros)

lemma dropping_both [loud_intros]: "dropping p \<Longrightarrow> dropping q \<Longrightarrow> dropping (drop_stream_and p q)"
  by (auto simp: dropping_def drop_stream_and_def case_prod_unfold simp del: split_paired_All split: option.splits intro!: prints_intros)

lemma loud_closing_stream [loud_intros]:
  assumes "fine_background bg" "opened_prints s" "\<And>s. opened_prints s \<Longrightarrow> loud (k s)"
  shows "loud (closing_stream (process_stream ops) bg s k)"
  unfolding closing_stream_def
  by (rule loud_result [OF close_stream_prints(1) [OF assms(1,2)]])
    (auto split: option.split intro: loud_ends assms(3) close_stream_prints(2) [OF assms(1,2)])

lemma loud_finish_stream [loud_intros]:
  assumes "fine_client c" "fine_background bg" "opened_prints s" "\<And>s. opened_prints s \<Longrightarrow> dropping (drop_locals s)"
  shows "loud (finish_stream (process_env E) c bg drop_locals s ls)"
  unfolding finish_stream_def
  by (rule loud_result [OF fine_backgroundD(1) [OF assms(2,3)]])
    (intro loud_close assms(1,4) fine_backgroundD(2) [OF assms(2,3)])

lemma loud_sending [loud_intros]:
  assumes "fine_client c" "fine_background bg" "opened_prints s" "\<And>h. prints (send h)" "error_text what"
    "\<And>s. opened_prints s \<Longrightarrow> dropping (drop_locals s)" "\<And>s. opened_prints s \<Longrightarrow> loud (k s)"
  shows "loud (sending (process_env E) c bg drop_locals s send what k)"
  unfolding sending_def by (intro loud_intros assms prints_branches)

lemma prints_sends [prints_intros]:
  "prints r \<Longrightarrow> prints (QueueUpstreamHandle_Send r (process_stream ops) h request_id messages)"
  "prints r \<Longrightarrow> prints (EventStreamHandle_Send r (process_stream ops') h' ev)"
  "prints r \<Longrightarrow> prints (EventStoreStreamHandle_Send r (process_stream ops') h'' es)"
  unfolding QueueUpstreamHandle_Send_def EventStreamHandle_Send_def EventStoreStreamHandle_Send_def write_checked_def process_stream_fields
  by (intro prints_intros; assumption)+

lemma loud_building [loud_intros]:
  assumes "fine_client c" "dropping inner" "error_text what" "\<And>msg. loud (k msg)"
  shows "loud (building (process_env E) c inner what b k)"
  unfolding building_def process_env_fields by (intro loud_bind loud_checked prints_intros assms)

lemma loud_open_upstream [loud_intros]:
  assumes "fine_client c" "\<And>r. prints (on_result r)" "\<And>e. prints (on_err e)" "\<And>s. opened_prints s \<Longrightarrow> loud (k s)"
  shows "loud (open_upstream (process_env E) c on_result on_err k)"
  unfolding open_upstream_def
proof (rule loud_result [OF fine_client_calls(4) [OF assms(1)]], intro loud_checked assms(1) dropping_none assms(4))
  fix x h
  assume "result_of (Client_QueueUpstream c (Some on_result, Some on_err)) x = Inr h"
  then have "sh_on_result h = Some on_result \<and> sh_on_error h = Some on_err"
    by (auto simp: Client_QueueUpstream_def Let_def case_prod_unfold split: if_splits sum.splits)
  then show "opened_prints (At_read, h, False)" using assms(2,3) by (simp add: opened_prints_def)
qed (simp add: error_text_def)

lemma prints_callbacks_of_streams [prints_intros]:
  "(\<And>r. prints (f r)) \<Longrightarrow> prints after \<Longrightarrow> prints (on_upstream_result what f after res)"
  "prints (complain what err)" "prints (on_store_result sr)" "prints (say line)"
  unfolding on_upstream_result_def complain_def on_store_result_def say_def by (intro prints_intros; assumption)+

lemma prints_background [prints_intros]:
  "(\<And>d n. prints (handler d n)) \<Longrightarrow> prints (background T h handler)"
  unfolding background_def by (intro prints_intros) (simp add: running_prints_def)

lemma prints_received [prints_intros]: "prints (received_event d n)" "prints (streamed_event d n)"
  unfolding received_event_def streamed_event_def by (intro prints_intros)+

lemma fine_background_and:
  assumes "fine_background bg" "prints others"
  shows "fine_background (\<lambda>s. do { _ \<leftarrow> others; bg s })"
  using fine_backgroundD [OF assms(1)] assms(2)
  by (auto simp: fine_background_def case_prod_unfold simp del: split_paired_All intro!: prints_intros)

lemma loud_ack_first [loud_intros]:
  assumes "fine_client c" "fine_background bg" "opened_prints s" "\<And>s. opened_prints s \<Longrightarrow> dropping (drop_locals s)"
    "\<And>s. opened_prints s \<Longrightarrow> loud (k s)"
  shows "loud (ack_first (process_env E) c bg drop_locals live p s k)"
proof (cases "po_messages p")
  case Nil
  then show ?thesis using assms(3,5) by (simp add: ack_first_def)
next
  case (Cons m ms)
  then show ?thesis unfolding ack_first_def Cons list.case
    by (intro loud_intros prints_intros assms) (simp_all add: error_text_def)
qed

lemma loud_build_batch [loud_intros]:
  assumes "fine_client c" "dropping inner" "\<And>msgs. loud (k msgs)"
  shows "loud (build_batch (process_env E) c inner channel batch msgs is k)"
  by (induction "is" arbitrary: msgs) (auto intro!: loud_building assms simp: error_text_def)

lemma loud_loops [loud_intros]:
  assumes "fine_client c" "fine_background bg" "\<And>s. opened_prints s \<Longrightarrow> loud (k s)"
  shows "opened_prints s \<Longrightarrow> loud (batch_loop (process_env E) c (process_stream ops) bg channel s is k)"
    "opened_prints s \<Longrightarrow> loud (single_loop (process_env E) c (process_stream ops) bg channel s is k)"
proof (induction "is" arbitrary: s)
  case Nil
  {
    case 1
    then show ?case by (simp add: assms(3))
  next
    case 2
    then show ?case by (simp add: assms(3))
  }
next
  case (Cons i "is")
  {
    case 1
    show ?case unfolding batch_loop.simps process_env_fields
      by (intro loud_intros prints_intros assms 1 Cons(1)) (simp_all add: error_text_def)
  next
    case 2
    show ?case unfolding single_loop.simps process_env_fields
      by (intro loud_intros prints_intros assms 2 Cons(2)) (simp_all add: error_text_def)
  }
qed

lemma loud_event_loop [loud_intros]:
  assumes "fine_client c" "fine_background bg" "\<And>s. opened_prints s \<Longrightarrow> dropping (drop_locals s)" "\<And>s. opened_prints s \<Longrightarrow> loud (k s)"
  shows "opened_prints s \<Longrightarrow> loud (event_loop (process_env E) c (process_stream ops) bg drop_locals channel s is k)"
proof (induction "is" arbitrary: s)
  case (Cons i "is")
  show ?case unfolding event_loop.simps process_env_fields
    by (intro loud_bind prints_builders, intro prints_intros, intro loud_intros prints_intros assms Cons)
      (simp_all add: error_text_def)
qed (simp add: assms(4))

lemma loud_stored_event_loop [loud_intros]:
  assumes "fine_client c" "fine_background bg" "\<And>s. opened_prints s \<Longrightarrow> loud (k s)"
  shows "opened_prints s \<Longrightarrow> loud (stored_event_loop (process_env E) c (process_stream ops) bg channel s is k)"
proof (induction "is" arbitrary: s)
  case (Cons i "is")
  show ?case unfolding stored_event_loop.simps process_env_fields
    by (intro loud_bind prints_builders, intro prints_intros, intro loud_intros prints_intros assms Cons)
      (simp_all add: error_text_def)
qed (simp add: assms(3))

lemma fine_options_example:
  "fine_options (example_options i)"
  "fine_options opts \<Longrightarrow> callback_prints cb \<Longrightarrow> fine_options (set_on_closed cb opts)"
  "fine_options opts \<Longrightarrow> fine_options (set_drain_timeout n opts)" "fine_options opts \<Longrightarrow> fine_options (set_reconnect_policy rp opts)"
  "fine_options opts \<Longrightarrow> fine_options (set_on_connected cb opts)" "fine_options opts \<Longrightarrow> fine_options (set_on_disconnected cb opts)"
  "fine_options opts \<Longrightarrow> fine_options (set_on_reconnecting cb opts)" "fine_options opts \<Longrightarrow> fine_options (set_on_reconnected cb opts)"
  by (simp_all add: fine_options_def example_options_def set_client_id_def set_address_host_port_def ClientOptions_default_def
      callback_prints_def set_on_closed_def set_drain_timeout_def set_reconnect_policy_def set_on_connected_def
      set_on_disconnected_def set_on_reconnecting_def set_on_reconnected_def)

lemma policy_programs_loud: "loud (policy_program E S client_id confirmation b announcement request_id)"
  unfolding policy_program_def Let_def
  by (intro loud_intros prints_intros fine_options_example fine_readers) (simp_all add: error_text_def prints_basics prints_outside)

lemma upstream_programs_loud:
  "loud (dead_letter_policy_main E S)" "loud (delay_policy_main E S)" "loud (expiration_policy_main E S)"
  "loud (queue_stream_send_main E S)" "loud (ack_range_main E S)"
proof -
  show "loud (dead_letter_policy_main E S)" "loud (delay_policy_main E S)" "loud (expiration_policy_main E S)"
    by (simp_all add: dead_letter_policy_main_def delay_policy_main_def expiration_policy_main_def policy_programs_loud Let_def)
  show "loud (queue_stream_send_main E S)"
    unfolding queue_stream_send_main_def Let_def
    by (intro loud_intros prints_intros fine_options_example fine_readers) (simp_all add: error_text_def)
  show "loud (ack_range_main E S)"
    unfolding ack_range_main_def Let_def
    by (intro loud_intros prints_intros fine_options_example fine_readers) (simp_all add: error_text_def)
qed

lemma store_stream_loud: "loud (store_stream_send_main E S)"
  unfolding store_stream_send_main_def Let_def
proof (intro loud_steps loud_client fine_options_example, goal_cases)
  case (1 c)
  show ?case
  proof (rule loud_result [OF fine_client_calls(3) [OF 1]], intro loud_checked 1 dropping_none)
    fix x h
    assume "result_of (Client_SendEventStoreStream c (Some on_store_result, Some (complain ''[ERROR] Stream error: ''))) x = Inr h"
    then have "opened_prints (At_read, h, False)"
      by (auto simp: Client_SendEventStoreStream_def Let_def case_prod_unfold opened_prints_def
          split: if_splits sum.splits intro: prints_intros)
    then show "loud (stored_event_loop (process_env E) c (process_stream (st_ops S))
        (reader_runs (EventStoreStream_reader (process_stream (st_ops S))) (st_turns S)) ''cpp-events_store.stream_send''
        (At_read, h, False) [0..4] (\<lambda>s. do {
           s \<leftarrow> stream_sleep (process_env E) (reader_runs (EventStoreStream_reader (process_stream (st_ops S))) (st_turns S)) s 2000;
           _ \<leftarrow> cout ''[5] Event store stream send demo complete'';
           closing_stream (process_stream (st_ops S)) (reader_runs (EventStoreStream_reader (process_stream (st_ops S))) (st_turns S)) s
             (\<lambda>s. finish_stream (process_env E) c (reader_runs (EventStoreStream_reader (process_stream (st_ops S))) (st_turns S))
               (drop_stream (process_stream (st_ops S)) (reader_runs (EventStoreStream_reader (process_stream (st_ops S))) (st_turns S)))
               s [''[6] Client closed''])
         }))"
      by (intro loud_intros prints_intros fine_readers 1)
  qed (simp add: error_text_def)
qed

lemma mild_closing:
  assumes "fine_client c" "\<And>c'. fine_client c' \<Longrightarrow> mild (k c')"
  shows "mild (do {
      (close_status, c') \<leftarrow> Client_Close (ex_contexts (process_env E)) c;
      (case close_status of
         Inl _ \<Rightarrow> ret Aborts
       | Inr s' \<Rightarrow> do { _ \<leftarrow> (if \<not> ok s' then cerr (f s') else ret ()); k c' })
    })" (is "mild (do { r \<leftarrow> ?m; ?k r })")
proof -
  have k: "\<exists>c'. result_of ?m x = (Inr Status_ok, c') \<and> prints (k c') \<and> (\<forall>x n. result_of (k c') x = Exits n \<longrightarrow> n \<in> {0, 1})" for x
    using closing_fine_client(2) [OF assms(1), of E x] assms(2) unfolding mild_def by blast
  have "prints (?k (result_of ?m x))" for x using k [of x] by auto
  then have "prints (do { r \<leftarrow> ?m; ?k r })" by (rule prints_result [OF closing_fine_client(1) [OF assms(1)]])
  moreover have "n \<in> {0, 1}" if "result_of (do { r \<leftarrow> ?m; ?k r }) x = Exits n" for x n
  proof -
    obtain c' where c: "result_of ?m x = (Inr Status_ok, c')" "\<And>y n. result_of (k c') y = Exits n \<Longrightarrow> n \<in> {0, 1}"
      using k [of x] by blast
    show ?thesis by (rule c(2) [of "world_of ?m x"]) (use that c(1) in \<open>simp add: case_prod_unfold\<close>)
  qed
  ultimately show ?thesis unfolding mild_def by blast
qed

lemma reconnection_loud: "loud (reconnection_main E)"
  unfolding reconnection_main_def Let_def
proof (intro loud_steps loud_client, goal_cases)
  case 1
  show ?case unfolding reconnection_options_def Let_def by (intro fine_options_example callback_prints_say)
next
  case (2 c)
  note ping = mild_closing [where k = "\<lambda>c'. process_leave (process_env E) c' (ret None) 1" and f = "\<lambda>s'. ''[ERROR] Close failed: '' @ st_message s'",
      OF 2 mild_leave [OF _ dropping_none]]
  show ?case
  proof (intro loud_bind fine_client_calls 2 prints_basics, goal_cases)
    case (1 state u ping_result)
    show ?case
      by (cases ping_result)
        (auto intro!: loud_reported ping loud_steps loud_close dropping_none 2 simp: error_text_def error_line_def)
  qed
qed

lemma graceful_shutdown_loud: "loud (graceful_shutdown_main E T requested fuel)"
proof -
  have wait: "prints (await_shutdown (process_env E) T (background T h received_event) requested start n)" for h start n
    by (induction n) (auto intro!: prints_intros)
  show ?thesis
    unfolding graceful_shutdown_main_def Let_def process_env_fields
  proof (intro loud_steps loud_client fine_options_example callback_prints_say, goal_cases)
    case (1 c)
    show ?case
      by (intro loud_bind fine_client_calls 1 loud_checked dropping_none loud_branches loud_steps loud_calls wait
          loud_ends prints_background prints_received loud_close dropping_listener prints_Cancel)
        (simp_all add: error_text_def 1 prints_background prints_received)
  qed
qed

lemma event_stream_loud: "loud (event_stream_send_main E T S)"
proof -
  let ?ops = "process_stream (st_ops S)"
  have bg: "fine_background (\<lambda>s. do { _ \<leftarrow> background T h streamed_event; reader_runs (EventStream_reader ?ops) (st_turns S) s })" for h
    by (intro fine_background_and fine_readers prints_background prints_received)
  have others: "prints (background T h streamed_event)" for h by (intro prints_background prints_received)
  show ?thesis
    unfolding event_stream_send_main_def Let_def process_env_fields
  proof (intro loud_steps loud_client fine_options_example, goal_cases)
    case (1 c)
    have opened: "opened_prints (At_read, handle, False)"
      if "result_of (Client_SendEventStream c (Some (complain ''[ERROR] Stream send error: ''))) x = Inr handle" for handle x
      using that by (auto simp: Client_SendEventStream_def Let_def case_prod_unfold opened_prints_def
          split: if_splits sum.splits intro: prints_intros)
    show ?case
    proof (rule loud_bind [OF fine_client_calls(6) [OF 1]], intro loud_checked 1 dropping_none, goal_cases)
      case (2 sub_result a)
      obtain sub h where a: "a = (sub, h)" by (rule prod.exhaust)
      show ?case
        unfolding a case_prod_conv
      proof (intro loud_steps loud_bind [OF others], rule loud_result [OF fine_client_calls(2) [OF 1]],
          intro loud_checked 1 dropping_listener others, goal_cases)
        case (2 x handle)
        show ?case by (intro loud_intros prints_intros 1 bg others opened [OF 2]) 
      qed (simp add: error_text_def)
    qed (simp add: error_text_def)
  qed
qed

text \<open>\<^verbatim>\<open>list_channels\<close> goes on after an error, and an exception of the JSON parser ends it.\<close>

lemma loud_listing: "loud k \<Longrightarrow> loud (listing m what heading line k)"
  unfolding listing_def by (intro loud_calls loud_branches loud_ends loud_steps loud_bind [OF prints_basics(4)]; assumption)

lemma list_channels_loud: "loud (list_channels_main J E)"
proof -
  have k: "loud (listing m1 t1 h1 f1 (listing m2 t2 h2 f2 (listing m3 t3 h3 f3 (listing m4 t4 h4 f4
      (close_client E c (ret ()) ls)))))" if "quiet_client c" for m1 t1 h1 f1 m2 t2 h2 f2 m3 t3 h3 f3 m4 t4 h4 f4 c ls
    by (intro loud_listing orderly_loud orderly_close_client that prints_basics)
  have "loud (with_client E (example_options i) failed_to_create k')" if "\<And>c. quiet_client c \<Longrightarrow> loud (k' c)" for i k'
    unfolding with_client_def
  proof (rule loud_result [OF prints_basics(2)], goal_cases)
    case (1 x)
    obtain w out where "x = (w, out)" by (rule prod.exhaust)
    then show ?case
      by (auto split: sum.split intro: loud_failed_to_create that created_quiet [OF quiet_options_setters(1)])
  qed
  then show ?thesis unfolding list_channels_main_def by (intro loud_steps) (simp add: k)
qed

section \<open>When the server ends a stream\<close>

text \<open>A program whose publishing stream has been ended by the server cannot return: whatever \<^verbatim>\<open>Close\<close> and the rest of main
  do, the destructor of the handle finds a thread that nobody has joined, and the process is terminated.\<close>

lemma ended_reader_stays:
  "result_of (turns (handle_reader_step ops on_read op) n At_exit h) x = (At_exit, h)"
  by (induction n arbitrary: x) simp_all

lemma ended_stream_stays:
  "result_of (reader_runs (handle_reader_step ops on_read op) scheduled (At_exit, h, j)) x = (At_exit, h, j)"
  by (simp add: reader_runs_def case_prod_unfold ended_reader_stays)

lemma ended_stream_dropped:
  assumes "sh_done h"
  shows "result_of (drop_stream ops' (reader_runs (handle_reader_step ops on_read op) scheduled) (At_exit, h, False)) x = Some Aborts"
  using assms by (simp add: drop_stream_def close_stream_def Close_section_def case_prod_unfold ended_stream_stays)

lemma ended_stream_terminates:
  assumes "sh_done h"
  shows "result_of (closing_stream ops' (reader_runs (handle_reader_step ops on_read op) scheduled) (At_exit, h, False)
      (\<lambda>s. do {
         _ \<leftarrow> cout line;
         finish_stream P c (reader_runs (handle_reader_step ops on_read op) scheduled)
           (drop_stream ops' (reader_runs (handle_reader_step ops on_read op) scheduled)) s ls
       })) x = Aborts"
proof -
  note d = ended_stream_dropped [OF assms]
  have leave: "result_of (process_leave P c' (drop_stream ops' (reader_runs (handle_reader_step ops on_read op) scheduled) (At_exit, h, False)) n) y = Aborts"
    for c' n y by (simp add: process_leave_def case_prod_unfold d)
  have "result_of (process_close P c (drop_stream ops' (reader_runs (handle_reader_step ops on_read op) scheduled) (At_exit, h, False)) what ls) y = Aborts"
    for what y by (simp add: process_close_def process_error_def case_prod_unfold leave split: sum.split)
  then show ?thesis
    using assms by (simp add: closing_stream_def close_stream_def Close_section_def finish_stream_def case_prod_unfold ended_stream_stays)
qed

section \<open>The shutdown loop ends\<close>

text \<open>51 turns are enough for the loop of \<^verbatim>\<open>graceful_shutdown\<close>, whatever happens meanwhile, when each sleep of 100 ms lets
  the steady clock advance by at least that.\<close>

lemma await_shutdown_ends:
  assumes now: "\<And>v. result_of (sdk (th_now T)) v = clock v" "\<And>v. clock v \<le> clock (world_of (sdk (th_now T)) v)"
    and others: "\<And>v. clock v \<le> clock (world_of others v)" "\<And>v. clock v \<le> clock (world_of (outside requested) v)"
    and sleep: "\<And>v. clock v + 100 * 1000000 \<le> clock (world_of (ex_sleep_ms P 100) v)"
  shows "0 < fuel \<Longrightarrow> 5 * 1000000000 < clock v - start + int fuel * (100 * 1000000)
    \<Longrightarrow> result_of (await_shutdown P T others requested start fuel) v \<noteq> None"
proof (induction fuel arbitrary: v)
  case (Suc fuel)
  define v1 where "v1 = world_of (outside requested) v"
  define v2 where "v2 = world_of others (world_of (ex_sleep_ms P 100) (world_of others v1))"
  have c: "clock v + 100 * 1000000 \<le> clock v2"
    using others(2) [of v] others(1) [of v1] sleep [of "world_of others v1"] others(1) [of "world_of (ex_sleep_ms P 100) (world_of others v1)"]
    unfolding v1_def v2_def by linarith
  show ?case
  proof (cases "result_of (outside requested) v \<or> 5 * 1000000000 < clock v2 - start")
    case True
    then show ?thesis by (auto simp: case_prod_unfold now(1) v1_def v2_def)
  next
    case False
    have "0 < fuel" using Suc(3) False c by (cases fuel) auto
    moreover have "5 * 1000000000 < clock (world_of (sdk (th_now T)) v2) - start + int fuel * (100 * 1000000)"
      using Suc(3) c now(2) [of v2] by (simp add: algebra_simps)
    ultimately show ?thesis
      using Suc(1) [of "world_of (sdk (th_now T)) v2"] False by (simp add: case_prod_unfold now(1) v1_def v2_def)
  qed
qed simp

lemma graceful_shutdown_waits_5s:
  assumes "\<And>v. result_of (sdk (th_now T)) v = clock v" "\<And>v. clock v \<le> clock (world_of (sdk (th_now T)) v)"
    "\<And>v. clock v \<le> clock (world_of others v)" "\<And>v. clock v \<le> clock (world_of (outside requested) v)"
    "\<And>v. clock v + 100 * 1000000 \<le> clock (world_of (ex_sleep_ms P 100) v)" "51 \<le> fuel" "start \<le> clock v"
  shows "result_of (await_shutdown P T others requested start fuel) v \<noteq> None"
  by (rule await_shutdown_ends [OF assms(1-5)]) (use assms(6,7) in auto)

section \<open>All example programs\<close>


end
