(* ===== verification/Spec2Isabelle.thy ===== *)
theory Spec2Isabelle
  imports Validation_Rules Uuid_Gen Retry_Chain Conn_State_Machine Ring_Buffer Reconnect_Driver
    Client_Queues Queue_Stream Subscriptions Stream_Handles Queue_Broker Event_Broker Burnin_Server Burnin_Consumers Burnin_Rpc
    Burnin_Lifecycle Example_Ends
begin

text \<open>
  Verification of the KubeMQ C++ SDK and its burn-in application.

  \<^bold>\<open>The program.\<close>  The SDK (include/kubemq and src/) is a client of the KubeMQ message broker.  A
  \<^verbatim>\<open>Client\<close> owns a \<^verbatim>\<open>GrpcTransport\<close>, which owns the channel and stub of the gRPC runtime and a connection
  \<^verbatim>\<open>StateMachine\<close>.  Messages are made by builders, checked by \<^verbatim>\<open>validation.cc\<close>, converted to protobuf by
  \<^verbatim>\<open>converter.cc\<close> and sent by the operations of the client; what cannot be sent or is refused comes back as
  a \<^verbatim>\<open>Status\<close>.  Subscriptions and streams run reader threads that call user callbacks.  The burn-in application
  (burnin/) is a server built on the SDK: an HTTP interface starts and stops runs of an engine, whose
  workers exercise every messaging pattern and count what happens.

  \<^bold>\<open>Conventions.\<close>  The gRPC runtime, the broker, the file system, the JSON and YAML libraries, clocks, random
  engines, threads and user callbacks are parameters.  They act on a world of type \<open>'w\<close>; an operation that may touch it
  is a computation of the state monad.  Errors are values: \<open>Status\<close> and \<open>StatusOr\<close> (a sum with the
  status on the left), exceptions of callbacks and libraries as sum types.  \<^verbatim>\<open>int\<close>, \<^verbatim>\<open>int32_t\<close> and \<^verbatim>\<open>int64_t\<close> are
  integers with every narrowing cast written out, \<^verbatim>\<open>uint64_t\<close> and \<^verbatim>\<open>uint32_t\<close> are words that wrap around,
  \<^verbatim>\<open>double\<close> is real.  A method that holds its mutex throughout is one function; where threads meet between
  critical sections a step relation interleaves them, with invariants by rule induction.  Record fields carry a
  prefix per type, functions keep the names of the source.

  \<^bold>\<open>Foundations.\<close>
  \<^item> \<^verbatim>\<open>Prelude\<close>: casts, decimal text (\<^verbatim>\<open>std::to_string\<close>, \<^verbatim>\<open>std::stoi\<close>), state monad and list lemmas, simp collections.
  \<^item> \<^verbatim>\<open>Error_Status\<close> (status.h, status.cc, error_code.cc, internal/types): \<open>Status\<close>, \<open>StatusOr\<close>, sentinel and domain errors.
  \<^item> \<^verbatim>\<open>Validation_Rules\<close> (validation.cc): accepted inputs characterised exactly.
  \<^item> \<^verbatim>\<open>Uuid_Gen\<close> (uuid.cc): every generated id is a version 4 UUID.
  \<^item> \<^verbatim>\<open>Backoff_Policy\<close> (reconnect_policy.h, retry_policy.h and the three copies of the back-off computation): locale
    \<open>backoff_schedule\<close>, delays bounded and monotone.
  \<^item> \<^verbatim>\<open>Proto_Messages\<close>, \<^verbatim>\<open>Sdk_Messages\<close>: one record per protobuf message and per SDK type, the builders and what they accept.
  \<^item> \<^verbatim>\<open>Converters\<close> (converter.cc): locale \<open>wire_codec\<close>, round trips through the wire format.

  \<^bold>\<open>Transport.\<close>
  \<^item> \<^verbatim>\<open>Grpc_Errors\<close>, \<^verbatim>\<open>Retry_Chain\<close> (internal/middleware): status mapping, retry loops (number of calls, termination),
    interceptor order.
  \<^item> \<^verbatim>\<open>Conn_State_Machine\<close> (state_machine.cc): refinement of an abstract life cycle, order of callbacks.
  \<^item> \<^verbatim>\<open>Ring_Buffer\<close> (message_buffer.cc): refinement to a bounded queue that keeps the newest messages.
  \<^item> \<^verbatim>\<open>Reconnect_Driver\<close> (reconnect.cc): the driver thread interleaved with start, stop and destruction.
  \<^item> \<^verbatim>\<open>Client_Config\<close>, \<^verbatim>\<open>Auth_Guard\<close> (client_options.cc, tls.cc, auth.cc, callback_guard.h): options, address parser, credentials,
    tokens, guarded callbacks.
  \<^item> \<^verbatim>\<open>Grpc_Transport\<close> (grpc_transport.cc): connect, close, all RPCs; nothing is sent on a closed transport or without a
    token that was asked for.

  \<^bold>\<open>Client.\<close>
  \<^item> \<^verbatim>\<open>Client_Core\<close>, \<^verbatim>\<open>Client_Messaging\<close>, \<^verbatim>\<open>Client_Queues\<close> (client.cc, client_events.cc, client_events_store.cc,
    client_commands.cc, client_queries.cc, client_queues.cc, client_channels.cc): life cycle and unary operations; locale
    \<open>checked_operation\<close> is the contract of them all, interpreted for every one.
  \<^item> \<^verbatim>\<open>Queue_Stream\<close> (client_queues_stream.cc, queue_stream_impl.h): polling and settling; locale \<open>settlement\<close>; ownership of the stream.
  \<^item> \<^verbatim>\<open>Subscriptions\<close> (the subscribe operations and their readers): delivery in order, retries, cancellation.
  \<^item> \<^verbatim>\<open>Stream_Handles\<close> (stream_handle_impl.h and the handles): the discipline of a publishing stream under concurrency.

  \<^bold>\<open>End to end.\<close>  The broker is not in the repository; what its documentation promises is stated as laws on the stub, in
  definitions that the theorems take as hypotheses and that a concrete stub satisfies.
  \<^item> \<^verbatim>\<open>Queue_Broker\<close>: \<open>queue_broker\<close> (a queue per channel; what is accepted is appended, receiving removes a prefix).  Any script of
    queue calls through any clients refines \<open>queue_step\<close>, a machine on SDK messages; delivery exactly once and in order.
  \<^item> \<^verbatim>\<open>Event_Broker\<close>: \<open>event_broker\<close> (an accepted event reaches the streams of its channel); publishers and a subscriber interleaved.

  \<^bold>\<open>Burn-in application.\<close>
  \<^item> \<^verbatim>\<open>Burnin_Data\<close>: ordered maps (locale \<open>std_map\<close>) and JSON documents; \<open>json_documented\<close> is what the code relies on of the library.
  \<^item> \<^verbatim>\<open>Burnin_Metrics\<close> (engine/metrics.cc): CRC-32 and counters, which no interleaving of threads disturbs.
  \<^item> \<^verbatim>\<open>Burnin_Config\<close> (config/config.cc, main.cc): durations, JSON round trip, fallbacks, start-up precedence.
  \<^item> \<^verbatim>\<open>Burnin_Workers\<close> (worker/): sending, consuming, pacing; locale \<open>counted_sender\<close>.
  \<^item> \<^verbatim>\<open>Burnin_Consumers\<close>, \<^verbatim>\<open>Burnin_Rpc\<close> (worker/): the callbacks inside the readers, what they count and answer over a whole
    stream, and the round trips of commands and queries when a responding worker reads them.
  \<^item> \<^verbatim>\<open>Burnin_Lifecycle\<close> (worker/): \<^verbatim>\<open>Start\<close>, the two threads and \<^verbatim>\<open>Stop\<close> interleaved at every access to a member: \<^verbatim>\<open>Stop\<close> ends,
    clients are closed once, and who may race for a member.
  \<^item> \<^verbatim>\<open>Burnin_Engine\<close>, \<^verbatim>\<open>Burnin_Runs\<close> (engine/engine.cc): runs and reports, and the interleavings of overlapping calls.
  \<^item> \<^verbatim>\<open>Burnin_Server\<close> (server/, main.cc): the handlers, routes and shutdown.

  \<^bold>\<open>Examples.\<close>
  \<^item> \<^verbatim>\<open>Example_Programs\<close>, \<^verbatim>\<open>Example_Queues\<close> (examples/): the whole \<^verbatim>\<open>main\<close> of the programs that use one thread, over the
    world and the lines on the console; they end in an orderly way (\<open>orderly\<close>, with rules per building block), and
    \<^verbatim>\<open>ack_all\<close> does on a broker what it prints.
  \<^item> \<^verbatim>\<open>Example_Threads\<close>, \<^verbatim>\<open>Example_Rpc\<close>: the programs that subscribe.  Their callbacks run wherever main is inside the SDK or
    asleep, on whatever the parameter \<open>th_deliveries\<close> hands them.
  \<^item> \<^verbatim>\<open>Example_Streams\<close>: the programs whose callbacks the SDK keeps (publishing streams, connection callbacks).  Here the SDK
    acts on the whole process, console included, so that \<open>Transition\<close> and the readers of \<^verbatim>\<open>Stream_Handles\<close> run the callbacks.
  \<^item> \<^verbatim>\<open>Example_Ends\<close>: how all of them end; a stream that the server has ended terminates its program.

  This theory holds what spans components: a closed client is silent in all its operations, and its subscription readers
  outlive it.

  \<^bold>\<open>Bounds and fuel.\<close>  Loops with a counter are structural recursion or have a termination proof (retries by the attempts
  left, the hand-over of the buffer by its size).  Loops that another thread ends carry fuel and a flag that tells
  whether they ended by themselves: \<open>paced_loop\<close> and \<open>polling_loop\<close> make one iteration per unit,
  \<open>RunLoop_wait\<close> needs one unit per half second of the configured duration (\<open>RunLoop_wait_ends\<close>).  Readers and drivers
  are step functions without a bound; once a worker is being stopped, at most eighteen steps of its threads remain
  (\<open>worker_Stop_ends\<close>, where a call of the client is one step).  The loop of the example \<^verbatim>\<open>graceful_shutdown\<close> carries fuel,
  of which 51 units are enough (\<open>graceful_shutdown_waits_5s\<close>).

  \<^bold>\<open>Not modelled.\<close>  The logger interface (never called), the facade headers (declarations only), tests, build and
  packaging; in the modelled parts: the console output of the burn-in application, the memory order of atomics (each access
  is one step), the rounding of \<^verbatim>\<open>double\<close>, callbacks that re-enter the object that calls them, exceptions for lack of
  memory, and the matching of HTTP requests to routes.
\<close>

section \<open>After the client is closed\<close>



text \<open>Closing the client does not end its subscriptions: once the stream of a subscription has
  broken and the transport is closed, the reader thread keeps trying to subscribe again, for ever,
  until the subscription itself is cancelled; every attempt is refused by the closed transport.\<close>

theorem readers_outlive_closed_client:
  assumes "rc_pc c = Retry_test" "\<not> sb_done (rc_sub c)" "gt_closed (sb_transport (rc_sub c))"
  shows "rc_pc ((reader_step (events_reader rd fin slp on_event on_error) ^^ (4 * n)) c) = Retry_test
    \<and> rc_pc ((reader_step (commands_reader rdr fin slp on_command on_error) ^^ (4 * n)) c) = Retry_test"
proof -
  let ?ev = "events_reader rd fin slp on_event on_error"
  let ?cm = "commands_reader rdr fin slp on_command on_error"
  define stuck :: "'a reader_cfg \<Rightarrow> bool" where
    "stuck d \<longleftrightarrow> rc_pc d = Retry_test \<and> \<not> sb_done (rc_sub d) \<and> gt_closed (sb_transport (rc_sub d))" for d
  have closed: "gt_closed t \<Longrightarrow> run_state (GrpcTransport_SubscribeToEvents t sub ctx) w = (Inl kErrClientClosed, w)"
    "gt_closed t \<Longrightarrow> run_state (GrpcTransport_SubscribeToRequests t sub ctx) w = (Inl kErrClientClosed, w)" for t sub ctx and w :: 'a
    using rpc_subscribe_events.closed_no_effect [of t "(sub, ctx)" w]
      rpc_subscribe_requests.closed_no_effect [of t "(sub, ctx)" w] by simp_all
  have round: "stuck d \<Longrightarrow> stuck ((reader_step ?ev ^^ 4) d) \<and> stuck ((reader_step ?cm ^^ 4) d)" for d
    by (simp add: stuck_def numeral_eq_Suc reader_step.simps events_reader_def commands_reader_def closed)
  have many: "stuck d \<Longrightarrow> stuck (((reader_step ?ev ^^ 4) ^^ n) d) \<and> stuck (((reader_step ?cm ^^ 4) ^^ n) d)" for d
    by (induction n) (use round in auto)
  show ?thesis using many [of c] assms by (simp add: stuck_def funpow_mult)
qed

definition orphaned_reader :: "nat reader_cfg" where
  "orphaned_reader = (reader_start (sample_subscription (sample_transport\<lparr>gt_closed := True\<rparr>)) 1 0)\<lparr>rc_pc := Retry_test, rc_backoff := 1000\<rparr>"

theorem readers_outlive_closed_client_witness:
  "rc_pc ((reader_step quiet_reader ^^ 400) orphaned_reader) = Retry_test"
proof -
  have h: "rc_pc orphaned_reader = Retry_test" "\<not> sb_done (rc_sub orphaned_reader)"
    "gt_closed (sb_transport (rc_sub orphaned_reader))"
    by (simp_all add: orphaned_reader_def reader_start_def sample_subscription_def)
  note t = readers_outlive_closed_client [OF h, where n = 100]
  show ?thesis
    unfolding quiet_reader_def using t [THEN conjunct1] by simp
qed

end
